(* ===== verification/Prelude.thy ===== *)
theory Prelude
  imports Main "HOL-Library.State_Monad" "HOL-Library.Sublist"
begin

text \<open>
  Shared vocabulary of the development: the collections of rules the component proofs
  are driven by, generic facts about lists, and the effect layer. A piece of controller
  code runs in the state monad over a world of the environment's own (the API servers and
  the OpenBao backend, of any type \<open>'w\<close>) together with a log. Each call of the code to
  the environment goes through \<open>call\<close>, which lets the environment answer and move
  on as it likes and appends the call to the log. A fact proved for every world therefore
  holds whatever the environment answers and whatever else changes it in between.
\<close>

named_theorems wp_simps \<open>weakest-precondition equations of the effect layer\<close>
named_theorems emits_intros \<open>introduction rules for the log predicate\<close>
named_theorems spec_intros \<open>introduction rules for the run specification\<close>
named_theorems const_defs \<open>definitions of the program's string constants\<close>

section \<open>Lists\<close>

definition trim_set :: "'a set \<Rightarrow> 'a list \<Rightarrow> 'a list" where
  "trim_set A xs = rev (dropWhile (\<lambda>c. c \<in> A) (rev (dropWhile (\<lambda>c. c \<in> A) xs)))"

lemma set_dropWhile_subset: "set (dropWhile P xs) \<subseteq> set xs"
  by (induction xs) auto

lemma set_trim_set_subset: "set (trim_set A xs) \<subseteq> set xs"
  using set_dropWhile_subset [of "\<lambda>c. c \<in> A" xs]
    set_dropWhile_subset [of "\<lambda>c. c \<in> A" "rev (dropWhile (\<lambda>c. c \<in> A) xs)"]
  by (auto simp: trim_set_def)

lemma length_dropWhile_le_length: "length (dropWhile P xs) \<le> length xs"
  by (induction xs) auto

lemma length_dropWhile_less_Suc [termination_simp]: "length (dropWhile P xs) < Suc (length xs)"
  using length_dropWhile_le_length [of P xs] by simp

lemma length_trim_set_le: "length (trim_set A xs) \<le> length xs"
  using length_dropWhile_le_length [of "\<lambda>c. c \<in> A" xs]
    length_dropWhile_le_length [of "\<lambda>c. c \<in> A" "rev (dropWhile (\<lambda>c. c \<in> A) xs)"]
  by (simp add: trim_set_def)

lemma hd_rev_dropWhile_rev:
  assumes "rev (dropWhile P (rev xs)) \<noteq> []"
  shows "hd (rev (dropWhile P (rev xs))) = hd xs"
proof -
  have "rev (takeWhile P (rev xs) @ dropWhile P (rev xs)) = xs" by simp
  then have "xs = rev (dropWhile P (rev xs)) @ rev (takeWhile P (rev xs))"
    by (metis rev_append)
  then show ?thesis using assms by (metis hd_append2)
qed

lemma hd_trim_set: "trim_set A xs \<noteq> [] \<Longrightarrow> hd (trim_set A xs) \<notin> A"
  unfolding trim_set_def
  by (metis (no_types, lifting) hd_rev_dropWhile_rev hd_dropWhile dropWhile.simps(1)
      rev.simps(1) rev_is_Nil_conv)

lemma last_trim_set: "trim_set A xs \<noteq> [] \<Longrightarrow> last (trim_set A xs) \<notin> A"
  unfolding trim_set_def by (metis (no_types, lifting) hd_dropWhile last_rev rev_is_Nil_conv)

lemma trim_set_id:
  assumes "xs \<noteq> []" "hd xs \<notin> A" "last xs \<notin> A"
  shows "trim_set A xs = xs"
proof -
  have "dropWhile (\<lambda>c. c \<in> A) xs = xs" using assms(1,2) by (cases xs) auto
  moreover have "dropWhile (\<lambda>c. c \<in> A) (rev xs) = rev xs"
    using assms(1,3) by (cases xs rule: rev_cases) auto
  ultimately show ?thesis by (simp add: trim_set_def)
qed

lemma trim_set_Nil [simp]: "trim_set A [] = []"
  by (simp add: trim_set_def)

lemma find_Some_iff_first:
  "List.find P xs = Some x \<Longrightarrow> x \<in> set xs \<and> P x"
  by (induction xs) (auto split: if_splits)

section \<open>Effects\<close>

record ('w, 'e) sys =
  world :: 'w
  trace :: "'e list"

type_synonym ('w, 'e, 'a) prog = "(('w, 'e) sys, 'a) state"

definition call :: "('w \<Rightarrow> 'r \<times> 'w) \<Rightarrow> ('r \<Rightarrow> 'e list) \<Rightarrow> ('w, 'e, 'r) prog" where
  "call oper ev = State (\<lambda>s. case oper (world s) of
     (r, w') \<Rightarrow> (r, s\<lparr>world := w', trace := trace s @ ev r\<rparr>))"

definition wp :: "('s, 'a) state \<Rightarrow> ('a \<Rightarrow> 's \<Rightarrow> bool) \<Rightarrow> 's \<Rightarrow> bool" where
  "wp m Q s = (case run_state m s of (a, s') \<Rightarrow> Q a s')"

lemma run_state_call:
  "run_state (call oper ev) s = (case oper (world s) of
     (r, w') \<Rightarrow> (r, s\<lparr>world := w', trace := trace s @ ev r\<rparr>))"
  by (simp add: call_def)

lemma wp_return [wp_simps]: "wp (State_Monad.return x) Q s = Q x s"
  by (simp add: wp_def)

lemma wp_bind [wp_simps]: "wp (State_Monad.bind m f) Q s = wp m (\<lambda>a. wp (f a) Q) s"
  by (simp add: wp_def split: prod.splits)

lemma wp_if [wp_simps]: "wp (if b then m else n) Q s = (if b then wp m Q s else wp n Q s)"
  by simp

lemma wp_call [wp_simps]:
  "wp (call oper ev) Q s = (case oper (world s) of
     (r, w') \<Rightarrow> Q r (s\<lparr>world := w', trace := trace s @ ev r\<rparr>))"
  by (simp add: wp_def run_state_call split: prod.splits)

lemma wp_mono: "wp m Q s \<Longrightarrow> (\<And>a s'. Q a s' \<Longrightarrow> R a s') \<Longrightarrow> wp m R s"
  by (auto simp: wp_def split: prod.splits)

lemma wp_conj: "wp m Q s \<Longrightarrow> wp m R s \<Longrightarrow> wp m (\<lambda>a s'. Q a s' \<and> R a s') s"
  by (auto simp: wp_def split: prod.splits)

lemma wp_iff_run: "wp m Q s = Q (fst (run_state m s)) (snd (run_state m s))"
  by (simp add: wp_def case_prod_beta)

text \<open>
  \<open>emits P m\<close>: whatever the environment answers, \<open>m\<close> only appends to the log, and
  every call it appends satisfies \<open>P\<close>.
\<close>

definition emits :: "('e \<Rightarrow> bool) \<Rightarrow> ('w, 'e, 'a) prog \<Rightarrow> bool" where
  "emits P m \<longleftrightarrow> (\<forall>s. \<exists>es. trace (snd (run_state m s)) = trace s @ es \<and> list_all P es)"

lemma emits_return [emits_intros]: "emits P (State_Monad.return x)"
  by (simp add: emits_def)

lemma emits_call [emits_intros]: "(\<And>r. list_all P (ev r)) \<Longrightarrow> emits P (call oper ev)"
  by (auto simp: emits_def run_state_call split: prod.splits)

lemma emits_bind [emits_intros]:
  assumes "emits P m" and "\<And>a. emits P (f a)"
  shows "emits P (State_Monad.bind m f)"
  unfolding emits_def
proof
  fix s
  obtain a s1 where m: "run_state m s = (a, s1)" by fastforce
  with assms(1) obtain es where es: "trace s1 = trace s @ es" "list_all P es"
    by (metis emits_def snd_conv)
  from assms(2) obtain es' where "trace (snd (run_state (f a) s1)) = trace s1 @ es'" "list_all P es'"
    by (metis emits_def)
  with m es show "\<exists>es. trace (snd (run_state (State_Monad.bind m f) s)) = trace s @ es \<and> list_all P es"
    by (intro exI [of _ "es @ es'"]) simp
qed

lemma emits_if [emits_intros]:
  "(b \<Longrightarrow> emits P m) \<Longrightarrow> (\<not> b \<Longrightarrow> emits P n) \<Longrightarrow> emits P (if b then m else n)"
  by simp

lemma emits_case_sum [emits_intros]:
  "(\<And>e. x = Inl e \<Longrightarrow> emits P (f e)) \<Longrightarrow> (\<And>a. x = Inr a \<Longrightarrow> emits P (g a)) \<Longrightarrow>
   emits P (case x of Inl e \<Rightarrow> f e | Inr a \<Rightarrow> g a)"
  by (cases x) auto

lemma emits_case_option [emits_intros]:
  "(x = None \<Longrightarrow> emits P m) \<Longrightarrow> (\<And>a. x = Some a \<Longrightarrow> emits P (g a)) \<Longrightarrow>
   emits P (case x of None \<Rightarrow> m | Some a \<Rightarrow> g a)"
  by (cases x) auto

lemma emits_case_prod [emits_intros]:
  "(\<And>a b. x = (a, b) \<Longrightarrow> emits P (f a b)) \<Longrightarrow> emits P (case x of (a, b) \<Rightarrow> f a b)"
  by (cases x) auto

lemma emits_Let [emits_intros]: "emits P (f t) \<Longrightarrow> emits P (Let t f)"
  by simp

lemma emits_mono: "emits P m \<Longrightarrow> (\<And>e. P e \<Longrightarrow> Q e) \<Longrightarrow> emits Q m"
  unfolding emits_def by (metis list.pred_mono_strong)

lemma emitsD:
  assumes "emits P m" and "run_state m s = (a, s')" and "trace s = []" and "e \<in> set (trace s')"
  shows "P e"
  using assms by (metis append_Nil emits_def list_all_iff snd_conv)

text \<open>
  \<open>spec m T\<close>: whatever the environment answers, \<open>m\<close> only appends to the log,
  and its result together with the calls it appended satisfies \<open>T\<close>. The rules compute
  the weakest such requirement backwards through a program.
\<close>

definition spec :: "('w, 'e, 'a) prog \<Rightarrow> ('a \<Rightarrow> 'e list \<Rightarrow> bool) \<Rightarrow> bool" where
  "spec m T \<longleftrightarrow> (\<forall>s. \<exists>es. trace (snd (run_state m s)) = trace s @ es \<and> T (fst (run_state m s)) es)"

lemma spec_return [spec_intros]: "T x [] \<Longrightarrow> spec (State_Monad.return x) T"
  by (simp add: spec_def)

text \<open>The answers a call may give, over all worlds.\<close>

definition answers :: "('w \<Rightarrow> 'r \<times> 'w) \<Rightarrow> 'r \<Rightarrow> bool" where
  "answers oper r \<longleftrightarrow> (\<exists>w. fst (oper w) = r)"

lemma answers_intro [simp, intro]: "oper w = (r, w') \<Longrightarrow> answers oper r"
  unfolding answers_def by (metis fst_conv)

lemma answersE:
  assumes "answers oper r"
  obtains w w' where "oper w = (r, w')"
  using assms unfolding answers_def by (metis prod.collapse)

lemma spec_call [spec_intros]: "(\<And>r. answers oper r \<Longrightarrow> T r (ev r)) \<Longrightarrow> spec (call oper ev) T"
  by (auto simp: spec_def run_state_call split: prod.splits)

lemma spec_bind:
  assumes "spec m S" and "\<And>a es. S a es \<Longrightarrow> spec (f a) (\<lambda>b es'. T b (es @ es'))"
  shows "spec (State_Monad.bind m f) T"
  unfolding spec_def
proof
  fix s
  obtain a s1 where m: "run_state m s = (a, s1)" by fastforce
  with assms(1) obtain es where es: "trace s1 = trace s @ es" "S a es"
    by (metis spec_def fst_conv snd_conv)
  from assms(2) [OF es(2)] obtain es' where es': "trace (snd (run_state (f a) s1)) = trace s1 @ es'"
    "T (fst (run_state (f a) s1)) (es @ es')"
    unfolding spec_def by blast
  with m es show "\<exists>es. trace (snd (run_state (State_Monad.bind m f) s)) = trace s @ es \<and>
      T (fst (run_state (State_Monad.bind m f) s)) es"
    by (intro exI [of _ "es @ es'"]) simp
qed

lemma spec_call_bind [spec_intros]:
  assumes "\<And>r. answers oper r \<Longrightarrow> spec (f r) (\<lambda>b es. T b (ev r @ es))"
  shows "spec (State_Monad.bind (call oper ev) f) T"
  by (rule spec_bind [where S = "\<lambda>r es. es = ev r \<and> answers oper r"])
     (use assms in \<open>auto intro: spec_call\<close>)

lemma spec_if [spec_intros]:
  "(b \<Longrightarrow> spec m T) \<Longrightarrow> (\<not> b \<Longrightarrow> spec n T) \<Longrightarrow> spec (if b then m else n) T"
  by simp

lemma spec_case_sum [spec_intros]:
  "(\<And>e. x = Inl e \<Longrightarrow> spec (f e) T) \<Longrightarrow> (\<And>a. x = Inr a \<Longrightarrow> spec (g a) T) \<Longrightarrow>
   spec (case x of Inl e \<Rightarrow> f e | Inr a \<Rightarrow> g a) T"
  by (cases x) auto

lemma spec_case_option [spec_intros]:
  "(x = None \<Longrightarrow> spec m T) \<Longrightarrow> (\<And>a. x = Some a \<Longrightarrow> spec (g a) T) \<Longrightarrow>
   spec (case x of None \<Rightarrow> m | Some a \<Rightarrow> g a) T"
  by (cases x) auto

lemma spec_case_prod [spec_intros]:
  "(\<And>a b. x = (a, b) \<Longrightarrow> spec (f a b) T) \<Longrightarrow> spec (case x of (a, b) \<Rightarrow> f a b) T"
  by (cases x) auto

lemma spec_Let [spec_intros]: "(\<And>x. x = t \<Longrightarrow> spec (f x) T) \<Longrightarrow> spec (Let t f) T"
  by simp

lemma spec_mono: "spec m S \<Longrightarrow> (\<And>a es. S a es \<Longrightarrow> T a es) \<Longrightarrow> spec m T"
  unfolding spec_def by metis

lemma spec_conj: "spec m S \<Longrightarrow> spec m T \<Longrightarrow> spec m (\<lambda>a es. S a es \<and> T a es)"
  unfolding spec_def by (metis same_append_eq)

lemma spec_emits: "emits P m \<longleftrightarrow> spec m (\<lambda>_. list_all P)"
  by (simp add: spec_def emits_def)

lemma specD:
  assumes "spec m T" and "run_state m \<lparr>world = w, trace = []\<rparr> = (r, s)"
  shows "T r (trace s)"
  using assms unfolding spec_def by (metis append_Nil fst_conv snd_conv sys.select_convs(2))

text \<open>A run from a world, with an empty log: its result, its log and the world it reaches.\<close>

definition run_result :: "('w, 'e, 'a) prog \<Rightarrow> 'w \<Rightarrow> 'a" where
  "run_result m w = fst (run_state m \<lparr>world = w, trace = []\<rparr>)"

definition run_log :: "('w, 'e, 'a) prog \<Rightarrow> 'w \<Rightarrow> 'e list" where
  "run_log m w = trace (snd (run_state m \<lparr>world = w, trace = []\<rparr>))"

definition run_world :: "('w, 'e, 'a) prog \<Rightarrow> 'w \<Rightarrow> 'w" where
  "run_world m w = world (snd (run_state m \<lparr>world = w, trace = []\<rparr>))"

lemma spec_run: "spec m T \<Longrightarrow> T (run_result m w) (run_log m w)"
  unfolding run_result_def run_log_def by (metis prod.collapse specD)

text \<open>\<open>preceded g p es\<close>: no call satisfying \<open>p\<close> stands in the log before the first one that
  satisfies \<open>g\<close>.\<close>

fun preceded :: "('e \<Rightarrow> bool) \<Rightarrow> ('e \<Rightarrow> bool) \<Rightarrow> 'e list \<Rightarrow> bool" where
  "preceded g p [] = True"
| "preceded g p (e # es) = (g e \<or> (\<not> p e \<and> preceded g p es))"

lemma preceded_none: "list_all (\<lambda>e. \<not> p e) es \<Longrightarrow> preceded g p es"
  by (induction es) auto

lemma preceded_append: "preceded g p es \<Longrightarrow> list_ex g es \<or> preceded g p es' \<Longrightarrow> preceded g p (es @ es')"
  by (induction es) auto

lemma ex_le_Suc_iff: "(\<exists>j \<le> Suc i. Q j) \<longleftrightarrow> Q 0 \<or> (\<exists>j \<le> i. Q (Suc j))"
  by (metis Suc_le_mono not0_implies_Suc zero_le)

lemma preceded_iff:
  "preceded g p es \<longleftrightarrow> (\<forall>i < length es. p (es ! i) \<longrightarrow> (\<exists>j \<le> i. g (es ! j)))"
proof (induction es)
  case (Cons e es)
  have "(\<forall>i < length (e # es). p ((e # es) ! i) \<longrightarrow> (\<exists>j \<le> i. g ((e # es) ! j))) \<longleftrightarrow>
      (p e \<longrightarrow> g e) \<and> (\<forall>i < length es. p (es ! i) \<longrightarrow> g e \<or> (\<exists>j \<le> i. g (es ! j)))"
    by (simp only: list.size(4) All_less_Suc2 add_Suc_right add_0_right ex_le_Suc_iff nth_Cons_0 nth_Cons_Suc)
       simp
  with Cons show ?case by auto
qed simp

text \<open>Passes of a handler, one after the other.\<close>

fun run_queue :: "('q \<Rightarrow> ('w, 'e, 'a) prog) \<Rightarrow> 'q list \<Rightarrow> ('w, 'e, 'a list) prog" where
  "run_queue h [] = State_Monad.return []"
| "run_queue h (q # qs) =
     State_Monad.bind (h q) (\<lambda>r. State_Monad.bind (run_queue h qs) (\<lambda>rs. State_Monad.return (r # rs)))"

text \<open>
  A controller: each pass of its handler appends to the log only calls it is allowed to
  make. The contract carries over to any sequence of passes.
\<close>

locale controller =
  fixes handle :: "'q \<Rightarrow> ('w, 'e, 'a) prog" and allowed :: "'e \<Rightarrow> bool"
  assumes handle_emits: "emits allowed (handle q)"
begin

lemma queue_emits: "emits allowed (run_queue handle qs)"
  by (induction qs) (auto intro!: emits_intros handle_emits)

lemma queue_trace:
  assumes "run_state (run_queue handle qs) \<lparr>world = w, trace = []\<rparr> = (rs, s)"
  shows "list_all allowed (trace s)"
  using emitsD [OF queue_emits assms] by (simp add: list_all_iff)

lemma queue_spec: "spec (run_queue handle qs) (\<lambda>_. list_all allowed)"
  using queue_emits by (simp add: spec_emits)

end

end
