(* ===== verification/GoText.thy ===== *)
theory GoText
  imports Prelude
begin

text \<open>
  The parts of Go's text packages the program calls. A Go string is a byte sequence and is
  modelled as an Isabelle \<^typ>\<open>string\<close> whose characters are its bytes, so \<open>length\<close>
  is Go's \<open>len\<close>. Functions are named after the package and the function:
  \<open>strings_Trim\<close>, \<open>strings_Cut\<close>, \<open>strconv_Quote\<close> and so on.
\<close>

section \<open>Package strings\<close>

definition strings_Trim :: "string \<Rightarrow> string \<Rightarrow> string" where
  "strings_Trim s cutset = trim_set (set cutset) s"

definition strings_TrimRight :: "string \<Rightarrow> string \<Rightarrow> string" where
  "strings_TrimRight s cutset = rev (dropWhile (\<lambda>c. c \<in> set cutset) (rev s))"

definition strings_TrimPrefix :: "string \<Rightarrow> string \<Rightarrow> string" where
  "strings_TrimPrefix s p = (if prefix p s then drop (length p) s else s)"

fun strings_Join :: "string list \<Rightarrow> string \<Rightarrow> string" where
  "strings_Join [] sep = []"
| "strings_Join [x] sep = x"
| "strings_Join (x # y # ys) sep = x @ sep @ strings_Join (y # ys) sep"

text \<open>\<open>strings.Split(s, sep)\<close> for a separator of one byte.\<close>

fun strings_Split_byte :: "string \<Rightarrow> char \<Rightarrow> string list" where
  "strings_Split_byte [] sep = [[]]"
| "strings_Split_byte (c # s) sep =
     (if c = sep then [] # strings_Split_byte s sep
      else case strings_Split_byte s sep of
          [] \<Rightarrow> [[c]]
        | p # ps \<Rightarrow> (c # p) # ps)"

text \<open>\<open>strings.Cut\<close>: the text before and after the first occurrence of \<open>sep\<close>.\<close>

fun strings_Cut :: "string \<Rightarrow> string \<Rightarrow> string \<times> string \<times> bool" where
  "strings_Cut s sep =
     (if prefix sep s then ([], drop (length sep) s, True)
      else case s of
          [] \<Rightarrow> ([], [], False)
        | c # t \<Rightarrow> (case strings_Cut t sep of
              (before, after, True) \<Rightarrow> (c # before, after, True)
            | (before, after, False) \<Rightarrow> (s, [], False)))"

declare strings_Cut.simps [simp del]

definition strings_Contains :: "string \<Rightarrow> string \<Rightarrow> bool" where
  "strings_Contains s sub = (case strings_Cut s sub of (_, _, found) \<Rightarrow> found)"

text \<open>
  \<open>strings.ToLower\<close>. ASCII letters are lowered; U+0130 (bytes C4 B0) and the Kelvin sign
  U+212A (bytes E2 84 AA) are the only other runes whose lower case is ASCII, \<open>i\<close> and
  \<open>k\<close>. Every other byte outside ASCII is kept: the result differs from Go's there only
  in which non-ASCII bytes it holds, and both callers (\<open>sanitize\<close> and
  \<open>isPathAlreadyInUse\<close>) ask about its ASCII bytes only.
\<close>

definition byte_lower :: "char \<Rightarrow> char" where
  "byte_lower c =
     (case map_of (zip ''ABCDEFGHIJKLMNOPQRSTUVWXYZ'' ''abcdefghijklmnopqrstuvwxyz'') c of
        Some d \<Rightarrow> d
      | None \<Rightarrow> c)"

fun strings_ToLower :: "string \<Rightarrow> string" where
  "strings_ToLower [] = []"
| "strings_ToLower (c # s) =
     (if c = CHR 0xC4 \<and> take 1 s = [CHR 0xB0] then CHR ''i'' # strings_ToLower (drop 1 s)
      else if c = CHR 0xE2 \<and> take 2 s = [CHR 0x84, CHR 0xAA]
        then CHR ''k'' # strings_ToLower (drop 2 s)
      else byte_lower c # strings_ToLower s)"

text \<open>
  \<open>strings.TrimSpace\<close>: the encodings of the runes for which \<open>unicode.IsSpace\<close>
  holds. Bytes are decoded at rune boundaries from either end, so a space rune stands at an
  end exactly when its encoding does.
\<close>

definition space_encodings :: "string list" where
  "space_encodings =
     map (\<lambda>c. [c]) [CHR 0x09, CHR 0x0A, CHR 0x0B, CHR 0x0C, CHR 0x0D, CHR 0x20] @
     [[CHR 0xC2, CHR 0x85], [CHR 0xC2, CHR 0xA0], [CHR 0xE1, CHR 0x9A, CHR 0x80]] @
     map (\<lambda>c. [CHR 0xE2, CHR 0x80, c])
       [CHR 0x80, CHR 0x81, CHR 0x82, CHR 0x83, CHR 0x84, CHR 0x85, CHR 0x86, CHR 0x87,
        CHR 0x88, CHR 0x89, CHR 0x8A, CHR 0xA8, CHR 0xA9, CHR 0xAF] @
     [[CHR 0xE2, CHR 0x81, CHR 0x9F], [CHR 0xE3, CHR 0x80, CHR 0x80]]"

function trim_prefixes :: "string list \<Rightarrow> string \<Rightarrow> string" where
  "trim_prefixes es s = (case List.find (\<lambda>e. e \<noteq> [] \<and> prefix e s) es of
       None \<Rightarrow> s
     | Some e \<Rightarrow> trim_prefixes es (drop (length e) s))"
  by pat_completeness auto
termination
  by (relation "measure (\<lambda>(es, s). length s)")
     (auto dest!: find_Some_iff_first simp: prefix_def)

declare trim_prefixes.simps [simp del]

definition strings_TrimSpace :: "string \<Rightarrow> string" where
  "strings_TrimSpace s =
     rev (trim_prefixes (map rev space_encodings) (rev (trim_prefixes space_encodings s)))"

section \<open>Package strconv: quoting\<close>

definition hex_digit :: "nat \<Rightarrow> char" where
  "hex_digit n = ''0123456789abcdef'' ! (n mod 16)"

fun hex_fixed :: "nat \<Rightarrow> nat \<Rightarrow> string" where
  "hex_fixed 0 n = []"
| "hex_fixed (Suc k) n = hex_fixed k (n div 16) @ [hex_digit n]"

lemma length_hex_fixed [simp]: "length (hex_fixed k n) = k"
  by (induction k arbitrary: n) auto

text \<open>
  \<open>utf8.DecodeRuneInString\<close>: the first rune and its width; \<open>(0xFFFD, 1)\<close> for an
  invalid encoding. The bounds on the second byte exclude overlong forms, surrogates and
  values above U+10FFFF.
\<close>

definition utf8_cont :: "nat \<Rightarrow> nat \<Rightarrow> nat \<Rightarrow> bool" where
  "utf8_cont lo hi b \<longleftrightarrow> lo \<le> b \<and> b \<le> hi"

definition rune_error :: nat where
  "rune_error = 0xFFFD"

definition utf8_DecodeRune :: "string \<Rightarrow> nat \<times> nat" where
  "utf8_DecodeRune s = (case map of_char (take 4 s) of
       [] \<Rightarrow> (rune_error, 0)
     | b0 # bs \<Rightarrow>
       if b0 < 0x80 then (b0, 1)
       else if 0xC2 \<le> b0 \<and> b0 \<le> 0xDF then
         (case bs of b1 # _ \<Rightarrow>
            if utf8_cont 0x80 0xBF b1 then ((b0 - 0xC0) * 64 + (b1 - 0x80), 2) else (rune_error, 1)
          | _ \<Rightarrow> (rune_error, 1))
       else if 0xE0 \<le> b0 \<and> b0 \<le> 0xEF then
         (case bs of b1 # b2 # _ \<Rightarrow>
            if utf8_cont (if b0 = 0xE0 then 0xA0 else 0x80) (if b0 = 0xED then 0x9F else 0xBF) b1
               \<and> utf8_cont 0x80 0xBF b2
            then ((b0 - 0xE0) * 4096 + (b1 - 0x80) * 64 + (b2 - 0x80), 3) else (rune_error, 1)
          | _ \<Rightarrow> (rune_error, 1))
       else if 0xF0 \<le> b0 \<and> b0 \<le> 0xF4 then
         (case bs of b1 # b2 # b3 # _ \<Rightarrow>
            if utf8_cont (if b0 = 0xF0 then 0x90 else 0x80) (if b0 = 0xF4 then 0x8F else 0xBF) b1
               \<and> utf8_cont 0x80 0xBF b2 \<and> utf8_cont 0x80 0xBF b3
            then ((b0 - 0xF0) * 262144 + (b1 - 0x80) * 4096 + (b2 - 0x80) * 64 + (b3 - 0x80), 4)
            else (rune_error, 1)
          | _ \<Rightarrow> (rune_error, 1))
       else (rune_error, 1))"

text \<open>
  \<open>strconv.Quote\<close>, which the \<open>%q\<close> verb uses. \<open>wide\<close> stands for the generated
  Unicode table behind \<open>strconv.IsPrint\<close> above U+00FF.
\<close>

definition strconv_IsPrint :: "(nat \<Rightarrow> bool) \<Rightarrow> nat \<Rightarrow> bool" where
  "strconv_IsPrint wide r =
     (if r \<le> 0xFF then (0x20 \<le> r \<and> r < 0x7F) \<or> (0xA1 \<le> r \<and> r \<noteq> 0xAD) else wide r)"

definition escape_rune :: "(nat \<Rightarrow> bool) \<Rightarrow> nat \<Rightarrow> string \<Rightarrow> string" where
  "escape_rune wide r enc =
     (if r = 0x22 \<or> r = 0x5C then CHR 0x5C # enc
      else if strconv_IsPrint wide r then enc
      else if r = 7 then CHR 0x5C # ''a''
      else if r = 8 then CHR 0x5C # ''b''
      else if r = 12 then CHR 0x5C # ''f''
      else if r = 10 then CHR 0x5C # ''n''
      else if r = 13 then CHR 0x5C # ''r''
      else if r = 9 then CHR 0x5C # ''t''
      else if r = 11 then CHR 0x5C # ''v''
      else if r < 0x20 \<or> r = 0x7F then CHR 0x5C # CHR ''x'' # hex_fixed 2 r
      else if r < 0x10000 then CHR 0x5C # CHR ''u'' # hex_fixed 4 r
      else CHR 0x5C # CHR ''U'' # hex_fixed 8 r)"

function quote_body :: "(nat \<Rightarrow> bool) \<Rightarrow> string \<Rightarrow> string" where
  "quote_body wide s =
     (if s = [] then []
      else case utf8_DecodeRune s of (r, w) \<Rightarrow>
        (if w = 1 \<and> r = rune_error
         then CHR 0x5C # CHR ''x'' # hex_fixed 2 (of_char (hd s))
         else escape_rune wide r (take w s)) @ quote_body wide (drop (max 1 w) s))"
  by pat_completeness auto
termination
  by (relation "measure (\<lambda>(wide, s). length s)") auto

declare quote_body.simps [simp del]

definition strconv_Quote :: "(nat \<Rightarrow> bool) \<Rightarrow> string \<Rightarrow> string" where
  "strconv_Quote wide s = CHR 0x22 # quote_body wide s @ [CHR 0x22]"

lemma strconv_Quote_not_Nil [simp]: "strconv_Quote wide s \<noteq> []"
  by (simp add: strconv_Quote_def)

end
