(* ===== verification/GoError.thy ===== *)
theory GoError
  imports GoText
begin

text \<open>
  Go error values. The program observes an error in three ways: its text
  (\<open>err.Error()\<close>), whether \<open>errors.As\<close> finds an \<open>openbao.ResponseError\<close> in its
  chain, and whether \<open>apierrors.IsNotFound\<close> holds of it. An error is the record of these
  three observations; wrapping with \<open>%w\<close> keeps the chain and so the last two.
\<close>

record ResponseError =
  re_StatusCode :: int
  re_Errors :: "string list"

record goerr =
  err_Msg :: string
  err_Response :: "ResponseError option"
  err_NotFound :: bool

definition errors_New :: "string \<Rightarrow> goerr" where
  "errors_New m = \<lparr>err_Msg = m, err_Response = None, err_NotFound = False\<rparr>"

text \<open>\<open>fmt.Errorf("<context>: %w", err)\<close>.\<close>

definition Errorf_w :: "string \<Rightarrow> goerr \<Rightarrow> goerr" where
  "Errorf_w ctxt e = e\<lparr>err_Msg := ctxt @ '': '' @ err_Msg e\<rparr>"

lemma Errorf_w_chain [simp]:
  "err_Response (Errorf_w c e) = err_Response e" "err_NotFound (Errorf_w c e) = err_NotFound e"
  "err_Msg (Errorf_w c e) = c @ '': '' @ err_Msg e"
  by (simp_all add: Errorf_w_def)

lemma errors_New_sel [simp]:
  "err_Response (errors_New m) = None" "err_NotFound (errors_New m) = False"
  "err_Msg (errors_New m) = m"
  by (simp_all add: errors_New_def)

text \<open>A call that may fail and may move the environment on.\<close>

type_synonym ('w, 'a) oper = "'w \<Rightarrow> (goerr + 'a) \<times> 'w"

end
