(* ===== verification/ApiTypes.thy ===== *)
theory ApiTypes
  imports GoError
begin

text \<open>
  The API group \<open>api/v1alpha1\<close>: one record per Go struct, with the fields the Go
  declarations give and a short prefix per struct, and the constants of
  \<open>shared.go\<close>. A pointer field is an option. \<open>TypeMeta\<close> and the list types carry no
  logic and are left out; of \<open>metav1.ObjectMeta\<close> the fields the program reads are kept.
  Times are integers, 0 being Go's zero time.
\<close>

section \<open>Types of k8s.io/apimachinery and openmcp-operator that the program reads\<close>

type_synonym time = int

record ObjectMeta =
  om_Name :: string
  om_Namespace :: string
  om_Generation :: int
  om_DeletionTimestamp :: "time option"
  om_Finalizers :: "string list"

definition time_IsZero :: "time option \<Rightarrow> bool" where
  "time_IsZero t = (case t of None \<Rightarrow> True | Some x \<Rightarrow> x = 0)"

datatype ConditionStatus = ConditionTrue | ConditionFalse | ConditionUnknown

record Condition =
  c_Type :: string
  c_Status :: ConditionStatus
  c_ObservedGeneration :: int
  c_LastTransitionTime :: time
  c_Reason :: string
  c_Message :: string

record Endpoint =
  ep_Name :: string
  ep_URL :: string

record ControlPlane =
  cp_Name :: string
  cp_Namespace :: string
  cp_Endpoints :: "Endpoint list"

section \<open>shared.go\<close>

record LocalObjectReference =
  lor_Name :: string

record NamespacedObjectReference =
  nor_Name :: string
  nor_Namespace :: string

record LocalSecretKeyRef =
  sk_Name :: string
  sk_Key :: string

definition ConditionReady :: string where [const_defs]: "ConditionReady = ''Ready''"
definition ConditionOpenBaoReachable :: string where
  [const_defs]: "ConditionOpenBaoReachable = ''OpenBaoReachable''"
definition ConditionTrustConfigured :: string where
  [const_defs]: "ConditionTrustConfigured = ''TrustConfigured''"
definition ConditionIdentityResolved :: string where
  [const_defs]: "ConditionIdentityResolved = ''IdentityResolved''"
definition ConditionPolicyResolved :: string where
  [const_defs]: "ConditionPolicyResolved = ''PolicyResolved''"
definition ConditionDependencyReady :: string where
  [const_defs]: "ConditionDependencyReady = ''DependencyReady''"

definition ReasonReconciled :: string where [const_defs]: "ReasonReconciled = ''Reconciled''"
definition ReasonReconcileError :: string where
  [const_defs]: "ReasonReconcileError = ''ReconcileError''"
definition ReasonDependencyNotFound :: string where
  [const_defs]: "ReasonDependencyNotFound = ''DependencyNotFound''"
definition ReasonDependencyNotReady :: string where
  [const_defs]: "ReasonDependencyNotReady = ''DependencyNotReady''"
definition ReasonOpenBaoUnreachable :: string where
  [const_defs]: "ReasonOpenBaoUnreachable = ''OpenBaoUnreachable''"
definition ReasonIssuerDiscoveryFailed :: string where
  [const_defs]: "ReasonIssuerDiscoveryFailed = ''IssuerDiscoveryFailed''"
definition ReasonServiceAccountNotFound :: string where
  [const_defs]: "ReasonServiceAccountNotFound = ''ServiceAccountNotFound''"
definition ReasonControlPlaneUnavailable :: string where
  [const_defs]: "ReasonControlPlaneUnavailable = ''ControlPlaneUnavailable''"
definition ReasonPolicyNotFound :: string where
  [const_defs]: "ReasonPolicyNotFound = ''PolicyNotFound''"
definition ReasonPolicyExists :: string where
  [const_defs]: "ReasonPolicyExists = ''PolicyExists''"
definition ReasonPolicyCheckSkipped :: string where
  [const_defs]: "ReasonPolicyCheckSkipped = ''PolicyCheckSkipped''"
definition ReasonWaitingForPolicy :: string where
  [const_defs]: "ReasonWaitingForPolicy = ''WaitingForPolicy''"

definition FinalizerControlPlaneTrust :: string where
  [const_defs]: "FinalizerControlPlaneTrust = ''openbao.open-control-plane.io/controlplanetrust''"
definition FinalizerPolicyBinding :: string where
  [const_defs]: "FinalizerPolicyBinding = ''openbao.open-control-plane.io/policybinding''"

lemma condition_types_distinct:
  "distinct [ConditionReady, ConditionOpenBaoReachable, ConditionTrustConfigured,
     ConditionIdentityResolved, ConditionPolicyResolved, ConditionDependencyReady]"
  by (simp add: const_defs)

lemmas condition_types_neq [simp] =
  condition_types_distinct [simplified distinct.simps list.set insert_iff empty_iff de_Morgan_disj
    simp_thms]

lemma condition_types_neq' [simp]:
  "ConditionOpenBaoReachable \<noteq> ConditionReady" "ConditionTrustConfigured \<noteq> ConditionReady"
  "ConditionIdentityResolved \<noteq> ConditionReady" "ConditionPolicyResolved \<noteq> ConditionReady"
  "ConditionDependencyReady \<noteq> ConditionReady"
  "ConditionDependencyReady \<noteq> ConditionOpenBaoReachable"
  "ConditionDependencyReady \<noteq> ConditionTrustConfigured"
  "ConditionDependencyReady \<noteq> ConditionIdentityResolved"
  "ConditionDependencyReady \<noteq> ConditionPolicyResolved"
  by (simp_all add: const_defs)

section \<open>openbaoinstance\_types.go\<close>

record OpenBaoJWTAuthSpec =
  jas_MountPrefix :: string

record OpenBaoAuthSpec =
  as_JWT :: "OpenBaoJWTAuthSpec option"

record OpenBaoInstanceSpec =
  ois_Address :: string
  ois_CABundleRef :: "LocalSecretKeyRef option"
  ois_InsecureSkipVerify :: bool
  ois_Namespace :: string
  ois_Auth :: OpenBaoAuthSpec

record OpenBaoInstanceStatus =
  oist_ObservedGeneration :: int
  oist_Version :: string
  oist_Initialized :: "bool option"
  oist_Sealed :: "bool option"
  oist_LastProbeTime :: "time option"
  oist_Conditions :: "Condition list"

record OpenBaoInstance =
  oi_Meta :: ObjectMeta
  oi_Spec :: OpenBaoInstanceSpec
  oi_Status :: OpenBaoInstanceStatus

section \<open>projectentity\_types.go\<close>

record ProjectEntitySpec =
  pes_OpenBaoInstanceRef :: LocalObjectReference

record ProjectEntityStatus =
  pest_ObservedGeneration :: int
  pest_EntityID :: string
  pest_GroupID :: string
  pest_ResolvedOpenBaoRef :: string
  pest_Conditions :: "Condition list"

record ProjectEntity =
  pe_Meta :: ObjectMeta
  pe_Spec :: ProjectEntitySpec
  pe_Status :: ProjectEntityStatus

section \<open>controlplanetrust\_types.go\<close>

record ControlPlaneTrustSpec =
  cts_ProjectEntityRef :: NamespacedObjectReference
  cts_ControlPlaneRef :: LocalObjectReference
  cts_Audience :: string

record ControlPlaneTrustStatus =
  ctst_ObservedGeneration :: int
  ctst_AuthMountPath :: string
  ctst_Issuer :: string
  ctst_Audience :: string
  ctst_ResolvedOpenBaoInstance :: string
  ctst_Conditions :: "Condition list"

record ControlPlaneTrust =
  ct_Meta :: ObjectMeta
  ct_Spec :: ControlPlaneTrustSpec
  ct_Status :: ControlPlaneTrustStatus

section \<open>controlplaneentity\_types.go\<close>

record ControlPlaneEntitySpec =
  ces_ControlPlaneTrustRef :: LocalObjectReference
  ces_ServiceAccountRef :: NamespacedObjectReference

record ServiceAccountIdentity =
  sai_Alias :: string
  sai_Subject :: string
  sai_Issuer :: string
  sai_Audiences :: "string list"

record ControlPlaneEntityStatus =
  cest_ObservedGeneration :: int
  cest_Identity :: "ServiceAccountIdentity option"
  cest_IdentityID :: string
  cest_Conditions :: "Condition list"

record ControlPlaneEntity =
  ce_Meta :: ObjectMeta
  ce_Spec :: ControlPlaneEntitySpec
  ce_Status :: ControlPlaneEntityStatus

section \<open>policybinding\_types.go\<close>

text \<open>The Go type is a string whose zero value is the empty string.\<close>

type_synonym PolicyExistenceState = string

definition PolicyExistenceTrue :: PolicyExistenceState where
  [const_defs]: "PolicyExistenceTrue = ''True''"
definition PolicyExistenceFalse :: PolicyExistenceState where
  [const_defs]: "PolicyExistenceFalse = ''False''"
definition PolicyExistenceUnknown :: PolicyExistenceState where
  [const_defs]: "PolicyExistenceUnknown = ''Unknown''"

record PolicyBindingSpec =
  pbs_PolicyName :: string
  pbs_ControlPlaneEntityRefs :: "LocalObjectReference list"
  pbs_TTL :: string
  pbs_MaxTTL :: string

record PolicyBindingRoleStatus =
  pbr_ControlPlaneEntityRef :: LocalObjectReference
  pbr_RoleName :: string
  pbr_AuthMountPath :: string
  pbr_Ready :: bool
  pbr_Message :: string

record PolicyBindingStatus =
  pbst_ObservedGeneration :: int
  pbst_Roles :: "PolicyBindingRoleStatus list"
  pbst_PolicyName :: string
  pbst_PolicyExists :: PolicyExistenceState
  pbst_Conditions :: "Condition list"

record PolicyBinding =
  pb_Meta :: ObjectMeta
  pb_Spec :: PolicyBindingSpec
  pb_Status :: PolicyBindingStatus

section \<open>serviceconfig\_types.go\<close>

record ServiceConfigSpec =
  scs_AuthMountPrefix :: string
  scs_RequeueAfter :: string
  scs_PlatformCredentialRef :: "LocalSecretKeyRef option"

record ServiceConfigStatus =
  scst_ObservedGeneration :: int
  scst_Conditions :: "Condition list"

record ServiceConfig =
  sc_Meta :: ObjectMeta
  sc_Spec :: ServiceConfigSpec
  sc_Status :: ServiceConfigStatus

end
