(* ===== verification/BaoClient.thy ===== *)
theory BaoClient
  imports ApiTypes "HOL-Library.Finite_Map"
begin

text \<open>
  \<open>internal/openbao/client.go\<close>: the data the OpenBao layer exchanges and the
  \<open>Client\<close> interface the controllers depend on. The interface is a record of
  operations over the environment's world; its documented contract (mounts and roles are
  upserts, deletes are idempotent, configuring needs the mount) is the locale
  \<open>openbao_backend\<close>, in which the facts its clients rely on are proved once.
\<close>

section \<open>Data\<close>

record HealthInfo =
  hi_Initialized :: bool
  hi_Sealed :: bool
  hi_Version :: string

record JWTAuthConfig =
  jc_OIDCDiscoveryURL :: string
  jc_OIDCDiscoveryCAPEM :: string
  jc_JWKSURL :: string
  jc_JWKSCAPEM :: string
  jc_BoundIssuer :: string
  jc_DefaultRole :: string

text \<open>Values of Go's \<open>map[string]any\<close> as the layer builds them.\<close>

datatype payload =
    PStr string
  | PBool bool
  | PStrs "string list"
  | PStrMap "(string, string) fmap"
  | PMap "(string, payload) fmap"

record JWTRole =
  jr_Name :: string
  jr_RoleType :: string
  jr_BoundAudiences :: "string list"
  jr_BoundSubject :: string
  jr_BoundClaims :: "(string, payload) fmap"
  jr_UserClaim :: string
  jr_TokenPolicies :: "string list"
  jr_TokenTTL :: string
  jr_TokenMaxTTL :: string

record PolicyExistence =
  px_Exists :: bool
  px_Known :: bool

definition ErrNotFound :: goerr where
  "ErrNotFound = errors_New ''openbao: not found''"

section \<open>The interface\<close>

record 'w Client =
  cl_Health :: "('w, HealthInfo) oper"
  cl_EnsureEntity :: "string \<Rightarrow> (string, string) fmap \<Rightarrow> ('w, string) oper"
  cl_EnsureJWTAuthMount :: "string \<Rightarrow> ('w, unit) oper"
  cl_ConfigureJWTTrust :: "string \<Rightarrow> JWTAuthConfig \<Rightarrow> ('w, unit) oper"
  cl_EnsureJWTRole :: "string \<Rightarrow> JWTRole \<Rightarrow> ('w, unit) oper"
  cl_DeleteJWTRole :: "string \<Rightarrow> string \<Rightarrow> ('w, unit) oper"
  cl_DeleteAuthMount :: "string \<Rightarrow> ('w, unit) oper"
  cl_PolicyExists :: "string \<Rightarrow> ('w, PolicyExistence) oper"

text \<open>Paths and names are URL segments: they hold no slash.\<close>

definition segment :: "string \<Rightarrow> bool" where
  "segment s \<longleftrightarrow> s \<noteq> [] \<and> CHR ''/'' \<notin> set s"

section \<open>The contract\<close>

locale openbao_backend =
  fixes cl :: "'w Client"
    and mounted :: "'w \<Rightarrow> string \<Rightarrow> bool"
    and config_at :: "'w \<Rightarrow> string \<Rightarrow> JWTAuthConfig option"
    and role_at :: "'w \<Rightarrow> string \<Rightarrow> string \<Rightarrow> JWTRole option"
  assumes ensure_mount_ok: "fst (cl_EnsureJWTAuthMount cl p w) = Inr ()"
    and ensure_mount_mounted:
      "mounted (snd (cl_EnsureJWTAuthMount cl p w)) q \<longleftrightarrow> q = p \<or> mounted w q"
    and ensure_mount_frame:
      "config_at (snd (cl_EnsureJWTAuthMount cl p w)) = config_at w"
      "role_at (snd (cl_EnsureJWTAuthMount cl p w)) = role_at w"
    and configure_missing:
      "\<not> mounted w p \<Longrightarrow> \<exists>e. cl_ConfigureJWTTrust cl p cfg w = (Inl e, w)"
    and configure_ok: "mounted w p \<Longrightarrow> fst (cl_ConfigureJWTTrust cl p cfg w) = Inr ()"
    and configure_config:
      "mounted w p \<Longrightarrow> config_at (snd (cl_ConfigureJWTTrust cl p cfg w)) = (config_at w)(p \<mapsto> cfg)"
    and configure_frame:
      "mounted (snd (cl_ConfigureJWTTrust cl p cfg w)) = mounted w"
      "role_at (snd (cl_ConfigureJWTTrust cl p cfg w)) = role_at w"
    and ensure_role_missing: "\<not> mounted w m \<Longrightarrow> \<exists>e. cl_EnsureJWTRole cl m r w = (Inl e, w)"
    and ensure_role_ok: "mounted w m \<Longrightarrow> fst (cl_EnsureJWTRole cl m r w) = Inr ()"
    and ensure_role_role:
      "mounted w m \<Longrightarrow> segment m \<Longrightarrow> segment m' \<Longrightarrow>
       role_at (snd (cl_EnsureJWTRole cl m r w)) m' n =
         (if m' = m \<and> n = jr_Name r then Some r else role_at w m' n)"
    and ensure_role_frame:
      "mounted (snd (cl_EnsureJWTRole cl m r w)) = mounted w"
      "config_at (snd (cl_EnsureJWTRole cl m r w)) = config_at w"
    and delete_role_ok: "fst (cl_DeleteJWTRole cl m n w) = Inr ()"
    and delete_role_role:
      "segment m \<Longrightarrow> segment m' \<Longrightarrow>
       role_at (snd (cl_DeleteJWTRole cl m n w)) m' n' =
         (if m' = m \<and> n' = n then None else role_at w m' n')"
    and delete_role_frame:
      "mounted (snd (cl_DeleteJWTRole cl m n w)) = mounted w"
      "config_at (snd (cl_DeleteJWTRole cl m n w)) = config_at w"
    and delete_mount_ok: "fst (cl_DeleteAuthMount cl p w) = Inr ()"
    and delete_mount_mounted:
      "mounted (snd (cl_DeleteAuthMount cl p w)) q \<longleftrightarrow> q \<noteq> p \<and> mounted w q"
    and delete_mount_config:
      "config_at (snd (cl_DeleteAuthMount cl p w)) = (config_at w)(p := None)"
    and delete_mount_role:
      "segment p \<Longrightarrow> segment m \<Longrightarrow> n \<noteq> [] \<Longrightarrow>
       role_at (snd (cl_DeleteAuthMount cl p w)) m n = (if m = p then None else role_at w m n)"
begin

lemma ensure_mount_run:
  obtains w' where "cl_EnsureJWTAuthMount cl p w = (Inr (), w')" "mounted w' p"
    "\<And>q. mounted w' q \<longleftrightarrow> q = p \<or> mounted w q" "config_at w' = config_at w" "role_at w' = role_at w"
  using ensure_mount_ok ensure_mount_mounted ensure_mount_frame by (metis prod.collapse)

lemma configure_run:
  assumes "mounted w p"
  obtains w' where "cl_ConfigureJWTTrust cl p cfg w = (Inr (), w')"
    "config_at w' = (config_at w)(p \<mapsto> cfg)" "mounted w' = mounted w" "role_at w' = role_at w"
  using assms configure_ok configure_config configure_frame by (metis prod.collapse)

lemma ensure_role_run:
  assumes "mounted w m"
  obtains w' where "cl_EnsureJWTRole cl m r w = (Inr (), w')" "mounted w' = mounted w"
    "config_at w' = config_at w"
    "\<And>m' n. segment m \<Longrightarrow> segment m' \<Longrightarrow>
       role_at w' m' n = (if m' = m \<and> n = jr_Name r then Some r else role_at w m' n)"
  using assms ensure_role_ok ensure_role_role ensure_role_frame by (metis prod.collapse)

text \<open>Mounting and then configuring a path, the trust controller's sequence, always succeeds.\<close>

lemma provision:
  assumes "cl_EnsureJWTAuthMount cl p w = (r1, w1)" and "cl_ConfigureJWTTrust cl p cfg w1 = (r2, w2)"
  shows "r1 = Inr ()" "r2 = Inr ()" "mounted w2 p" "config_at w2 p = Some cfg"
    "role_at w2 = role_at w" "q \<noteq> p \<Longrightarrow> mounted w2 q = mounted w q"
    "q \<noteq> p \<Longrightarrow> config_at w2 q = config_at w q"
proof -
  have w1: "r1 = Inr ()" "mounted w1 p" "\<And>q. mounted w1 q \<longleftrightarrow> q = p \<or> mounted w q"
    "config_at w1 = config_at w" "role_at w1 = role_at w"
    using assms(1) ensure_mount_ok [of p w] ensure_mount_mounted [of p w] ensure_mount_frame [of p w]
    by simp_all
  have w2: "r2 = Inr ()" "config_at w2 = (config_at w1)(p \<mapsto> cfg)" "mounted w2 = mounted w1"
    "role_at w2 = role_at w1"
    using assms(2) configure_ok [OF w1(2), of cfg] configure_config [OF w1(2), of cfg]
      configure_frame [of p cfg w1] by simp_all
  show "r1 = Inr ()" "r2 = Inr ()" "mounted w2 p" "config_at w2 p = Some cfg"
    "role_at w2 = role_at w" "q \<noteq> p \<Longrightarrow> mounted w2 q = mounted w q"
    "q \<noteq> p \<Longrightarrow> config_at w2 q = config_at w q"
    using w1 w2 by simp_all
qed

text \<open>A role written and then deleted is gone, and no other role is touched.\<close>

lemma ensure_then_delete_role:
  assumes "mounted w m" "segment m" "segment m'"
    and "cl_EnsureJWTRole cl m r w = (r1, w1)" and "cl_DeleteJWTRole cl m (jr_Name r) w1 = (r2, w2)"
  shows "role_at w2 m' n = (if m' = m \<and> n = jr_Name r then None else role_at w m' n)"
  using ensure_role_role [OF assms(1,2,3), of r n] delete_role_role [OF assms(2,3), of "jr_Name r" w1 n]
    assms(4,5) by simp

text \<open>After a mount is torn down, no role is left under it and none can be written.\<close>

lemma delete_mount_revokes:
  assumes "segment p" "n \<noteq> []" and "cl_DeleteAuthMount cl p w = (r1, w1)"
  shows "role_at w1 p n = None" "\<exists>e. cl_EnsureJWTRole cl p r w1 = (Inl e, w1)"
  using delete_mount_role [OF assms(1,1,2), of w] delete_mount_mounted [of p w p]
    ensure_role_missing [of w1 p r] assms(3) by simp_all

end

end
