(* ===== verification/ApiClient.thy ===== *)
theory ApiClient
  imports BaoClient
begin

text \<open>
  \<open>internal/openbao/real.go\<close>: the client against a live server. The HTTP library
  (\<open>github.com/openbao/openbao/api/v2\<close>) and the certificate pool of
  \<open>crypto/x509\<close> are the record \<open>bao_api\<close> of parameters; what is modelled is what
  \<open>real.go\<close> itself does: which request each operation sends, which fields it puts in,
  and how it classifies the answer.
\<close>

section \<open>The library as parameters\<close>

text \<open>A certificate pool, as the term that builds it.\<close>

datatype cert_pool = SystemCertPool | EmptyCertPool | AppendCerts cert_pool string

record tls_config =
  tls_MinVersion :: int
  tls_InsecureSkipVerify :: bool
  tls_RootCAs :: "cert_pool option"

definition VersionTLS12 :: int where
  "VersionTLS12 = 0x0303"

text \<open>The transport of the library's default configuration: an \<open>*http.Transport\<close>, whose
  other settings are kept, or something else, which is replaced.\<close>

datatype transport = HTTPTransport "tls_config option" nat | OtherTransport

record bao_config =
  bcfg_Address :: string
  bcfg_Transport :: transport

record bao_handle =
  bh_Config :: bao_config
  bh_Namespace :: string
  bh_Token :: string

record SecretAuth =
  sa_ClientToken :: string

record Secret =
  sec_Auth :: "SecretAuth option"
  sec_Data :: "(string, payload) fmap option"

record 'w bao_api =
  api_DefaultConfig :: bao_config
  api_DefaultTransportSettings :: nat
  api_NewClient :: "bao_config \<Rightarrow> goerr + bao_handle"
  api_SetNamespace :: "string \<Rightarrow> bao_handle \<Rightarrow> bao_handle"
  api_SetToken :: "string \<Rightarrow> bao_handle \<Rightarrow> bao_handle"
  api_WithNamespace :: "string \<Rightarrow> bao_handle \<Rightarrow> bao_handle"
  api_SystemCertPool :: bool
  api_PEMHasCerts :: "string \<Rightarrow> bool"
  api_Print :: "nat \<Rightarrow> bool"
  api_Write :: "bao_handle \<Rightarrow> string \<Rightarrow> (string, payload) fmap \<Rightarrow> ('w, Secret option) oper"
  api_Read :: "bao_handle \<Rightarrow> string \<Rightarrow> ('w, Secret option) oper"
  api_Delete :: "bao_handle \<Rightarrow> string \<Rightarrow> ('w, Secret option) oper"
  api_EnableAuth :: "bao_handle \<Rightarrow> string \<Rightarrow> string \<Rightarrow> ('w, unit) oper"
  api_DisableAuth :: "bao_handle \<Rightarrow> string \<Rightarrow> ('w, unit) oper"
  api_SysHealth :: "bao_handle \<Rightarrow> ('w, HealthInfo) oper"

section \<open>Building a client\<close>

record BaoConfig =
  bc_Address :: string
  bc_CABundlePEM :: string
  bc_InsecureSkipVerify :: bool
  bc_Namespace :: string
  bc_Token :: string

record APIClient =
  ac_c :: bao_handle

definition build_tls :: "'w bao_api \<Rightarrow> BaoConfig \<Rightarrow> goerr + tls_config" where
  "build_tls api cfg =
     (let tlsConfig = \<lparr>tls_MinVersion = VersionTLS12, tls_InsecureSkipVerify = False, tls_RootCAs = None\<rparr>;
          tlsConfig = (if bc_InsecureSkipVerify cfg then tlsConfig\<lparr>tls_InsecureSkipVerify := True\<rparr>
                       else tlsConfig)
      in if length (bc_CABundlePEM cfg) > 0 then
           let pool = (if api_SystemCertPool api then SystemCertPool else EmptyCertPool)
           in if \<not> api_PEMHasCerts api (bc_CABundlePEM cfg)
              then Inl (errors_New ''openbao: CA bundle contains no valid PEM certificates'')
              else Inr (tlsConfig\<lparr>tls_RootCAs := Some (AppendCerts pool (bc_CABundlePEM cfg))\<rparr>)
         else Inr tlsConfig)"

definition bao_New :: "'w bao_api \<Rightarrow> BaoConfig \<Rightarrow> goerr + APIClient" where
  "bao_New api cfg =
     (if strings_TrimSpace (bc_Address cfg) = []
      then Inl (errors_New ''openbao: address is required'')
      else
        let baoCfg = (api_DefaultConfig api)\<lparr>bcfg_Address := bc_Address cfg\<rparr>
        in case build_tls api cfg of
             Inl e \<Rightarrow> Inl e
           | Inr tlsConfig \<Rightarrow>
             let baoCfg = (case bcfg_Transport baoCfg of
                   HTTPTransport _ rest \<Rightarrow> baoCfg\<lparr>bcfg_Transport := HTTPTransport (Some tlsConfig) rest\<rparr>
                 | OtherTransport \<Rightarrow> baoCfg\<lparr>bcfg_Transport :=
                     HTTPTransport (Some tlsConfig) (api_DefaultTransportSettings api)\<rparr>)
             in case api_NewClient api baoCfg of
                  Inl err \<Rightarrow> Inl (Errorf_w ''openbao: build client'' err)
                | Inr c \<Rightarrow>
                  let c = (if bc_Namespace cfg \<noteq> [] then api_SetNamespace api (bc_Namespace cfg) c else c);
                      c = (if bc_Token cfg \<noteq> [] then api_SetToken api (bc_Token cfg) c else c)
                  in Inr \<lparr>ac_c = c\<rparr>)"

definition LoginJWT :: "'w bao_api \<Rightarrow> BaoConfig \<Rightarrow> string \<Rightarrow> string \<Rightarrow> string \<Rightarrow> ('w, string) oper" where
  "LoginJWT api cfg mount role jwt w =
     (if strings_TrimSpace jwt = [] then (Inl (errors_New ''openbao: jwt is required''), w)
      else case bao_New api \<lparr>bc_Address = bc_Address cfg, bc_CABundlePEM = bc_CABundlePEM cfg,
               bc_InsecureSkipVerify = bc_InsecureSkipVerify cfg, bc_Namespace = bc_Namespace cfg,
               bc_Token = []\<rparr> of
          Inl err \<Rightarrow> (Inl err, w)
        | Inr client \<Rightarrow>
          (let at = ''openbao: jwt login via mount '' @ strconv_Quote (api_Print api) mount @
                    '' role '' @ strconv_Quote (api_Print api) role
           in case api_Write api (ac_c client) (''auth/'' @ strings_Trim mount ''/'' @ ''/login'')
                     (fmap_of_list [(''role'', PStr role), (''jwt'', PStr jwt)]) w of
                (Inl err, w') \<Rightarrow> (Inl (Errorf_w at err), w')
              | (Inr resp, w') \<Rightarrow>
                (case resp of
                   None \<Rightarrow> (Inl (errors_New (at @ '' returned no token'')), w')
                 | Some s \<Rightarrow> (case sec_Auth s of
                       None \<Rightarrow> (Inl (errors_New (at @ '' returned no token'')), w')
                     | Some a \<Rightarrow>
                       if sa_ClientToken a = []
                       then (Inl (errors_New (at @ '' returned no token'')), w')
                       else (Inr (sa_ClientToken a), w')))))"

section \<open>Classifying errors\<close>

definition isNotFound :: "goerr \<Rightarrow> bool" where
  "isNotFound err = (case err_Response err of Some re \<Rightarrow> re_StatusCode re = 404 | None \<Rightarrow> False)"

definition isPermissionDenied :: "goerr \<Rightarrow> bool" where
  "isPermissionDenied err = (case err_Response err of Some re \<Rightarrow> re_StatusCode re = 403 | None \<Rightarrow> False)"

definition says_in_use :: "string \<Rightarrow> bool" where
  "says_in_use m = strings_Contains (strings_ToLower m) ''path is already in use''"

definition isPathAlreadyInUse :: "goerr \<Rightarrow> bool" where
  "isPathAlreadyInUse err =
     (if (case err_Response err of
            Some re \<Rightarrow> re_StatusCode re = 400 \<and> list_ex says_in_use (re_Errors re)
          | None \<Rightarrow> False)
      then True
      else says_in_use (err_Msg err))"

definition idFromSecret :: "Secret option \<Rightarrow> string" where
  "idFromSecret resp = (case resp of
       None \<Rightarrow> []
     | Some s \<Rightarrow> (case sec_Data s of
           None \<Rightarrow> []
         | Some d \<Rightarrow> (case fmlookup d ''id'' of Some (PStr i) \<Rightarrow> i | _ \<Rightarrow> [])))"

section \<open>The operations\<close>

definition Api_Health :: "'w bao_api \<Rightarrow> APIClient \<Rightarrow> ('w, HealthInfo) oper" where
  "Api_Health api a w =
     (case api_SysHealth api (api_WithNamespace api [] (ac_c a)) w of
        (Inl err, w') \<Rightarrow> (Inl (Errorf_w ''openbao: health probe'' err), w')
      | (Inr resp, w') \<Rightarrow>
        (Inr \<lparr>hi_Initialized = hi_Initialized resp, hi_Sealed = hi_Sealed resp,
              hi_Version = hi_Version resp\<rparr>, w'))"

definition Api_EnsureEntity ::
    "'w bao_api \<Rightarrow> APIClient \<Rightarrow> string \<Rightarrow> (string, string) fmap \<Rightarrow> ('w, string) oper" where
  "Api_EnsureEntity api a nm metadata w =
     (if strings_TrimSpace nm = [] then (Inl (errors_New ''openbao: entity name required''), w)
      else
        let data = fmap_of_list [(''name'', PStr nm)];
            data = (if metadata \<noteq> fmempty then fmupd ''metadata'' (PStrMap metadata) data else data);
            path = ''identity/entity/name/'' @ nm;
            q = strconv_Quote (api_Print api) nm
        in case api_Write api (ac_c a) path data w of
             (Inl err, w1) \<Rightarrow> (Inl (Errorf_w (''openbao: ensure identity entity '' @ q) err), w1)
           | (Inr resp, w1) \<Rightarrow>
             if idFromSecret resp \<noteq> [] then (Inr (idFromSecret resp), w1)
             else case api_Read api (ac_c a) path w1 of
                 (Inl err, w2) \<Rightarrow>
                   (Inl (Errorf_w (''openbao: read identity entity '' @ q @ '' after write'') err), w2)
               | (Inr resp, w2) \<Rightarrow>
                 if idFromSecret resp \<noteq> [] then (Inr (idFromSecret resp), w2)
                 else (Inl (errors_New (''openbao: identity entity '' @ q @ '' returned no id'')), w2))"

definition Api_EnsureJWTAuthMount :: "'w bao_api \<Rightarrow> APIClient \<Rightarrow> string \<Rightarrow> ('w, unit) oper" where
  "Api_EnsureJWTAuthMount api a path w =
     (case api_EnableAuth api (ac_c a) path ''jwt'' w of
        (Inl err, w') \<Rightarrow>
          if isPathAlreadyInUse err then (Inr (), w')
          else (Inl (Errorf_w (''openbao: enable jwt auth at '' @ strconv_Quote (api_Print api) path) err), w')
      | (Inr _, w') \<Rightarrow> (Inr (), w'))"

text \<open>An entry is set only when its value is not empty.\<close>

definition put_nonempty :: "string \<Rightarrow> string \<Rightarrow> (string, payload) fmap \<Rightarrow> (string, payload) fmap" where
  "put_nonempty k v d = (if v \<noteq> [] then fmupd k (PStr v) d else d)"

definition trust_payload :: "JWTAuthConfig \<Rightarrow> (string, payload) fmap" where
  "trust_payload cfg =
     put_nonempty ''default_role'' (jc_DefaultRole cfg)
     (put_nonempty ''bound_issuer'' (jc_BoundIssuer cfg)
     (put_nonempty ''jwks_ca_pem'' (jc_JWKSCAPEM cfg)
     (put_nonempty ''jwks_url'' (jc_JWKSURL cfg)
     (put_nonempty ''oidc_discovery_ca_pem'' (jc_OIDCDiscoveryCAPEM cfg)
     (put_nonempty ''oidc_discovery_url'' (jc_OIDCDiscoveryURL cfg) fmempty)))))"

definition Api_ConfigureJWTTrust ::
    "'w bao_api \<Rightarrow> APIClient \<Rightarrow> string \<Rightarrow> JWTAuthConfig \<Rightarrow> ('w, unit) oper" where
  "Api_ConfigureJWTTrust api a path cfg w =
     (case api_Write api (ac_c a) (''auth/'' @ path @ ''/config'') (trust_payload cfg) w of
        (Inl err, w') \<Rightarrow>
          (Inl (Errorf_w (''openbao: configure jwt trust at '' @ strconv_Quote (api_Print api) path) err), w')
      | (Inr _, w') \<Rightarrow> (Inr (), w'))"

definition role_payload :: "JWTRole \<Rightarrow> (string, payload) fmap" where
  "role_payload role =
     (let roleType = (if jr_RoleType role = [] then ''jwt'' else jr_RoleType role);
          data = fmap_of_list [(''role_type'', PStr roleType), (''user_claim'', PStr (jr_UserClaim role)),
                               (''token_policies'', PStrs (jr_TokenPolicies role))];
          data = (if length (jr_BoundAudiences role) > 0
                  then fmupd ''bound_audiences'' (PStrs (jr_BoundAudiences role)) data else data);
          data = put_nonempty ''bound_subject'' (jr_BoundSubject role) data;
          data = (if jr_BoundClaims role \<noteq> fmempty
                  then fmupd ''bound_claims'' (PMap (jr_BoundClaims role)) data else data);
          data = put_nonempty ''token_ttl'' (jr_TokenTTL role) data
      in put_nonempty ''token_max_ttl'' (jr_TokenMaxTTL role) data)"

definition Api_EnsureJWTRole :: "'w bao_api \<Rightarrow> APIClient \<Rightarrow> string \<Rightarrow> JWTRole \<Rightarrow> ('w, unit) oper" where
  "Api_EnsureJWTRole api a mount role w =
     (if jr_Name role = [] then (Inl (errors_New ''openbao: role name required''), w)
      else case api_Write api (ac_c a) (''auth/'' @ mount @ ''/role/'' @ jr_Name role) (role_payload role) w of
          (Inl err, w') \<Rightarrow>
            (Inl (Errorf_w (''openbao: ensure jwt role '' @ strconv_Quote (api_Print api) (jr_Name role) @
               '' on mount '' @ strconv_Quote (api_Print api) mount) err), w')
        | (Inr _, w') \<Rightarrow> (Inr (), w'))"

definition Api_DeleteJWTRole :: "'w bao_api \<Rightarrow> APIClient \<Rightarrow> string \<Rightarrow> string \<Rightarrow> ('w, unit) oper" where
  "Api_DeleteJWTRole api a mount nm w =
     (case api_Delete api (ac_c a) (''auth/'' @ mount @ ''/role/'' @ nm) w of
        (Inl err, w') \<Rightarrow>
          if isNotFound err then (Inr (), w')
          else (Inl (Errorf_w (''openbao: delete jwt role '' @ strconv_Quote (api_Print api) nm @
             '' on mount '' @ strconv_Quote (api_Print api) mount) err), w')
      | (Inr _, w') \<Rightarrow> (Inr (), w'))"

definition Api_DeleteAuthMount :: "'w bao_api \<Rightarrow> APIClient \<Rightarrow> string \<Rightarrow> ('w, unit) oper" where
  "Api_DeleteAuthMount api a path w =
     (case api_DisableAuth api (ac_c a) path w of
        (Inl err, w') \<Rightarrow>
          if isNotFound err then (Inr (), w')
          else (Inl (Errorf_w (''openbao: disable auth mount '' @ strconv_Quote (api_Print api) path) err), w')
      | (Inr _, w') \<Rightarrow> (Inr (), w'))"

definition Api_PolicyExists :: "'w bao_api \<Rightarrow> APIClient \<Rightarrow> string \<Rightarrow> ('w, PolicyExistence) oper" where
  "Api_PolicyExists api a nm w =
     (case api_Read api (ac_c a) (''sys/policies/acl/'' @ nm) w of
        (Inl err, w') \<Rightarrow>
          if isNotFound err then (Inr \<lparr>px_Exists = False, px_Known = True\<rparr>, w')
          else if isPermissionDenied err then (Inr \<lparr>px_Exists = False, px_Known = False\<rparr>, w')
          else (Inl (Errorf_w (''openbao: read policy '' @ strconv_Quote (api_Print api) nm) err), w')
      | (Inr resp, w') \<Rightarrow> (Inr \<lparr>px_Exists = resp \<noteq> None, px_Known = True\<rparr>, w'))"

definition api_client :: "'w bao_api \<Rightarrow> APIClient \<Rightarrow> 'w Client" where
  "api_client api a = \<lparr>cl_Health = Api_Health api a, cl_EnsureEntity = Api_EnsureEntity api a,
     cl_EnsureJWTAuthMount = Api_EnsureJWTAuthMount api a,
     cl_ConfigureJWTTrust = Api_ConfigureJWTTrust api a, cl_EnsureJWTRole = Api_EnsureJWTRole api a,
     cl_DeleteJWTRole = Api_DeleteJWTRole api a, cl_DeleteAuthMount = Api_DeleteAuthMount api a,
     cl_PolicyExists = Api_PolicyExists api a\<rparr>"

section \<open>Facts\<close>

lemma put_nonempty_lookup:
  "fmlookup (put_nonempty k v d) k' = (if k' = k \<and> v \<noteq> [] then Some (PStr v) else fmlookup d k')"
  by (simp add: put_nonempty_def)

lemma fmap_of_list_Cons_lookup:
  "fmlookup (fmap_of_list ((k, v) # xs)) k' = (if k' = k then Some v else fmlookup (fmap_of_list xs) k')"
  by (simp add: fmlookup_of_list)

section \<open>Properties\<close>

text \<open>The body of a role write holds the role type (jwt when the role names none), the user claim
  and the token policies always, and audiences, subject, claims and the two lifetimes exactly
  when they are not empty; it holds nothing else.\<close>

theorem role_payload_fields:
  "fmlookup (role_payload role) k =
     (if k = ''role_type'' then Some (PStr (if jr_RoleType role = [] then ''jwt'' else jr_RoleType role))
      else if k = ''user_claim'' then Some (PStr (jr_UserClaim role))
      else if k = ''token_policies'' then Some (PStrs (jr_TokenPolicies role))
      else if k = ''bound_audiences'' \<and> jr_BoundAudiences role \<noteq> [] then
        Some (PStrs (jr_BoundAudiences role))
      else if k = ''bound_subject'' \<and> jr_BoundSubject role \<noteq> [] then Some (PStr (jr_BoundSubject role))
      else if k = ''bound_claims'' \<and> jr_BoundClaims role \<noteq> fmempty then Some (PMap (jr_BoundClaims role))
      else if k = ''token_ttl'' \<and> jr_TokenTTL role \<noteq> [] then Some (PStr (jr_TokenTTL role))
      else if k = ''token_max_ttl'' \<and> jr_TokenMaxTTL role \<noteq> [] then Some (PStr (jr_TokenMaxTTL role))
      else None)"
  by (auto simp: role_payload_def Let_def put_nonempty_lookup fmlookup_of_list)

text \<open>The answer of a policy check: a policy is reported as definitely missing only when the server
  answered 404 or returned nothing, and as definitely present only when it returned the policy;
  a refusal (403) is reported as unknown, and every other failure is an error.\<close>

theorem policy_check_sound:
  "(case Api_PolicyExists api a nm w of (r, w') \<Rightarrow>
     (case api_Read api (ac_c a) (''sys/policies/acl/'' @ nm) w of
        (Inr resp, w'') \<Rightarrow> w'' = w' \<and> r = Inr \<lparr>px_Exists = (resp \<noteq> None), px_Known = True\<rparr>
      | (Inl err, w'') \<Rightarrow> w'' = w' \<and>
          (case err_Response err of
             Some re \<Rightarrow>
               if re_StatusCode re = 404 then r = Inr \<lparr>px_Exists = False, px_Known = True\<rparr>
               else if re_StatusCode re = 403 then r = Inr \<lparr>px_Exists = False, px_Known = False\<rparr>
               else r = Inl (Errorf_w (''openbao: read policy '' @ strconv_Quote (api_Print api) nm) err)
           | None \<Rightarrow> r = Inl (Errorf_w (''openbao: read policy '' @ strconv_Quote (api_Print api) nm) err))))"
  by (auto simp: Api_PolicyExists_def isNotFound_def isPermissionDenied_def split: sum.splits prod.splits option.splits)

text \<open>Deletes are idempotent and mounting tolerates an existing mount: deleting a role or a mount
  fails only if the server's error is not a 404, and enabling the mount fails only if the
  error does not say that the path is already in use.\<close>

theorem deletes_idempotent:
  "((\<exists>e. fst (Api_DeleteJWTRole api a m n w) = Inl e) \<longleftrightarrow>
      (\<exists>e. fst (api_Delete api (ac_c a) (''auth/'' @ m @ ''/role/'' @ n) w) = Inl e \<and> \<not> isNotFound e)) \<and>
   ((\<exists>e. fst (Api_DeleteAuthMount api a m w) = Inl e) \<longleftrightarrow>
      (\<exists>e. fst (api_DisableAuth api (ac_c a) m w) = Inl e \<and> \<not> isNotFound e)) \<and>
   ((\<exists>e. fst (Api_EnsureJWTAuthMount api a m w) = Inl e) \<longleftrightarrow>
      (\<exists>e. fst (api_EnableAuth api (ac_c a) m ''jwt'' w) = Inl e \<and> \<not> isPathAlreadyInUse e))"
  by (auto simp: Api_DeleteJWTRole_def Api_DeleteAuthMount_def Api_EnsureJWTAuthMount_def
      split: sum.splits prod.splits)

end
