(* ===== verification/Duration.thy ===== *)
theory Duration
  imports ApiTypes "HOL-Library.Word"
begin

text \<open>
  \<open>time.ParseDuration\<close> of Go's standard library, which \<open>ServiceConfigSpec.Validate\<close>
  and \<open>resolveRequeue\<close> both call on \<open>spec.requeueAfter\<close>. The accumulators are the
  machine words of the Go code, so its wrap-around is the model's; the fraction is computed
  in \<open>float64\<close>, modelled by rationals rounded to 53 bits after each operation. A
  duration is a count of nanoseconds.
\<close>

type_synonym duration = int

definition time_Minute :: duration where "time_Minute = 60000000000"

section \<open>Digits\<close>

definition digit_value :: "char \<Rightarrow> 64 word option" where
  "digit_value = map_of (zip ''0123456789'' [0, 1, 2, 3, 4, 5, 6, 7, 8, 9])"

definition is_digit :: "char \<Rightarrow> bool" where
  "is_digit c \<longleftrightarrow> c \<in> set ''0123456789''"

fun leadingInt :: "64 word \<Rightarrow> string \<Rightarrow> (64 word \<times> string) option" where
  "leadingInt x [] = Some (x, [])"
| "leadingInt x (c # s) =
     (case digit_value c of
        None \<Rightarrow> Some (x, c # s)
      | Some v \<Rightarrow>
        if x > 2 ^ 63 div 10 then None
        else if x * 10 + v > 2 ^ 63 then None
        else leadingInt (x * 10 + v) s)"

section \<open>Rounding to float64\<close>

fun bit_count :: "nat \<Rightarrow> nat" where
  "bit_count n = (if n = 0 then 0 else Suc (bit_count (n div 2)))"

declare bit_count.simps [simp del]

text \<open>
  \<open>fl64 (a, b)\<close> is the rational \<open>a / b\<close> rounded to a significand of 53 bits, ties to
  even. No bound on the exponent is modelled: a value that Go would hold as a subnormal or
  an infinity only ever enters a product that is below one, and truncates to zero both ways.
\<close>

type_synonym rational = "nat \<times> nat"

definition round_shift :: "nat \<Rightarrow> nat \<Rightarrow> nat" where
  "round_shift a b =
     (let q = a div b; r = a mod b
      in if 2 * r > b \<or> (2 * r = b \<and> odd q) then q + 1 else q)"

definition fl64 :: "rational \<Rightarrow> rational" where
  "fl64 = (\<lambda>(a, b).
     if a = 0 then (0, 1)
     else
       let k = 53 + int (bit_count b) - int (bit_count a);
           k = (if a * 2 ^ nat k \<ge> b * 2 ^ nat (- k) * 2 ^ 53 then k - 1 else k)
       in (round_shift (a * 2 ^ nat k) (b * 2 ^ nat (- k)) * 2 ^ nat (- k), 2 ^ nat k))"

definition fl64_mul :: "rational \<Rightarrow> rational \<Rightarrow> rational" where
  "fl64_mul x y = fl64 (fst x * fst y, snd x * snd y)"

definition fl64_div :: "rational \<Rightarrow> rational \<Rightarrow> rational" where
  "fl64_div x y = fl64 (fst x * snd y, snd x * fst y)"

definition fl64_trunc :: "rational \<Rightarrow> 64 word" where
  "fl64_trunc x = of_nat (fst x div snd x)"

fun leadingFraction :: "64 word \<Rightarrow> rational \<Rightarrow> bool \<Rightarrow> string \<Rightarrow> 64 word \<times> rational \<times> string" where
  "leadingFraction x scale ovf [] = (x, scale, [])"
| "leadingFraction x scale ovf (c # s) =
     (case digit_value c of
        None \<Rightarrow> (x, scale, c # s)
      | Some v \<Rightarrow>
        if ovf then leadingFraction x scale ovf s
        else if x > (2 ^ 63 - 1) div 10 then leadingFraction x scale True s
        else if x * 10 + v > 2 ^ 63 then leadingFraction x scale True s
        else leadingFraction (x * 10 + v) (fl64_mul scale (10, 1)) ovf s)"

section \<open>Units and errors\<close>

definition unitMap :: "(string \<times> 64 word) list" where
  "unitMap = [(''ns'', 1), (''us'', 1000), ([CHR 0xC2, CHR 0xB5, CHR ''s''], 1000),
     ([CHR 0xCE, CHR 0xBC, CHR ''s''], 1000), (''ms'', 1000000), (''s'', 1000000000),
     (''m'', 60000000000), (''h'', 3600000000000)]"

definition quote_byte :: "char \<Rightarrow> string" where
  "quote_byte c =
     (let n = of_char c :: nat
      in if n \<ge> 0x80 \<or> n < 0x20 then CHR 0x5C # CHR ''x'' # hex_fixed 2 n
         else if n = 0x22 \<or> n = 0x5C then [CHR 0x5C, c]
         else [c])"

definition time_quote :: "string \<Rightarrow> string" where
  "time_quote s = CHR 0x22 # concat (map quote_byte s) @ [CHR 0x22]"

definition invalid_duration :: "string \<Rightarrow> goerr" where
  "invalid_duration orig = errors_New (''time: invalid duration '' @ time_quote orig)"

definition unit_boundary :: "char \<Rightarrow> bool" where
  "unit_boundary c \<longleftrightarrow> c = CHR ''.'' \<or> is_digit c"

section \<open>The parser\<close>

text \<open>One number with its unit: the word to add and the text that is left.\<close>

definition duration_item :: "string \<Rightarrow> string \<Rightarrow> goerr + 64 word \<times> string" where
  "duration_item orig s =
     (if s = [] \<or> \<not> unit_boundary (hd s) then Inl (invalid_duration orig)
      else case leadingInt 0 s of
          None \<Rightarrow> Inl (invalid_duration orig)
        | Some (v, s1) \<Rightarrow>
          let pre = (length s \<noteq> length s1);
              (f, scale, s2, post) =
                (if s1 \<noteq> [] \<and> hd s1 = CHR ''.'' then
                   case leadingFraction 0 (1, 1) False (tl s1) of
                     (f, scale, s2) \<Rightarrow> (f, scale, s2, length (tl s1) \<noteq> length s2)
                 else (0, (1, 1), s1, False))
          in if \<not> pre \<and> \<not> post then Inl (invalid_duration orig)
             else
               let u = takeWhile (\<lambda>c. \<not> unit_boundary c) s2;
                   s3 = dropWhile (\<lambda>c. \<not> unit_boundary c) s2
               in if u = [] then Inl (errors_New (''time: missing unit in duration '' @ time_quote orig))
                  else case map_of unitMap u of
                      None \<Rightarrow> Inl (errors_New (''time: unknown unit '' @ time_quote u @
                                 '' in duration '' @ time_quote orig))
                    | Some unit \<Rightarrow>
                      if v > 2 ^ 63 div unit then Inl (invalid_duration orig)
                      else
                        let v = v * unit;
                            frac = fl64_trunc (fl64_mul (fl64 (unat f, 1)) (fl64_div (unat unit, 1) scale))
                        in if f > 0 \<and> v + frac > 2 ^ 63 then Inl (invalid_duration orig)
                           else Inr (if f > 0 then v + frac else v, s3))"

lemma length_leadingInt: "leadingInt x s = Some (v, s') \<Longrightarrow> length s' \<le> length s"
  by (induction s arbitrary: x) (auto split: option.splits if_splits dest: le_SucI)

lemma length_leadingFraction: "leadingFraction x sc b s = (f, sc', s') \<Longrightarrow> length s' \<le> length s"
proof (induction x sc b s rule: leadingFraction.induct)
  case (2 x scale ovf c s)
  then show ?case by (auto split: option.splits if_splits dest: le_SucI)
qed simp

lemma takeWhile_Nil_length: "takeWhile P s \<noteq> [] \<Longrightarrow> length (dropWhile P s) < length s"
  by (cases s) (auto simp: length_dropWhile_less_Suc split: if_splits)

lemma duration_item_shorter:
  assumes "duration_item orig s = Inr (v, s')"
  shows "length s' < length s"
  using assms unfolding duration_item_def
  by (auto simp: Let_def split: if_splits option.splits prod.splits
      dest!: length_leadingInt length_leadingFraction takeWhile_Nil_length)

function duration_loop :: "string \<Rightarrow> 64 word \<Rightarrow> string \<Rightarrow> goerr + 64 word" where
  "duration_loop orig d s =
     (if s = [] then Inr d
      else case duration_item orig s of
          Inl e \<Rightarrow> Inl e
        | Inr (v, s') \<Rightarrow>
          if d + v > 2 ^ 63 then Inl (invalid_duration orig)
          else duration_loop orig (d + v) s')"
  by pat_completeness auto
termination
  by (relation "measure (\<lambda>(orig, d, s). length s)") (auto simp: duration_item_shorter)

declare duration_loop.simps [simp del]

definition time_ParseDuration :: "string \<Rightarrow> goerr + duration" where
  "time_ParseDuration orig =
     (let neg = (orig \<noteq> [] \<and> hd orig = CHR ''-'');
          s = (if orig \<noteq> [] \<and> hd orig \<in> {CHR ''-'', CHR ''+''} then tl orig else orig)
      in if s = ''0'' then Inr 0
         else if s = [] then Inl (invalid_duration orig)
         else case duration_loop orig 0 s of
             Inl e \<Rightarrow> Inl e
           | Inr d \<Rightarrow>
             if neg then Inr (sint (- d))
             else if d > 2 ^ 63 - 1 then Inl (invalid_duration orig)
             else Inr (sint d))"

end
