(* ===== verification/Env.thy ===== *)
theory Env
  imports BaoClient ApiClient Duration "HOL-Library.Monad_Syntax"
begin

text \<open>
  Everything outside the repository that its controllers call, as parameters: the
  Kubernetes clients of the two clusters (\<open>Cluster\<close>), the client-go clientset, the
  pure helpers of apimachinery and controller-runtime (\<open>klib\<close>), the process environment
  and the OpenMCP access manager (\<open>env\<close>). Each call that reaches a server is logged with
  its arguments and its answer, so the log of a run is the full account of its input and
  output. \<open>Update\<close> answers with the object as the server returned it, because the client
  decodes the response into the caller's object.
\<close>

section \<open>Types of the libraries\<close>

record PolicyRule =
  rule_APIGroups :: "string list"
  rule_Resources :: "string list"
  rule_Verbs :: "string list"

record PermissionsRequest =
  pr_Namespace :: string
  pr_DisableAutomaticNamespaceCreation :: bool
  pr_Rules :: "PolicyRule list"

record TokenRequestSpec =
  trs_Audiences :: "string list"
  trs_ExpirationSeconds :: int

record AccessArgs =
  aa_ProviderName :: string
  aa_ProviderNamespace :: string
  aa_Interval :: duration
  aa_Timeout :: duration
  aa_LocalName :: string
  aa_RefName :: string
  aa_RefNamespace :: string
  aa_Permissions :: "PermissionsRequest list"

text \<open>\<open>ctrl.Result\<close>, of which the program sets one field.\<close>

record Result =
  RequeueAfter :: duration

definition Result0 :: Result where
  "Result0 = \<lparr>RequeueAfter = 0\<rparr>"

section \<open>Clients\<close>

record 'w clientset =
  cs_GetServiceAccount :: "string \<Rightarrow> string \<Rightarrow> ('w, unit) oper"
  cs_CreateToken :: "string \<Rightarrow> string \<Rightarrow> TokenRequestSpec \<Rightarrow> ('w, string) oper"

text \<open>
  \<open>clusters.Cluster\<close>: the typed calls the program makes on its client, and the outcome
  of building a clientset from its REST config. A list call names the namespace or lists
  across namespaces.
\<close>

record 'w Cluster =
  kc_GetOpenBaoInstance :: "string \<Rightarrow> string \<Rightarrow> ('w, OpenBaoInstance) oper"
  kc_GetServiceConfig :: "string \<Rightarrow> string \<Rightarrow> ('w, ServiceConfig) oper"
  kc_GetProjectEntity :: "string \<Rightarrow> string \<Rightarrow> ('w, ProjectEntity) oper"
  kc_GetControlPlaneTrust :: "string \<Rightarrow> string \<Rightarrow> ('w, ControlPlaneTrust) oper"
  kc_GetControlPlaneEntity :: "string \<Rightarrow> string \<Rightarrow> ('w, ControlPlaneEntity) oper"
  kc_GetPolicyBinding :: "string \<Rightarrow> string \<Rightarrow> ('w, PolicyBinding) oper"
  kc_GetControlPlane :: "string \<Rightarrow> string \<Rightarrow> ('w, ControlPlane) oper"
  kc_GetSecret :: "string \<Rightarrow> string \<Rightarrow> ('w, (string, string) fmap) oper"
  kc_ListControlPlaneTrusts :: "string option \<Rightarrow> ('w, ControlPlaneTrust list) oper"
  kc_ListControlPlaneEntities :: "string option \<Rightarrow> ('w, ControlPlaneEntity list) oper"
  kc_ListPolicyBindings :: "string option \<Rightarrow> ('w, PolicyBinding list) oper"
  kc_UpdateControlPlaneTrust :: "ControlPlaneTrust \<Rightarrow> ('w, ControlPlaneTrust) oper"
  kc_UpdatePolicyBinding :: "PolicyBinding \<Rightarrow> ('w, PolicyBinding) oper"
  kc_StatusOpenBaoInstance :: "OpenBaoInstance \<Rightarrow> ('w, unit) oper"
  kc_StatusProjectEntity :: "ProjectEntity \<Rightarrow> ('w, unit) oper"
  kc_StatusControlPlaneTrust :: "ControlPlaneTrust \<Rightarrow> ('w, unit) oper"
  kc_StatusControlPlaneEntity :: "ControlPlaneEntity \<Rightarrow> ('w, unit) oper"
  kc_StatusPolicyBinding :: "PolicyBinding \<Rightarrow> ('w, unit) oper"
  kc_NewForConfig :: "goerr + 'w clientset"

section \<open>Pure helpers of the libraries\<close>

text \<open>
  \<open>k_AddFinalizer f fs\<close> is the finalizer list after \<open>controllerutil.AddFinalizer\<close>
  and whether it changed; \<open>k_Now\<close> is the clock as a pass reads it.
\<close>

record klib =
  k_SetStatusCondition :: "Condition list \<Rightarrow> Condition \<Rightarrow> Condition list"
  k_FindStatusCondition :: "Condition list \<Rightarrow> string \<Rightarrow> Condition option"
  k_AddFinalizer :: "string \<Rightarrow> string list \<Rightarrow> string list \<times> bool"
  k_RemoveFinalizer :: "string \<Rightarrow> string list \<Rightarrow> string list \<times> bool"
  k_Now :: time
  k_Print :: "nat \<Rightarrow> bool"
  k_KeyString :: "string \<Rightarrow> string \<Rightarrow> string"
  k_JSONError :: "string \<Rightarrow> goerr"
  k_StableMCPNamespace :: "string \<Rightarrow> string \<Rightarrow> goerr + string"
  k_EnvVariablePodNamespace :: string
  k_EnvVariablePodServiceAccountName :: string

text \<open>
  The documented behaviour of these helpers: \<open>SetStatusCondition\<close> stores the condition
  under its type, replacing one that is there (the transition time it keeps when the status
  is unchanged), and leaves the others; a finalizer is added once and removed wherever it
  stands.
\<close>

definition same_condition :: "Condition \<Rightarrow> Condition \<Rightarrow> bool" where
  "same_condition a b \<longleftrightarrow> c_Type a = c_Type b \<and> c_Status a = c_Status b \<and>
     c_ObservedGeneration a = c_ObservedGeneration b \<and> c_Reason a = c_Reason b \<and>
     c_Message a = c_Message b"

definition lawful_conditions :: "klib \<Rightarrow> bool" where
  "lawful_conditions k \<longleftrightarrow>
     (\<forall>cs c t. case k_FindStatusCondition k (k_SetStatusCondition k cs c) t of
        None \<Rightarrow> t \<noteq> c_Type c \<and> k_FindStatusCondition k cs t = None
      | Some d \<Rightarrow> if t = c_Type c then same_condition d c
                  else k_FindStatusCondition k cs t = Some d)"

definition lawful_finalizers :: "klib \<Rightarrow> bool" where
  "lawful_finalizers k \<longleftrightarrow>
     (\<forall>f fs. k_AddFinalizer k f fs = (if f \<in> set fs then (fs, False) else (fs @ [f], True)) \<and>
             k_RemoveFinalizer k f fs = (removeAll f fs, f \<in> set fs))"

record 'w env =
  env_Getenv :: "string \<Rightarrow> string"
  env_AddToScheme :: "goerr option"
  env_WaitForClusterAccess :: "AccessArgs \<Rightarrow> ('w, 'w Cluster) oper"
  env_bao :: "'w bao_api"

section \<open>The log\<close>

datatype event =
    GotOpenBaoInstance string "goerr + OpenBaoInstance option"
  | GotServiceConfig string "goerr + ServiceConfig"
  | GotProjectEntity string string "goerr + ProjectEntity"
  | GotControlPlaneTrust string string "goerr + ControlPlaneTrust"
  | GotControlPlaneEntity string string "goerr + ControlPlaneEntity"
  | GotPolicyBinding string string "goerr + PolicyBinding"
  | GotControlPlane string string "goerr + ControlPlane option"
  | ListedControlPlaneTrusts "string option" "goerr + ControlPlaneTrust list"
  | UpdatedControlPlaneTrust ControlPlaneTrust "goerr + ControlPlaneTrust"
  | UpdatedPolicyBinding PolicyBinding "goerr + PolicyBinding"
  | StatusOpenBaoInstance OpenBaoInstance "goerr + unit"
  | StatusProjectEntity ProjectEntity "goerr + unit"
  | StatusControlPlaneTrust ControlPlaneTrust "goerr + unit"
  | StatusControlPlaneEntity ControlPlaneEntity "goerr + unit"
  | StatusPolicyBinding PolicyBinding "goerr + unit"
  | BuiltClient OpenBaoInstance "goerr option"
  | BaoHealth OpenBaoInstance "goerr + HealthInfo"
  | BaoEnsureEntity OpenBaoInstance string "(string, string) fmap" "goerr + string"
  | BaoEnsureMount OpenBaoInstance string "goerr + unit"
  | BaoConfigure OpenBaoInstance string JWTAuthConfig "goerr + unit"
  | BaoEnsureRole OpenBaoInstance string JWTRole "goerr + unit"
  | BaoDeleteRole OpenBaoInstance string string "goerr + unit"
  | BaoDeleteMount OpenBaoInstance string "goerr + unit"
  | BaoPolicyExists OpenBaoInstance string "goerr + PolicyExistence"
  | ClusterAccess AccessArgs "goerr option"
  | GotServiceAccount string string "goerr + unit"
  | CreatedToken string string TokenRequestSpec "goerr option"

type_synonym ('w, 'a) action = "('w, event, 'a) prog"

definition error_of :: "'e + 'a \<Rightarrow> 'e option" where
  "error_of r = (case r of Inl e \<Rightarrow> Some e | Inr _ \<Rightarrow> None)"

lemma error_of_simps [simp]: "error_of (Inl e) = Some e" "error_of (Inr a) = None"
  by (simp_all add: error_of_def)

lemma error_of_None_iff: "error_of r = None \<longleftrightarrow> (\<exists>a. r = Inr a)"
  by (cases r) simp_all

text \<open>The reads and writes of the controllers, as logged calls.\<close>

abbreviation get_project_entity ::
    "'w Cluster \<Rightarrow> string \<Rightarrow> string \<Rightarrow> ('w, goerr + ProjectEntity) action" where
  "get_project_entity c ns nm \<equiv> call (kc_GetProjectEntity c ns nm) (\<lambda>r. [GotProjectEntity ns nm r])"

abbreviation get_trust ::
    "'w Cluster \<Rightarrow> string \<Rightarrow> string \<Rightarrow> ('w, goerr + ControlPlaneTrust) action" where
  "get_trust c ns nm \<equiv>
     call (kc_GetControlPlaneTrust c ns nm) (\<lambda>r. [GotControlPlaneTrust ns nm r])"

abbreviation get_entity ::
    "'w Cluster \<Rightarrow> string \<Rightarrow> string \<Rightarrow> ('w, goerr + ControlPlaneEntity) action" where
  "get_entity c ns nm \<equiv>
     call (kc_GetControlPlaneEntity c ns nm) (\<lambda>r. [GotControlPlaneEntity ns nm r])"

abbreviation get_binding ::
    "'w Cluster \<Rightarrow> string \<Rightarrow> string \<Rightarrow> ('w, goerr + PolicyBinding) action" where
  "get_binding c ns nm \<equiv> call (kc_GetPolicyBinding c ns nm) (\<lambda>r. [GotPolicyBinding ns nm r])"

section \<open>Reading a log\<close>

text \<open>Calls that create or change an object in OpenBao, and those that remove one.\<close>

definition bao_provision :: "event \<Rightarrow> bool" where
  "bao_provision e = (case e of
     BaoEnsureEntity _ _ _ _ \<Rightarrow> True | BaoEnsureMount _ _ _ \<Rightarrow> True
   | BaoConfigure _ _ _ _ \<Rightarrow> True | BaoEnsureRole _ _ _ _ \<Rightarrow> True | _ \<Rightarrow> False)"

definition bao_removal :: "event \<Rightarrow> bool" where
  "bao_removal e = (case e of
     BaoDeleteRole _ _ _ _ \<Rightarrow> True | BaoDeleteMount _ _ _ \<Rightarrow> True | _ \<Rightarrow> False)"

definition bao_call :: "event \<Rightarrow> bool" where
  "bao_call e \<longleftrightarrow> bao_provision e \<or> bao_removal e \<or>
     (case e of BaoHealth _ _ \<Rightarrow> True | BaoPolicyExists _ _ _ \<Rightarrow> True | _ \<Rightarrow> False)"

definition deleting :: "ObjectMeta \<Rightarrow> bool" where
  "deleting m \<longleftrightarrow> \<not> time_IsZero (om_DeletionTimestamp m)"

lemmas log_defs = bao_provision_def bao_removal_def bao_call_def deleting_def

end
