(* ===== verification/Sha256.thy ===== *)
theory Sha256
  imports GoText "HOL-Library.Word"
begin

text \<open>
  Packages \<open>crypto/sha256\<close> and \<open>encoding/hex\<close>, as \<open>naming.go\<close> and
  \<open>controlplane_access.go\<close> use them: \<open>sha256.Sum256\<close> of a byte sequence (FIPS 180-4)
  and \<open>hex.EncodeToString\<close> of the digest. Words are 32 bits wide and their addition
  wraps, as in Go's \<open>uint32\<close>.
\<close>

unbundle bit_operations_syntax

section \<open>SHA-256\<close>

text \<open>
  The constants are what the standard derives them from: the first 32 bits of the fractional
  parts of the square roots of the first eight primes and of the cube roots of the first
  64. \<open>root_bits e n i r\<close> extends the root \<open>r\<close> of \<open>n\<close> by its \<open>i\<close> lower bits.
\<close>

fun root_bits :: "nat \<Rightarrow> nat \<Rightarrow> nat \<Rightarrow> nat \<Rightarrow> nat" where
  "root_bits e n 0 r = r"
| "root_bits e n (Suc i) r = root_bits e n i (if (r + 2 ^ i) ^ e \<le> n then r + 2 ^ i else r)"

definition small_primes :: "nat list" where
  "small_primes = filter (\<lambda>p. list_all (\<lambda>d. p mod d \<noteq> 0) [2..<p]) [2..<312]"

definition root_fraction :: "nat \<Rightarrow> nat \<Rightarrow> 32 word" where
  "root_fraction e p = of_nat (root_bits e (p * 2 ^ (32 * e)) 37 0)"

definition sha_K :: "32 word list" where
  "sha_K = map (root_fraction 3) small_primes"

definition sha_H0 :: "32 word list" where
  "sha_H0 = map (root_fraction 2) [2, 3, 5, 7, 11, 13, 17, 19]"

definition sha_Ch :: "32 word \<Rightarrow> 32 word \<Rightarrow> 32 word \<Rightarrow> 32 word" where
  "sha_Ch x y z = (x AND y) XOR (NOT x AND z)"

definition sha_Maj :: "32 word \<Rightarrow> 32 word \<Rightarrow> 32 word \<Rightarrow> 32 word" where
  "sha_Maj x y z = (x AND y) XOR (x AND z) XOR (y AND z)"

definition rotr :: "nat \<Rightarrow> 32 word \<Rightarrow> 32 word" where
  "rotr n x = drop_bit n x OR push_bit (32 - n) x"

definition big_sigma0 :: "32 word \<Rightarrow> 32 word" where
  "big_sigma0 x = rotr 2 x XOR rotr 13 x XOR rotr 22 x"

definition big_sigma1 :: "32 word \<Rightarrow> 32 word" where
  "big_sigma1 x = rotr 6 x XOR rotr 11 x XOR rotr 25 x"

definition small_sigma0 :: "32 word \<Rightarrow> 32 word" where
  "small_sigma0 x = rotr 7 x XOR rotr 18 x XOR drop_bit 3 x"

definition small_sigma1 :: "32 word \<Rightarrow> 32 word" where
  "small_sigma1 x = rotr 17 x XOR rotr 19 x XOR drop_bit 10 x"

text \<open>Padding to a multiple of 64 bytes, with the bit length in the last eight.\<close>

definition be_bytes :: "nat \<Rightarrow> nat \<Rightarrow> nat list" where
  "be_bytes k n = map (\<lambda>i. n div 256 ^ (k - 1 - i) mod 256) [0..<k]"

definition sha_pad :: "nat list \<Rightarrow> nat list" where
  "sha_pad bs = bs @ [128] @ replicate ((119 - length bs mod 64) mod 64) 0 @ be_bytes 8 (8 * length bs)"

fun be_words :: "nat list \<Rightarrow> 32 word list" where
  "be_words (a # b # c # d # bs) =
     of_nat (a * 16777216 + b * 65536 + c * 256 + d) # be_words bs"
| "be_words bs = []"

text \<open>The message schedule, newest word first.\<close>

fun sha_extend :: "nat \<Rightarrow> 32 word list \<Rightarrow> 32 word list" where
  "sha_extend 0 ws = ws"
| "sha_extend (Suc k) ws =
     sha_extend k ((small_sigma1 (ws ! 1) + ws ! 6 + small_sigma0 (ws ! 14) + ws ! 15) # ws)"

definition sha_schedule :: "32 word list \<Rightarrow> 32 word list" where
  "sha_schedule block = rev (sha_extend 48 (rev block))"

fun sha_round :: "32 word \<times> 32 word \<Rightarrow> 32 word list \<Rightarrow> 32 word list" where
  "sha_round (k, w) [a, b, c, d, e, f, g, h] =
     (let t1 = h + big_sigma1 e + sha_Ch e f g + k + w;
          t2 = big_sigma0 a + sha_Maj a b c
      in [t1 + t2, a, b, c, d + t1, e, f, g])"
| "sha_round _ hs = hs"

definition sha_compress :: "32 word list \<Rightarrow> 32 word list \<Rightarrow> 32 word list" where
  "sha_compress hs block = map2 (+) hs (fold sha_round (zip sha_K (sha_schedule block)) hs)"

function sha_blocks :: "32 word list \<Rightarrow> 32 word list \<Rightarrow> 32 word list" where
  "sha_blocks hs ws = (if ws = [] then hs else sha_blocks (sha_compress hs (take 16 ws)) (drop 16 ws))"
  by pat_completeness auto
termination
  by (relation "measure (\<lambda>(hs, ws). length ws)") auto

declare sha_blocks.simps [simp del]

definition sha_bytes :: "32 word list \<Rightarrow> nat list" where
  "sha_bytes hs = concat (map (\<lambda>w. be_bytes 4 (unat w)) hs)"

definition sha256_Sum256 :: "string \<Rightarrow> nat list" where
  "sha256_Sum256 s = sha_bytes (sha_blocks sha_H0 (be_words (sha_pad (map of_char s))))"

definition hex_EncodeToString :: "nat list \<Rightarrow> string" where
  "hex_EncodeToString bs = concat (map (hex_fixed 2) bs)"

section \<open>Shape of a digest\<close>

lemma length_be_bytes [simp]: "length (be_bytes k n) = k"
  by (simp add: be_bytes_def)

lemma length_sha_round [simp]: "length (sha_round kw hs) = length hs"
  by (induction kw hs rule: sha_round.induct) (auto simp: Let_def)

lemma length_sha_rounds [simp]: "length (fold sha_round kws hs) = length hs"
  by (induction kws arbitrary: hs) auto

lemma length_sha_compress [simp]: "length (sha_compress hs block) = length hs"
  by (simp add: sha_compress_def)

lemma length_sha_blocks [simp]: "length (sha_blocks hs ws) = length hs"
proof (induction hs ws rule: sha_blocks.induct)
  case (1 hs ws)
  then show ?case by (simp add: sha_blocks.simps [of hs ws])
qed

lemma length_concat_const: "(\<And>x. x \<in> set xs \<Longrightarrow> length (f x) = n) \<Longrightarrow> length (concat (map f xs)) = n * length xs"
  by (induction xs) auto

lemma length_sha256 [simp]: "length (sha256_Sum256 s) = 32"
  by (simp add: sha256_Sum256_def sha_bytes_def length_concat_const [where n = 4] sha_H0_def)

lemma length_hex_EncodeToString [simp]: "length (hex_EncodeToString bs) = 2 * length bs"
  by (simp add: hex_EncodeToString_def length_concat_const [where n = 2])

definition lower_hex :: "char set" where
  "lower_hex = set ''0123456789abcdef''"

lemma hex_digit_lower: "hex_digit n \<in> lower_hex"
  unfolding hex_digit_def lower_hex_def by (rule nth_mem) simp

lemma set_hex_fixed: "set (hex_fixed k n) \<subseteq> lower_hex"
  by (induction k arbitrary: n) (auto simp: hex_digit_lower)

lemma set_hex_EncodeToString: "set (hex_EncodeToString bs) \<subseteq> lower_hex"
  using set_hex_fixed by (fastforce simp: hex_EncodeToString_def)

end
