(* ===== verification/Naming.thy ===== *)
theory Naming
  imports Sha256
begin

text \<open>
  \<open>internal/openbao/naming.go\<close>: the deterministic names of the OpenBao objects the
  service owns. The lemmas give the shape of every generated name (alphabet, length, no
  dash at either end), determine exactly when two inputs share a name, and show how far
  the hash suffix separates them.
\<close>

section \<open>Definitions\<close>

definition authMountMax :: nat where "authMountMax = 60"
definition roleNameMax :: nat where "roleNameMax = 60"
definition entityNameMax :: nat where "entityNameMax = 60"
definition hashSuffixLen :: nat where "hashSuffixLen = 10"

lemmas name_bounds = authMountMax_def roleNameMax_def entityNameMax_def hashSuffixLen_def

text \<open>\<open>sanitizeRE\<close> matches runs of characters outside \<open>[a-z0-9-]\<close>.\<close>

definition legal_char :: "char \<Rightarrow> bool" where
  "legal_char c \<longleftrightarrow> c \<in> set ''abcdefghijklmnopqrstuvwxyz0123456789-''"

text \<open>\<open>ReplaceAllString\<close>: each maximal run of illegal characters becomes one dash.\<close>

fun replace_illegal :: "string \<Rightarrow> string" where
  "replace_illegal [] = []"
| "replace_illegal (c # s) =
     (if legal_char c then c # replace_illegal s
      else CHR ''-'' # replace_illegal (dropWhile (\<lambda>d. \<not> legal_char d) s))"

definition sanitize :: "string \<Rightarrow> string" where
  "sanitize s = strings_Trim (replace_illegal (strings_ToLower s)) ''-''"

definition hash_suffix :: "string \<Rightarrow> string" where
  "hash_suffix full = take hashSuffixLen (hex_EncodeToString (sha256_Sum256 full))"

definition truncateWithHash :: "string \<Rightarrow> nat \<Rightarrow> string" where
  "truncateWithHash full maxLen =
     (let suffix = hash_suffix full;
          room = int maxLen - int hashSuffixLen - 1
      in if room < 1 then suffix
         else
           let head = (if int (length full) > room then take (nat room) full else full);
               head = strings_Trim head ''-''
           in if head = [] then suffix else head @ ''-'' @ suffix)"

definition mount_full :: "string \<Rightarrow> string \<Rightarrow> string \<Rightarrow> string" where
  "mount_full pre namespace controlPlane =
     (let head = sanitize pre;
          tail = sanitize (namespace @ ''-'' @ controlPlane)
      in if head \<noteq> [] then head @ ''-'' @ tail else tail)"

definition AuthMountPath :: "string \<Rightarrow> string \<Rightarrow> string \<Rightarrow> string" where
  "AuthMountPath pre namespace controlPlane =
     truncateWithHash (mount_full pre namespace controlPlane) authMountMax"

definition RoleName :: "string \<Rightarrow> string \<Rightarrow> string" where
  "RoleName namespace policyBindingName =
     (let full = sanitize (namespace @ ''-'' @ policyBindingName)
      in truncateWithHash full roleNameMax)"

definition EntityName :: "string \<Rightarrow> string \<Rightarrow> string" where
  "EntityName namespace projectEntityName =
     (let full = sanitize (''openbao-'' @ namespace @ ''-'' @ projectEntityName)
      in truncateWithHash full entityNameMax)"

section \<open>Alphabet of sanitized text\<close>

definition segment_text :: "string \<Rightarrow> bool" where
  "segment_text s \<longleftrightarrow> (\<forall>c \<in> set s. legal_char c) \<and>
     (s \<noteq> [] \<longrightarrow> hd s \<noteq> CHR ''-'' \<and> last s \<noteq> CHR ''-'')"

lemma legal_dash [simp]: "legal_char CHR ''-''"
  by (simp add: legal_char_def)

lemma replace_illegal_legal: "c \<in> set (replace_illegal s) \<Longrightarrow> legal_char c"
  by (induction s rule: replace_illegal.induct) (auto split: if_splits)

lemma replace_illegal_id: "(\<forall>c \<in> set s. legal_char c) \<Longrightarrow> replace_illegal s = s"
  by (induction s) auto

lemma length_replace_illegal: "length (replace_illegal s) \<le> length s"
proof (induction s rule: replace_illegal.induct)
  case (2 c s)
  then show ?case
    using length_dropWhile_le_length [of "\<lambda>d. \<not> legal_char d" s] by auto
qed simp

lemma segment_text_trim:
  assumes "\<forall>c \<in> set s. legal_char c"
  shows "segment_text (strings_Trim s ''-'')"
  using assms set_trim_set_subset [of "{CHR ''-''}" s]
    hd_trim_set [of "{CHR ''-''}" s] last_trim_set [of "{CHR ''-''}" s]
  by (auto simp: segment_text_def strings_Trim_def)

lemma segment_text_sanitize: "segment_text (sanitize s)"
  unfolding sanitize_def by (rule segment_text_trim) (auto intro: replace_illegal_legal)

lemma upper_not_legal: "\<forall>c \<in> set ''ABCDEFGHIJKLMNOPQRSTUVWXYZ''. \<not> legal_char c"
  by (simp add: legal_char_def)

lemma byte_lower_legal: "legal_char c \<Longrightarrow> byte_lower c = c"
proof -
  assume "legal_char c"
  then have "c \<notin> set ''ABCDEFGHIJKLMNOPQRSTUVWXYZ''" using upper_not_legal by blast
  then have "map_of (zip ''ABCDEFGHIJKLMNOPQRSTUVWXYZ'' ''abcdefghijklmnopqrstuvwxyz'') c = None"
    by (subst map_of_zip_is_None) simp_all
  then show ?thesis by (simp only: byte_lower_def option.case)
qed

lemma ToLower_legal: "(\<forall>c \<in> set s. legal_char c) \<Longrightarrow> strings_ToLower s = s"
proof (induction s)
  case (Cons c s)
  then have "legal_char c" by simp
  moreover have "\<not> legal_char CHR 0xC4" "\<not> legal_char CHR 0xE2" by (simp_all add: legal_char_def)
  ultimately have "c \<noteq> CHR 0xC4" "c \<noteq> CHR 0xE2" by auto
  with Cons show ?case by (simp add: byte_lower_legal)
qed simp

lemma sanitize_segment: "segment_text s \<Longrightarrow> sanitize s = s"
  by (cases "s = []")
     (auto simp: sanitize_def segment_text_def ToLower_legal replace_illegal_id strings_Trim_def
       intro!: trim_set_id)

section \<open>Shape of the truncated name\<close>

lemma length_hash_suffix [simp]: "length (hash_suffix full) = hashSuffixLen"
  by (simp add: hash_suffix_def hashSuffixLen_def)

lemma hash_suffix_not_Nil [simp]: "hash_suffix full \<noteq> []"
  using length_hash_suffix [of full] unfolding hashSuffixLen_def
  by (metis list.size(3) zero_neq_numeral)

lemma set_hash_suffix: "set (hash_suffix full) \<subseteq> lower_hex"
  using set_hex_EncodeToString set_take_subset unfolding hash_suffix_def by fastforce

lemma lower_hex_legal: "c \<in> lower_hex \<Longrightarrow> legal_char c \<and> c \<noteq> CHR ''-''"
proof -
  have "\<forall>c \<in> lower_hex. legal_char c \<and> c \<noteq> CHR ''-''"
    by (simp add: lower_hex_def legal_char_def)
  then show "c \<in> lower_hex \<Longrightarrow> legal_char c \<and> c \<noteq> CHR ''-''" by blast
qed

lemma hash_suffix_char: "c \<in> set (hash_suffix full) \<Longrightarrow> legal_char c \<and> c \<noteq> CHR ''-''"
  using set_hash_suffix lower_hex_legal by blast

lemma segment_text_hash_suffix: "segment_text (hash_suffix full)"
  using hash_suffix_char [of _ full] hd_in_set [OF hash_suffix_not_Nil [of full]]
    last_in_set [OF hash_suffix_not_Nil [of full]]
  unfolding segment_text_def by blast

lemma segment_text_append_dash:
  assumes "segment_text a" "segment_text b" "a \<noteq> []" "b \<noteq> []"
  shows "segment_text (a @ ''-'' @ b)"
  using assms by (auto simp: segment_text_def)

definition name_head :: "string \<Rightarrow> nat \<Rightarrow> string" where
  "name_head full maxLen = strings_Trim (take (maxLen - hashSuffixLen - 1) full) ''-''"

lemma truncateWithHash_cases:
  "truncateWithHash full maxLen =
     (if maxLen \<le> hashSuffixLen + 1 \<or> name_head full maxLen = [] then hash_suffix full
      else name_head full maxLen @ ''-'' @ hash_suffix full)"
proof (cases "maxLen \<le> hashSuffixLen + 1")
  case True
  then have "int maxLen - int hashSuffixLen - 1 < 1" by linarith
  then show ?thesis using True by (simp add: truncateWithHash_def)
next
  case False
  then have room: "int maxLen - int hashSuffixLen - 1 = int (maxLen - hashSuffixLen - 1)"
    and pos: "1 \<le> maxLen - hashSuffixLen - 1" by auto
  then have ge: "\<not> int (maxLen - hashSuffixLen - 1) < 1" by linarith
  have "(if int (length full) > int (maxLen - hashSuffixLen - 1)
         then take (nat (int (maxLen - hashSuffixLen - 1))) full else full) =
        take (maxLen - hashSuffixLen - 1) full" by auto
  then show ?thesis
    unfolding truncateWithHash_def Let_def room
    using False ge by (simp only: name_head_def if_False) simp
qed

lemma length_truncateWithHash:
  assumes "hashSuffixLen \<le> maxLen"
  shows "length (truncateWithHash full maxLen) \<le> maxLen"
proof -
  have "length (name_head full maxLen) \<le> maxLen - hashSuffixLen - 1"
    unfolding name_head_def strings_Trim_def
    by (rule order.trans [OF length_trim_set_le]) simp
  with assms show ?thesis by (auto simp: truncateWithHash_cases)
qed

lemma segment_text_truncateWithHash:
  assumes "\<forall>c \<in> set full. legal_char c"
  shows "segment_text (truncateWithHash full maxLen)"
proof -
  have "segment_text (name_head full maxLen)"
    unfolding name_head_def using assms
    by (intro segment_text_trim) (auto dest: in_set_takeD)
  then show ?thesis
    by (auto simp: truncateWithHash_cases segment_text_hash_suffix
        intro: segment_text_append_dash [OF _ segment_text_hash_suffix, simplified])
qed

lemma truncateWithHash_not_Nil [simp]: "truncateWithHash full maxLen \<noteq> []"
  by (simp add: truncateWithHash_cases)

lemma drop_suffix_append: "length b = n \<Longrightarrow> drop (length (a @ b) - n) (a @ b) = b"
  by simp

lemma truncateWithHash_suffix:
  "drop (length (truncateWithHash full maxLen) - hashSuffixLen) (truncateWithHash full maxLen)
     = hash_suffix full"
proof -
  have "drop (length (a @ ''-'' @ hash_suffix full) - hashSuffixLen) (a @ ''-'' @ hash_suffix full)
      = hash_suffix full" for a
    using drop_suffix_append [of "hash_suffix full" hashSuffixLen "a @ ''-''"] by simp
  then show ?thesis by (simp add: truncateWithHash_cases)
qed

text \<open>Two inputs share a name exactly when they share the readable head and the hash.\<close>

lemma truncateWithHash_eq_iff:
  "truncateWithHash f1 m = truncateWithHash f2 m \<longleftrightarrow>
     hash_suffix f1 = hash_suffix f2 \<and>
     (m \<le> hashSuffixLen + 1 \<or> name_head f1 m = name_head f2 m)"
  (is "?lhs \<longleftrightarrow> ?rhs")
proof
  assume lhs: ?lhs
  have h: "hash_suffix f1 = hash_suffix f2"
    by (metis lhs truncateWithHash_suffix)
  with lhs show ?rhs
    by (auto simp: truncateWithHash_cases split: if_splits)
next
  assume ?rhs
  then show ?lhs by (auto simp: truncateWithHash_cases)
qed

lemma legal_mount_full: "\<forall>c \<in> set (mount_full p n c). legal_char c"
  using segment_text_sanitize by (auto simp: mount_full_def Let_def segment_text_def)

section \<open>Properties of the generated names\<close>

definition valid_name :: "nat \<Rightarrow> string \<Rightarrow> bool" where
  "valid_name bound s \<longleftrightarrow> s \<noteq> [] \<and> length s \<le> bound \<and> segment_text s"

lemma truncated_valid: "\<forall>c \<in> set full. legal_char c \<Longrightarrow> valid_name 60 (truncateWithHash full 60)"
  by (simp add: valid_name_def segment_text_truncateWithHash length_truncateWithHash hashSuffixLen_def)

lemma legal_sanitize: "\<forall>c \<in> set (sanitize s). legal_char c"
  using segment_text_sanitize by (simp add: segment_text_def)

lemma AuthMountPath_valid: "valid_name 60 (AuthMountPath pre ns cp)"
  unfolding AuthMountPath_def authMountMax_def by (rule truncated_valid [OF legal_mount_full])

lemma RoleName_valid: "valid_name 60 (RoleName ns nm)"
  unfolding RoleName_def Let_def roleNameMax_def by (rule truncated_valid [OF legal_sanitize])

lemma EntityName_valid: "valid_name 60 (EntityName ns nm)"
  unfolding EntityName_def Let_def entityNameMax_def by (rule truncated_valid [OF legal_sanitize])

text \<open>C35. Every generated auth mount path, role name and entity name is non-empty, at most 60
  bytes long, over the alphabet [a-z0-9-], and has no dash at either end, whatever bytes
  the prefix, namespace and resource names hold.\<close>

theorem generated_names_valid:
  "valid_name 60 (AuthMountPath pre ns cp) \<and>
   valid_name 60 (RoleName ns nm) \<and>
   valid_name 60 (EntityName ns nm)"
  by (intro conjI AuthMountPath_valid RoleName_valid EntityName_valid)

text \<open>Two role names are equal exactly when the sanitized texts they are built from agree
  in their first 49 bytes (dashes at the ends trimmed) and in the first ten hex digits of
  their SHA-256: distinct texts collide only through the truncated hash.\<close>

theorem role_name_eq_iff:
  "RoleName n1 b1 = RoleName n2 b2 \<longleftrightarrow>
     hash_suffix (sanitize (n1 @ ''-'' @ b1)) = hash_suffix (sanitize (n2 @ ''-'' @ b2)) \<and>
     strings_Trim (take 49 (sanitize (n1 @ ''-'' @ b1))) ''-'' =
     strings_Trim (take 49 (sanitize (n2 @ ''-'' @ b2))) ''-''"
  by (simp add: RoleName_def truncateWithHash_eq_iff name_head_def roleNameMax_def hashSuffixLen_def)

text \<open>
  The joined texts do not determine their parts: both joins below are what two different
  resources hand to the naming functions.
\<close>

lemma RoleName_join: "RoleName ns ((b @ ''-'' @ e) @ ''-'' @ f) = RoleName ns (b @ ''-'' @ (e @ ''-'' @ f))"
  by simp

lemma AuthMountPath_join: "AuthMountPath pre (n @ ''-'' @ m) c = AuthMountPath pre n (m @ ''-'' @ c)"
  by (simp add: AuthMountPath_def mount_full_def)

end
