(* ===== verification/Shared.thy ===== *)
theory Shared
  imports Env Naming
begin

text \<open>
  \<open>api/v1alpha1/serviceconfig_types.go\<close> (\<open>Validate\<close>) and
  \<open>internal/controller/shared.go\<close>: the helpers the reconcilers share. A helper that
  reads a cluster is an operation over the world; the reconcilers log its answer.
\<close>

section \<open>Validating the service configuration\<close>

definition Validate :: "klib \<Rightarrow> ServiceConfigSpec \<Rightarrow> goerr option" where
  "Validate k s =
     (case (if scs_RequeueAfter s \<noteq> [] then
              case time_ParseDuration (scs_RequeueAfter s) of
                Inl err \<Rightarrow> Some (Errorf_w (''requeueAfter '' @ strconv_Quote (k_Print k) (scs_RequeueAfter s) @
                    '' is not a valid duration'') err)
              | Inr _ \<Rightarrow> None
            else None) of
        Some err \<Rightarrow> Some err
      | None \<Rightarrow>
        (case scs_PlatformCredentialRef s of
           Some ref \<Rightarrow>
             if sk_Name ref = [] \<or> sk_Key ref = [] then
               Some (errors_New (''platformCredentialRef.name and .key must both be set '' @
                 ''when platformCredentialRef is present''))
             else None
         | None \<Rightarrow> None))"

section \<open>Constants and pure helpers\<close>

definition defaultRequeue :: duration where "defaultRequeue = 5 * time_Minute"
definition platformJWTAuthMount :: string where
  [const_defs]: "platformJWTAuthMount = ''openmcp-platform-jwt''"
definition platformJWTRole :: string where [const_defs]: "platformJWTRole = ''platform-service-openbao''"
definition platformJWTAudience :: string where [const_defs]: "platformJWTAudience = ''openbao''"

type_synonym 'w OpenBaoClientFactory = "OpenBaoInstance option \<Rightarrow> ('w, 'w Client) oper"

definition resolveRequeue :: "ServiceConfigSpec \<Rightarrow> duration" where
  "resolveRequeue s =
     (if scs_RequeueAfter s = [] then defaultRequeue
      else case time_ParseDuration (scs_RequeueAfter s) of Inl _ \<Rightarrow> defaultRequeue | Inr d \<Rightarrow> d)"

definition resolveAuthMountPrefix :: "ServiceConfigSpec \<Rightarrow> OpenBaoInstance option \<Rightarrow> string" where
  "resolveAuthMountPrefix cfg inst =
     (case inst of
        None \<Rightarrow> scs_AuthMountPrefix cfg
      | Some i \<Rightarrow> (case as_JWT (ois_Auth (oi_Spec i)) of
            None \<Rightarrow> scs_AuthMountPrefix cfg
          | Some j \<Rightarrow> if jas_MountPrefix j \<noteq> [] then jas_MountPrefix j else scs_AuthMountPrefix cfg))"

text \<open>A condition literal of the code: the fields it leaves out are Go's zero values.\<close>

definition mk_condition :: "string \<Rightarrow> ConditionStatus \<Rightarrow> string \<Rightarrow> string \<Rightarrow> Condition" where
  "mk_condition ty st reason message =
     \<lparr>c_Type = ty, c_Status = st, c_ObservedGeneration = 0, c_LastTransitionTime = 0,
      c_Reason = reason, c_Message = message\<rparr>"

definition setCondition :: "klib \<Rightarrow> int \<Rightarrow> Condition \<Rightarrow> Condition list \<Rightarrow> Condition list" where
  "setCondition k generation cond conds =
     (let cond = cond\<lparr>c_ObservedGeneration := generation\<rparr>;
          cond = (if c_LastTransitionTime cond = 0 then cond\<lparr>c_LastTransitionTime := k_Now k\<rparr> else cond)
      in k_SetStatusCondition k conds cond)"

definition dependencyNotReady ::
    "klib \<Rightarrow> int \<Rightarrow> string \<Rightarrow> string \<Rightarrow> Condition list \<Rightarrow> Condition list" where
  "dependencyNotReady k generation reason message conds =
     (let conds = setCondition k generation
            (mk_condition ConditionDependencyReady ConditionFalse reason message) conds
      in setCondition k generation (mk_condition ConditionReady ConditionFalse reason message) conds)"

definition markReady :: "klib \<Rightarrow> int \<Rightarrow> Condition list \<Rightarrow> Condition list" where
  "markReady k generation conds =
     (let conds = setCondition k generation
            (mk_condition ConditionDependencyReady ConditionTrue ReasonReconciled []) conds
      in setCondition k generation (mk_condition ConditionReady ConditionTrue ReasonReconciled []) conds)"

definition isConditionTrue :: "klib \<Rightarrow> Condition list \<Rightarrow> string \<Rightarrow> bool" where
  "isConditionTrue k conditions condType =
     (case k_FindStatusCondition k conditions condType of
        None \<Rightarrow> False
      | Some c \<Rightarrow> c_Status c = ConditionTrue)"

definition isInstanceReachable :: "klib \<Rightarrow> OpenBaoInstance option \<Rightarrow> bool" where
  "isInstanceReachable k inst =
     (case inst of
        None \<Rightarrow> False
      | Some i \<Rightarrow> isConditionTrue k (oist_Conditions (oi_Status i)) ConditionOpenBaoReachable)"

definition requeueResult :: "ServiceConfig option \<Rightarrow> Result" where
  "requeueResult cfg =
     (case cfg of
        None \<Rightarrow> \<lparr>RequeueAfter = defaultRequeue\<rparr>
      | Some c \<Rightarrow> \<lparr>RequeueAfter = resolveRequeue (sc_Spec c)\<rparr>)"

section \<open>Reads\<close>

definition getOpenBaoInstance ::
    "klib \<Rightarrow> 'w Cluster \<Rightarrow> string \<Rightarrow> ('w, OpenBaoInstance option) oper" where
  "getOpenBaoInstance k platformClient nm w =
     (case kc_GetOpenBaoInstance platformClient [] nm w of
        (Inl err, w') \<Rightarrow>
          if err_NotFound err then (Inr None, w')
          else (Inl (Errorf_w (''fetching OpenBaoInstance '' @ strconv_Quote (k_Print k) nm) err), w')
      | (Inr inst, w') \<Rightarrow> (Inr (Some inst), w'))"

definition getServiceConfig :: "klib \<Rightarrow> 'w Cluster \<Rightarrow> string \<Rightarrow> ('w, ServiceConfig) oper" where
  "getServiceConfig k platformClient providerName w =
     (case kc_GetServiceConfig platformClient [] providerName w of
        (Inl err, w') \<Rightarrow>
          (Inl (Errorf_w (''fetching ServiceConfig '' @ strconv_Quote (k_Print k) providerName) err), w')
      | (Inr cfg, w') \<Rightarrow>
        (case Validate k (sc_Spec cfg) of
           Some err \<Rightarrow>
             (Inl (Errorf_w (''ServiceConfig '' @ strconv_Quote (k_Print k) providerName @ '' invalid'') err), w')
         | None \<Rightarrow> (Inr cfg, w')))"

abbreviation get_instance ::
    "klib \<Rightarrow> 'w Cluster \<Rightarrow> string \<Rightarrow> ('w, goerr + OpenBaoInstance option) action" where
  "get_instance k c nm \<equiv> call (getOpenBaoInstance k c nm) (\<lambda>r. [GotOpenBaoInstance nm r])"

abbreviation get_config :: "klib \<Rightarrow> 'w Cluster \<Rightarrow> string \<Rightarrow> ('w, goerr + ServiceConfig) action" where
  "get_config k c nm \<equiv> call (getServiceConfig k c nm) (\<lambda>r. [GotServiceConfig nm r])"

section \<open>The default client factory\<close>

definition readStaticPlatformCredential ::
    "klib \<Rightarrow> 'w env \<Rightarrow> 'w Cluster \<Rightarrow> LocalSecretKeyRef \<Rightarrow> ('w, string) oper" where
  "readStaticPlatformCredential k env c ref w =
     (let ns = env_Getenv env (k_EnvVariablePodNamespace k)
      in if ns = [] then
           (Inl (errors_New (''environment variable '' @ k_EnvVariablePodNamespace k @
              '' must be set to read platformCredentialRef'')), w)
         else case kc_GetSecret c ns (sk_Name ref) w of
             (Inl err, w') \<Rightarrow>
               (Inl (Errorf_w (''fetching platform credential Secret '' @ ns @ ''/'' @ sk_Name ref) err), w')
           | (Inr data, w') \<Rightarrow>
             (let val = strings_TrimSpace (case fmlookup data (sk_Key ref) of Some v \<Rightarrow> v | None \<Rightarrow> [])
              in if val = [] then
                   (Inl (errors_New (''platform credential Secret '' @ ns @ ''/'' @ sk_Name ref @ '' key '' @
                      strconv_Quote (k_Print k) (sk_Key ref) @ '' is empty or missing'')), w')
                 else (Inr val, w')))"

definition requestPlatformServiceAccountJWT ::
    "klib \<Rightarrow> 'w env \<Rightarrow> 'w Cluster \<Rightarrow> string \<Rightarrow> ('w, string) oper" where
  "requestPlatformServiceAccountJWT k env platformCluster providerName w =
     (let ns = env_Getenv env (k_EnvVariablePodNamespace k)
      in if ns = [] then
           (Inl (errors_New (''environment variable '' @ k_EnvVariablePodNamespace k @
              '' must be set to request platform ServiceAccount token'')), w)
         else
           let saName = env_Getenv env (k_EnvVariablePodServiceAccountName k);
               saName = (if saName = [] then ''ps-'' @ providerName else saName)
           in case kc_NewForConfig platformCluster of
                Inl err \<Rightarrow> (Inl (Errorf_w ''building platform Kubernetes client'' err), w)
              | Inr clientset \<Rightarrow>
                (case cs_CreateToken clientset ns saName
                        \<lparr>trs_Audiences = [platformJWTAudience], trs_ExpirationSeconds = 600\<rparr> w of
                   (Inl err, w') \<Rightarrow>
                     (Inl (Errorf_w (''requesting token for platform ServiceAccount '' @ ns @ ''/'' @ saName) err), w')
                 | (Inr tok, w') \<Rightarrow> (Inr tok, w')))"

definition newDefaultOpenBaoClientFactory ::
    "klib \<Rightarrow> 'w env \<Rightarrow> 'w Cluster \<Rightarrow> string \<Rightarrow> 'w OpenBaoClientFactory" where
  "newDefaultOpenBaoClientFactory k env platformCluster providerName inst w =
     (case inst of
        None \<Rightarrow> (Inl (errors_New ''openbaoinstance is nil''), w)
      | Some i \<Rightarrow>
        let cfg = \<lparr>bc_Address = ois_Address (oi_Spec i), bc_CABundlePEM = [],
                   bc_InsecureSkipVerify = ois_InsecureSkipVerify (oi_Spec i),
                   bc_Namespace = ois_Namespace (oi_Spec i), bc_Token = []\<rparr>;
            new = (\<lambda>cfg w. case bao_New (env_bao env) cfg of
                Inl err \<Rightarrow> (Inl err, w)
              | Inr a \<Rightarrow> (Inr (api_client (env_bao env) a), w))
        in case getServiceConfig k platformCluster providerName w of
             (Inl err, w1) \<Rightarrow> (Inl err, w1)
           | (Inr svcCfg, w1) \<Rightarrow>
             (case scs_PlatformCredentialRef (sc_Spec svcCfg) of
                Some ref \<Rightarrow>
                  (case readStaticPlatformCredential k env platformCluster ref w1 of
                     (Inl err, w2) \<Rightarrow> (Inl err, w2)
                   | (Inr token, w2) \<Rightarrow> new (cfg\<lparr>bc_Token := token\<rparr>) w2)
              | None \<Rightarrow>
                  (case requestPlatformServiceAccountJWT k env platformCluster providerName w1 of
                     (Inl err, w2) \<Rightarrow> (Inl err, w2)
                   | (Inr jwt, w2) \<Rightarrow>
                     (case LoginJWT (env_bao env) cfg platformJWTAuthMount platformJWTRole jwt w2 of
                        (Inl err, w3) \<Rightarrow> (Inl err, w3)
                      | (Inr token, w3) \<Rightarrow> new (cfg\<lparr>bc_Token := token\<rparr>) w3))))"

abbreviation build_client ::
    "'w OpenBaoClientFactory \<Rightarrow> OpenBaoInstance \<Rightarrow> ('w, goerr + 'w Client) action" where
  "build_client f inst \<equiv> call (f (Some inst)) (\<lambda>r. [BuiltClient inst (error_of r)])"

section \<open>Facts about the conditions\<close>

text \<open>The condition of type \<open>t\<close> has this status, reason, message and generation.\<close>

definition shows_condition ::
    "klib \<Rightarrow> Condition list \<Rightarrow> int \<Rightarrow> string \<Rightarrow> ConditionStatus \<Rightarrow> string \<Rightarrow> string \<Rightarrow> bool" where
  "shows_condition k cs g t st reason message =
     (case k_FindStatusCondition k cs t of
        None \<Rightarrow> False
      | Some d \<Rightarrow> same_condition d ((mk_condition t st reason message)\<lparr>c_ObservedGeneration := g\<rparr>))"

lemma mk_condition_sel [simp]:
  "c_Type (mk_condition t st r m) = t" "c_Status (mk_condition t st r m) = st"
  "c_Reason (mk_condition t st r m) = r" "c_Message (mk_condition t st r m) = m"
  "c_LastTransitionTime (mk_condition t st r m) = 0"
  by (simp_all add: mk_condition_def)

lemma lawful_conditionsD:
  assumes "lawful_conditions k"
  shows "t \<noteq> c_Type c \<Longrightarrow> k_FindStatusCondition k (k_SetStatusCondition k cs c) t = k_FindStatusCondition k cs t"
    and "\<exists>d. k_FindStatusCondition k (k_SetStatusCondition k cs c) (c_Type c) = Some d \<and> same_condition d c"
proof -
  have law: "case k_FindStatusCondition k (k_SetStatusCondition k cs c) u of
        None \<Rightarrow> u \<noteq> c_Type c \<and> k_FindStatusCondition k cs u = None
      | Some d \<Rightarrow> if u = c_Type c then same_condition d c
                  else k_FindStatusCondition k cs u = Some d" for u
    using assms unfolding lawful_conditions_def by blast
  show "t \<noteq> c_Type c \<Longrightarrow> k_FindStatusCondition k (k_SetStatusCondition k cs c) t = k_FindStatusCondition k cs t"
    using law [of t] by (simp split: option.splits)
  show "\<exists>d. k_FindStatusCondition k (k_SetStatusCondition k cs c) (c_Type c) = Some d \<and> same_condition d c"
    using law [of "c_Type c"] by (simp split: option.splits)
qed

lemma find_setCondition_other:
  assumes "lawful_conditions k" "t \<noteq> c_Type c"
  shows "k_FindStatusCondition k (setCondition k g c cs) t = k_FindStatusCondition k cs t"
  using assms by (simp add: setCondition_def Let_def lawful_conditionsD(1))

lemma find_setCondition_same:
  assumes "lawful_conditions k"
  shows "\<exists>d. k_FindStatusCondition k (setCondition k g c cs) (c_Type c) = Some d \<and>
     same_condition d (c\<lparr>c_ObservedGeneration := g\<rparr>)"
proof -
  define c' where "c' = (let c = c\<lparr>c_ObservedGeneration := g\<rparr> in
    if c_LastTransitionTime c = 0 then c\<lparr>c_LastTransitionTime := k_Now k\<rparr> else c)"
  have "c_Type c' = c_Type c" "same_condition d c' = same_condition d (c\<lparr>c_ObservedGeneration := g\<rparr>)" for d
    by (simp_all add: c'_def Let_def same_condition_def)
  moreover have "setCondition k g c cs = k_SetStatusCondition k cs c'"
    by (simp add: setCondition_def c'_def Let_def)
  ultimately show ?thesis using lawful_conditionsD(2) [OF assms, of cs c'] by simp
qed

lemma isConditionTrue_setCondition:
  assumes "lawful_conditions k"
  shows "isConditionTrue k (setCondition k g c cs) t =
     (if t = c_Type c then c_Status c = ConditionTrue else isConditionTrue k cs t)"
  using find_setCondition_same [OF assms, of g c cs] find_setCondition_other [OF assms, of t c g cs]
  by (auto simp: isConditionTrue_def same_condition_def)

lemma shows_condition_setCondition:
  assumes "lawful_conditions k"
  shows "shows_condition k (setCondition k g (mk_condition t' st' r' m') cs) g t st r m =
     (if t = t' then st = st' \<and> r = r' \<and> m = m' else shows_condition k cs g t st r m)"
  using find_setCondition_same [OF assms, of g "mk_condition t' st' r' m'" cs]
    find_setCondition_other [OF assms, of t "mk_condition t' st' r' m'" g cs]
  by (auto simp: shows_condition_def same_condition_def)

lemma isConditionTrue_markReady:
  "lawful_conditions k \<Longrightarrow> isConditionTrue k (markReady k g cs) t =
     (t \<in> {ConditionReady, ConditionDependencyReady} \<or> isConditionTrue k cs t)"
  by (simp add: markReady_def Let_def isConditionTrue_setCondition)

lemma isConditionTrue_dependencyNotReady:
  "lawful_conditions k \<Longrightarrow> isConditionTrue k (dependencyNotReady k g r m cs) t =
     (t \<notin> {ConditionReady, ConditionDependencyReady} \<and> isConditionTrue k cs t)"
  by (simp add: dependencyNotReady_def Let_def isConditionTrue_setCondition)

lemma shows_condition_markReady:
  "lawful_conditions k \<Longrightarrow> shows_condition k (markReady k g cs) g t st r m =
     (if t \<in> {ConditionReady, ConditionDependencyReady}
      then st = ConditionTrue \<and> r = ReasonReconciled \<and> m = [] else shows_condition k cs g t st r m)"
  by (auto simp: markReady_def Let_def shows_condition_setCondition)

lemma shows_condition_dependencyNotReady:
  "lawful_conditions k \<Longrightarrow> shows_condition k (dependencyNotReady k g r' m' cs) g t st r m =
     (if t \<in> {ConditionReady, ConditionDependencyReady}
      then st = ConditionFalse \<and> r = r' \<and> m = m' else shows_condition k cs g t st r m)"
  by (auto simp: dependencyNotReady_def Let_def shows_condition_setCondition)

lemmas condition_rules = isConditionTrue_setCondition isConditionTrue_markReady
  isConditionTrue_dependencyNotReady shows_condition_setCondition shows_condition_markReady
  shows_condition_dependencyNotReady

section \<open>Facts about the configuration\<close>

lemma Validate_duration:
  "Validate k s = None \<Longrightarrow> scs_RequeueAfter s \<noteq> [] \<Longrightarrow>
     time_ParseDuration (scs_RequeueAfter s) = Inr (resolveRequeue s)"
  by (auto simp: Validate_def resolveRequeue_def split: sum.splits option.splits if_splits)

lemma getServiceConfig_valid: "answers (getServiceConfig k c p) (Inr cfg) \<Longrightarrow> Validate k (sc_Spec cfg) = None"
  by (elim answersE)
     (auto simp: getServiceConfig_def split: sum.splits prod.splits option.splits)

lemma duration_loop_bound: "duration_loop orig d s = Inr d' \<Longrightarrow> d \<le> 2 ^ 63 \<Longrightarrow> d' \<le> 2 ^ 63"
proof (induction orig d s rule: duration_loop.induct)
  case (1 orig d s)
  from "1.prems" "1.IH" show ?case
    by (subst (asm) duration_loop.simps)
       (auto split: if_splits sum.splits prod.splits simp: not_less)
qed

section \<open>Properties\<close>

text \<open>A service configuration that the reconcilers accept requeues as written: after
  \<open>getServiceConfig\<close> succeeds, the requeue interval is five minutes if none is set and
  otherwise the parsed duration, so the fallback for an unparsable value is never taken.\<close>

theorem accepted_config_requeue:
  assumes "getServiceConfig k c providerName w = (Inr cfg, w')"
  shows "if scs_RequeueAfter (sc_Spec cfg) = [] then RequeueAfter (requeueResult (Some cfg)) = 300000000000
     else time_ParseDuration (scs_RequeueAfter (sc_Spec cfg)) = Inr (RequeueAfter (requeueResult (Some cfg)))"
proof (cases "scs_RequeueAfter (sc_Spec cfg) = []")
  case True
  then show ?thesis
    by (simp add: requeueResult_def resolveRequeue_def defaultRequeue_def time_Minute_def)
next
  case False
  have "Validate k (sc_Spec cfg) = None"
    using getServiceConfig_valid [OF answers_intro [of "getServiceConfig k c providerName" w "Inr cfg" w']] assms
    by simp
  from Validate_duration [OF this False] False show ?thesis by (simp add: requeueResult_def)
qed

text \<open>The default client factory ignores the CA bundle reference of an instance: the client it
  builds, its errors and everything it sends are the same whatever \<open>spec.caBundleRef\<close> is.\<close>

theorem factory_ignores_ca_bundle:
  "newDefaultOpenBaoClientFactory k env c providerName (Some i) w =
   newDefaultOpenBaoClientFactory k env c providerName
     (Some (i\<lparr>oi_Spec := (oi_Spec i)\<lparr>ois_CABundleRef := ref\<rparr>\<rparr>)) w"
  by (simp add: newDefaultOpenBaoClientFactory_def)

end
