(* ===== verification/CtlInstance.thy ===== *)
theory CtlInstance
  imports Shared
begin

text \<open>
  \<open>internal/controller/openbaoinstance_controller.go\<close>: the reconciler that probes an
  OpenBao server and publishes whether it is reachable. The other controllers read only the
  condition it publishes.
\<close>

section \<open>The reconciler\<close>

record 'w OpenBaoInstanceReconciler =
  ir_PlatformCluster :: "'w Cluster"
  ir_ProviderName :: string
  ir_ClientFactory :: "'w OpenBaoClientFactory"

definition NewOpenBaoInstanceReconciler ::
    "klib \<Rightarrow> 'w env \<Rightarrow> 'w Cluster \<Rightarrow> string \<Rightarrow> 'w OpenBaoInstanceReconciler" where
  "NewOpenBaoInstanceReconciler k env platformCluster providerName =
     \<lparr>ir_PlatformCluster = platformCluster, ir_ProviderName = providerName,
      ir_ClientFactory = newDefaultOpenBaoClientFactory k env platformCluster providerName\<rparr>"

definition OI_map_conditions ::
    "(Condition list \<Rightarrow> Condition list) \<Rightarrow> OpenBaoInstance \<Rightarrow> OpenBaoInstance" where
  "OI_map_conditions f inst =
     inst\<lparr>oi_Status := (oi_Status inst)\<lparr>oist_Conditions := f (oist_Conditions (oi_Status inst))\<rparr>\<rparr>"

definition OI_patchStatus ::
    "'w OpenBaoInstanceReconciler \<Rightarrow> OpenBaoInstance \<Rightarrow> ServiceConfig \<Rightarrow> ('w, goerr + Result) action" where
  "OI_patchStatus R inst cfg = do {
     r \<leftarrow> call (kc_StatusOpenBaoInstance (ir_PlatformCluster R) inst) (\<lambda>r. [StatusOpenBaoInstance inst r]);
     case r of
       Inl err \<Rightarrow> State_Monad.return (Inl (Errorf_w ''updating OpenBaoInstance status'' err))
     | Inr _ \<Rightarrow> State_Monad.return (Inr (requeueResult (Some cfg)))
   }"

text \<open>The two conditions of a failed probe.\<close>

definition OI_unreachable :: "klib \<Rightarrow> string \<Rightarrow> OpenBaoInstance \<Rightarrow> OpenBaoInstance" where
  "OI_unreachable k message inst =
     OI_map_conditions (\<lambda>cs.
       let gen = om_Generation (oi_Meta inst);
           cs = setCondition k gen (mk_condition ConditionOpenBaoReachable ConditionFalse
                  ReasonOpenBaoUnreachable message) cs
       in setCondition k gen (mk_condition ConditionReady ConditionFalse
            ReasonOpenBaoUnreachable message) cs) inst"

definition OI_Reconcile ::
    "klib \<Rightarrow> 'w OpenBaoInstanceReconciler \<Rightarrow> string \<Rightarrow> string \<Rightarrow> ('w, goerr + Result) action" where
  "OI_Reconcile k R ns nm = do {
     r \<leftarrow> call (kc_GetOpenBaoInstance (ir_PlatformCluster R) ns nm)
           (\<lambda>r. [GotOpenBaoInstance nm (map_sum id Some r)]);
     case r of
       Inl err \<Rightarrow>
         (if err_NotFound err then State_Monad.return (Inr Result0)
          else State_Monad.return (Inl (Errorf_w ''fetching OpenBaoInstance'' err)))
     | Inr inst \<Rightarrow>
       if \<not> time_IsZero (om_DeletionTimestamp (oi_Meta inst)) then State_Monad.return (Inr Result0)
       else do {
         r \<leftarrow> get_config k (ir_PlatformCluster R) (ir_ProviderName R);
         case r of
           Inl err \<Rightarrow> State_Monad.return (Inl err)
         | Inr cfg \<Rightarrow> do {
             let gen = om_Generation (oi_Meta inst);
             let inst = inst\<lparr>oi_Status := (oi_Status inst)\<lparr>oist_ObservedGeneration := gen\<rparr>\<rparr>;
             r \<leftarrow> build_client (ir_ClientFactory R) inst;
             case r of
               Inl err \<Rightarrow> OI_patchStatus R (OI_unreachable k (err_Msg err) inst) cfg
             | Inr client \<Rightarrow> do {
                 r \<leftarrow> call (cl_Health client) (\<lambda>r. [BaoHealth inst r]);
                 case r of
                   Inl err \<Rightarrow> OI_patchStatus R (OI_unreachable k (err_Msg err) inst) cfg
                 | Inr info \<Rightarrow>
                   let inst = inst\<lparr>oi_Status := (oi_Status inst)\<lparr>oist_LastProbeTime := Some (k_Now k),
                         oist_Version := hi_Version info, oist_Initialized := Some (hi_Initialized info),
                         oist_Sealed := Some (hi_Sealed info)\<rparr>\<rparr>
                   in if hi_Sealed info \<or> \<not> hi_Initialized info then
                        OI_patchStatus R
                          (OI_unreachable k ''backend reports sealed or uninitialized'' inst) cfg
                      else
                        OI_patchStatus R (OI_map_conditions (\<lambda>cs. markReady k gen
                          (setCondition k gen (mk_condition ConditionOpenBaoReachable ConditionTrue
                            ReasonReconciled []) cs)) inst) cfg
               }
           }
       }
   }"

section \<open>Runs\<close>

lemma spec_OI_patchStatus [spec_intros]:
  assumes "\<And>r. T (case r of Inl err \<Rightarrow> Inl (Errorf_w ''updating OpenBaoInstance status'' err)
              | Inr _ \<Rightarrow> Inr (requeueResult (Some cfg))) [StatusOpenBaoInstance t r]"
  shows "spec (OI_patchStatus R t cfg) T"
  unfolding OI_patchStatus_def
  by (intro spec_intros) (use assms in \<open>auto split: sum.splits, (metis append_Nil2 sum.case)+\<close>)

lemma OI_map_conditions_sel [simp]:
  "oi_Meta (OI_map_conditions f t) = oi_Meta t" "oi_Spec (OI_map_conditions f t) = oi_Spec t"
  "oist_Conditions (oi_Status (OI_map_conditions f t)) = f (oist_Conditions (oi_Status t))"
  "oist_Version (oi_Status (OI_map_conditions f t)) = oist_Version (oi_Status t)"
  "oist_Sealed (oi_Status (OI_map_conditions f t)) = oist_Sealed (oi_Status t)"
  "oist_Initialized (oi_Status (OI_map_conditions f t)) = oist_Initialized (oi_Status t)"
  "oist_LastProbeTime (oi_Status (OI_map_conditions f t)) = oist_LastProbeTime (oi_Status t)"
  by (simp_all add: OI_map_conditions_def)

lemma OI_unreachable_sel [simp]:
  "oi_Meta (OI_unreachable k m t) = oi_Meta t" "oi_Spec (OI_unreachable k m t) = oi_Spec t"
  by (simp_all add: OI_unreachable_def)

text \<open>The server answered the probe as initialized and unsealed.\<close>

definition probe_healthy :: "event \<Rightarrow> bool" where
  "probe_healthy e = (case e of
     BaoHealth _ (Inr info) \<Rightarrow> hi_Initialized info \<and> \<not> hi_Sealed info | _ \<Rightarrow> False)"

section \<open>Properties\<close>

text \<open>C26. The published reachability is what the probe of the same pass said: OpenBaoReachable is
  True, and Ready with it, exactly when the server answered as initialized and unsealed; in
  every other case both are False with reason OpenBaoUnreachable, for the current generation.\<close>

theorem instance_reachable_iff:
  assumes "lawful_conditions k"
  shows "spec (OI_Reconcile k R ns nm) (\<lambda>_ es. \<forall>t ru. StatusOpenBaoInstance t ru \<in> set es \<longrightarrow>
     (isInstanceReachable k (Some t) \<longleftrightarrow> list_ex probe_healthy es) \<and>
     (isConditionTrue k (oist_Conditions (oi_Status t)) ConditionReady \<longleftrightarrow> list_ex probe_healthy es) \<and>
     (list_ex probe_healthy es \<or>
      (\<exists>message.
         shows_condition k (oist_Conditions (oi_Status t)) (om_Generation (oi_Meta t))
           ConditionOpenBaoReachable ConditionFalse ReasonOpenBaoUnreachable message \<and>
         shows_condition k (oist_Conditions (oi_Status t)) (om_Generation (oi_Meta t))
           ConditionReady ConditionFalse ReasonOpenBaoUnreachable message)))"
  unfolding OI_Reconcile_def
  by (intro spec_intros)
     (auto simp: condition_rules [OF assms] isInstanceReachable_def OI_unreachable_def probe_healthy_def Let_def)

text \<open>A failed probe does not touch DependencyReady: whatever the instance showed there before,
  possibly True from an earlier healthy pass, stays in the published status beside Ready=False.\<close>

theorem instance_dependency_stale:
  assumes "lawful_conditions k"
  shows "spec (OI_Reconcile k R ns nm) (\<lambda>_ es. \<forall>t0 t ru. GotOpenBaoInstance nm (Inr (Some t0)) \<in> set es \<and>
     StatusOpenBaoInstance t ru \<in> set es \<and> \<not> list_ex probe_healthy es \<longrightarrow>
     k_FindStatusCondition k (oist_Conditions (oi_Status t)) ConditionDependencyReady =
     k_FindStatusCondition k (oist_Conditions (oi_Status t0)) ConditionDependencyReady)"
  unfolding OI_Reconcile_def
  by (intro spec_intros)
     (auto simp: find_setCondition_other [OF assms] OI_unreachable_def probe_healthy_def Let_def)

text \<open>Probing is read-only: a pass of the instance controller makes at most one OpenBao call, the
  health probe, and writes nothing but the status of this instance.\<close>

theorem instance_pass_scope:
  "spec (OI_Reconcile k R ns nm) (\<lambda>_ es.
     length (filter bao_call es) \<le> 1 \<and>
     list_all (\<lambda>e. case e of
         GotOpenBaoInstance n _ \<Rightarrow> n = nm
       | GotServiceConfig p _ \<Rightarrow> p = ir_ProviderName R
       | BuiltClient inst _ \<Rightarrow> (\<exists>t0. GotOpenBaoInstance nm (Inr (Some t0)) \<in> set es \<and> oi_Spec inst = oi_Spec t0)
       | BaoHealth inst _ \<Rightarrow> BuiltClient inst None \<in> set es
       | StatusOpenBaoInstance t _ \<Rightarrow>
           (\<exists>t0. GotOpenBaoInstance nm (Inr (Some t0)) \<in> set es \<and> \<not> deleting (oi_Meta t0) \<and>
             oi_Meta t = oi_Meta t0 \<and> oi_Spec t = oi_Spec t0)
       | _ \<Rightarrow> False) es)"
  unfolding OI_Reconcile_def
  by (intro spec_intros) (auto simp: log_defs)

end
