(* ===== verification/CtlProjectEntity.thy ===== *)
theory CtlProjectEntity
  imports Shared Naming
begin

text \<open>
  \<open>internal/controller/projectentity_controller.go\<close>: the reconciler that resolves the
  OpenBaoInstance of a ProjectEntity and ensures its identity entity there.
\<close>

section \<open>The reconciler\<close>

record 'w ProjectEntityReconciler =
  er_PlatformCluster :: "'w Cluster"
  er_OnboardingCluster :: "'w Cluster"
  er_ProviderName :: string
  er_ClientFactory :: "'w OpenBaoClientFactory"

definition NewProjectEntityReconciler ::
    "klib \<Rightarrow> 'w env \<Rightarrow> 'w Cluster \<Rightarrow> 'w Cluster \<Rightarrow> string \<Rightarrow> 'w ProjectEntityReconciler" where
  "NewProjectEntityReconciler k env platform onboarding providerName =
     \<lparr>er_PlatformCluster = platform, er_OnboardingCluster = onboarding,
      er_ProviderName = providerName,
      er_ClientFactory = newDefaultOpenBaoClientFactory k env platform providerName\<rparr>"

definition PE_map_conditions ::
    "(Condition list \<Rightarrow> Condition list) \<Rightarrow> ProjectEntity \<Rightarrow> ProjectEntity" where
  "PE_map_conditions f pe =
     pe\<lparr>pe_Status := (pe_Status pe)\<lparr>pest_Conditions := f (pest_Conditions (pe_Status pe))\<rparr>\<rparr>"

definition PE_patchStatus ::
    "'w ProjectEntityReconciler \<Rightarrow> ProjectEntity \<Rightarrow> ServiceConfig \<Rightarrow> ('w, goerr + Result) action" where
  "PE_patchStatus R pe cfg = do {
     r \<leftarrow> call (kc_StatusProjectEntity (er_OnboardingCluster R) pe) (\<lambda>r. [StatusProjectEntity pe r]);
     case r of
       Inl err \<Rightarrow> State_Monad.return (Inl (Errorf_w ''updating ProjectEntity status'' err))
     | Inr _ \<Rightarrow> State_Monad.return (Inr (requeueResult (Some cfg)))
   }"

definition PE_metadata :: "ProjectEntity \<Rightarrow> (string, string) fmap" where
  "PE_metadata pe = fmap_of_list [(''openmcp_namespace'', om_Namespace (pe_Meta pe)),
     (''openmcp_name'', om_Name (pe_Meta pe))]"

definition PE_Reconcile ::
    "klib \<Rightarrow> 'w ProjectEntityReconciler \<Rightarrow> string \<Rightarrow> string \<Rightarrow> ('w, goerr + Result) action" where
  "PE_Reconcile k R ns nm = do {
     r \<leftarrow> get_project_entity (er_OnboardingCluster R) ns nm;
     case r of
       Inl err \<Rightarrow>
         (if err_NotFound err then State_Monad.return (Inr Result0)
          else State_Monad.return (Inl (Errorf_w ''fetching ProjectEntity'' err)))
     | Inr pe \<Rightarrow>
       if \<not> time_IsZero (om_DeletionTimestamp (pe_Meta pe)) then State_Monad.return (Inr Result0)
       else do {
         r \<leftarrow> get_config k (er_PlatformCluster R) (er_ProviderName R);
         case r of
           Inl err \<Rightarrow> State_Monad.return (Inl err)
         | Inr cfg \<Rightarrow> do {
             let gen = om_Generation (pe_Meta pe);
             let pe = pe\<lparr>pe_Status := (pe_Status pe)\<lparr>pest_ObservedGeneration := gen\<rparr>\<rparr>;
             let instName = lor_Name (pes_OpenBaoInstanceRef (pe_Spec pe));
             r \<leftarrow> get_instance k (er_PlatformCluster R) instName;
             case r of
               Inl err \<Rightarrow> State_Monad.return (Inl err)
             | Inr None \<Rightarrow>
                 PE_patchStatus R (PE_map_conditions (dependencyNotReady k gen ReasonDependencyNotFound
                   (''OpenBaoInstance '' @ strconv_Quote (k_Print k) instName @
                    '' not found on the platform cluster'')) pe) cfg
             | Inr (Some inst) \<Rightarrow>
                 let pe = pe\<lparr>pe_Status := (pe_Status pe)\<lparr>pest_ResolvedOpenBaoRef := om_Name (oi_Meta inst)\<rparr>\<rparr>
                 in if \<not> isInstanceReachable k (Some inst) then
                      PE_patchStatus R (PE_map_conditions (dependencyNotReady k gen ReasonOpenBaoUnreachable
                        (''OpenBaoInstance '' @ strconv_Quote (k_Print k) (om_Name (oi_Meta inst)) @
                         '' is not reachable'')) pe) cfg
                    else do {
                      r \<leftarrow> build_client (er_ClientFactory R) inst;
                      case r of
                        Inl err \<Rightarrow>
                          PE_patchStatus R (PE_map_conditions (dependencyNotReady k gen
                            ReasonOpenBaoUnreachable (err_Msg err)) pe) cfg
                      | Inr client \<Rightarrow> do {
                          let entityName = EntityName (om_Namespace (pe_Meta pe)) (om_Name (pe_Meta pe));
                          r \<leftarrow> call (cl_EnsureEntity client entityName (PE_metadata pe))
                                (\<lambda>r. [BaoEnsureEntity inst entityName (PE_metadata pe) r]);
                          case r of
                            Inl err \<Rightarrow>
                              PE_patchStatus R (PE_map_conditions (dependencyNotReady k gen
                                ReasonReconcileError (err_Msg err)) pe) cfg
                          | Inr entityID \<Rightarrow>
                              PE_patchStatus R (PE_map_conditions (markReady k gen)
                                (pe\<lparr>pe_Status := (pe_Status pe)\<lparr>pest_EntityID := entityID\<rparr>\<rparr>)) cfg
                        }
                    }
           }
       }
   }"

section \<open>Runs\<close>

lemma spec_PE_patchStatus [spec_intros]:
  assumes "\<And>r. T (case r of Inl err \<Rightarrow> Inl (Errorf_w ''updating ProjectEntity status'' err)
              | Inr _ \<Rightarrow> Inr (requeueResult (Some cfg))) [StatusProjectEntity t r]"
  shows "spec (PE_patchStatus R t cfg) T"
  unfolding PE_patchStatus_def
  by (intro spec_intros) (use assms in \<open>auto split: sum.splits, (metis append_Nil2 sum.case)+\<close>)

lemma PE_map_conditions_sel [simp]:
  "pe_Meta (PE_map_conditions f t) = pe_Meta t" "pe_Spec (PE_map_conditions f t) = pe_Spec t"
  "pest_Conditions (pe_Status (PE_map_conditions f t)) = f (pest_Conditions (pe_Status t))"
  "pest_EntityID (pe_Status (PE_map_conditions f t)) = pest_EntityID (pe_Status t)"
  "pest_ResolvedOpenBaoRef (pe_Status (PE_map_conditions f t)) = pest_ResolvedOpenBaoRef (pe_Status t)"
  by (simp_all add: PE_map_conditions_def)

lemma PE_metadata_status [simp]: "PE_metadata (pe_Status_update f pe) = PE_metadata pe"
  by (simp add: PE_metadata_def)

section \<open>Properties\<close>

text \<open>C27. A ProjectEntity is published as Ready exactly when this pass ensured its identity entity,
  under the deterministic name and with the namespace and name as metadata, on the reachable
  instance it references; the entity's id is then in the status. Otherwise Ready and
  DependencyReady are False and the recorded id is the one that was read.\<close>

theorem project_entity_ready_iff:
  assumes "lawful_conditions k"
  shows "spec (PE_Reconcile k R ns nm) (\<lambda>_ es. \<forall>t0 t ru. GotProjectEntity ns nm (Inr t0) \<in> set es \<and>
     StatusProjectEntity t ru \<in> set es \<longrightarrow>
     (if isConditionTrue k (pest_Conditions (pe_Status t)) ConditionReady
      then \<exists>inst. BaoEnsureEntity inst (EntityName (om_Namespace (pe_Meta t0)) (om_Name (pe_Meta t0)))
               (PE_metadata t0) (Inr (pest_EntityID (pe_Status t))) \<in> set es \<and>
             GotOpenBaoInstance (lor_Name (pes_OpenBaoInstanceRef (pe_Spec t0))) (Inr (Some inst)) \<in> set es \<and>
             isInstanceReachable k (Some inst) \<and> pest_ResolvedOpenBaoRef (pe_Status t) = om_Name (oi_Meta inst)
      else (\<forall>inst n md i. BaoEnsureEntity inst n md (Inr i) \<notin> set es) \<and>
           \<not> isConditionTrue k (pest_Conditions (pe_Status t)) ConditionDependencyReady \<and>
           pest_EntityID (pe_Status t) = pest_EntityID (pe_Status t0)))"
  unfolding PE_Reconcile_def
  by (intro spec_intros) (auto simp: condition_rules [OF assms])

text \<open>Scope of a ProjectEntity pass: its only OpenBao write is to ensure its own entity, which
  is never made for an object being deleted, and it writes no Kubernetes object but its own
  status.\<close>

theorem project_entity_scope:
  "spec (PE_Reconcile k R ns nm) (\<lambda>_ es. list_all (\<lambda>e. case e of
       BaoEnsureEntity inst n md _ \<Rightarrow>
         (\<exists>t0. GotProjectEntity ns nm (Inr t0) \<in> set es \<and> \<not> deleting (pe_Meta t0) \<and>
            n = EntityName (om_Namespace (pe_Meta t0)) (om_Name (pe_Meta t0)) \<and> md = PE_metadata t0 \<and>
            GotOpenBaoInstance (lor_Name (pes_OpenBaoInstanceRef (pe_Spec t0))) (Inr (Some inst)) \<in> set es \<and>
            isInstanceReachable k (Some inst))
     | StatusProjectEntity t _ \<Rightarrow>
         (\<exists>t0. GotProjectEntity ns nm (Inr t0) \<in> set es \<and> pe_Meta t = pe_Meta t0 \<and> pe_Spec t = pe_Spec t0)
     | GotProjectEntity n m _ \<Rightarrow> n = ns \<and> m = nm
     | GotServiceConfig p _ \<Rightarrow> p = er_ProviderName R
     | GotOpenBaoInstance _ _ \<Rightarrow> True | BuiltClient _ _ \<Rightarrow> True | _ \<Rightarrow> False) es)"
  unfolding PE_Reconcile_def
  by (intro spec_intros) (auto simp: deleting_def)

end
