(* ===== verification/Jwt.thy ===== *)
theory Jwt
  imports ApiTypes Duration
begin

text \<open>
  Reading the claims of a ServiceAccount token (\<open>parseServiceAccountJWT\<close> and
  \<open>normalizeAudiences\<close> of \<open>internal/controller/controlplane_access.go\<close>), with the two
  decoders of the standard library it calls: \<open>base64.RawURLEncoding\<close> and
  \<open>encoding/json\<close>. The JSON reader is the stack machine of Go's scanner, run over
  tokens; only the texts of its errors are left open.
\<close>

section \<open>base64.RawURLEncoding\<close>

definition base64url_alphabet :: string where
  "base64url_alphabet = ''ABCDEFGHIJKLMNOPQRSTUVWXYZabcdefghijklmnopqrstuvwxyz0123456789-_''"

definition base64url_value :: "char \<Rightarrow> nat option" where
  "base64url_value = map_of (zip base64url_alphabet [0..<64])"

text \<open>The six-bit values of the input, line breaks skipped; or the offset of a bad byte.\<close>

fun sextets :: "nat \<Rightarrow> string \<Rightarrow> nat + nat list" where
  "sextets i [] = Inr []"
| "sextets i (c # s) =
     (if c = CHR 0x0A \<or> c = CHR 0x0D then sextets (i + 1) s
      else case base64url_value c of
          None \<Rightarrow> Inl i
        | Some v \<Rightarrow> (case sextets (i + 1) s of Inl e \<Rightarrow> Inl e | Inr vs \<Rightarrow> Inr (v # vs)))"

text \<open>Four values make three bytes; a tail of two or three makes one or two, its spare bits
  ignored; a tail of one is an error.\<close>

fun sextet_bytes :: "nat list \<Rightarrow> nat list option" where
  "sextet_bytes [] = Some []"
| "sextet_bytes [a] = None"
| "sextet_bytes [a, b] = Some [a * 4 + b div 16]"
| "sextet_bytes [a, b, c] = Some [a * 4 + b div 16, b mod 16 * 16 + c div 4]"
| "sextet_bytes (a # b # c # d # vs) =
     map_option (\<lambda>bs. (a * 4 + b div 16) # (b mod 16 * 16 + c div 4) # (c mod 4 * 64 + d) # bs)
       (sextet_bytes vs)"

fun decimal :: "nat \<Rightarrow> string" where
  "decimal n = (if n < 10 then [''0123456789'' ! n] else decimal (n div 10) @ [''0123456789'' ! (n mod 10)])"

declare decimal.simps [simp del]

definition CorruptInputError :: "nat \<Rightarrow> goerr" where
  "CorruptInputError i = errors_New (''illegal base64 data at input byte '' @ decimal i)"

definition RawURLEncoding_DecodeString :: "string \<Rightarrow> goerr + string" where
  "RawURLEncoding_DecodeString s =
     (case sextets 0 s of
        Inl i \<Rightarrow> Inl (CorruptInputError i)
      | Inr vs \<Rightarrow> (case sextet_bytes vs of
            None \<Rightarrow> Inl (CorruptInputError (length s - 1))
          | Some bs \<Rightarrow> Inr (map char_of bs)))"

section \<open>encoding/json: tokens\<close>

datatype token =
    LBrace | RBrace | LBrack | RBrack | Colon | Comma
  | TNull | TBool bool | TNum string | TStr string

definition json_space :: "char set" where
  "json_space = {CHR 0x20, CHR 0x09, CHR 0x0D, CHR 0x0A}"

definition hex_value :: "char \<Rightarrow> nat option" where
  "hex_value = map_of (zip ''0123456789abcdefABCDEF'' ([0..<16] @ [10..<16]))"

text \<open>The four digits of a \<open>u\<close> escape.\<close>

fun hex4 :: "string \<Rightarrow> nat option" where
  "hex4 (a # b # c # d # s) =
     (case (hex_value a, hex_value b, hex_value c, hex_value d) of
        (Some w, Some x, Some y, Some z) \<Rightarrow> Some (((w * 16 + x) * 16 + y) * 16 + z)
      | _ \<Rightarrow> None)"
| "hex4 s = None"

definition utf8_encode :: "nat \<Rightarrow> string" where
  "utf8_encode r =
     map char_of
      (if r < 0x80 then [r]
       else if r < 0x800 then [0xC0 + r div 64, 0x80 + r mod 64]
       else if r < 0x10000 then [0xE0 + r div 4096, 0x80 + r div 64 mod 64, 0x80 + r mod 64]
       else [0xF0 + r div 262144, 0x80 + r div 4096 mod 64, 0x80 + r div 64 mod 64, 0x80 + r mod 64])"

definition high_surrogate :: "nat \<Rightarrow> bool" where "high_surrogate r \<longleftrightarrow> 0xD800 \<le> r \<and> r < 0xDC00"
definition low_surrogate :: "nat \<Rightarrow> bool" where "low_surrogate r \<longleftrightarrow> 0xDC00 \<le> r \<and> r < 0xE000"

definition simple_escape :: "char \<Rightarrow> char option" where
  "simple_escape = map_of [(CHR 0x22, CHR 0x22), (CHR 0x5C, CHR 0x5C), (CHR ''/'', CHR ''/''),
     (CHR ''b'', CHR 0x08), (CHR ''f'', CHR 0x0C), (CHR ''n'', CHR 0x0A), (CHR ''r'', CHR 0x0D),
     (CHR ''t'', CHR 0x09)]"

text \<open>
  The body of a string literal after its opening quote: the unquoted bytes and the rest. Invalid
  UTF-8 and lone surrogates become U+FFFD.
\<close>

function scan_string :: "string \<Rightarrow> (string \<times> string) option" where
  "scan_string s =
     (case s of
        [] \<Rightarrow> None
      | c # t \<Rightarrow>
        if c = CHR 0x22 then Some ([], t)
        else if c = CHR 0x5C then
          (case t of
             [] \<Rightarrow> None
           | e # t' \<Rightarrow>
             if e = CHR ''u'' then
               (case hex4 t' of
                  None \<Rightarrow> None
                | Some r \<Rightarrow>
                  let t'' = drop 4 t'
                  in if high_surrogate r \<and> take 2 t'' = [CHR 0x5C, CHR ''u''] \<and>
                        (case hex4 (drop 2 t'') of Some r2 \<Rightarrow> low_surrogate r2 | None \<Rightarrow> False)
                     then map_option (\<lambda>(b, rest).
                            (utf8_encode (0x10000 + (r - 0xD800) * 1024 +
                               (the (hex4 (drop 2 t'')) - 0xDC00)) @ b, rest)) (scan_string (drop 6 t''))
                     else map_option (\<lambda>(b, rest).
                            (utf8_encode (if high_surrogate r \<or> low_surrogate r then rune_error else r) @ b,
                             rest)) (scan_string t''))
             else (case simple_escape e of
                 None \<Rightarrow> None
               | Some d \<Rightarrow> map_option (\<lambda>(b, rest). (d # b, rest)) (scan_string t')))
        else if (of_char c :: nat) < 0x20 then None
        else (case utf8_DecodeRune s of (r, w) \<Rightarrow>
            map_option (\<lambda>(b, rest). ((if w = 1 \<and> r = rune_error then utf8_encode rune_error
                                     else take (max 1 w) s) @ b, rest)) (scan_string (drop (max 1 w) s))))"
  by pat_completeness auto
termination
  by (relation "measure length") auto

declare scan_string.simps [simp del]

text \<open>The longest number at the front, by the grammar of JSON.\<close>

definition scan_digits :: "string \<Rightarrow> (string \<times> string) option" where
  "scan_digits s = (let d = takeWhile is_digit s
     in if d = [] then None else Some (d, dropWhile is_digit s))"

definition scan_int :: "string \<Rightarrow> (string \<times> string) option" where
  "scan_int s = (if take 1 s = ''0'' then Some (''0'', drop 1 s) else scan_digits s)"

definition scan_frac :: "string \<Rightarrow> (string \<times> string) option" where
  "scan_frac s =
     (if take 1 s = ''.'' then map_option (\<lambda>(d, r). (CHR ''.'' # d, r)) (scan_digits (drop 1 s))
      else Some ([], s))"

definition scan_exp :: "string \<Rightarrow> (string \<times> string) option" where
  "scan_exp s =
     (if take 1 s = ''e'' \<or> take 1 s = ''E'' then
        let s' = drop 1 s;
            sign = (if take 1 s' = ''-'' \<or> take 1 s' = ''+'' then take 1 s' else [])
        in map_option (\<lambda>(d, r). (''e'' @ sign @ d, r)) (scan_digits (drop (length sign) s'))
      else Some ([], s))"

definition scan_number :: "string \<Rightarrow> (string \<times> string) option" where
  "scan_number s =
     (let sign = (if take 1 s = ''-'' then ''-'' else [])
      in case scan_int (drop (length sign) s) of
           None \<Rightarrow> None
         | Some (ds, s2) \<Rightarrow>
           (case scan_frac s2 of
              None \<Rightarrow> None
            | Some (fr, s3) \<Rightarrow>
              (case scan_exp s3 of
                 None \<Rightarrow> None
               | Some (ex, s4) \<Rightarrow> Some (sign @ ds @ fr @ ex, s4))))"

definition punctuation :: "char \<Rightarrow> token option" where
  "punctuation = map_of [(CHR ''{'', LBrace), (CHR ''}'', RBrace), (CHR ''['', LBrack),
     (CHR '']'', RBrack), (CHR '':'', Colon), (CHR '','', Comma)]"

definition json_words :: "(string \<times> token) list" where
  "json_words = [(''null'', TNull), (''true'', TBool True), (''false'', TBool False)]"

text \<open>One token from the front of a text that starts with no space.\<close>

definition scan_token :: "string \<Rightarrow> (token \<times> string) option" where
  "scan_token s = (case s of
       [] \<Rightarrow> None
     | c # t \<Rightarrow> (case punctuation c of
           Some p \<Rightarrow> Some (p, t)
         | None \<Rightarrow>
           if c = CHR 0x22 then map_option (\<lambda>(b, r). (TStr b, r)) (scan_string t)
           else case List.find (\<lambda>(w, _). prefix w s) json_words of
               Some (w, k) \<Rightarrow> Some (k, drop (length w) s)
             | None \<Rightarrow> map_option (\<lambda>(d, r). (TNum d, r)) (scan_number s)))"

lemma length_scan_string: "scan_string s = Some (b, r) \<Longrightarrow> length r < length s"
proof (induction s arbitrary: b r rule: scan_string.induct)
  case (1 s)
  show ?case
    using "1.prems" "1.IH"
    by (subst (asm) scan_string.simps)
       (force simp: Let_def split: list.splits if_splits option.splits prod.splits)
qed

lemma length_scan_digits: "scan_digits s = Some (d, r) \<Longrightarrow> length r < length s"
  by (auto simp: scan_digits_def Let_def takeWhile_Nil_length split: if_splits)

lemma length_scan_int: "scan_int s = Some (d, r) \<Longrightarrow> length r < length s"
  by (cases s) (auto simp: scan_int_def dest: length_scan_digits split: if_splits)

lemma length_scan_frac: "scan_frac s = Some (d, r) \<Longrightarrow> length r \<le> length s"
  by (auto simp: scan_frac_def dest!: length_scan_digits split: if_splits)

lemma length_scan_exp: "scan_exp s = Some (d, r) \<Longrightarrow> length r \<le> length s"
  by (auto simp: scan_exp_def Let_def dest!: length_scan_digits split: if_splits)

lemma length_scan_number:
  assumes "scan_number s = Some (d, r)"
  shows "length r < length s"
proof -
  from assms obtain ds s2 fr s3 ex n where "scan_int (drop n s) = Some (ds, s2)"
    "scan_frac s2 = Some (fr, s3)" "scan_exp s3 = Some (ex, r)"
    unfolding scan_number_def Let_def by (auto split: option.splits prod.splits)
  from length_scan_int [OF this(1)] length_scan_frac [OF this(2)] length_scan_exp [OF this(3)]
  show ?thesis by simp
qed

lemma length_scan_token: "scan_token s = Some (t, r) \<Longrightarrow> length r < length s"
  unfolding scan_token_def
  by (auto split: list.splits option.splits if_splits
      dest!: length_scan_string length_scan_number find_Some_iff_first
      simp: json_words_def prefix_def)

function json_tokens :: "string \<Rightarrow> token list option" where
  "json_tokens s =
     (let s = dropWhile (\<lambda>c. c \<in> json_space) s
      in if s = [] then Some []
         else case scan_token s of
             None \<Rightarrow> None
           | Some (t, r) \<Rightarrow> map_option (\<lambda>ts. t # ts) (json_tokens r))"
  by pat_completeness auto
termination
  by (relation "measure length")
     (auto dest!: length_scan_token intro: less_le_trans [OF _ length_dropWhile_le_length])

declare json_tokens.simps [simp del]

section \<open>encoding/json: the scanner's stack machine\<close>

datatype jvalue =
    JNull | JBool bool | JNum string | JStr string
  | JArr "jvalue list" | JObj "(string \<times> jvalue) list"

text \<open>An open array or object with what it holds so far, the latest first; an object being read
  also holds the key whose value is due.\<close>

datatype frame =
    ArrF "jvalue list"
  | ObjF "(string \<times> jvalue) list"
  | KeyF "(string \<times> jvalue) list" string

datatype scan_state =
    BeginValue | BeginValueOrEmpty | BeginString | BeginStringOrEmpty | AfterKey
  | AfterElement | AfterMember | EndTop jvalue

text \<open>A value is complete: it goes into the frame on top.\<close>

fun scan_complete :: "jvalue \<Rightarrow> frame list \<Rightarrow> (scan_state \<times> frame list) option" where
  "scan_complete v [] = Some (EndTop v, [])"
| "scan_complete v (ArrF vs # st) = Some (AfterElement, ArrF (v # vs) # st)"
| "scan_complete v (KeyF kvs k # st) = Some (AfterMember, ObjF ((k, v) # kvs) # st)"
| "scan_complete v (ObjF kvs # st) = None"

definition maxNestingDepth :: nat where
  "maxNestingDepth = 10000"

fun scan_value :: "token \<Rightarrow> frame list \<Rightarrow> (scan_state \<times> frame list) option" where
  "scan_value TNull st = scan_complete JNull st"
| "scan_value (TBool b) st = scan_complete (JBool b) st"
| "scan_value (TNum n) st = scan_complete (JNum n) st"
| "scan_value (TStr t) st = scan_complete (JStr t) st"
| "scan_value LBrack st =
     (if length st < maxNestingDepth then Some (BeginValueOrEmpty, ArrF [] # st) else None)"
| "scan_value LBrace st =
     (if length st < maxNestingDepth then Some (BeginStringOrEmpty, ObjF [] # st) else None)"
| "scan_value _ st = None"

text \<open>One step: the expectation, the open frames and the token decide.\<close>

definition scan_member_key :: "frame list \<Rightarrow> token \<Rightarrow> (scan_state \<times> frame list) option" where
  "scan_member_key st t = (case (st, t) of
       (ObjF kvs # st', TStr k) \<Rightarrow> Some (AfterKey, KeyF kvs k # st')
     | _ \<Rightarrow> None)"

definition scan_step :: "scan_state \<times> frame list \<Rightarrow> token \<Rightarrow> (scan_state \<times> frame list) option" where
  "scan_step q t = (case q of (e, st) \<Rightarrow> (case e of
       BeginValue \<Rightarrow> scan_value t st
     | BeginValueOrEmpty \<Rightarrow>
         if t = RBrack then scan_complete (JArr []) (tl st) else scan_value t st
     | BeginString \<Rightarrow> scan_member_key st t
     | BeginStringOrEmpty \<Rightarrow>
         if t = RBrace then scan_complete (JObj []) (tl st) else scan_member_key st t
     | AfterKey \<Rightarrow> if t = Colon then Some (BeginValue, st) else None
     | AfterElement \<Rightarrow> (case st of
           ArrF vs # st' \<Rightarrow>
             if t = Comma then Some (BeginValue, st)
             else if t = RBrack then scan_complete (JArr (rev vs)) st' else None
         | _ \<Rightarrow> None)
     | AfterMember \<Rightarrow> (case st of
           ObjF kvs # st' \<Rightarrow>
             if t = Comma then Some (BeginString, st)
             else if t = RBrace then scan_complete (JObj (rev kvs)) st' else None
         | _ \<Rightarrow> None)
     | EndTop v \<Rightarrow> None))"

fun scan_all :: "scan_state \<times> frame list \<Rightarrow> token list \<Rightarrow> (scan_state \<times> frame list) option" where
  "scan_all q [] = Some q"
| "scan_all q (t # ts) = (case scan_step q t of None \<Rightarrow> None | Some q' \<Rightarrow> scan_all q' ts)"

definition json_parse :: "string \<Rightarrow> jvalue option" where
  "json_parse s = (case json_tokens s of
       None \<Rightarrow> None
     | Some ts \<Rightarrow> (case scan_all (BeginValue, []) ts of Some (EndTop v, []) \<Rightarrow> Some v | _ \<Rightarrow> None))"

section \<open>Claims\<close>

record jwt_claims =
  cl_Issuer :: string
  cl_Subject :: string
  cl_Audience :: "jvalue option"

text \<open>Struct fields match a key up to case; U+017F folds to \<open>s\<close>.\<close>

fun fold_key :: "string \<Rightarrow> string" where
  "fold_key [] = []"
| "fold_key (c # s) =
     (if c = CHR 0xC5 \<and> take 1 s = [CHR 0xBF] then CHR ''s'' # fold_key (drop 1 s)
      else byte_lower c # fold_key s)"

text \<open>
  A number that is stored in an \<open>any\<close> is converted to \<open>float64\<close>; one that would
  round to an infinity is an error. \<open>decimal_value ds\<close> reads digits.
\<close>

definition decimal_value :: "string \<Rightarrow> nat" where
  "decimal_value ds = fold (\<lambda>c n. n * 10 + (of_char c - 48)) ds 0"

definition float64_overflow :: nat where
  "float64_overflow = 2 ^ 1024 - 2 ^ 970"

definition number_in_range :: "string \<Rightarrow> bool" where
  "number_in_range n =
     (let s = (if take 1 n = ''-'' then drop 1 n else n);
          ip = takeWhile is_digit s;
          s1 = dropWhile is_digit s;
          fp = (if take 1 s1 = ''.'' then takeWhile is_digit (drop 1 s1) else []);
          s2 = (if take 1 s1 = ''.'' then dropWhile is_digit (drop 1 s1) else s1);
          m = decimal_value (ip @ fp);
          neg = take 1 (drop 1 s2) = ''-'';
          e = decimal_value (filter is_digit s2);
          up = (if neg then 0 else e);
          down = length fp + (if neg then e else 0)
      in m * 10 ^ up < float64_overflow * 10 ^ down)"

fun numbers_in_range :: "jvalue \<Rightarrow> bool" where
  "numbers_in_range (JNum n) = number_in_range n"
| "numbers_in_range (JArr vs) = list_all numbers_in_range vs"
| "numbers_in_range (JObj kvs) = list_all (\<lambda>(k, v). numbers_in_range v) kvs"
| "numbers_in_range _ = True"

text \<open>
  Storing one member; the flag says whether every value so far could be stored. A string
  field takes a string, keeps its value on \<open>null\<close>, and rejects anything else.
\<close>

definition store_string :: "jvalue \<Rightarrow> string \<Rightarrow> string \<times> bool" where
  "store_string v old = (case v of JStr t \<Rightarrow> (t, True) | JNull \<Rightarrow> (old, True) | _ \<Rightarrow> (old, False))"

definition store_member :: "string \<times> jvalue \<Rightarrow> jwt_claims \<times> bool \<Rightarrow> jwt_claims \<times> bool" where
  "store_member kv acc =
     (case (kv, acc) of ((k, v), (c, ok)) \<Rightarrow>
        (if fold_key k = ''iss'' then
           (case store_string v (cl_Issuer c) of (t, good) \<Rightarrow> (c\<lparr>cl_Issuer := t\<rparr>, ok \<and> good))
         else if fold_key k = ''sub'' then
           (case store_string v (cl_Subject c) of (t, good) \<Rightarrow> (c\<lparr>cl_Subject := t\<rparr>, ok \<and> good))
         else if fold_key k = ''aud'' then
           (c\<lparr>cl_Audience := (if v = JNull then None else Some v)\<rparr>, ok \<and> numbers_in_range v)
         else (c, ok)))"

definition json_Unmarshal_claims :: "string \<Rightarrow> jwt_claims option" where
  "json_Unmarshal_claims payload =
     (let zero = \<lparr>cl_Issuer = [], cl_Subject = [], cl_Audience = None\<rparr>
      in case json_parse payload of
           Some JNull \<Rightarrow> Some zero
         | Some (JObj kvs) \<Rightarrow> (case fold store_member kvs (zero, True) of
               (c, ok) \<Rightarrow> if ok then Some c else None)
         | _ \<Rightarrow> None)"

section \<open>The identity in a token\<close>

definition normalizeAudiences :: "jvalue option \<Rightarrow> string list" where
  "normalizeAudiences raw = (case raw of
       Some (JStr v) \<Rightarrow> if v = [] then [] else [v]
     | Some (JArr vs) \<Rightarrow>
         concat (map (\<lambda>item. case item of JStr s \<Rightarrow> if s \<noteq> [] then [s] else [] | _ \<Rightarrow> []) vs)
     | _ \<Rightarrow> [])"

text \<open>\<open>json_error\<close> gives the text of the decoder's error on a payload it rejects.\<close>

definition parseServiceAccountJWT ::
    "(string \<Rightarrow> goerr) \<Rightarrow> string \<Rightarrow> goerr + ServiceAccountIdentity" where
  "parseServiceAccountJWT json_error token =
     (let parts = strings_Split_byte token CHR ''.''
      in if length parts < 2 then Inl (errors_New ''service account token is not a JWT'')
         else case RawURLEncoding_DecodeString (parts ! 1) of
             Inl err \<Rightarrow> Inl (Errorf_w ''decoding service account JWT payload'' err)
           | Inr payload \<Rightarrow>
             (case json_Unmarshal_claims payload of
                None \<Rightarrow> Inl (Errorf_w ''parsing service account JWT claims'' (json_error payload))
              | Some claims \<Rightarrow>
                Inr \<lparr>sai_Alias = [], sai_Subject = cl_Subject claims, sai_Issuer = cl_Issuer claims,
                     sai_Audiences = normalizeAudiences (cl_Audience claims)\<rparr>))"

end
