(* ===== verification/Identity.thy ===== *)
theory Identity
  imports Shared Jwt "HOL-Library.List_Lexorder" "HOL-Library.Char_ord"
begin

text \<open>
  \<open>internal/controller/controlplane_access.go\<close>: reading a ControlPlane and its issuer,
  obtaining access to its cluster through an AccessRequest, and resolving the identity of a
  ServiceAccount there. Strings are ordered bytewise, as Go orders them.
\<close>

section \<open>The ControlPlane\<close>

definition controlPlaneJWTAudience :: string where
  [const_defs]: "controlPlaneJWTAudience = ''open-control-plane-platform-service-openbao''"

definition resolveControlPlaneAudience :: "string \<Rightarrow> string" where
  "resolveControlPlaneAudience audience =
     (if strings_TrimSpace audience \<noteq> [] then strings_TrimSpace audience else controlPlaneJWTAudience)"

definition getControlPlane ::
    "klib \<Rightarrow> 'w Cluster \<Rightarrow> string \<Rightarrow> string \<Rightarrow> ('w, ControlPlane option) oper" where
  "getControlPlane k c ns nm w =
     (case kc_GetControlPlane c ns nm w of
        (Inl err, w') \<Rightarrow>
          if err_NotFound err then (Inr None, w')
          else (Inl (Errorf_w (''fetching ControlPlane '' @ k_KeyString k ns nm) err), w')
      | (Inr cp, w') \<Rightarrow> (Inr (Some cp), w'))"

abbreviation get_control_plane ::
    "klib \<Rightarrow> 'w Cluster \<Rightarrow> string \<Rightarrow> string \<Rightarrow> ('w, goerr + ControlPlane option) action" where
  "get_control_plane k c ns nm \<equiv> call (getControlPlane k c ns nm) (\<lambda>r. [GotControlPlane ns nm r])"

fun issuer_endpoint :: "Endpoint list \<Rightarrow> string" where
  "issuer_endpoint [] = []"
| "issuer_endpoint (ep # eps) =
     (if ep_Name ep = ''service-account-issuer'' then strings_TrimRight (ep_URL ep) ''/''
      else issuer_endpoint eps)"

definition controlPlaneIssuer :: "ControlPlane option \<Rightarrow> string" where
  "controlPlaneIssuer cp = (case cp of None \<Rightarrow> [] | Some c \<Rightarrow> issuer_endpoint (cp_Endpoints c))"

section \<open>Access to the ControlPlane's cluster\<close>

definition time_Second :: duration where "time_Second = 1000000000"

definition controlPlaneClusterAccess ::
    "klib \<Rightarrow> 'w env \<Rightarrow> string \<Rightarrow> ControlPlane option \<Rightarrow> PermissionsRequest list \<Rightarrow>
     ('w, goerr + 'w Cluster) action" where
  "controlPlaneClusterAccess k env providerName cp permissions =
     (case cp of
        None \<Rightarrow> State_Monad.return (Inl (errors_New ''controlplane is nil''))
      | Some c \<Rightarrow>
        let providerNamespace = env_Getenv env (k_EnvVariablePodNamespace k)
        in if providerNamespace = [] then
             State_Monad.return (Inl (errors_New (''environment variable '' @ k_EnvVariablePodNamespace k @
               '' must be set to create ControlPlane AccessRequest'')))
           else case k_StableMCPNamespace k (cp_Name c) (cp_Namespace c) of
               Inl err \<Rightarrow> State_Monad.return (Inl err)
             | Inr mcpNamespace \<Rightarrow>
               (case env_AddToScheme env of
                  Some err \<Rightarrow> State_Monad.return (Inl (Errorf_w ''registering client-go scheme'' err))
                | None \<Rightarrow>
                  let args = \<lparr>aa_ProviderName = providerName, aa_ProviderNamespace = providerNamespace,
                        aa_Interval = 5 * time_Second, aa_Timeout = 2 * time_Minute,
                        aa_LocalName = ''mcp-'' @ cp_Namespace c @ ''-'' @ cp_Name c,
                        aa_RefName = cp_Name c, aa_RefNamespace = mcpNamespace,
                        aa_Permissions = permissions\<rparr>
                  in do {
                    r \<leftarrow> call (env_WaitForClusterAccess env args) (\<lambda>r. [ClusterAccess args (error_of r)]);
                    case r of
                      Inl err \<Rightarrow> State_Monad.return (Inl err)
                    | Inr cluster \<Rightarrow> State_Monad.return (Inr cluster)
                  }))"

definition serviceAccountIdentityPermissions :: "string \<Rightarrow> PermissionsRequest list" where
  "serviceAccountIdentityPermissions saNamespace =
     [\<lparr>pr_Namespace = saNamespace, pr_DisableAutomaticNamespaceCreation = True,
       pr_Rules =
        [\<lparr>rule_APIGroups = [''''], rule_Resources = [''serviceaccounts''], rule_Verbs = [''get'']\<rparr>,
         \<lparr>rule_APIGroups = [''''], rule_Resources = [''serviceaccounts/token''], rule_Verbs = [''create'']\<rparr>]\<rparr>]"

section \<open>The identity of a ServiceAccount\<close>

definition projectWorkspaceFromNamespace :: "string \<Rightarrow> string \<times> string" where
  "projectWorkspaceFromNamespace namespace =
     (case strings_Cut namespace ''--ws-'' of
        (projectPart, workspacePart, ok) \<Rightarrow>
          if \<not> ok then (namespace, [])
          else (strings_TrimPrefix projectPart ''project-'', workspacePart))"

definition controlPlaneEntityAlias :: "string \<Rightarrow> string \<Rightarrow> string \<Rightarrow> string \<Rightarrow> string" where
  "controlPlaneEntityAlias cpNamespace cpName serviceAccountNamespace serviceAccountName =
     (case projectWorkspaceFromNamespace cpNamespace of
        (project, workspace) \<Rightarrow>
          strings_Join [''ocp'', project, workspace, cpName, serviceAccountNamespace, serviceAccountName] '':'')"

definition identity_text :: "ServiceAccountIdentity \<Rightarrow> string" where
  "identity_text i = sai_Alias i @ [CHR 0x00] @ sai_Issuer i @ [CHR 0x00] @ sai_Subject i @ [CHR 0x00] @
     strings_Join (sort (sai_Audiences i)) '',''"

definition deterministicIdentityID :: "ServiceAccountIdentity option \<Rightarrow> string" where
  "deterministicIdentityID identity =
     (case identity of
        None \<Rightarrow> []
      | Some i \<Rightarrow> take 16 (hex_EncodeToString (sha256_Sum256 (identity_text i))))"

definition resolveServiceAccountIdentity ::
    "klib \<Rightarrow> 'w Cluster \<Rightarrow> string \<Rightarrow> string \<Rightarrow> string \<Rightarrow> string \<Rightarrow> string \<Rightarrow>
     ('w, goerr + ServiceAccountIdentity \<times> string) action" where
  "resolveServiceAccountIdentity k mcpCluster cpNamespace cpName namespace nm audience =
     (if strings_TrimSpace namespace = [] \<or> strings_TrimSpace nm = [] then
        State_Monad.return (Inl (errors_New ''serviceAccountRef namespace and name are required''))
      else case kc_NewForConfig mcpCluster of
          Inl err \<Rightarrow> State_Monad.return (Inl (Errorf_w ''building ControlPlane client'' err))
        | Inr clientset \<Rightarrow> do {
            r \<leftarrow> call (cs_GetServiceAccount clientset namespace nm) (\<lambda>r. [GotServiceAccount namespace nm r]);
            case r of
              Inl err \<Rightarrow> State_Monad.return
                (Inl (Errorf_w (''resolving ServiceAccount '' @ namespace @ ''/'' @ nm) err))
            | Inr _ \<Rightarrow> do {
                let tr = \<lparr>trs_Audiences = [audience], trs_ExpirationSeconds = 600\<rparr>;
                r \<leftarrow> call (cs_CreateToken clientset namespace nm tr)
                      (\<lambda>r. [CreatedToken namespace nm tr (error_of r)]);
                case r of
                  Inl err \<Rightarrow> State_Monad.return
                    (Inl (Errorf_w (''requesting token for ServiceAccount '' @ namespace @ ''/'' @ nm) err))
                | Inr tok \<Rightarrow>
                  (case parseServiceAccountJWT (k_JSONError k) tok of
                     Inl err \<Rightarrow> State_Monad.return (Inl err)
                   | Inr identity \<Rightarrow>
                     let identity = identity\<lparr>sai_Alias :=
                           controlPlaneEntityAlias cpNamespace cpName namespace nm\<rparr>;
                         identityID = deterministicIdentityID (Some identity)
                     in State_Monad.return (Inr (identity, identityID)))
              }
          })"

end
