(* ===== verification/CtlTrust.thy ===== *)
theory CtlTrust
  imports Identity
begin

text \<open>
  \<open>internal/controller/controlplanetrust_controller.go\<close>: the reconciler that owns the JWT
  auth mount of one ControlPlane. \<open>CT_Reconcile\<close> is the handler; its body is cut where the
  Go function reaches the ProjectEntity and where it has the ControlPlane, so that each part
  has its own lemmas.
\<close>

section \<open>The reconciler\<close>

record 'w ControlPlaneTrustReconciler =
  tr_PlatformCluster :: "'w Cluster"
  tr_OnboardingCluster :: "'w Cluster"
  tr_ProviderName :: string
  tr_ClientFactory :: "'w OpenBaoClientFactory"

definition NewControlPlaneTrustReconciler ::
    "klib \<Rightarrow> 'w env \<Rightarrow> 'w Cluster \<Rightarrow> 'w Cluster \<Rightarrow> string \<Rightarrow> 'w ControlPlaneTrustReconciler" where
  "NewControlPlaneTrustReconciler k env platform onboarding providerName =
     \<lparr>tr_PlatformCluster = platform, tr_OnboardingCluster = onboarding,
      tr_ProviderName = providerName,
      tr_ClientFactory = newDefaultOpenBaoClientFactory k env platform providerName\<rparr>"

definition CT_map_conditions ::
    "(Condition list \<Rightarrow> Condition list) \<Rightarrow> ControlPlaneTrust \<Rightarrow> ControlPlaneTrust" where
  "CT_map_conditions f trust =
     trust\<lparr>ct_Status := (ct_Status trust)\<lparr>ctst_Conditions := f (ctst_Conditions (ct_Status trust))\<rparr>\<rparr>"

definition CT_patchStatus ::
    "'w ControlPlaneTrustReconciler \<Rightarrow> ControlPlaneTrust \<Rightarrow> ServiceConfig \<Rightarrow>
     ('w, goerr + Result) action" where
  "CT_patchStatus R trust cfg = do {
     r \<leftarrow> call (kc_StatusControlPlaneTrust (tr_OnboardingCluster R) trust)
           (\<lambda>r. [StatusControlPlaneTrust trust r]);
     case r of
       Inl err \<Rightarrow> State_Monad.return (Inl (Errorf_w ''updating ControlPlaneTrust status'' err))
     | Inr _ \<Rightarrow> State_Monad.return (Inr (requeueResult (Some cfg)))
   }"

section \<open>Deletion\<close>

definition CT_finishDelete ::
    "klib \<Rightarrow> 'w ControlPlaneTrustReconciler \<Rightarrow> ControlPlaneTrust \<Rightarrow> ('w, goerr + Result) action" where
  "CT_finishDelete k R trust =
     (case k_RemoveFinalizer k FinalizerControlPlaneTrust (om_Finalizers (ct_Meta trust)) of
        (fs, changed) \<Rightarrow>
          let trust = trust\<lparr>ct_Meta := (ct_Meta trust)\<lparr>om_Finalizers := fs\<rparr>\<rparr>
          in if changed then do {
               r \<leftarrow> call (kc_UpdateControlPlaneTrust (tr_OnboardingCluster R) trust)
                     (\<lambda>r. [UpdatedControlPlaneTrust trust r]);
               case r of
                 Inl err \<Rightarrow> State_Monad.return (Inl (Errorf_w ''removing finalizer'' err))
               | Inr _ \<Rightarrow> State_Monad.return (Inr Result0)
             } else State_Monad.return (Inr Result0))"

definition CT_reconcileDelete ::
    "klib \<Rightarrow> 'w ControlPlaneTrustReconciler \<Rightarrow> ControlPlaneTrust \<Rightarrow> ('w, goerr + Result) action" where
  "CT_reconcileDelete k R trust =
     (let mount = ctst_AuthMountPath (ct_Status trust);
          resolved = ctst_ResolvedOpenBaoInstance (ct_Status trust)
      in if mount \<noteq> [] \<and> resolved \<noteq> [] then do {
           r \<leftarrow> get_instance k (tr_PlatformCluster R) resolved;
           case r of
             Inl err \<Rightarrow> State_Monad.return (Inl err)
           | Inr None \<Rightarrow> CT_finishDelete k R trust
           | Inr (Some inst) \<Rightarrow>
             (if \<not> isInstanceReachable k (Some inst) then CT_finishDelete k R trust
              else do {
                r \<leftarrow> build_client (tr_ClientFactory R) inst;
                case r of
                  Inl _ \<Rightarrow> CT_finishDelete k R trust
                | Inr baoClient \<Rightarrow> do {
                    r \<leftarrow> call (cl_DeleteAuthMount baoClient mount) (\<lambda>r. [BaoDeleteMount inst mount r]);
                    case r of
                      Inl err \<Rightarrow> State_Monad.return (Inl (Errorf_w ''deleting auth mount'' err))
                    | Inr _ \<Rightarrow> CT_finishDelete k R trust
                  }
              })
         } else CT_finishDelete k R trust)"

section \<open>Configuring the mount\<close>

definition CT_mountPath :: "ServiceConfig \<Rightarrow> OpenBaoInstance \<Rightarrow> ControlPlaneTrust \<Rightarrow> string" where
  "CT_mountPath cfg inst trust =
     AuthMountPath (resolveAuthMountPrefix (sc_Spec cfg) (Some inst)) (om_Namespace (ct_Meta trust))
       (lor_Name (cts_ControlPlaneRef (ct_Spec trust)))"

definition CT_trustConfig :: "string \<Rightarrow> JWTAuthConfig" where
  "CT_trustConfig issuer =
     \<lparr>jc_OIDCDiscoveryURL = [], jc_OIDCDiscoveryCAPEM = [], jc_JWKSURL = issuer @ ''/jwks'',
      jc_JWKSCAPEM = [], jc_BoundIssuer = issuer, jc_DefaultRole = []\<rparr>"

definition CT_configure ::
    "klib \<Rightarrow> 'w ControlPlaneTrustReconciler \<Rightarrow> ServiceConfig \<Rightarrow> OpenBaoInstance \<Rightarrow> ControlPlane \<Rightarrow>
     ControlPlaneTrust \<Rightarrow> ('w, goerr + Result) action" where
  "CT_configure k R cfg inst cp trust =
     (let gen = om_Generation (ct_Meta trust);
          issuer = controlPlaneIssuer (Some cp)
      in if issuer = [] then
           CT_patchStatus R (CT_map_conditions (\<lambda>cs.
             setCondition k gen (mk_condition ConditionReady ConditionFalse ReasonIssuerDiscoveryFailed
                 ''ControlPlane trust incomplete: issuer discovery pending'')
               (setCondition k gen (mk_condition ConditionTrustConfigured ConditionFalse
                 ReasonIssuerDiscoveryFailed
                 (''ControlPlane '' @ cp_Namespace cp @ ''/'' @ cp_Name cp @
                  '' does not expose service-account-issuer endpoint yet'')) cs)) trust) cfg
         else
           let resolvedAudience = resolveControlPlaneAudience (cts_Audience (ct_Spec trust));
               trust = trust\<lparr>ct_Status := (ct_Status trust)\<lparr>ctst_Issuer := issuer,
                         ctst_Audience := resolvedAudience\<rparr>\<rparr>;
               mountPath = CT_mountPath cfg inst trust;
               trust = trust\<lparr>ct_Status := (ct_Status trust)\<lparr>ctst_AuthMountPath := mountPath\<rparr>\<rparr>
           in do {
             r \<leftarrow> build_client (tr_ClientFactory R) inst;
             case r of
               Inl err \<Rightarrow>
                 CT_patchStatus R (CT_map_conditions (\<lambda>cs.
                   setCondition k gen (mk_condition ConditionReady ConditionFalse
                       ReasonOpenBaoUnreachable (err_Msg err))
                     (setCondition k gen (mk_condition ConditionTrustConfigured ConditionFalse
                       ReasonOpenBaoUnreachable (err_Msg err)) cs)) trust) cfg
             | Inr baoClient \<Rightarrow> do {
                 r \<leftarrow> call (cl_EnsureJWTAuthMount baoClient mountPath)
                       (\<lambda>r. [BaoEnsureMount inst mountPath r]);
                 case r of
                   Inl err \<Rightarrow>
                     CT_patchStatus R (CT_map_conditions (setCondition k gen
                       (mk_condition ConditionTrustConfigured ConditionFalse ReasonReconcileError
                         (err_Msg err))) trust) cfg
                 | Inr _ \<Rightarrow> do {
                     r \<leftarrow> call (cl_ConfigureJWTTrust baoClient mountPath (CT_trustConfig issuer))
                           (\<lambda>r. [BaoConfigure inst mountPath (CT_trustConfig issuer) r]);
                     case r of
                       Inl err \<Rightarrow>
                         CT_patchStatus R (CT_map_conditions (setCondition k gen
                           (mk_condition ConditionTrustConfigured ConditionFalse ReasonReconcileError
                             (err_Msg err))) trust) cfg
                     | Inr _ \<Rightarrow>
                         CT_patchStatus R (CT_map_conditions (\<lambda>cs. markReady k gen
                           (setCondition k gen (mk_condition ConditionTrustConfigured ConditionTrue
                             ReasonReconciled []) cs)) trust) cfg
                   }
               }
           })"

section \<open>Resolving the dependencies\<close>

definition CT_resolve ::
    "klib \<Rightarrow> 'w ControlPlaneTrustReconciler \<Rightarrow> ServiceConfig \<Rightarrow> ControlPlaneTrust \<Rightarrow>
     ('w, goerr + Result) action" where
  "CT_resolve k R cfg trust =
     (let gen = om_Generation (ct_Meta trust);
          peNs = nor_Namespace (cts_ProjectEntityRef (ct_Spec trust));
          peName = nor_Name (cts_ProjectEntityRef (ct_Spec trust))
      in do {
        r \<leftarrow> get_project_entity (tr_OnboardingCluster R) peNs peName;
        case r of
          Inl err \<Rightarrow>
            (if err_NotFound err then
               CT_patchStatus R (CT_map_conditions (dependencyNotReady k gen ReasonDependencyNotFound
                 (''ProjectEntity '' @ peNs @ ''/'' @ peName @ '' not found'')) trust) cfg
             else State_Monad.return (Inl (Errorf_w ''fetching ProjectEntity'' err)))
        | Inr pe \<Rightarrow> do {
            let instName = lor_Name (pes_OpenBaoInstanceRef (pe_Spec pe));
            r \<leftarrow> get_instance k (tr_PlatformCluster R) instName;
            case r of
              Inl err \<Rightarrow> State_Monad.return (Inl err)
            | Inr None \<Rightarrow>
                CT_patchStatus R (CT_map_conditions (dependencyNotReady k gen ReasonDependencyNotFound
                  (''OpenBaoInstance '' @ strconv_Quote (k_Print k) instName @ '' not found'')) trust) cfg
            | Inr (Some inst) \<Rightarrow>
                let trust = trust\<lparr>ct_Status := (ct_Status trust)\<lparr>ctst_ResolvedOpenBaoInstance :=
                      om_Name (oi_Meta inst)\<rparr>\<rparr>
                in if \<not> isInstanceReachable k (Some inst) then
                     CT_patchStatus R (CT_map_conditions (dependencyNotReady k gen
                       ReasonOpenBaoUnreachable
                       (''OpenBaoInstance '' @ strconv_Quote (k_Print k) (om_Name (oi_Meta inst)) @
                        '' is not reachable'')) trust) cfg
                   else do {
                     let cpName = lor_Name (cts_ControlPlaneRef (ct_Spec trust));
                     let ns = om_Namespace (ct_Meta trust);
                     r \<leftarrow> get_control_plane k (tr_OnboardingCluster R) ns cpName;
                     case r of
                       Inl err \<Rightarrow> State_Monad.return (Inl err)
                     | Inr None \<Rightarrow>
                         CT_patchStatus R (CT_map_conditions (dependencyNotReady k gen
                           ReasonDependencyNotFound
                           (''ControlPlane '' @ strconv_Quote (k_Print k) cpName @ '' not found in namespace '' @
                            strconv_Quote (k_Print k) ns)) trust) cfg
                     | Inr (Some cp) \<Rightarrow> CT_configure k R cfg inst cp trust
                   }
          }
      })"

section \<open>The handler\<close>

definition CT_Reconcile ::
    "klib \<Rightarrow> 'w ControlPlaneTrustReconciler \<Rightarrow> string \<Rightarrow> string \<Rightarrow> ('w, goerr + Result) action" where
  "CT_Reconcile k R ns nm = do {
     r \<leftarrow> get_trust (tr_OnboardingCluster R) ns nm;
     case r of
       Inl err \<Rightarrow>
         (if err_NotFound err then State_Monad.return (Inr Result0)
          else State_Monad.return (Inl (Errorf_w ''fetching ControlPlaneTrust'' err)))
     | Inr trust \<Rightarrow> do {
         r \<leftarrow> get_config k (tr_PlatformCluster R) (tr_ProviderName R);
         case r of
           Inl err \<Rightarrow> State_Monad.return (Inl err)
         | Inr cfg \<Rightarrow>
           let trust = trust\<lparr>ct_Status := (ct_Status trust)\<lparr>ctst_ObservedGeneration :=
                 om_Generation (ct_Meta trust)\<rparr>\<rparr>
           in if \<not> time_IsZero (om_DeletionTimestamp (ct_Meta trust)) then CT_reconcileDelete k R trust
              else case k_AddFinalizer k FinalizerControlPlaneTrust (om_Finalizers (ct_Meta trust)) of
                  (fs, changed) \<Rightarrow>
                    let trust = trust\<lparr>ct_Meta := (ct_Meta trust)\<lparr>om_Finalizers := fs\<rparr>\<rparr>
                    in if changed then do {
                         r \<leftarrow> call (kc_UpdateControlPlaneTrust (tr_OnboardingCluster R) trust)
                               (\<lambda>r. [UpdatedControlPlaneTrust trust r]);
                         case r of
                           Inl err \<Rightarrow> State_Monad.return (Inl (Errorf_w ''adding finalizer'' err))
                         | Inr trust \<Rightarrow> CT_resolve k R cfg trust
                       } else CT_resolve k R cfg trust
       }
   }"

section \<open>Watch mapper\<close>

definition CT_enqueueForProjectEntity ::
    "'w ControlPlaneTrustReconciler \<Rightarrow> ProjectEntity \<Rightarrow> 'w \<Rightarrow> (string \<times> string) list \<times> 'w" where
  "CT_enqueueForProjectEntity R pe w =
     (case kc_ListControlPlaneTrusts (tr_OnboardingCluster R) None w of
        (Inl _, w') \<Rightarrow> ([], w')
      | (Inr items, w') \<Rightarrow>
        (map (\<lambda>t. (om_Namespace (ct_Meta t), om_Name (ct_Meta t)))
           (filter (\<lambda>t. let ref = cts_ProjectEntityRef (ct_Spec t)
                         in nor_Namespace ref = om_Namespace (pe_Meta pe) \<and>
                            nor_Name ref = om_Name (pe_Meta pe)) items), w'))"

section \<open>Runs of the parts\<close>

lemma spec_CT_patchStatus [spec_intros]:
  assumes "\<And>r. T (case r of Inl err \<Rightarrow> Inl (Errorf_w ''updating ControlPlaneTrust status'' err)
              | Inr _ \<Rightarrow> Inr (requeueResult (Some cfg))) [StatusControlPlaneTrust t r]"
  shows "spec (CT_patchStatus R t cfg) T"
  unfolding CT_patchStatus_def
  by (intro spec_intros) (use assms in \<open>auto split: sum.splits, (metis append_Nil2 sum.case)+\<close>)

lemma CT_map_conditions_sel [simp]:
  "ct_Meta (CT_map_conditions f t) = ct_Meta t" "ct_Spec (CT_map_conditions f t) = ct_Spec t"
  "ctst_Conditions (ct_Status (CT_map_conditions f t)) = f (ctst_Conditions (ct_Status t))"
  "ctst_AuthMountPath (ct_Status (CT_map_conditions f t)) = ctst_AuthMountPath (ct_Status t)"
  "ctst_Issuer (ct_Status (CT_map_conditions f t)) = ctst_Issuer (ct_Status t)"
  "ctst_Audience (ct_Status (CT_map_conditions f t)) = ctst_Audience (ct_Status t)"
  "ctst_ResolvedOpenBaoInstance (ct_Status (CT_map_conditions f t)) =
     ctst_ResolvedOpenBaoInstance (ct_Status t)"
  by (simp_all add: CT_map_conditions_def)

lemma CT_mountPath_cong:
  "ct_Meta t = ct_Meta t' \<Longrightarrow> ct_Spec t = ct_Spec t' \<Longrightarrow> CT_mountPath cfg i t = CT_mountPath cfg i t'"
  by (simp add: CT_mountPath_def)

lemma CT_mountPath_status [simp]: "CT_mountPath cfg i (ct_Status_update f t) = CT_mountPath cfg i t"
  by (simp add: CT_mountPath_def)

text \<open>The finalizer is on the object as it was read, or an update that carries it succeeded.\<close>

definition trust_finalized :: "event \<Rightarrow> bool" where
  "trust_finalized e = (case e of
     GotControlPlaneTrust _ _ (Inr t) \<Rightarrow> FinalizerControlPlaneTrust \<in> set (om_Finalizers (ct_Meta t))
   | UpdatedControlPlaneTrust t (Inr _) \<Rightarrow> FinalizerControlPlaneTrust \<in> set (om_Finalizers (ct_Meta t))
   | _ \<Rightarrow> False)"

lemma CT_resolve_appends: "spec (CT_resolve k R cfg t) (\<lambda>_ _. True)"
  unfolding CT_resolve_def CT_configure_def by (intro spec_intros TrueI)

lemma CT_reconcileDelete_provisions_nothing:
  "spec (CT_reconcileDelete k R t) (\<lambda>_. list_all (\<lambda>e. \<not> bao_provision e))"
  unfolding CT_reconcileDelete_def CT_finishDelete_def
  by (intro spec_intros) (simp_all add: bao_provision_def)

lemmas CT_defs = CT_Reconcile_def CT_reconcileDelete_def CT_finishDelete_def CT_resolve_def
  CT_configure_def

text \<open>The trust a pass works on: as it was read, or as the last update returned it.\<close>

definition trust_working :: "event list \<Rightarrow> ControlPlaneTrust option" where
  "trust_working es = fold (\<lambda>e acc. case e of
       GotControlPlaneTrust _ _ (Inr t) \<Rightarrow> Some t
     | UpdatedControlPlaneTrust _ (Inr t) \<Rightarrow> Some t
     | _ \<Rightarrow> acc) es None"

text \<open>The log shows how the trust \<open>t\<close> was resolved to the reachable instance \<open>inst\<close>.\<close>

definition trust_instance :: "klib \<Rightarrow> event list \<Rightarrow> ControlPlaneTrust \<Rightarrow> OpenBaoInstance \<Rightarrow> bool" where
  "trust_instance k es t inst \<longleftrightarrow>
     (\<exists>pe. GotProjectEntity (nor_Namespace (cts_ProjectEntityRef (ct_Spec t)))
              (nor_Name (cts_ProjectEntityRef (ct_Spec t))) (Inr pe) \<in> set es \<and>
           GotOpenBaoInstance (lor_Name (pes_OpenBaoInstanceRef (pe_Spec pe))) (Inr (Some inst)) \<in> set es) \<and>
     isInstanceReachable k (Some inst)"

definition trust_call_ok :: "klib \<Rightarrow> string \<Rightarrow> string \<Rightarrow> string \<Rightarrow> event list \<Rightarrow> event \<Rightarrow> bool" where
  "trust_call_ok k prov ns nm es e = (case e of
     BaoEnsureMount inst p _ \<Rightarrow>
       (\<exists>t0 t cfg. GotControlPlaneTrust ns nm (Inr t0) \<in> set es \<and> \<not> deleting (ct_Meta t0) \<and>
         trust_working es = Some t \<and> GotServiceConfig prov (Inr cfg) \<in> set es \<and>
         trust_instance k es t inst \<and>
         p = AuthMountPath (resolveAuthMountPrefix (sc_Spec cfg) (Some inst)) (om_Namespace (ct_Meta t))
           (lor_Name (cts_ControlPlaneRef (ct_Spec t))))
   | BaoConfigure inst p c _ \<Rightarrow>
       (\<exists>t0 t cfg cp. GotControlPlaneTrust ns nm (Inr t0) \<in> set es \<and> \<not> deleting (ct_Meta t0) \<and>
         trust_working es = Some t \<and> GotServiceConfig prov (Inr cfg) \<in> set es \<and>
         trust_instance k es t inst \<and>
         p = AuthMountPath (resolveAuthMountPrefix (sc_Spec cfg) (Some inst)) (om_Namespace (ct_Meta t))
           (lor_Name (cts_ControlPlaneRef (ct_Spec t))) \<and>
         GotControlPlane (om_Namespace (ct_Meta t)) (lor_Name (cts_ControlPlaneRef (ct_Spec t)))
           (Inr (Some cp)) \<in> set es \<and>
         controlPlaneIssuer (Some cp) \<noteq> [] \<and> jc_BoundIssuer c = controlPlaneIssuer (Some cp) \<and>
         jc_JWKSURL c = controlPlaneIssuer (Some cp) @ ''/jwks'' \<and> jc_OIDCDiscoveryURL c = [] \<and>
         jc_OIDCDiscoveryCAPEM c = [] \<and> jc_JWKSCAPEM c = [] \<and> jc_DefaultRole c = [])
   | BaoDeleteMount inst p _ \<Rightarrow>
       (\<exists>t. GotControlPlaneTrust ns nm (Inr t) \<in> set es \<and> deleting (ct_Meta t) \<and>
         p = ctst_AuthMountPath (ct_Status t) \<and> p \<noteq> [] \<and>
         GotOpenBaoInstance (ctst_ResolvedOpenBaoInstance (ct_Status t)) (Inr (Some inst)) \<in> set es \<and>
         isInstanceReachable k (Some inst))
   | StatusControlPlaneTrust t' _ \<Rightarrow>
       (\<exists>t. trust_working es = Some t \<and> ct_Spec t' = ct_Spec t \<and>
         om_Namespace (ct_Meta t') = om_Namespace (ct_Meta t) \<and> om_Name (ct_Meta t') = om_Name (ct_Meta t))
   | UpdatedControlPlaneTrust t' _ \<Rightarrow>
       (\<exists>t. GotControlPlaneTrust ns nm (Inr t) \<in> set es \<and> ct_Spec t' = ct_Spec t \<and>
         om_Namespace (ct_Meta t') = om_Namespace (ct_Meta t) \<and> om_Name (ct_Meta t') = om_Name (ct_Meta t))
   | GotControlPlaneTrust _ _ _ \<Rightarrow> True | GotServiceConfig _ _ \<Rightarrow> True | GotProjectEntity _ _ _ \<Rightarrow> True
   | GotOpenBaoInstance _ _ \<Rightarrow> True | GotControlPlane _ _ _ \<Rightarrow> True | BuiltClient _ _ \<Rightarrow> True
   | _ \<Rightarrow> False)"

text \<open>A dependency of the trust is missing or not ready, with the reason to report.\<close>

definition trust_blocked :: "klib \<Rightarrow> event list \<Rightarrow> string \<Rightarrow> bool" where
  "trust_blocked k es reason \<longleftrightarrow>
     reason = ReasonDependencyNotFound \<and>
       ((\<exists>a b e. GotProjectEntity a b (Inl e) \<in> set es \<and> err_NotFound e) \<or>
        (\<exists>n. GotOpenBaoInstance n (Inr None) \<in> set es) \<or>
        (\<exists>a b. GotControlPlane a b (Inr None) \<in> set es)) \<or>
     reason = ReasonOpenBaoUnreachable \<and>
       (\<exists>n inst. GotOpenBaoInstance n (Inr (Some inst)) \<in> set es \<and> \<not> isInstanceReachable k (Some inst))"

section \<open>Properties\<close>

text \<open>C15. The finalizer comes before external work: in every pass, whatever the API servers and
  OpenBao answer, no OpenBao object is created or changed before the trust carries the
  finalizer, either as it was read or by an update the server accepted.\<close>

theorem trust_finalizer_first:
  assumes "lawful_finalizers k"
  shows "spec (CT_Reconcile k R ns nm) (\<lambda>_. preceded trust_finalized bao_provision)"
  unfolding CT_Reconcile_def
  by (intro spec_intros spec_mono [OF CT_resolve_appends] spec_mono [OF CT_reconcileDelete_provisions_nothing])
     (use assms in \<open>auto simp: trust_finalized_def bao_provision_def lawful_finalizers_def
        preceded_none split: if_splits\<close>)

lemma CT_scope:
  "spec (CT_Reconcile k R ns nm) (\<lambda>_ es. list_all (trust_call_ok k (tr_ProviderName R) ns nm es) es)"
  unfolding CT_defs
  by (intro spec_intros)
     (auto simp: trust_call_ok_def trust_working_def trust_instance_def deleting_def
       CT_mountPath_def CT_trustConfig_def split: if_splits)

text \<open>C6. Scope of a trust pass: the only OpenBao writes it makes are to ensure and configure the
  mount whose path is computed from this trust, on the reachable instance its ProjectEntity
  names and with the issuer its ControlPlane exposes, or, on a trust being deleted, to remove
  the recorded mount on the recorded instance. It writes no Kubernetes object but this trust
  and never changes its spec.\<close>

theorem trust_pass_scope:
  "spec (CT_Reconcile k R ns nm) (\<lambda>_ es. list_all (trust_call_ok k (tr_ProviderName R) ns nm es) es)"
  by (rule CT_scope)

text \<open>C14. A pass that configures the mount publishes it: the mount had been ensured, the status
  names its path, issuer, audience and instance, TrustConfigured, DependencyReady and Ready
  are True for the current generation, and the pass ends with the configured requeue.\<close>

theorem trust_success_published:
  assumes "lawful_conditions k"
  shows "spec (CT_Reconcile k R ns nm) (\<lambda>r es. \<forall>p c inst. BaoConfigure inst p c (Inr ()) \<in> set es \<longrightarrow>
     BaoEnsureMount inst p (Inr ()) \<in> set es \<and>
     (\<exists>t g ru. last es = StatusControlPlaneTrust t ru \<and>
       ctst_AuthMountPath (ct_Status t) = p \<and> ctst_Issuer (ct_Status t) = jc_BoundIssuer c \<and>
       jc_JWKSURL c = jc_BoundIssuer c @ ''/jwks'' \<and>
       ctst_Audience (ct_Status t) = resolveControlPlaneAudience (cts_Audience (ct_Spec t)) \<and>
       ctst_ResolvedOpenBaoInstance (ct_Status t) = om_Name (oi_Meta inst) \<and>
       g = om_Generation (ct_Meta t) \<and>
       shows_condition k (ctst_Conditions (ct_Status t)) g ConditionTrustConfigured ConditionTrue ReasonReconciled [] \<and>
       shows_condition k (ctst_Conditions (ct_Status t)) g ConditionDependencyReady ConditionTrue ReasonReconciled [] \<and>
       shows_condition k (ctst_Conditions (ct_Status t)) g ConditionReady ConditionTrue ReasonReconciled [] \<and>
       (ru = Inr () \<longrightarrow> (\<exists>cfg. GotServiceConfig (tr_ProviderName R) (Inr cfg) \<in> set es \<and>
           r = Inr (requeueResult (Some cfg))))))"
  unfolding CT_defs
  by (intro spec_intros) (auto simp: condition_rules [OF assms] CT_trustConfig_def
    split: if_splits sum.splits)

text \<open>C21. When Ready is published as True: exactly when this pass configured the mount, or when
  Ready was True before and ensuring or configuring the mount failed in this pass. The second
  case is a stale condition: the failure is reported under TrustConfigured only.\<close>

theorem trust_ready_iff:
  assumes "lawful_conditions k"
  shows "spec (CT_Reconcile k R ns nm) (\<lambda>_ es. \<forall>t ru. StatusControlPlaneTrust t ru \<in> set es \<longrightarrow>
     (isConditionTrue k (ctst_Conditions (ct_Status t)) ConditionReady \<longleftrightarrow>
       (\<exists>inst p c. BaoConfigure inst p c (Inr ()) \<in> set es) \<or>
       (\<exists>t0. trust_working es = Some t0 \<and> isConditionTrue k (ctst_Conditions (ct_Status t0)) ConditionReady) \<and>
       (\<exists>inst p c e. BaoEnsureMount inst p (Inl e) \<in> set es \<or> BaoConfigure inst p c (Inl e) \<in> set es)))"
  unfolding CT_defs
  by (intro spec_intros) (auto simp: condition_rules [OF assms] trust_working_def
    split: if_splits sum.splits)

text \<open>C22. A missing or unready dependency stops a pass before any OpenBao call, and Ready and
  DependencyReady are published as False with the reason that names the kind of blocker.\<close>

theorem trust_blocked_published:
  assumes "lawful_conditions k"
  shows "spec (CT_Reconcile k R ns nm) (\<lambda>_ es. \<forall>t0 reason. GotControlPlaneTrust ns nm (Inr t0) \<in> set es \<and>
     \<not> deleting (ct_Meta t0) \<and> trust_blocked k es reason \<longrightarrow>
     list_all (\<lambda>e. \<not> bao_call e) es \<and>
     (\<exists>t ru message. last es = StatusControlPlaneTrust t ru \<and>
       shows_condition k (ctst_Conditions (ct_Status t)) (om_Generation (ct_Meta t)) ConditionReady
         ConditionFalse reason message \<and>
       shows_condition k (ctst_Conditions (ct_Status t)) (om_Generation (ct_Meta t)) ConditionDependencyReady
         ConditionFalse reason message))"
  unfolding CT_defs
  by (intro spec_intros) (auto simp: condition_rules [OF assms] trust_blocked_def log_defs
    split: if_splits sum.splits)

text \<open>C16. Deletion: the finalizer is dropped only after the recorded mount was deleted, unless no
  mount or instance is recorded, the instance is gone or unreachable, or no client could be
  built for it (the mount then stays behind); and when deleting the mount fails, the error is
  returned and the finalizer stays.\<close>

theorem trust_delete_finalizer:
  "spec (CT_Reconcile k R ns nm) (\<lambda>r es. \<forall>t. GotControlPlaneTrust ns nm (Inr t) \<in> set es \<and> deleting (ct_Meta t) \<longrightarrow>
     (let path = ctst_AuthMountPath (ct_Status t); resolved = ctst_ResolvedOpenBaoInstance (ct_Status t)
      in (\<forall>t' ru. UpdatedControlPlaneTrust t' ru \<in> set es \<longrightarrow>
            (\<exists>inst. BaoDeleteMount inst path (Inr ()) \<in> set es) \<or> path = [] \<or> resolved = [] \<or>
            GotOpenBaoInstance resolved (Inr None) \<in> set es \<or>
            (\<exists>inst. GotOpenBaoInstance resolved (Inr (Some inst)) \<in> set es \<and>
               (\<not> isInstanceReachable k (Some inst) \<or> (\<exists>e. BuiltClient inst (Some e) \<in> set es)))) \<and>
         (\<forall>inst p e. BaoDeleteMount inst p (Inl e) \<in> set es \<longrightarrow>
            r = Inl (Errorf_w ''deleting auth mount'' e) \<and>
            (\<forall>t' ru. UpdatedControlPlaneTrust t' ru \<notin> set es))))"
  unfolding CT_defs
  by (intro spec_intros) (auto simp: deleting_def error_of_None_iff
    split: if_splits sum.splits)

end
