(* ===== verification/CtlEntity.thy ===== *)
theory CtlEntity
  imports Identity
begin

text \<open>
  \<open>internal/controller/controlplaneentity_controller.go\<close>: the reconciler that resolves the
  identity of an existing ServiceAccount in a tenant ControlPlane. It holds no OpenBao client.
\<close>

section \<open>The reconciler\<close>

record 'w ControlPlaneEntityReconciler =
  nr_PlatformCluster :: "'w Cluster"
  nr_OnboardingCluster :: "'w Cluster"
  nr_ProviderName :: string

definition NewControlPlaneEntityReconciler ::
    "'w Cluster \<Rightarrow> 'w Cluster \<Rightarrow> string \<Rightarrow> 'w ControlPlaneEntityReconciler" where
  "NewControlPlaneEntityReconciler platform onboarding providerName =
     \<lparr>nr_PlatformCluster = platform, nr_OnboardingCluster = onboarding, nr_ProviderName = providerName\<rparr>"

definition CE_map_conditions ::
    "(Condition list \<Rightarrow> Condition list) \<Rightarrow> ControlPlaneEntity \<Rightarrow> ControlPlaneEntity" where
  "CE_map_conditions f ce =
     ce\<lparr>ce_Status := (ce_Status ce)\<lparr>cest_Conditions := f (cest_Conditions (ce_Status ce))\<rparr>\<rparr>"

definition CE_patchStatus ::
    "'w ControlPlaneEntityReconciler \<Rightarrow> ControlPlaneEntity \<Rightarrow> ServiceConfig \<Rightarrow>
     ('w, goerr + Result) action" where
  "CE_patchStatus R ce cfg = do {
     r \<leftarrow> call (kc_StatusControlPlaneEntity (nr_OnboardingCluster R) ce)
           (\<lambda>r. [StatusControlPlaneEntity ce r]);
     case r of
       Inl err \<Rightarrow> State_Monad.return (Inl (Errorf_w ''updating ControlPlaneEntity status'' err))
     | Inr _ \<Rightarrow> State_Monad.return (Inr (requeueResult (Some cfg)))
   }"

text \<open>The two conditions of an identity that could not be resolved.\<close>

definition CE_unresolved :: "klib \<Rightarrow> string \<Rightarrow> string \<Rightarrow> ControlPlaneEntity \<Rightarrow> ControlPlaneEntity" where
  "CE_unresolved k message readyMessage ce =
     CE_map_conditions (\<lambda>cs.
       let gen = om_Generation (ce_Meta ce);
           cs = setCondition k gen (mk_condition ConditionIdentityResolved ConditionFalse
                  ReasonControlPlaneUnavailable message) cs
       in setCondition k gen (mk_condition ConditionReady ConditionFalse
            ReasonControlPlaneUnavailable readyMessage) cs) ce"

section \<open>Resolving the identity\<close>

definition CE_identify ::
    "klib \<Rightarrow> 'w env \<Rightarrow> 'w ControlPlaneEntityReconciler \<Rightarrow> ServiceConfig \<Rightarrow> ControlPlaneTrust \<Rightarrow>
     ControlPlane \<Rightarrow> ControlPlaneEntity \<Rightarrow> ('w, goerr + Result) action" where
  "CE_identify k env R cfg trust cp ce =
     (let saNs = nor_Namespace (ces_ServiceAccountRef (ce_Spec ce));
          saName = nor_Name (ces_ServiceAccountRef (ce_Spec ce))
      in do {
        r \<leftarrow> controlPlaneClusterAccess k env (nr_ProviderName R) (Some cp)
              (serviceAccountIdentityPermissions saNs);
        case r of
          Inl err \<Rightarrow>
            CE_patchStatus R (CE_unresolved k (err_Msg err) ''Waiting for ControlPlane access'' ce) cfg
        | Inr mcpCluster \<Rightarrow> do {
            r \<leftarrow> resolveServiceAccountIdentity k mcpCluster (cp_Namespace cp) (cp_Name cp) saNs saName
                  (resolveControlPlaneAudience (ctst_Audience (ct_Status trust)));
            case r of
              Inl err \<Rightarrow>
                CE_patchStatus R
                  (CE_unresolved k (err_Msg err) ''Could not resolve ServiceAccount identity'' ce) cfg
            | Inr (identity, identityID) \<Rightarrow>
                CE_patchStatus R (CE_map_conditions (\<lambda>cs. markReady k (om_Generation (ce_Meta ce))
                    (setCondition k (om_Generation (ce_Meta ce)) (mk_condition ConditionIdentityResolved
                      ConditionTrue ReasonReconciled []) cs))
                  (ce\<lparr>ce_Status := (ce_Status ce)\<lparr>cest_Identity := Some identity,
                     cest_IdentityID := identityID\<rparr>\<rparr>)) cfg
          }
      })"

section \<open>The handler\<close>

definition CE_Reconcile ::
    "klib \<Rightarrow> 'w env \<Rightarrow> 'w ControlPlaneEntityReconciler \<Rightarrow> string \<Rightarrow> string \<Rightarrow>
     ('w, goerr + Result) action" where
  "CE_Reconcile k env R ns nm = do {
     r \<leftarrow> get_entity (nr_OnboardingCluster R) ns nm;
     case r of
       Inl err \<Rightarrow>
         (if err_NotFound err then State_Monad.return (Inr Result0)
          else State_Monad.return (Inl (Errorf_w ''fetching ControlPlaneEntity'' err)))
     | Inr ce \<Rightarrow>
       if \<not> time_IsZero (om_DeletionTimestamp (ce_Meta ce)) then State_Monad.return (Inr Result0)
       else do {
         r \<leftarrow> get_config k (nr_PlatformCluster R) (nr_ProviderName R);
         case r of
           Inl err \<Rightarrow> State_Monad.return (Inl err)
         | Inr cfg \<Rightarrow> do {
             let gen = om_Generation (ce_Meta ce);
             let ce = ce\<lparr>ce_Status := (ce_Status ce)\<lparr>cest_ObservedGeneration := gen\<rparr>\<rparr>;
             let ceNs = om_Namespace (ce_Meta ce);
             let trustName = lor_Name (ces_ControlPlaneTrustRef (ce_Spec ce));
             r \<leftarrow> get_trust (nr_OnboardingCluster R) ceNs trustName;
             case r of
               Inl err \<Rightarrow>
                 (if err_NotFound err then
                    CE_patchStatus R (CE_map_conditions (dependencyNotReady k gen ReasonDependencyNotFound
                      (''ControlPlaneTrust '' @ strconv_Quote (k_Print k) trustName @
                       '' not found in namespace '' @ strconv_Quote (k_Print k) ceNs)) ce) cfg
                  else State_Monad.return (Inl (Errorf_w ''fetching ControlPlaneTrust'' err)))
             | Inr trust \<Rightarrow>
               if \<not> isConditionTrue k (ctst_Conditions (ct_Status trust)) ConditionTrustConfigured then
                 CE_patchStatus R (CE_map_conditions (dependencyNotReady k gen ReasonDependencyNotReady
                   (''ControlPlaneTrust '' @ strconv_Quote (k_Print k) (om_Name (ct_Meta trust)) @
                    '' is not ready'')) ce) cfg
               else do {
                 let cpName = lor_Name (cts_ControlPlaneRef (ct_Spec trust));
                 r \<leftarrow> get_control_plane k (nr_OnboardingCluster R) ceNs cpName;
                 case r of
                   Inl err \<Rightarrow> State_Monad.return (Inl err)
                 | Inr None \<Rightarrow>
                     CE_patchStatus R (CE_map_conditions (dependencyNotReady k gen
                       ReasonDependencyNotFound
                       (''ControlPlane '' @ strconv_Quote (k_Print k) cpName @ '' not found in namespace '' @
                        strconv_Quote (k_Print k) ceNs)) ce) cfg
                 | Inr (Some cp) \<Rightarrow>
                     if controlPlaneIssuer (Some cp) = [] then
                       CE_patchStatus R (CE_unresolved k
                         (''ControlPlane '' @ cp_Namespace cp @ ''/'' @ cp_Name cp @
                          '' does not expose service-account-issuer endpoint yet'')
                         ''Waiting for ControlPlane issuer endpoint'' ce) cfg
                     else CE_identify k env R cfg trust cp ce
               }
           }
       }
   }"

section \<open>Watch mapper\<close>

definition CE_enqueueForTrust ::
    "'w ControlPlaneEntityReconciler \<Rightarrow> ControlPlaneTrust \<Rightarrow> 'w \<Rightarrow> (string \<times> string) list \<times> 'w" where
  "CE_enqueueForTrust R trust w =
     (case kc_ListControlPlaneEntities (nr_OnboardingCluster R) (Some (om_Namespace (ct_Meta trust))) w of
        (Inl _, w') \<Rightarrow> ([], w')
      | (Inr items, w') \<Rightarrow>
        (map (\<lambda>e. (om_Namespace (ce_Meta e), om_Name (ce_Meta e)))
           (filter (\<lambda>e. lor_Name (ces_ControlPlaneTrustRef (ce_Spec e)) = om_Name (ct_Meta trust)) items),
         w'))"

section \<open>Runs\<close>

lemma spec_CE_patchStatus [spec_intros]:
  assumes "\<And>r. T (case r of Inl err \<Rightarrow> Inl (Errorf_w ''updating ControlPlaneEntity status'' err)
              | Inr _ \<Rightarrow> Inr (requeueResult (Some cfg))) [StatusControlPlaneEntity t r]"
  shows "spec (CE_patchStatus R t cfg) T"
  unfolding CE_patchStatus_def
  by (intro spec_intros) (use assms in \<open>auto split: sum.splits, (metis append_Nil2 sum.case)+\<close>)

lemma CE_map_conditions_sel [simp]:
  "ce_Meta (CE_map_conditions f t) = ce_Meta t" "ce_Spec (CE_map_conditions f t) = ce_Spec t"
  "cest_Conditions (ce_Status (CE_map_conditions f t)) = f (cest_Conditions (ce_Status t))"
  "cest_Identity (ce_Status (CE_map_conditions f t)) = cest_Identity (ce_Status t)"
  "cest_IdentityID (ce_Status (CE_map_conditions f t)) = cest_IdentityID (ce_Status t)"
  by (simp_all add: CE_map_conditions_def)

lemma CE_unresolved_sel [simp]:
  "ce_Meta (CE_unresolved k m n t) = ce_Meta t" "ce_Spec (CE_unresolved k m n t) = ce_Spec t"
  "cest_Identity (ce_Status (CE_unresolved k m n t)) = cest_Identity (ce_Status t)"
  by (simp_all add: CE_unresolved_def)

text \<open>What obtaining access and resolving the identity may do.\<close>

lemma controlPlaneClusterAccess_log:
  "spec (controlPlaneClusterAccess k env prov (Some cp) perms) (\<lambda>r es.
     (\<exists>e. r = Inl e \<and> es = []) \<or>
     (\<exists>args. es = [ClusterAccess args (error_of r)] \<and> aa_ProviderName args = prov \<and>
        aa_RefName args = cp_Name cp \<and> aa_Permissions args = perms \<and>
        k_StableMCPNamespace k (cp_Name cp) (cp_Namespace cp) = Inr (aa_RefNamespace args) \<and>
        aa_LocalName args = ''mcp-'' @ cp_Namespace cp @ ''-'' @ cp_Name cp))"
  unfolding controlPlaneClusterAccess_def by (intro spec_intros) auto

lemma resolveServiceAccountIdentity_log:
  "spec (resolveServiceAccountIdentity k c cpNs cpName saNs saName aud) (\<lambda>r es.
     (\<exists>e. r = Inl e \<and> (es = [] \<or> (\<exists>x. es = [GotServiceAccount saNs saName x]) \<or>
        (\<exists>x. es = [GotServiceAccount saNs saName (Inr ()),
           CreatedToken saNs saName \<lparr>trs_Audiences = [aud], trs_ExpirationSeconds = 600\<rparr> x]))) \<or>
     (\<exists>identity. r = Inr (identity, deterministicIdentityID (Some identity)) \<and>
        es = [GotServiceAccount saNs saName (Inr ()),
              CreatedToken saNs saName \<lparr>trs_Audiences = [aud], trs_ExpirationSeconds = 600\<rparr> None] \<and>
        sai_Alias identity = controlPlaneEntityAlias cpNs cpName saNs saName))"
  unfolding resolveServiceAccountIdentity_def by (intro spec_intros) auto

section \<open>Properties\<close>






text \<open>C20. An entity is published as Ready only in a pass that found the ServiceAccount and obtained a
  token for it; its status then carries the alias built from the ControlPlane and the
  ServiceAccount and the identity id computed from the identity. In every other pass the
  recorded identity is left as it was read.\<close>

theorem entity_ready_iff:
  assumes "lawful_conditions k"
  shows "spec (CE_Reconcile k env R ns nm) (\<lambda>_ es. \<forall>t0 t ru. GotControlPlaneEntity ns nm (Inr t0) \<in> set es \<and>
     StatusControlPlaneEntity t ru \<in> set es \<longrightarrow>
     (let sa = ces_ServiceAccountRef (ce_Spec t0)
      in if isConditionTrue k (cest_Conditions (ce_Status t)) ConditionReady
         then isConditionTrue k (cest_Conditions (ce_Status t)) ConditionIdentityResolved \<and>
              GotServiceAccount (nor_Namespace sa) (nor_Name sa) (Inr ()) \<in> set es \<and>
              (\<exists>tr. CreatedToken (nor_Namespace sa) (nor_Name sa) tr None \<in> set es) \<and>
              (\<exists>n m cp identity. GotControlPlane n m (Inr (Some cp)) \<in> set es \<and>
                 cest_Identity (ce_Status t) = Some identity \<and>
                 sai_Alias identity = controlPlaneEntityAlias (cp_Namespace cp) (cp_Name cp)
                   (nor_Namespace sa) (nor_Name sa) \<and>
                 cest_IdentityID (ce_Status t) = deterministicIdentityID (Some identity))
         else cest_Identity (ce_Status t) = cest_Identity (ce_Status t0)))"
  unfolding CE_Reconcile_def CE_identify_def
  by (intro spec_intros spec_bind [OF controlPlaneClusterAccess_log] spec_bind [OF resolveServiceAccountIdentity_log])
     (auto simp: condition_rules [OF assms] CE_unresolved_def Let_def)

text \<open>IdentityResolved is published as True when this pass resolved the identity, or when it was
  True before and the pass stopped at the trust or the ControlPlane: a lost dependency makes the
  entity not Ready but leaves IdentityResolved, which bindings read, in place.\<close>

theorem entity_identity_stale:
  assumes "lawful_conditions k"
  shows "spec (CE_Reconcile k env R ns nm) (\<lambda>_ es. \<forall>t0 t ru. GotControlPlaneEntity ns nm (Inr t0) \<in> set es \<and>
     StatusControlPlaneEntity t ru \<in> set es \<longrightarrow>
     (isConditionTrue k (cest_Conditions (ce_Status t)) ConditionIdentityResolved \<longleftrightarrow>
        isConditionTrue k (cest_Conditions (ce_Status t)) ConditionReady \<or>
        isConditionTrue k (cest_Conditions (ce_Status t0)) ConditionIdentityResolved \<and>
        ((\<exists>n m e. GotControlPlaneTrust n m (Inl e) \<in> set es) \<or>
         (\<exists>n m trust. GotControlPlaneTrust n m (Inr trust) \<in> set es \<and>
            \<not> isConditionTrue k (ctst_Conditions (ct_Status trust)) ConditionTrustConfigured) \<or>
         (\<exists>n m. GotControlPlane n m (Inr None) \<in> set es))))"
  unfolding CE_Reconcile_def CE_identify_def
  by (intro spec_intros spec_bind [OF controlPlaneClusterAccess_log] spec_bind [OF resolveServiceAccountIdentity_log])
     (auto simp: condition_rules [OF assms] CE_unresolved_def Let_def)

end
