(* ===== verification/CtlBinding.thy ===== *)
theory CtlBinding
  imports Identity
begin

text \<open>
  \<open>internal/controller/policybinding_controller.go\<close>: the reconciler that writes one JWT role
  per referenced ControlPlaneEntity and removes the recorded roles on deletion. The local
  variables of the Go loop are the record \<open>pb_loop\<close>; one round of the loop is
  \<open>PB_round\<close>, whose \<open>Inl\<close> is the early return.
\<close>

section \<open>The reconciler\<close>

record 'w PolicyBindingReconciler =
  br_PlatformCluster :: "'w Cluster"
  br_OnboardingCluster :: "'w Cluster"
  br_ProviderName :: string
  br_ClientFactory :: "'w OpenBaoClientFactory"

definition NewPolicyBindingReconciler ::
    "klib \<Rightarrow> 'w env \<Rightarrow> 'w Cluster \<Rightarrow> 'w Cluster \<Rightarrow> string \<Rightarrow> 'w PolicyBindingReconciler" where
  "NewPolicyBindingReconciler k env platform onboarding providerName =
     \<lparr>br_PlatformCluster = platform, br_OnboardingCluster = onboarding,
      br_ProviderName = providerName,
      br_ClientFactory = newDefaultOpenBaoClientFactory k env platform providerName\<rparr>"

definition PB_map_conditions :: "(Condition list \<Rightarrow> Condition list) \<Rightarrow> PolicyBinding \<Rightarrow> PolicyBinding" where
  "PB_map_conditions f pb =
     pb\<lparr>pb_Status := (pb_Status pb)\<lparr>pbst_Conditions := f (pbst_Conditions (pb_Status pb))\<rparr>\<rparr>"

text \<open>The object after the first assignments of the handler, and with another finalizer list.\<close>

definition PB_entered :: "PolicyBinding \<Rightarrow> PolicyBinding" where
  "PB_entered pb = pb\<lparr>pb_Status := (pb_Status pb)\<lparr>pbst_ObservedGeneration := om_Generation (pb_Meta pb),
     pbst_PolicyName := pbs_PolicyName (pb_Spec pb)\<rparr>\<rparr>"

definition PB_with_finalizers :: "string list \<Rightarrow> PolicyBinding \<Rightarrow> PolicyBinding" where
  "PB_with_finalizers fs pb = pb\<lparr>pb_Meta := (pb_Meta pb)\<lparr>om_Finalizers := fs\<rparr>\<rparr>"

definition PB_patchStatus ::
    "'w PolicyBindingReconciler \<Rightarrow> PolicyBinding \<Rightarrow> ServiceConfig \<Rightarrow> ('w, goerr + Result) action" where
  "PB_patchStatus R pb cfg = do {
     r \<leftarrow> call (kc_StatusPolicyBinding (br_OnboardingCluster R) pb) (\<lambda>r. [StatusPolicyBinding pb r]);
     case r of
       Inl err \<Rightarrow> State_Monad.return (Inl (Errorf_w ''updating PolicyBinding status'' err))
     | Inr _ \<Rightarrow> State_Monad.return (Inr (requeueResult (Some cfg)))
   }"

section \<open>The loop over the referenced entities\<close>

record pb_loop =
  lp_Roles :: "PolicyBindingRoleStatus list"
  lp_AllRolesReady :: bool
  lp_DependencyMissing :: bool
  lp_BlockingMessages :: "string list"
  lp_PolicyKnown :: bool
  lp_PolicyExists :: bool
  lp_PolicyChecked :: bool

definition PB_loop_init :: pb_loop where
  "PB_loop_init = \<lparr>lp_Roles = [], lp_AllRolesReady = True, lp_DependencyMissing = False,
     lp_BlockingMessages = [], lp_PolicyKnown = True, lp_PolicyExists = True, lp_PolicyChecked = False\<rparr>"

text \<open>\<open>allRolesReady = false; roleStatus.Message = m; blockingMessages = append(...)\<close>.\<close>

definition PB_block :: "string \<Rightarrow> PolicyBindingRoleStatus \<times> pb_loop \<Rightarrow> PolicyBindingRoleStatus \<times> pb_loop" where
  "PB_block m = (\<lambda>(rs, acc).
     (rs\<lparr>pbr_Message := m\<rparr>,
      acc\<lparr>lp_AllRolesReady := False, lp_BlockingMessages := lp_BlockingMessages acc @ [m]\<rparr>))"

text \<open>\<open>roles = append(roles, roleStatus); continue\<close>.\<close>

definition PB_push :: "PolicyBindingRoleStatus \<times> pb_loop \<Rightarrow> pb_loop" where
  "PB_push = (\<lambda>(rs, acc). acc\<lparr>lp_Roles := lp_Roles acc @ [rs]\<rparr>)"

definition PB_policy_switch ::
    "klib \<Rightarrow> string \<Rightarrow> goerr + PolicyExistence \<Rightarrow> PolicyBindingRoleStatus \<times> pb_loop \<Rightarrow>
     PolicyBindingRoleStatus \<times> pb_loop" where
  "PB_policy_switch k policyName r q =
     (case q of (rs, acc) \<Rightarrow>
        let acc = acc\<lparr>lp_PolicyChecked := True\<rparr>
        in case r of
             Inl err \<Rightarrow> PB_block (err_Msg err) (rs, acc\<lparr>lp_PolicyKnown := False\<rparr>)
           | Inr px \<Rightarrow>
             (if \<not> px_Known px then (rs, acc\<lparr>lp_PolicyKnown := False\<rparr>)
              else if \<not> px_Exists px then
                PB_block (''OpenBao policy '' @ strconv_Quote (k_Print k) policyName @ '' does not exist yet'')
                  (rs, acc\<lparr>lp_PolicyExists := False\<rparr>)
              else (rs, acc)))"

definition PB_role :: "PolicyBinding \<Rightarrow> string \<Rightarrow> ServiceAccountIdentity \<Rightarrow> ControlPlaneTrust \<Rightarrow> JWTRole" where
  "PB_role pb roleName identity trust =
     \<lparr>jr_Name = roleName, jr_RoleType = ''jwt'',
      jr_BoundAudiences = [ctst_Audience (ct_Status trust)], jr_BoundSubject = sai_Subject identity,
      jr_BoundClaims = fmempty, jr_UserClaim = ''sub'', jr_TokenPolicies = [pbs_PolicyName (pb_Spec pb)],
      jr_TokenTTL = pbs_TTL (pb_Spec pb), jr_TokenMaxTTL = pbs_MaxTTL (pb_Spec pb)\<rparr>"

definition PB_writeRole ::
    "klib \<Rightarrow> 'w PolicyBindingReconciler \<Rightarrow> PolicyBinding \<Rightarrow> OpenBaoInstance \<Rightarrow> 'w Client \<Rightarrow>
     ServiceAccountIdentity \<Rightarrow> ControlPlaneTrust \<Rightarrow> PolicyBindingRoleStatus \<times> pb_loop \<Rightarrow>
     ('w, goerr + pb_loop) action" where
  "PB_writeRole k R pb inst baoClient identity trust q = do {
     let policyName = pbs_PolicyName (pb_Spec pb);
     exists \<leftarrow> call (cl_PolicyExists baoClient policyName) (\<lambda>r. [BaoPolicyExists inst policyName r]);
     let q = PB_policy_switch k policyName exists q;
     let mount = ctst_AuthMountPath (ct_Status trust);
     let role = PB_role pb (pbr_RoleName (fst q)) identity trust;
     r \<leftarrow> call (cl_EnsureJWTRole baoClient mount role) (\<lambda>r. [BaoEnsureRole inst mount role r]);
     case r of
       Inl err \<Rightarrow> State_Monad.return (Inr (PB_push (PB_block (err_Msg err) q)))
     | Inr _ \<Rightarrow> State_Monad.return (Inr (PB_push
         ((fst q)\<lparr>pbr_Ready := (pbr_Message (fst q) = [])\<rparr>, snd q)))
   }"

definition PB_entityResolved :: "klib \<Rightarrow> ControlPlaneEntity \<Rightarrow> bool" where
  "PB_entityResolved k ce \<longleftrightarrow>
     isConditionTrue k (cest_Conditions (ce_Status ce)) ConditionIdentityResolved \<and>
     (case cest_Identity (ce_Status ce) of None \<Rightarrow> False | Some i \<Rightarrow> sai_Subject i \<noteq> [])"

definition PB_trustResolved :: "klib \<Rightarrow> ControlPlaneTrust \<Rightarrow> bool" where
  "PB_trustResolved k trust \<longleftrightarrow>
     ctst_AuthMountPath (ct_Status trust) \<noteq> [] \<and> ctst_ResolvedOpenBaoInstance (ct_Status trust) \<noteq> [] \<and>
     isConditionTrue k (ctst_Conditions (ct_Status trust)) ConditionTrustConfigured"

definition PB_round ::
    "klib \<Rightarrow> 'w PolicyBindingReconciler \<Rightarrow> PolicyBinding \<Rightarrow> LocalObjectReference \<Rightarrow> pb_loop \<Rightarrow>
     ('w, goerr + pb_loop) action" where
  "PB_round k R pb entityRef acc = do {
     let ns = om_Namespace (pb_Meta pb);
     let roleName = RoleName ns (om_Name (pb_Meta pb) @ ''-'' @ lor_Name entityRef);
     let rs = \<lparr>pbr_ControlPlaneEntityRef = entityRef, pbr_RoleName = roleName, pbr_AuthMountPath = [],
               pbr_Ready = False, pbr_Message = []\<rparr>;
     let ceName = lor_Name entityRef;
     r \<leftarrow> get_entity (br_OnboardingCluster R) ns ceName;
     case r of
       Inl _ \<Rightarrow> State_Monad.return (Inr (PB_push (PB_block
         (''ControlPlaneEntity '' @ strconv_Quote (k_Print k) ceName @ '' not found in namespace '' @
          strconv_Quote (k_Print k) ns) (rs, acc\<lparr>lp_DependencyMissing := True\<rparr>))))
     | Inr ce \<Rightarrow>
       if \<not> PB_entityResolved k ce then
         State_Monad.return (Inr (PB_push (PB_block
           (''ControlPlaneEntity '' @ strconv_Quote (k_Print k) (om_Name (ce_Meta ce)) @
            '' has not resolved its identity yet'') (rs, acc))))
       else do {
         let trustName = lor_Name (ces_ControlPlaneTrustRef (ce_Spec ce));
         r \<leftarrow> get_trust (br_OnboardingCluster R) ns trustName;
         case r of
           Inl _ \<Rightarrow> State_Monad.return (Inr (PB_push (PB_block
             (''ControlPlaneTrust '' @ strconv_Quote (k_Print k) trustName @ '' not found in namespace '' @
              strconv_Quote (k_Print k) ns) (rs, acc\<lparr>lp_DependencyMissing := True\<rparr>))))
         | Inr trust \<Rightarrow>
           if \<not> PB_trustResolved k trust then
             State_Monad.return (Inr (PB_push (PB_block
               (''ControlPlaneTrust '' @ strconv_Quote (k_Print k) (om_Name (ct_Meta trust)) @
                '' has no resolved auth mount yet'') (rs, acc))))
           else do {
             let rs = rs\<lparr>pbr_AuthMountPath := ctst_AuthMountPath (ct_Status trust)\<rparr>;
             r \<leftarrow> get_instance k (br_PlatformCluster R) (ctst_ResolvedOpenBaoInstance (ct_Status trust));
             case r of
               Inl err \<Rightarrow> State_Monad.return (Inl err)
             | Inr None \<Rightarrow> State_Monad.return (Inr (PB_push (PB_block
                 ''resolved OpenBaoInstance is not reachable'' (rs, acc))))
             | Inr (Some inst) \<Rightarrow>
               if \<not> isInstanceReachable k (Some inst) then
                 State_Monad.return (Inr (PB_push (PB_block
                   ''resolved OpenBaoInstance is not reachable'' (rs, acc))))
               else do {
                 r \<leftarrow> build_client (br_ClientFactory R) inst;
                 case r of
                   Inl err \<Rightarrow> State_Monad.return (Inr (PB_push (PB_block (err_Msg err) (rs, acc))))
                 | Inr baoClient \<Rightarrow>
                   (case cest_Identity (ce_Status ce) of
                      None \<Rightarrow> State_Monad.return (Inr (PB_push (rs, acc)))
                    | Some identity \<Rightarrow> PB_writeRole k R pb inst baoClient identity trust (rs, acc))
               }
           }
       }
   }"

fun PB_rounds ::
    "klib \<Rightarrow> 'w PolicyBindingReconciler \<Rightarrow> PolicyBinding \<Rightarrow> LocalObjectReference list \<Rightarrow> pb_loop \<Rightarrow>
     ('w, goerr + pb_loop) action" where
  "PB_rounds k R pb [] acc = State_Monad.return (Inr acc)"
| "PB_rounds k R pb (ref # refs) acc = do {
     r \<leftarrow> PB_round k R pb ref acc;
     case r of
       Inl err \<Rightarrow> State_Monad.return (Inl err)
     | Inr acc \<Rightarrow> PB_rounds k R pb refs acc
   }"

section \<open>Publishing\<close>

definition PB_policyCondition ::
    "klib \<Rightarrow> ConditionStatus \<Rightarrow> string \<Rightarrow> string \<Rightarrow> PolicyExistenceState \<Rightarrow> PolicyBinding \<Rightarrow> PolicyBinding" where
  "PB_policyCondition k st reason message ex pb =
     (let pb = PB_map_conditions (setCondition k (om_Generation (pb_Meta pb))
            (mk_condition ConditionPolicyResolved st reason message)) pb
      in pb\<lparr>pb_Status := (pb_Status pb)\<lparr>pbst_PolicyExists := ex\<rparr>\<rparr>)"

definition PB_publishPolicy :: "klib \<Rightarrow> pb_loop \<Rightarrow> PolicyBinding \<Rightarrow> PolicyBinding" where
  "PB_publishPolicy k acc pb =
     (if \<not> lp_PolicyChecked acc \<or> \<not> lp_PolicyKnown acc then
        PB_policyCondition k ConditionUnknown ReasonPolicyCheckSkipped [] PolicyExistenceUnknown pb
      else if \<not> lp_PolicyExists acc then
        PB_policyCondition k ConditionFalse ReasonPolicyNotFound
          (''OpenBao policy '' @ strconv_Quote (k_Print k) (pbs_PolicyName (pb_Spec pb)) @
           '' does not exist yet'') PolicyExistenceFalse pb
      else PB_policyCondition k ConditionTrue ReasonPolicyExists [] PolicyExistenceTrue pb)"

definition PB_publishReady :: "klib \<Rightarrow> pb_loop \<Rightarrow> PolicyBinding \<Rightarrow> PolicyBinding" where
  "PB_publishReady k acc pb =
     (let gen = om_Generation (pb_Meta pb)
      in if \<not> lp_PolicyExists acc then
           PB_map_conditions (setCondition k gen (mk_condition ConditionReady ConditionFalse
             ReasonWaitingForPolicy
             (''Waiting for OpenBao policy '' @ strconv_Quote (k_Print k) (pbs_PolicyName (pb_Spec pb))))) pb
         else if \<not> lp_AllRolesReady acc then
           PB_map_conditions (dependencyNotReady k gen
             (if lp_DependencyMissing acc then ReasonDependencyNotFound else ReasonDependencyNotReady)
             (strings_Join (lp_BlockingMessages acc) ''; '')) pb
         else PB_map_conditions (markReady k gen) pb)"

definition PB_sync ::
    "klib \<Rightarrow> 'w PolicyBindingReconciler \<Rightarrow> ServiceConfig \<Rightarrow> PolicyBinding \<Rightarrow>
     ('w, goerr + Result) action" where
  "PB_sync k R cfg pb = do {
     r \<leftarrow> PB_rounds k R pb (pbs_ControlPlaneEntityRefs (pb_Spec pb)) PB_loop_init;
     case r of
       Inl err \<Rightarrow> State_Monad.return (Inl err)
     | Inr acc \<Rightarrow>
       let pb = pb\<lparr>pb_Status := (pb_Status pb)\<lparr>pbst_Roles := lp_Roles acc\<rparr>\<rparr>
       in PB_patchStatus R (PB_publishReady k acc (PB_publishPolicy k acc pb)) cfg
   }"

section \<open>Deletion\<close>

fun first_trust_with_mount :: "string \<Rightarrow> ControlPlaneTrust list \<Rightarrow> ControlPlaneTrust option" where
  "first_trust_with_mount path [] = None"
| "first_trust_with_mount path (t # ts) =
     (if ctst_AuthMountPath (ct_Status t) = path then Some t else first_trust_with_mount path ts)"

definition PB_findTrustForAuthMount ::
    "'w PolicyBindingReconciler \<Rightarrow> string \<Rightarrow> string \<Rightarrow> ('w, goerr + ControlPlaneTrust option) action" where
  "PB_findTrustForAuthMount R namespace authMountPath = do {
     r \<leftarrow> call (kc_ListControlPlaneTrusts (br_OnboardingCluster R) (Some namespace))
           (\<lambda>r. [ListedControlPlaneTrusts (Some namespace) r]);
     case r of
       Inl err \<Rightarrow> State_Monad.return (Inl (Errorf_w ''listing ControlPlaneTrusts'' err))
     | Inr items \<Rightarrow> State_Monad.return (Inr (first_trust_with_mount authMountPath items))
   }"

definition PB_deleteRole ::
    "klib \<Rightarrow> 'w PolicyBindingReconciler \<Rightarrow> PolicyBinding \<Rightarrow> PolicyBindingRoleStatus \<Rightarrow>
     ('w, goerr + unit) action" where
  "PB_deleteRole k R pb rs =
     (let mount = pbr_AuthMountPath rs; roleName = pbr_RoleName rs
      in if roleName = [] \<or> mount = [] then State_Monad.return (Inr ())
         else do {
           r \<leftarrow> PB_findTrustForAuthMount R (om_Namespace (pb_Meta pb)) mount;
           case r of
             Inl err \<Rightarrow> State_Monad.return (Inl err)
           | Inr None \<Rightarrow> State_Monad.return (Inr ())
           | Inr (Some trust) \<Rightarrow>
             if ctst_ResolvedOpenBaoInstance (ct_Status trust) = [] then State_Monad.return (Inr ())
             else do {
               r \<leftarrow> get_instance k (br_PlatformCluster R) (ctst_ResolvedOpenBaoInstance (ct_Status trust));
               case r of
                 Inl err \<Rightarrow> State_Monad.return (Inl err)
               | Inr None \<Rightarrow> State_Monad.return (Inr ())
               | Inr (Some inst) \<Rightarrow>
                 if \<not> isInstanceReachable k (Some inst) then State_Monad.return (Inr ())
                 else do {
                   r \<leftarrow> build_client (br_ClientFactory R) inst;
                   case r of
                     Inl _ \<Rightarrow> State_Monad.return (Inr ())
                   | Inr baoClient \<Rightarrow> do {
                       r \<leftarrow> call (cl_DeleteJWTRole baoClient mount roleName)
                             (\<lambda>r. [BaoDeleteRole inst mount roleName r]);
                       case r of
                         Inl err \<Rightarrow> State_Monad.return (Inl (Errorf_w ''deleting JWT role'' err))
                       | Inr _ \<Rightarrow> State_Monad.return (Inr ())
                     }
                 }
             }
         })"

fun PB_deleteRoles ::
    "klib \<Rightarrow> 'w PolicyBindingReconciler \<Rightarrow> PolicyBinding \<Rightarrow> PolicyBindingRoleStatus list \<Rightarrow>
     ('w, goerr + unit) action" where
  "PB_deleteRoles k R pb [] = State_Monad.return (Inr ())"
| "PB_deleteRoles k R pb (rs # rss) = do {
     r \<leftarrow> PB_deleteRole k R pb rs;
     case r of
       Inl err \<Rightarrow> State_Monad.return (Inl err)
     | Inr _ \<Rightarrow> PB_deleteRoles k R pb rss
   }"

definition PB_finishDelete ::
    "klib \<Rightarrow> 'w PolicyBindingReconciler \<Rightarrow> PolicyBinding \<Rightarrow> ('w, goerr + Result) action" where
  "PB_finishDelete k R pb =
     (case k_RemoveFinalizer k FinalizerPolicyBinding (om_Finalizers (pb_Meta pb)) of
        (fs, changed) \<Rightarrow>
          let pb = PB_with_finalizers fs pb
          in if changed then do {
               r \<leftarrow> call (kc_UpdatePolicyBinding (br_OnboardingCluster R) pb) (\<lambda>r. [UpdatedPolicyBinding pb r]);
               case r of
                 Inl err \<Rightarrow> State_Monad.return (Inl (Errorf_w ''removing finalizer'' err))
               | Inr _ \<Rightarrow> State_Monad.return (Inr Result0)
             } else State_Monad.return (Inr Result0))"

definition PB_reconcileDelete ::
    "klib \<Rightarrow> 'w PolicyBindingReconciler \<Rightarrow> PolicyBinding \<Rightarrow> ('w, goerr + Result) action" where
  "PB_reconcileDelete k R pb = do {
     r \<leftarrow> PB_deleteRoles k R pb (pbst_Roles (pb_Status pb));
     case r of
       Inl err \<Rightarrow> State_Monad.return (Inl err)
     | Inr _ \<Rightarrow> PB_finishDelete k R pb
   }"

section \<open>The handler\<close>

definition PB_Reconcile ::
    "klib \<Rightarrow> 'w PolicyBindingReconciler \<Rightarrow> string \<Rightarrow> string \<Rightarrow> ('w, goerr + Result) action" where
  "PB_Reconcile k R ns nm = do {
     r \<leftarrow> get_binding (br_OnboardingCluster R) ns nm;
     case r of
       Inl err \<Rightarrow>
         (if err_NotFound err then State_Monad.return (Inr Result0)
          else State_Monad.return (Inl (Errorf_w ''fetching PolicyBinding'' err)))
     | Inr pb \<Rightarrow> do {
         r \<leftarrow> get_config k (br_PlatformCluster R) (br_ProviderName R);
         case r of
           Inl err \<Rightarrow> State_Monad.return (Inl err)
         | Inr cfg \<Rightarrow>
           let pb = PB_entered pb
           in if \<not> time_IsZero (om_DeletionTimestamp (pb_Meta pb)) then PB_reconcileDelete k R pb
              else case k_AddFinalizer k FinalizerPolicyBinding (om_Finalizers (pb_Meta pb)) of
                  (fs, changed) \<Rightarrow>
                    let pb = PB_with_finalizers fs pb
                    in if changed then do {
                         r \<leftarrow> call (kc_UpdatePolicyBinding (br_OnboardingCluster R) pb)
                               (\<lambda>r. [UpdatedPolicyBinding pb r]);
                         case r of
                           Inl err \<Rightarrow> State_Monad.return (Inl (Errorf_w ''adding finalizer'' err))
                         | Inr pb \<Rightarrow> PB_sync k R cfg pb
                       } else PB_sync k R cfg pb
       }
   }"

section \<open>Watch mappers\<close>

definition policyBindingReferencesEntity :: "PolicyBinding \<Rightarrow> string \<Rightarrow> bool" where
  "policyBindingReferencesEntity binding entityName =
     list_ex (\<lambda>ref. lor_Name ref = entityName) (pbs_ControlPlaneEntityRefs (pb_Spec binding))"

definition PB_enqueueForEntity ::
    "'w PolicyBindingReconciler \<Rightarrow> ControlPlaneEntity \<Rightarrow> 'w \<Rightarrow> (string \<times> string) list \<times> 'w" where
  "PB_enqueueForEntity R entity w =
     (case kc_ListPolicyBindings (br_OnboardingCluster R) (Some (om_Namespace (ce_Meta entity))) w of
        (Inl _, w') \<Rightarrow> ([], w')
      | (Inr items, w') \<Rightarrow>
        (map (\<lambda>b. (om_Namespace (pb_Meta b), om_Name (pb_Meta b)))
           (filter (\<lambda>b. policyBindingReferencesEntity b (om_Name (ce_Meta entity))) items), w'))"

definition PB_enqueueForTrust ::
    "'w PolicyBindingReconciler \<Rightarrow> ControlPlaneTrust \<Rightarrow> 'w \<Rightarrow> (string \<times> string) list \<times> 'w" where
  "PB_enqueueForTrust R trust w =
     (let ns = om_Namespace (ct_Meta trust)
      in case kc_ListControlPlaneEntities (br_OnboardingCluster R) (Some ns) w of
           (Inl _, w1) \<Rightarrow> ([], w1)
         | (Inr entities, w1) \<Rightarrow>
           let entityNames = set (map (\<lambda>e. om_Name (ce_Meta e))
                 (filter (\<lambda>e. lor_Name (ces_ControlPlaneTrustRef (ce_Spec e)) = om_Name (ct_Meta trust)) entities))
           in if entityNames = {} then ([], w1)
              else case kc_ListPolicyBindings (br_OnboardingCluster R) (Some ns) w1 of
                  (Inl _, w2) \<Rightarrow> ([], w2)
                | (Inr bindings, w2) \<Rightarrow>
                  (map (\<lambda>b. (om_Namespace (pb_Meta b), om_Name (pb_Meta b)))
                     (filter (\<lambda>b. list_ex (\<lambda>ref. lor_Name ref \<in> entityNames)
                        (pbs_ControlPlaneEntityRefs (pb_Spec b))) bindings), w2))"

end
