(* ===== verification/System.thy ===== *)
theory System
  imports CtlInstance CtlProjectEntity CtlTrust CtlEntity CtlBinding
begin

text \<open>
  The service as a whole: the five reconcilers \<open>internal/controller\<close> holds, driven by a
  queue of requests. Every reconciler meets the contract \<open>controller\<close> for one predicate
  that says what may be written to OpenBao, and so does their interleaving in any order.
\<close>

section \<open>The service\<close>

record 'w service =
  sv_Instance :: "'w OpenBaoInstanceReconciler"
  sv_ProjectEntity :: "'w ProjectEntityReconciler"
  sv_Trust :: "'w ControlPlaneTrustReconciler"
  sv_Entity :: "'w ControlPlaneEntityReconciler"
  sv_Binding :: "'w PolicyBindingReconciler"

text \<open>A request of one of the queues: namespace and name.\<close>

datatype request =
    ReqInstance string string
  | ReqProjectEntity string string
  | ReqTrust string string
  | ReqEntity string string
  | ReqBinding string string

definition service_handle ::
    "klib \<Rightarrow> 'w env \<Rightarrow> 'w service \<Rightarrow> request \<Rightarrow> ('w, goerr + Result) action" where
  "service_handle k env S q = (case q of
       ReqInstance ns nm \<Rightarrow> OI_Reconcile k (sv_Instance S) ns nm
     | ReqProjectEntity ns nm \<Rightarrow> PE_Reconcile k (sv_ProjectEntity S) ns nm
     | ReqTrust ns nm \<Rightarrow> CT_Reconcile k (sv_Trust S) ns nm
     | ReqEntity ns nm \<Rightarrow> CE_Reconcile k env (sv_Entity S) ns nm
     | ReqBinding ns nm \<Rightarrow> PB_Reconcile k (sv_Binding S) ns nm)"

section \<open>What may be written\<close>

text \<open>
  Mounts and entities go under generated names; a mount trusts one non-empty issuer through
  that issuer's own key set; a role is of type jwt, has a generated name, one policy and a
  non-empty bound subject under user claim \<open>sub\<close>, and is written under a named mount.
\<close>

definition safe_config :: "JWTAuthConfig \<Rightarrow> bool" where
  "safe_config c \<longleftrightarrow> jc_BoundIssuer c \<noteq> [] \<and> jc_JWKSURL c = jc_BoundIssuer c @ ''/jwks'' \<and>
     jc_OIDCDiscoveryURL c = [] \<and> jc_DefaultRole c = []"

definition safe_role :: "JWTRole \<Rightarrow> bool" where
  "safe_role r \<longleftrightarrow> valid_name 60 (jr_Name r) \<and> jr_RoleType r = ''jwt'' \<and> jr_UserClaim r = ''sub'' \<and>
     jr_BoundSubject r \<noteq> [] \<and> length (jr_TokenPolicies r) = 1 \<and> length (jr_BoundAudiences r) = 1"

definition safe_write :: "event \<Rightarrow> bool" where
  "safe_write e = (case e of
     BaoEnsureEntity _ n _ _ \<Rightarrow> valid_name 60 n
   | BaoEnsureMount _ p _ \<Rightarrow> valid_name 60 p
   | BaoConfigure _ p c _ \<Rightarrow> valid_name 60 p \<and> safe_config c
   | BaoEnsureRole _ m r _ \<Rightarrow> m \<noteq> [] \<and> safe_role r
   | BaoDeleteMount _ p _ \<Rightarrow> p \<noteq> []
   | BaoDeleteRole _ m n _ \<Rightarrow> m \<noteq> [] \<and> n \<noteq> []
   | _ \<Rightarrow> True)"

lemmas generated_valid [simp] = RoleName_valid EntityName_valid

lemma mountPath_valid [simp]: "valid_name 60 (CT_mountPath cfg i t)"
  by (simp add: CT_mountPath_def AuthMountPath_valid)

section \<open>The reconcilers meet the contract\<close>

lemma emits_OI: "emits safe_write (OI_Reconcile k R ns nm)"
  unfolding OI_Reconcile_def OI_patchStatus_def
  by (intro emits_intros) (simp_all add: safe_write_def)

lemma emits_PE: "emits safe_write (PE_Reconcile k R ns nm)"
  unfolding PE_Reconcile_def PE_patchStatus_def
  by (intro emits_intros) (simp_all add: safe_write_def)

lemma emits_CT: "emits safe_write (CT_Reconcile k R ns nm)"
  unfolding CT_defs CT_patchStatus_def
  by (intro emits_intros) (simp_all add: safe_write_def safe_config_def CT_trustConfig_def)

lemma emits_CE: "emits safe_write (CE_Reconcile k env R ns nm)"
  unfolding CE_Reconcile_def CE_identify_def CE_patchStatus_def controlPlaneClusterAccess_def
    resolveServiceAccountIdentity_def
  by (intro emits_intros) (simp_all add: safe_write_def)

lemma emits_PB_round: "emits safe_write (PB_round k R pb ref acc)"
  unfolding PB_round_def PB_writeRole_def
  by (intro emits_intros)
     (auto simp: safe_write_def safe_role_def PB_role_def PB_policy_switch_def PB_block_def Let_def
        PB_entityResolved_def PB_trustResolved_def split: sum.splits option.splits prod.splits)

lemma emits_PB_rounds: "emits safe_write (PB_rounds k R pb refs acc)"
  by (induction refs arbitrary: acc) (auto intro!: emits_intros emits_PB_round)

lemma emits_PB_deleteRoles: "emits safe_write (PB_deleteRoles k R pb rss)"
  by (induction rss)
     (auto intro!: emits_intros simp: PB_deleteRole_def PB_findTrustForAuthMount_def Let_def safe_write_def)

lemma emits_PB: "emits safe_write (PB_Reconcile k R ns nm)"
  unfolding PB_Reconcile_def PB_sync_def PB_reconcileDelete_def PB_finishDelete_def PB_patchStatus_def
  by (intro emits_intros emits_PB_rounds emits_PB_deleteRoles) (simp_all add: safe_write_def)

interpretation instance_controller:
  controller "\<lambda>(ns, nm). OI_Reconcile k R ns nm" safe_write for k R
  by unfold_locales (auto intro: emits_OI)

interpretation project_entity_controller:
  controller "\<lambda>(ns, nm). PE_Reconcile k R ns nm" safe_write for k R
  by unfold_locales (auto intro: emits_PE)

interpretation trust_controller:
  controller "\<lambda>(ns, nm). CT_Reconcile k R ns nm" safe_write for k R
  by unfold_locales (auto intro: emits_CT)

interpretation entity_controller:
  controller "\<lambda>(ns, nm). CE_Reconcile k env R ns nm" safe_write for k env R
  by unfold_locales (auto intro: emits_CE)

interpretation binding_controller:
  controller "\<lambda>(ns, nm). PB_Reconcile k R ns nm" safe_write for k R
  by unfold_locales (auto intro: emits_PB)

interpretation service_controller: controller "service_handle k env S" safe_write for k env S
proof
  fix q
  show "emits safe_write (service_handle k env S q)"
    using instance_controller.handle_emits [of k "sv_Instance S"]
      project_entity_controller.handle_emits [of k "sv_ProjectEntity S"]
      trust_controller.handle_emits [of k "sv_Trust S"]
      entity_controller.handle_emits [of k env "sv_Entity S"]
      binding_controller.handle_emits [of k "sv_Binding S"]
    by (cases q) (auto simp: service_handle_def)
qed

section \<open>Properties\<close>

text \<open>C1. Whatever requests the service handles in whatever order, and whatever the API servers and
  OpenBao answer in between: every mount, entity and role it writes has a generated, valid name;
  every mount trusts exactly one non-empty issuer through its own key set; every role is of
  type jwt, bound to one audience and a non-empty subject, and grants exactly one policy; and
  no deletion is sent with an empty path or name.\<close>

theorem service_writes_safely:
  "spec (run_queue (service_handle k env S) qs) (\<lambda>_. list_all safe_write)"
  by (rule service_controller.queue_spec)

end
