(* ===== verification/GoSlice.thy ===== *)
theory GoSlice
  imports Prelude
begin

text \<open>
  Go slices over an explicit store of arrays: a slice is a window on an array, and
  \<open>append\<close> writes into that array when it has room behind the window, so that two
  slices with one array can overwrite each other. How much room a new array gets is up to the
  runtime: \<open>grow cap need\<close> is the capacity it picks (never less than \<open>need\<close>).
\<close>

record slice =
  sl_array :: nat
  sl_len :: nat
  sl_cap :: nat

type_synonym 'a arrays = "'a option list list"

definition nil_slice :: slice where
  "nil_slice = \<lparr>sl_array = 0, sl_len = 0, sl_cap = 0\<rparr>"

definition contents :: "'a arrays \<Rightarrow> slice \<Rightarrow> 'a list" where
  "contents h s = (if sl_len s = 0 then [] else map the (take (sl_len s) (h ! sl_array s)))"

definition slice_append :: "(nat \<Rightarrow> nat \<Rightarrow> nat) \<Rightarrow> slice \<Rightarrow> 'a \<Rightarrow> 'a arrays \<Rightarrow> slice \<times> 'a arrays" where
  "slice_append grow s x h =
     (if sl_len s < sl_cap s then
        (s\<lparr>sl_len := Suc (sl_len s)\<rparr>,
         h[sl_array s := (h ! sl_array s)[sl_len s := Some x]])
      else
        let n = Suc (sl_len s); c = max n (grow (sl_cap s) n)
        in (\<lparr>sl_array = length h, sl_len = n, sl_cap = c\<rparr>,
            h @ [map Some (contents h s) @ [Some x] @ replicate (c - n) None]))"

text \<open>A slice lies in the store.\<close>

definition slice_ok :: "'a arrays \<Rightarrow> slice \<Rightarrow> bool" where
  "slice_ok h s \<longleftrightarrow> sl_len s \<le> sl_cap s \<and>
     (sl_cap s = 0 \<or> (sl_array s < length h \<and> length (h ! sl_array s) = sl_cap s \<and>
        (\<forall>i < sl_len s. h ! sl_array s ! i \<noteq> None)))"

lemma slice_ok_nil [simp]: "slice_ok h nil_slice"
  by (simp add: slice_ok_def nil_slice_def)

lemma contents_nil [simp]: "contents h nil_slice = []"
  by (simp add: contents_def nil_slice_def)

lemma length_contents [simp]: "slice_ok h s \<Longrightarrow> length (contents h s) = sl_len s"
  by (auto simp: slice_ok_def contents_def)

lemma take_Suc_list_update: "n < length xs \<Longrightarrow> take (Suc n) (xs[n := x]) = take n xs @ [x]"
  by (simp add: take_Suc_conv_app_nth)

text \<open>Appending has the expected contents, in the slice it returns.\<close>

lemma contents_slice_append:
  assumes "slice_ok h s" and "slice_append grow s x h = (s', h')"
  shows "contents h' s' = contents h s @ [x]" "slice_ok h' s'"
proof -
  consider (room) "sl_len s < sl_cap s" | (full) "\<not> sl_len s < sl_cap s" by blast
  then have "contents h' s' = contents h s @ [x] \<and> slice_ok h' s'"
  proof cases
    case room
    with assms show ?thesis
      by (auto simp: slice_append_def slice_ok_def contents_def take_Suc_list_update nth_list_update)
  next
    case full
    with assms(1) have "length (contents h s) = sl_len s" by simp
    with full assms(2) show ?thesis
      by (auto simp: slice_append_def Let_def slice_ok_def contents_def [of h'] nth_append comp_def)
  qed
  then show "contents h' s' = contents h s @ [x]" "slice_ok h' s'" by auto
qed

text \<open>
  Another slice keeps its contents when the appended one is full, or lives in another array, or
  reaches no further than the window that was extended.
\<close>

lemma contents_slice_append_other:
  assumes "slice_ok h t" and "slice_ok h s" and "slice_append grow s x h = (s', h')"
    and "sl_len s = sl_cap s \<or> sl_array t \<noteq> sl_array s \<or> sl_len t \<le> sl_len s"
  shows "contents h' t = contents h t"
  using assms
  by (cases "sl_cap t = 0")
     (auto simp: slice_append_def slice_ok_def contents_def Let_def nth_append nth_list_update split: if_splits)

lemma nth_list_update_Some: "\<exists>y. xs ! i = Some y \<Longrightarrow> \<exists>z. xs[n := Some x] ! i = Some z"
  by (cases "n = i"; cases "n < length xs") (auto simp: list_update_beyond)

lemma slice_ok_append_other:
  assumes "slice_ok h t" and "slice_append grow s x h = (s', h')"
  shows "slice_ok h' t"
  using assms
  by (cases "sl_array s = sl_array t")
     (auto simp: slice_append_def slice_ok_def Let_def nth_append intro!: nth_list_update_Some split: if_splits)

text \<open>An append to a slice with room overwrites what another slice had appended there.\<close>

lemma slice_append_clash:
  assumes "slice_ok h s" "sl_len s < sl_cap s"
    and "slice_append grow s x h = (a, h1)" "slice_append grow s y h1 = (b, h2)"
  shows "contents h2 a = contents h s @ [y]" "contents h2 b = contents h s @ [y]"
proof -
  from assms(2-4) have "a = b"
    by (auto simp: slice_append_def)
  moreover have "slice_ok h1 s" by (rule slice_ok_append_other [OF assms(1,3)])
  moreover have "contents h1 s = contents h s"
    by (rule contents_slice_append_other [OF assms(1,1,3)]) simp
  ultimately show "contents h2 a = contents h s @ [y]" "contents h2 b = contents h s @ [y]"
    using contents_slice_append(1) [OF _ assms(4)] by auto
qed

end
