(* ===== verification/Token.thy ===== *)
theory Token
  imports Jwt
begin

text \<open>
  The other direction of \<open>Jwt\<close>: how a ServiceAccount token is written (base64url without
  padding, a JSON object of the claims), and that reading one back gives the claims.
\<close>

section \<open>base64url, encoding\<close>

fun byte_sextets :: "nat list \<Rightarrow> nat list" where
  "byte_sextets [] = []"
| "byte_sextets [a] = [a div 4, a mod 4 * 16]"
| "byte_sextets [a, b] = [a div 4, a mod 4 * 16 + b div 16, b mod 16 * 4]"
| "byte_sextets (a # b # c # bs) =
     a div 4 # (a mod 4 * 16 + b div 16) # (b mod 16 * 4 + c div 64) # c mod 64 # byte_sextets bs"

definition RawURLEncoding_EncodeToString :: "string \<Rightarrow> string" where
  "RawURLEncoding_EncodeToString s = map (\<lambda>v. base64url_alphabet ! v) (byte_sextets (map of_char s))"

lemma pack:
  "(q :: nat) < k \<Longrightarrow> (m * k + q) div k = m" "(q :: nat) < k \<Longrightarrow> (m * k + q) mod k = q"
  by simp_all

lemma pack_bound:
  assumes "(m :: nat) < n" "q < k"
  shows "m * k + q < n * k"
proof -
  have "m * k + q < Suc m * k" using assms(2) by simp
  also have "\<dots> \<le> n * k" using assms(1) by (intro mult_le_mono1) simp
  finally show ?thesis .
qed

lemma byte_quotients: "(b :: nat) < 256 \<Longrightarrow> b div 4 < 64" "b < 256 \<Longrightarrow> b div 16 < 16" "b < 256 \<Longrightarrow> b div 64 < 4"
  by simp_all

lemma sextets_bound: "list_all (\<lambda>b. b < 256) bs \<Longrightarrow> list_all (\<lambda>v. v < 64) (byte_sextets bs)"
  using pack_bound [of "a mod 4" 4 "b div 16" 16 for a b] pack_bound [of "b mod 16" 16 "c div 64" 4 for b c]
  by (induction bs rule: byte_sextets.induct) (auto simp: byte_quotients)

lemma sextet_bytes_inverse: "list_all (\<lambda>b. b < 256) bs \<Longrightarrow> sextet_bytes (byte_sextets bs) = Some bs"
  by (induction bs rule: byte_sextets.induct) (simp_all add: pack byte_quotients div_mult_mod_eq)

lemma alphabet_table:
  "list_all (\<lambda>v. let c = base64url_alphabet ! v
     in c \<noteq> CHR 0x0A \<and> c \<noteq> CHR 0x0D \<and> c \<noteq> CHR ''.'' \<and> base64url_value c = Some v) [0..<64]"
  by code_simp

lemma alphabetD:
  assumes "v < 64"
  shows "base64url_alphabet ! v \<noteq> CHR 0x0A" "base64url_alphabet ! v \<noteq> CHR 0x0D"
    "base64url_alphabet ! v \<noteq> CHR ''.''" "base64url_value (base64url_alphabet ! v) = Some v"
  using alphabet_table assms by (simp_all add: list_all_iff Let_def)

lemma sextets_inverse:
  "list_all (\<lambda>v. v < 64) vs \<Longrightarrow> sextets i (map (\<lambda>v. base64url_alphabet ! v) vs) = Inr vs"
  by (induction vs arbitrary: i) (simp_all add: alphabetD)

lemma bytes_bound: "list_all (\<lambda>b. b < 256) (map of_char (s :: string) :: nat list)"
  by (simp add: list_all_iff)

lemma base64_roundtrip: "RawURLEncoding_DecodeString (RawURLEncoding_EncodeToString s) = Inr s"
proof -
  have bytes: "list_all (\<lambda>b. b < 256) (map of_char s :: nat list)" by (rule bytes_bound)
  show ?thesis
    by (simp add: RawURLEncoding_DecodeString_def RawURLEncoding_EncodeToString_def
        sextets_inverse [OF sextets_bound [OF bytes]] sextet_bytes_inverse [OF bytes] comp_def)
qed

lemma base64_no_dot: "CHR ''.'' \<notin> set (RawURLEncoding_EncodeToString s)"
proof -
  have "list_all (\<lambda>v. v < 64) (byte_sextets (map of_char s))" by (rule sextets_bound [OF bytes_bound])
  then show ?thesis by (auto simp: RawURLEncoding_EncodeToString_def list_all_iff) (metis alphabetD(3))
qed

section \<open>The claims as JSON\<close>

text \<open>Texts that need no escape: printable ASCII without the quote and the backslash.\<close>

definition plain_char :: "char \<Rightarrow> bool" where
  "plain_char c \<longleftrightarrow> 0x20 \<le> (of_char c :: nat) \<and> (of_char c :: nat) < 0x80 \<and> c \<noteq> CHR 0x22 \<and> c \<noteq> CHR 0x5C"

abbreviation plain :: "string \<Rightarrow> bool" where
  "plain s \<equiv> list_all plain_char s"

definition quoted :: "string \<Rightarrow> string" where
  "quoted s = CHR 0x22 # s @ [CHR 0x22]"

fun quoted_list :: "string list \<Rightarrow> string" where
  "quoted_list [] = []"
| "quoted_list [s] = quoted s"
| "quoted_list (s # ss) = quoted s @ '','' @ quoted_list ss"

definition claims_json :: "string \<Rightarrow> string \<Rightarrow> string list \<Rightarrow> string" where
  "claims_json iss sub auds =
     ''{'' @ quoted ''iss'' @ '':'' @ quoted iss @ '','' @ quoted ''sub'' @ '':'' @ quoted sub @
     '','' @ quoted ''aud'' @ '':['' @ quoted_list auds @ '']}''"

lemma scan_plain_char:
  assumes "plain_char c"
  shows "scan_string (c # t) = map_option (\<lambda>(b, rest). (c # b, rest)) (scan_string t)"
  using assms
  by (subst scan_string.simps) (simp add: plain_char_def utf8_DecodeRune_def rune_error_def)

lemma scan_plain: "plain s \<Longrightarrow> scan_string (s @ CHR 0x22 # r) = Some (s, r)"
proof (induction s)
  case Nil
  show ?case by (simp add: scan_string.simps)
qed (simp add: scan_plain_char)

lemma tokens_quoted:
  "plain s \<Longrightarrow> json_tokens (quoted s @ r) = map_option (\<lambda>ts. TStr s # ts) (json_tokens r)"
  by (subst json_tokens.simps)
     (simp add: quoted_def json_space_def scan_token_def punctuation_def scan_plain)

lemma tokens_punctuation:
  "json_tokens (CHR ''{'' # r) = map_option (\<lambda>ts. LBrace # ts) (json_tokens r)"
  "json_tokens (CHR ''}'' # r) = map_option (\<lambda>ts. RBrace # ts) (json_tokens r)"
  "json_tokens (CHR ''['' # r) = map_option (\<lambda>ts. LBrack # ts) (json_tokens r)"
  "json_tokens (CHR '']'' # r) = map_option (\<lambda>ts. RBrack # ts) (json_tokens r)"
  "json_tokens (CHR '':'' # r) = map_option (\<lambda>ts. Colon # ts) (json_tokens r)"
  "json_tokens (CHR '','' # r) = map_option (\<lambda>ts. Comma # ts) (json_tokens r)"
  "json_tokens [] = Some []"
  by (simp_all add: json_tokens.simps [of "_ # _"] json_tokens.simps [of "[]"] json_space_def scan_token_def punctuation_def)

fun list_tokens :: "string list \<Rightarrow> token list" where
  "list_tokens [] = []"
| "list_tokens [s] = [TStr s]"
| "list_tokens (s # ss) = TStr s # Comma # list_tokens ss"

lemma tokens_quoted_list:
  "list_all plain ss \<Longrightarrow> json_tokens r = Some ts \<Longrightarrow>
   json_tokens (quoted_list ss @ r) = Some (list_tokens ss @ ts)"
  by (induction ss rule: quoted_list.induct) (simp_all add: tokens_quoted tokens_punctuation)

lemma tokens_claims:
  assumes "plain iss" "plain sub" "list_all plain auds"
  shows "json_tokens (claims_json iss sub auds) =
    Some ([LBrace, TStr ''iss'', Colon, TStr iss, Comma, TStr ''sub'', Colon, TStr sub, Comma,
      TStr ''aud'', Colon, LBrack] @ list_tokens auds @ [RBrack, RBrace])"
proof -
  have "plain ''iss''" "plain ''sub''" "plain ''aud''" by (simp_all add: plain_char_def)
  then show ?thesis
    using assms by (simp add: claims_json_def tokens_quoted tokens_punctuation tokens_quoted_list)
qed

lemma scan_elements:
  "scan_all (BeginValue, ArrF vs # st) (list_tokens (s # ss) @ ts) =
   scan_all (AfterElement, ArrF (rev (map JStr (s # ss)) @ vs) # st) ts"
  by (induction ss arbitrary: s vs) (simp_all add: scan_step_def)

lemma scan_array:
  "scan_all (BeginValueOrEmpty, ArrF [] # KeyF kvs key # st) (list_tokens auds @ RBrack # ts) =
   scan_all (AfterMember, ObjF ((key, JArr (map JStr auds)) # kvs) # st) ts"
proof (cases auds)
  case Nil
  then show ?thesis by (simp add: scan_step_def)
next
  case (Cons s ss)
  have "scan_all (BeginValueOrEmpty, fs) (list_tokens auds @ RBrack # ts) =
      scan_all (BeginValue, fs) (list_tokens auds @ RBrack # ts)" for fs
    unfolding Cons by (cases ss) (simp_all add: scan_step_def)
  then show ?thesis
    using scan_elements [of "[]" "KeyF kvs key # st" s ss "RBrack # ts"] Cons by (simp add: scan_step_def)
qed

lemma parse_claims:
  assumes "plain iss" "plain sub" "list_all plain auds"
  shows "json_parse (claims_json iss sub auds) =
    Some (JObj [(''iss'', JStr iss), (''sub'', JStr sub), (''aud'', JArr (map JStr auds))])"
  unfolding json_parse_def tokens_claims [OF assms]
  by (simp add: scan_step_def scan_member_key_def maxNestingDepth_def scan_array)

lemma fold_claims: "fold_key ''iss'' = ''iss''" "fold_key ''sub'' = ''sub''" "fold_key ''aud'' = ''aud''"
  by code_simp+

lemma unmarshal_claims:
  assumes "plain iss" "plain sub" "list_all plain auds"
  shows "json_Unmarshal_claims (claims_json iss sub auds) =
    Some \<lparr>cl_Issuer = iss, cl_Subject = sub, cl_Audience = Some (JArr (map JStr auds))\<rparr>"
  unfolding json_Unmarshal_claims_def parse_claims [OF assms]
  by (simp add: store_member_def store_string_def fold_claims list_all_iff Let_def del: fold_key.simps)

lemma normalize_strings: "normalizeAudiences (Some (JArr (map JStr auds))) = filter (\<lambda>a. a \<noteq> []) auds"
  unfolding normalizeAudiences_def by (induction auds) simp_all

section \<open>The token\<close>

definition issued_token :: "string \<Rightarrow> string \<Rightarrow> string \<Rightarrow> string \<Rightarrow> string list \<Rightarrow> string" where
  "issued_token header sig iss sub auds =
     header @ ''.'' @ RawURLEncoding_EncodeToString (claims_json iss sub auds) @ ''.'' @ sig"

lemma split_at: "c \<notin> set p \<Longrightarrow> strings_Split_byte (p @ c # r) c = p # strings_Split_byte r c"
  by (induction p) auto

lemma issued_token_parts:
  assumes "CHR ''.'' \<notin> set header"
  shows "strings_Split_byte (issued_token header sig iss sub auds) CHR ''.'' =
    header # RawURLEncoding_EncodeToString (claims_json iss sub auds) # strings_Split_byte sig CHR ''.''"
  by (simp add: issued_token_def split_at assms base64_no_dot)

lemmas token_reading = parseServiceAccountJWT_def issued_token_parts base64_roundtrip unmarshal_claims normalize_strings

text \<open>C36. Round trip of ServiceAccount tokens: of a token whose payload is the base64url text of a JSON
  object with issuer, subject and a list of audiences (texts that need no escape), reading
  gives back the issuer, the subject and the audiences, empty ones left out; header and
  signature do not matter.\<close>

theorem token_roundtrip:
  assumes "CHR ''.'' \<notin> set header" and "plain iss" and "plain sub" and "list_all plain auds"
  shows "parseServiceAccountJWT je (issued_token header sig iss sub auds) =
    Inr \<lparr>sai_Alias = [], sai_Subject = sub, sai_Issuer = iss, sai_Audiences = filter (\<lambda>a. a \<noteq> []) auds\<rparr>"
  using assms by (simp add: token_reading Let_def)

lemma token_roundtrip_witness:
  "parseServiceAccountJWT (\<lambda>_. errors_New ''invalid JSON'') (issued_token ''h'' ''s'' ''https://iss'' ''system:serviceaccount:ns:sa'' [''aud'', []]) =
    Inr \<lparr>sai_Alias = [], sai_Subject = ''system:serviceaccount:ns:sa'', sai_Issuer = ''https://iss'',
      sai_Audiences = [''aud'']\<rparr>"
  using token_roundtrip [of "''h''" "''https://iss''" "''system:serviceaccount:ns:sa''" "[''aud'', []]" "\<lambda>_. errors_New ''invalid JSON''" "''s''"]
  by (simp add: plain_char_def)

end
