(* ===== verification/JsonText.thy ===== *)
theory JsonText
  imports Token "HOL-Library.List_Lexorder" "HOL-Library.Char_ord"
begin

text \<open>
  Writing JSON the way \<open>json.MarshalIndent(v, "", "  ")\<close> of the Go standard library does,
  for the values the commands print (\<open>printJSON\<close> of \<open>app.go\<close>), and that the reader of
  \<open>Jwt\<close> gets the values back: every string, up to bytes that are no UTF-8, which both
  directions replace by U+FFFD.
\<close>

section \<open>String literals\<close>

text \<open>One ASCII byte; the HTML characters are escaped as well.\<close>

definition html_safe :: "char \<Rightarrow> bool" where
  "html_safe c \<longleftrightarrow> 0x20 \<le> (of_char c :: nat) \<and>
     c \<notin> {CHR 0x22, CHR 0x5C, CHR ''&'', CHR ''<'', CHR ''>''}"

definition escape_byte :: "char \<Rightarrow> string" where
  "escape_byte c =
     (if html_safe c then [c]
      else if c = CHR 0x5C \<or> c = CHR 0x22 then [CHR 0x5C, c]
      else if c = CHR 0x08 then CHR 0x5C # ''b''
      else if c = CHR 0x0C then CHR 0x5C # ''f''
      else if c = CHR 0x0A then CHR 0x5C # ''n''
      else if c = CHR 0x0D then CHR 0x5C # ''r''
      else if c = CHR 0x09 then CHR 0x5C # ''t''
      else CHR 0x5C # ''u00'' @ hex_fixed 2 (of_char c))"

function json_escape :: "string \<Rightarrow> string" where
  "json_escape s =
     (if s = [] then []
      else if (of_char (hd s) :: nat) < 0x80 then escape_byte (hd s) @ json_escape (tl s)
      else case utf8_DecodeRune s of (r, w) \<Rightarrow>
        (if r = rune_error \<and> w = 1 then CHR 0x5C # ''ufffd''
         else if r = 0x2028 \<or> r = 0x2029 then CHR 0x5C # ''u202'' @ hex_fixed 1 (r mod 16)
         else take (max 1 w) s) @ json_escape (drop (max 1 w) s))"
  by pat_completeness auto
termination
  by (relation "measure length") auto

declare json_escape.simps [simp del]

definition json_quote :: "string \<Rightarrow> string" where
  "json_quote s = CHR 0x22 # json_escape s @ [CHR 0x22]"

text \<open>What survives: each byte that starts no rune becomes U+FFFD.\<close>

function to_valid :: "string \<Rightarrow> string" where
  "to_valid s =
     (if s = [] then []
      else case utf8_DecodeRune s of (r, w) \<Rightarrow>
        (if r = rune_error \<and> w = 1 then utf8_encode rune_error else take (max 1 w) s) @
        to_valid (drop (max 1 w) s))"
  by pat_completeness auto
termination
  by (relation "measure length") auto

declare to_valid.simps [simp del]

section \<open>Reading a literal back\<close>

lemma decode_ascii: "(of_char c :: nat) < 0x80 \<Longrightarrow> utf8_DecodeRune (c # s) = (of_char c, 1)"
  by (simp add: utf8_DecodeRune_def)

text \<open>A rune of two bytes or more is decoded from its own bytes alone.\<close>

lemma decode_local:
  assumes "utf8_DecodeRune (c # s) = (r, w)" "\<not> (of_char c :: nat) < 0x80" "\<not> (r = rune_error \<and> w = 1)"
  shows "2 \<le> w \<and> w \<le> length (c # s) \<and> utf8_DecodeRune (take w (c # s) @ t) = (r, w)"
proof -
  consider "s = []" | b1 where "s = [b1]" | b1 b2 where "s = [b1, b2]" | b1 b2 b3 s' where "s = b1 # b2 # b3 # s'"
    by (metis list.exhaust)
  then show ?thesis
    by cases (use assms in \<open>auto simp: utf8_DecodeRune_def rune_error_def split: if_splits\<close>)
qed

lemma of_char_eq: "of_char c = (n :: nat) \<Longrightarrow> c = char_of n"
  by (metis char_of_char)

lemma separator_bytes:
  assumes "(a - 224) * 4096 + (b - 128) * 64 + d - 128 = n" "224 \<le> a" "128 \<le> b" "b \<le> 191" "128 \<le> d" "d \<le> 191"
    "n = 8232 \<or> n = (8233 :: nat)"
  shows "a = 226 \<and> b = 128 \<and> d = n - 8064"
proof -
  obtain x y z where xyz: "a = 224 + x" "b = 128 + y" "d = 128 + z"
    using assms by (metis le_iff_add)
  then have "x * 4096 + y * 64 + z = n" "y < 64" "z < 64" using assms by auto
  moreover from this have "x = 2" using assms(7) by linarith
  moreover from calculation have "y = 0" using assms(7) by linarith
  ultimately show ?thesis using xyz by simp
qed

text \<open>The two line separators that are written as escapes have one encoding only.\<close>

lemma decode_separator:
  assumes "utf8_DecodeRune (c # s) = (r, w)" "r = 0x2028 \<or> r = 0x2029"
  shows "w = 3 \<and> take 3 (c # s) = utf8_encode r"
proof -
  consider "s = []" | b1 where "s = [b1]" | b1 b2 where "s = [b1, b2]" | b1 b2 b3 s' where "s = b1 # b2 # b3 # s'"
    by (metis list.exhaust)
  then show ?thesis
    by cases (use assms in \<open>auto simp: utf8_DecodeRune_def rune_error_def utf8_cont_def utf8_encode_def
      intro!: of_char_eq split: if_splits dest!: separator_bytes\<close>)
qed

lemma hex_pair: "(n :: nat) < 256 \<Longrightarrow> hex4 (CHR ''0'' # CHR ''0'' # hex_fixed 2 n @ t) = Some n"
proof -
  have digits: "list_all (\<lambda>d. hex_value (hex_digit d) = Some d) [0..<16]" by code_simp
  have zero: "hex_value CHR ''0'' = Some 0" by code_simp
  assume "n < 256"
  then have "n div 16 < 16" "n mod 16 < 16" by simp_all
  moreover have "hex_digit n = hex_digit (n mod 16)" by (simp add: hex_digit_def)
  ultimately have "hex_value (hex_digit (n div 16)) = Some (n div 16)" "hex_value (hex_digit n) = Some (n mod 16)"
    using digits by (simp_all add: list_all_iff)
  then show ?thesis by (simp add: numeral_2_eq_2 zero)
qed

lemma scan_escape_byte:
  assumes "(of_char c :: nat) < 0x80"
  shows "scan_string (escape_byte c @ t) = map_option (\<lambda>(b, r). (c # b, r)) (scan_string t)"
proof (cases "html_safe c")
  case True
  then show ?thesis
    using assms
    by (subst scan_string.simps) (auto simp: escape_byte_def html_safe_def decode_ascii rune_error_def)
next
  case False
  have short: "simple_escape CHR 0x5C = Some CHR 0x5C" "simple_escape CHR 0x22 = Some CHR 0x22"
    "simple_escape CHR ''b'' = Some CHR 0x08" "simple_escape CHR ''f'' = Some CHR 0x0C"
    "simple_escape CHR ''n'' = Some CHR 0x0A" "simple_escape CHR ''r'' = Some CHR 0x0D"
    "simple_escape CHR ''t'' = Some CHR 0x09"
    by code_simp+
  have code: "scan_string (CHR 0x5C # CHR ''u'' # CHR ''0'' # CHR ''0'' # hex_fixed 2 (of_char c) @ t) =
      map_option (\<lambda>(b, r). (c # b, r)) (scan_string t)"
    using assms hex_pair [of "of_char c" t]
    by (subst scan_string.simps) (simp add: high_surrogate_def low_surrogate_def utf8_encode_def Let_def)
  have pair: "simple_escape e = Some d \<Longrightarrow> e \<noteq> CHR ''u'' \<Longrightarrow>
      scan_string (CHR 0x5C # e # t) = map_option (\<lambda>(b, r). (d # b, r)) (scan_string t)" for e d
    by (subst scan_string.simps) simp
  show ?thesis
    using False code by (simp add: escape_byte_def pair short)
qed

text \<open>The literal of any string reads back as the string, made valid.\<close>

lemma scan_json_escape: "scan_string (json_escape s @ CHR 0x22 # t) = Some (to_valid s, t)"
proof (induction s rule: json_escape.induct)
  case (1 s)
  show ?case
  proof (cases s)
    case Nil
    then show ?thesis by (simp add: json_escape.simps to_valid.simps scan_string.simps)
  next
    case (Cons c s')
    obtain r w where d: "utf8_DecodeRune s = (r, w)" by fastforce
    show ?thesis
    proof (cases "(of_char c :: nat) < 0x80")
      case True
      with 1(1) Cons show ?thesis
        by (simp add: json_escape.simps [of "c # s'"] to_valid.simps [of "c # s'"] decode_ascii scan_escape_byte
            rune_error_def)
    next
      case high: False
      then have IH: "scan_string (json_escape (drop (max 1 w) s) @ CHR 0x22 # t) = Some (to_valid (drop (max 1 w) s), t)"
        using 1(2) Cons d by simp
      note unfolds = json_escape.simps [of "c # s'"] to_valid.simps [of "c # s'"]
      have digits: "hex_value CHR ''f'' = Some 15" "hex_value CHR ''d'' = Some 13" "hex_value CHR ''2'' = Some 2"
        "hex_value CHR ''0'' = Some 0" "hex_value CHR ''8'' = Some 8" "hex_value CHR ''9'' = Some 9"
        by code_simp+
      have esc: "scan_string (CHR 0x5C # CHR ''u'' # a @ t') =
          map_option (\<lambda>(b, rest). (utf8_encode n @ b, rest)) (scan_string t')"
        if "hex4 (a @ t') = Some n" "length a = 4" "\<not> high_surrogate n" "\<not> low_surrogate n" for a t' n
        using that by (subst scan_string.simps) (simp add: Let_def)
      consider "r = rune_error \<and> w = 1" | "r = 0x2028 \<or> r = 0x2029"
        | "\<not> (r = rune_error \<and> w = 1)" "r \<noteq> 0x2028" "r \<noteq> 0x2029" by blast
      then show ?thesis
      proof cases
        case 1
        have "hex4 (''fffd'' @ t') = Some rune_error" for t' by (simp add: rune_error_def digits)
        from esc [OF this] 1 IH Cons high d show ?thesis
          by (simp add: unfolds rune_error_def high_surrogate_def low_surrogate_def)
      next
        case 2
        have "hex4 (''2028'' @ t') = Some 0x2028" "hex4 (''2029'' @ t') = Some 0x2029" for t'
          by (simp_all add: digits)
        from esc [OF this(1)] esc [OF this(2)] 2 IH Cons high d decode_separator [of c s' r w] show ?thesis
          by (auto simp: unfolds rune_error_def high_surrogate_def low_surrogate_def hex_digit_def)
      next
        case 3
        define u where "u = json_escape (drop w s) @ CHR 0x22 # t"
        from decode_local [of c s' r w u] 3 d Cons high
        have w: "2 \<le> w" "w \<le> length s" "utf8_DecodeRune (take w s @ u) = (r, w)" by auto
        then obtain v where v: "take w s = c # v" using Cons by (cases w) auto
        have taken: "take w (c # v @ u) = c # v" "drop w (c # v @ u) = u"
          using v w(2) by (metis append_Cons append_eq_conv_conj length_take min.absorb2)+
        have "scan_string (take w s @ u) = map_option (\<lambda>(b, rest). (take w s @ b, rest)) (scan_string u)"
          using w 3(1) high v taken
          by (subst scan_string.simps) (auto simp: max_def)
        with 3 IH Cons high d w show ?thesis by (simp add: unfolds u_def max_def)
      qed
    qed
  qed
qed

lemma tokens_json_quote:
  "json_tokens (json_quote s @ r) = map_option (\<lambda>ts. TStr (to_valid s) # ts) (json_tokens r)"
  by (subst json_tokens.simps)
     (simp add: json_quote_def json_space_def scan_token_def punctuation_def scan_json_escape)

section \<open>json.MarshalIndent\<close>

text \<open>A line break and the indentation of depth \<open>d\<close>; the lines of an array or object.\<close>

definition json_newline :: "nat \<Rightarrow> string" where
  "json_newline d = CHR 0x0A # concat (replicate d ''  '')"

fun json_lines :: "nat \<Rightarrow> string list \<Rightarrow> string" where
  "json_lines d [] = []"
| "json_lines d [t] = json_newline d @ t"
| "json_lines d (t # ts) = json_newline d @ t @ '','' @ json_lines d ts"

fun json_indent :: "nat \<Rightarrow> jvalue \<Rightarrow> string" where
  "json_indent d JNull = ''null''"
| "json_indent d (JBool b) = (if b then ''true'' else ''false'')"
| "json_indent d (JNum n) = n"
| "json_indent d (JStr t) = json_quote t"
| "json_indent d (JArr vs) =
     (if vs = [] then ''[]''
      else ''['' @ json_lines (d + 1) (map (json_indent (d + 1)) vs) @ json_newline d @ '']'')"
| "json_indent d (JObj kvs) =
     (if kvs = [] then ''{}''
      else ''{'' @ json_lines (d + 1) (map (\<lambda>(k, v). json_quote k @ '': '' @ json_indent (d + 1) v) kvs) @
        json_newline d @ ''}'')"

text \<open>The members of a Go map are written in the order of their keys.\<close>

definition json_map :: "(string \<times> jvalue) list \<Rightarrow> jvalue" where
  "json_map kvs = JObj (sort_key fst kvs)"

text \<open>Strings, booleans and objects of them always have a text; the sum is that of the Go function.\<close>

definition json_MarshalIndent :: "jvalue \<Rightarrow> goerr + string" where
  "json_MarshalIndent v = Inr (json_indent 0 v)"

section \<open>Reading an object back\<close>

text \<open>The values of flat objects: strings and booleans.\<close>

fun flat_value :: "jvalue \<Rightarrow> bool" where
  "flat_value (JStr t) = True"
| "flat_value (JBool b) = True"
| "flat_value _ = False"

fun valid_value :: "jvalue \<Rightarrow> jvalue" where
  "valid_value (JStr t) = JStr (to_valid t)"
| "valid_value v = v"

fun flat_token :: "jvalue \<Rightarrow> token" where
  "flat_token (JStr t) = TStr (to_valid t)"
| "flat_token (JBool b) = TBool b"
| "flat_token _ = TNull"

lemma tokens_space: "c \<in> json_space \<Longrightarrow> json_tokens (c # r) = json_tokens r"
  by (subst (1 2) json_tokens.simps) simp

lemma tokens_newline: "json_tokens (json_newline d @ r) = json_tokens r"
proof -
  have "json_tokens (concat (replicate d ''  '') @ r) = json_tokens r"
    by (induction d) (simp_all add: tokens_space json_space_def)
  then show ?thesis by (simp add: json_newline_def tokens_space json_space_def)
qed

lemma tokens_words:
  "json_tokens (''true'' @ r) = map_option (\<lambda>ts. TBool True # ts) (json_tokens r)"
  "json_tokens (''false'' @ r) = map_option (\<lambda>ts. TBool False # ts) (json_tokens r)"
  by (subst json_tokens.simps; simp add: json_space_def scan_token_def punctuation_def json_words_def)+

lemma tokens_flat:
  "flat_value v \<Longrightarrow> json_tokens (json_indent d v @ r) = map_option (\<lambda>ts. flat_token v # ts) (json_tokens r)"
  by (cases v) (simp_all add: tokens_json_quote tokens_words [simplified])

fun member_tokens :: "(string \<times> jvalue) list \<Rightarrow> token list" where
  "member_tokens [] = []"
| "member_tokens [(k, v)] = [TStr (to_valid k), Colon, flat_token v]"
| "member_tokens ((k, v) # kvs) = TStr (to_valid k) # Colon # flat_token v # Comma # member_tokens kvs"

abbreviation member_text :: "nat \<Rightarrow> string \<times> jvalue \<Rightarrow> string" where
  "member_text d \<equiv> (\<lambda>(k, v). json_quote k @ '': '' @ json_indent d v)"

lemma tokens_member:
  "flat_value v \<Longrightarrow> json_tokens (json_newline d @ json_quote k @ '': '' @ json_indent d v @ r) =
     map_option (\<lambda>ts. TStr (to_valid k) # Colon # flat_token v # ts) (json_tokens r)"
  by (simp add: tokens_newline tokens_json_quote tokens_punctuation tokens_space json_space_def tokens_flat
      option.map_comp comp_def)

lemma tokens_members:
  "list_all (\<lambda>(k, v). flat_value v) kvs \<Longrightarrow> json_tokens r = Some ts \<Longrightarrow>
   json_tokens (json_lines d (map (member_text d) kvs) @ r) = Some (member_tokens kvs @ ts)"
proof (induction kvs rule: member_tokens.induct)
  case (3 k v kv kvs)
  then show ?case
    using tokens_member [of v d k] by (cases kv) (simp add: tokens_punctuation)
qed (simp_all add: tokens_member [simplified])

lemma scan_members:
  "kvs \<noteq> [] \<Longrightarrow> list_all (\<lambda>(k, v). flat_value v) kvs \<Longrightarrow>
   scan_all (BeginString, ObjF acc # st) (member_tokens kvs @ ts) =
   scan_all (AfterMember, ObjF (rev (map (\<lambda>(k, v). (to_valid k, valid_value v)) kvs) @ acc) # st) ts"
proof (induction kvs arbitrary: acc rule: member_tokens.induct)
  case (2 k v)
  then show ?case by (cases v) (simp_all add: scan_step_def scan_member_key_def)
next
  case (3 k v kv kvs)
  have "scan_all (BeginString, ObjF acc # st) (member_tokens ((k, v) # kv # kvs) @ ts) =
      scan_all (BeginString, ObjF ((to_valid k, valid_value v) # acc) # st) (member_tokens (kv # kvs) @ ts)"
    using 3(3) by (cases v) (simp_all add: scan_step_def scan_member_key_def)
  then show ?case using 3 by simp
qed simp

text \<open>A printed flat object reads back as itself, its strings made valid.\<close>

lemma json_indent_read_back:
  assumes "list_all (\<lambda>(k, v). flat_value v) kvs" "kvs \<noteq> []"
  shows "json_parse (json_indent d (JObj kvs)) = Some (JObj (map (\<lambda>(k, v). (to_valid k, valid_value v)) kvs))"
proof -
  have "json_tokens (json_newline d @ ''}'') = Some [RBrace]"
    by (simp add: tokens_newline tokens_punctuation)
  then have tokens: "json_tokens (json_indent d (JObj kvs)) = Some (LBrace # member_tokens kvs @ [RBrace])"
    using assms tokens_members [OF assms(1), of "json_newline d @ ''}''" "[RBrace]" "d + 1"]
    by (simp add: tokens_punctuation)
  have first: "scan_all (BeginStringOrEmpty, fs) (member_tokens kvs @ ts) =
      scan_all (BeginString, fs) (member_tokens kvs @ ts)" for fs ts
    using assms(2) by (cases kvs rule: member_tokens.cases) (simp_all add: scan_step_def)
  show ?thesis
    using scan_members [OF assms(2,1), of "[]" "[]" "[RBrace]"]
    unfolding json_parse_def tokens by (simp add: first scan_step_def maxNestingDepth_def)
qed

end
