(* ===== verification/AppOptions.thy ===== *)
theory AppOptions
  imports GoSlice Identity JsonText
begin

text \<open>
  \<open>cmd/platform-service-openbao/app/app.go\<close> and the option half of \<open>run.go\<close>: the flags,
  their defaults, and \<open>Complete\<close>, which checks them and prepares the TLS options of the two
  servers. The TLS options are Go slices that share arrays, so they live in an explicit store
  (\<open>ro_Arrays\<close>). Parsing the command line is cobra's; what it leaves in the options is the
  input here.
\<close>

section \<open>Package path/filepath\<close>

text \<open>\<open>filepath.Clean\<close> on Unix, on the elements between the slashes; \<open>out\<close> holds the
  elements kept so far, the last one first.\<close>

fun clean_elems :: "bool \<Rightarrow> string list \<Rightarrow> string list \<Rightarrow> string list" where
  "clean_elems rooted out [] = rev out"
| "clean_elems rooted out (e # es) =
     (if e = [] \<or> e = ''.'' then clean_elems rooted out es
      else if e = ''..'' then
        (case out of
           [] \<Rightarrow> if rooted then clean_elems rooted [] es else clean_elems rooted [''..''] es
         | prev # rest \<Rightarrow>
             if prev = ''..'' then clean_elems rooted (''..'' # out) es else clean_elems rooted rest es)
      else clean_elems rooted (e # out) es)"

definition filepath_Clean :: "string \<Rightarrow> string" where
  "filepath_Clean path =
     (let rooted = (take 1 path = ''/'');
          text = strings_Join (clean_elems rooted [] (strings_Split_byte path (CHR ''/''))) ''/''
      in if rooted then ''/'' @ text else if text = [] then ''.'' else text)"

definition filepath_Join :: "string \<Rightarrow> string \<Rightarrow> string" where
  "filepath_Join dir file =
     (if dir \<noteq> [] then filepath_Clean (dir @ ''/'' @ file)
      else if file \<noteq> [] then filepath_Clean file else [])"

section \<open>TLS options\<close>

text \<open>A certificate watcher, known by the files it watches, and the two functions the program
  puts into a list of TLS options.\<close>

datatype CertWatcher = CertWatcher string string

datatype tls_opt = DisableHTTP2 | GetCertificate CertWatcher

record tls_Config =
  tc_NextProtos :: "string list"
  tc_GetCertificate :: "CertWatcher option"

definition apply_tls_opt :: "tls_opt \<Rightarrow> tls_Config \<Rightarrow> tls_Config" where
  "apply_tls_opt opt c = (case opt of
     DisableHTTP2 \<Rightarrow> c\<lparr>tc_NextProtos := [''http/1.1'']\<rparr>
   | GetCertificate w \<Rightarrow> c\<lparr>tc_GetCertificate := Some w\<rparr>)"

datatype FilterProvider = NoFilter | WithAuthenticationAndAuthorization

record MetricsServerOptions =
  mo_BindAddress :: string
  mo_SecureServing :: bool
  mo_TLSOpts :: slice
  mo_FilterProvider :: FilterProvider

section \<open>Options\<close>

record RawSharedOptions =
  so_Environment :: string
  so_ProviderName :: string
  so_DryRun :: bool

record RawRunOptions =
  rr_MetricsAddr :: string
  rr_MetricsCertPath :: string
  rr_MetricsCertName :: string
  rr_MetricsCertKey :: string
  rr_WebhookCertPath :: string
  rr_WebhookCertName :: string
  rr_WebhookCertKey :: string
  rr_EnableLeaderElection :: bool
  rr_ProbeAddr :: string
  rr_PprofAddr :: string
  rr_SecureMetrics :: bool
  rr_EnableHTTP2 :: bool

record RunOptions =
  ro_Shared :: RawSharedOptions
  ro_Raw :: RawRunOptions
  ro_TLSOpts :: slice
  ro_WebhookTLSOpts :: slice
  ro_MetricsServerOptions :: MetricsServerOptions
  ro_MetricsCertWatcher :: "CertWatcher option"
  ro_WebhookCertWatcher :: "CertWatcher option"
  ro_ProviderNamespace :: string
  ro_Arrays :: "tls_opt arrays"

text \<open>A flag: the variable it is bound to (the write to it), its name, default and usage text.
  Registering a flag writes its default into the variable.\<close>

datatype 'o flag =
    StringVar "string \<Rightarrow> 'o \<Rightarrow> 'o" string string string
  | BoolVar "bool \<Rightarrow> 'o \<Rightarrow> 'o" string bool string

fun flag_name :: "'o flag \<Rightarrow> string" where
  "flag_name (StringVar w n d u) = n"
| "flag_name (BoolVar w n d u) = n"

fun register_flag :: "'o flag \<Rightarrow> 'o \<Rightarrow> 'o" where
  "register_flag (StringVar w n d u) o' = w d o'"
| "register_flag (BoolVar w n d u) o' = w d o'"

text \<open>The flags of this program; those of the logging library and of the cluster library, which
  are registered beside the shared ones, are bound to variables of these libraries.\<close>

definition shared_flags :: "RawSharedOptions flag list" where
  "shared_flags =
     [StringVar (\<lambda>v. so_Environment_update (\<lambda>_. v)) ''environment'' []
        ''Environment name. Required. Distinguishes environments watching the same platform cluster.'',
      StringVar (\<lambda>v. so_ProviderName_update (\<lambda>_. v)) ''provider-name'' []
        ''Name of the ServiceConfig resource this instance reconciles against.'',
      BoolVar (\<lambda>v. so_DryRun_update (\<lambda>_. v)) ''dry-run'' False
        ''If set, the command aborts after evaluating flags. Useful for validating configuration in CI.'']"

definition AddPersistentFlags :: "RawSharedOptions \<Rightarrow> RawSharedOptions" where
  "AddPersistentFlags o' = fold register_flag shared_flags o'"

definition run_flags :: "RawRunOptions flag list" where
  "run_flags =
     [StringVar (\<lambda>v. rr_MetricsAddr_update (\<lambda>_. v)) ''metrics-bind-address'' ''0''
        ''Metrics endpoint address. Use :8443 for HTTPS, :8080 for HTTP, or 0 to disable.'',
      StringVar (\<lambda>v. rr_ProbeAddr_update (\<lambda>_. v)) ''health-probe-bind-address'' '':8081''
        ''Health probe endpoint address.'',
      StringVar (\<lambda>v. rr_PprofAddr_update (\<lambda>_. v)) ''pprof-bind-address'' []
        ''pprof endpoint address (empty to disable).'',
      BoolVar (\<lambda>v. rr_EnableLeaderElection_update (\<lambda>_. v)) ''leader-elect'' False
        ''Enable leader election so at most one manager is active.'',
      BoolVar (\<lambda>v. rr_SecureMetrics_update (\<lambda>_. v)) ''metrics-secure'' True
        ''Serve metrics over HTTPS.'',
      StringVar (\<lambda>v. rr_WebhookCertPath_update (\<lambda>_. v)) ''webhook-cert-path'' []
        ''Directory containing the webhook certificate.'',
      StringVar (\<lambda>v. rr_WebhookCertName_update (\<lambda>_. v)) ''webhook-cert-name'' ''tls.crt''
        ''Webhook certificate file name.'',
      StringVar (\<lambda>v. rr_WebhookCertKey_update (\<lambda>_. v)) ''webhook-cert-key'' ''tls.key''
        ''Webhook key file name.'',
      StringVar (\<lambda>v. rr_MetricsCertPath_update (\<lambda>_. v)) ''metrics-cert-path'' []
        ''Directory containing the metrics server certificate.'',
      StringVar (\<lambda>v. rr_MetricsCertName_update (\<lambda>_. v)) ''metrics-cert-name'' ''tls.crt''
        ''Metrics certificate file name.'',
      StringVar (\<lambda>v. rr_MetricsCertKey_update (\<lambda>_. v)) ''metrics-cert-key'' ''tls.key''
        ''Metrics key file name.'',
      BoolVar (\<lambda>v. rr_EnableHTTP2_update (\<lambda>_. v)) ''enable-http2'' False
        ''Enable HTTP/2 on metrics and webhook servers.'']"

definition AddFlags :: "RawRunOptions \<Rightarrow> RawRunOptions" where
  "AddFlags o' = fold register_flag run_flags o'"

lemma AddPersistentFlags_defaults:
  "AddPersistentFlags o' = o'\<lparr>so_Environment := [], so_ProviderName := [], so_DryRun := False\<rparr>"
  by (simp add: AddPersistentFlags_def shared_flags_def)

lemma AddFlags_defaults:
  "AddFlags o' = o'\<lparr>rr_MetricsAddr := ''0'', rr_ProbeAddr := '':8081'', rr_PprofAddr := [],
     rr_EnableLeaderElection := False, rr_SecureMetrics := True, rr_WebhookCertPath := [],
     rr_WebhookCertName := ''tls.crt'', rr_WebhookCertKey := ''tls.key'', rr_MetricsCertPath := [],
     rr_MetricsCertName := ''tls.crt'', rr_MetricsCertKey := ''tls.key'', rr_EnableHTTP2 := False\<rparr>"
  by (simp add: AddFlags_def run_flags_def)

text \<open>\<open>opts := &RunOptions{SharedOptions: so}\<close> with flag values \<open>raw\<close>: everything that
  \<open>Complete\<close> fills in is Go's zero value.\<close>

definition NewRunOptions :: "RawSharedOptions \<Rightarrow> RawRunOptions \<Rightarrow> RunOptions" where
  "NewRunOptions so raw =
     \<lparr>ro_Shared = so, ro_Raw = raw, ro_TLSOpts = nil_slice, ro_WebhookTLSOpts = nil_slice,
      ro_MetricsServerOptions = \<lparr>mo_BindAddress = [], mo_SecureServing = False, mo_TLSOpts = nil_slice,
        mo_FilterProvider = NoFilter\<rparr>,
      ro_MetricsCertWatcher = None, ro_WebhookCertWatcher = None, ro_ProviderNamespace = [],
      ro_Arrays = []\<rparr>"

section \<open>The libraries\<close>

text \<open>What \<open>AddToScheme\<close> functions register: one entry per imported API package.\<close>

datatype api_package = ClientGo | ApiExtensions | OperatorClusters | OperatorCore | OpenBaoAPI

type_synonym Scheme = "api_package list"

record ClusterRequest =
  cr_ProviderName :: string
  cr_Namespace :: string
  cr_Interval :: duration
  cr_Timeout :: duration
  cr_LocalName :: string
  cr_Purpose :: string
  cr_Scheme :: Scheme
  cr_Permissions :: "PermissionsRequest list"

text \<open>The TLS options of a manager are those its servers read from the slices when it is built.\<close>

record ManagerOptions =
  mg_Scheme :: Scheme
  mg_MetricsAddress :: string
  mg_MetricsSecure :: bool
  mg_MetricsFilter :: FilterProvider
  mg_MetricsTLS :: "tls_opt list"
  mg_WebhookTLS :: "tls_opt list"
  mg_ProbeAddress :: string
  mg_PprofAddress :: string
  mg_LeaderElection :: bool
  mg_LeaderElectionID :: string

datatype runnable = PlatformCache | RunCertWatcher CertWatcher

text \<open>A manifest embedded into the binary, as the library parsed it.\<close>

datatype CustomResourceDefinition = CustomResourceDefinition string

record ('w, 'reg, 'hook) app_lib =
  al_Grow :: "nat \<Rightarrow> nat \<Rightarrow> nat"
  al_GetLogger :: "goerr option"
  al_InitializeRESTConfig :: "('w, unit) oper"
  al_ConfigPath :: string
  al_HasRESTConfig :: "'w \<Rightarrow> bool"
  al_InitializeClient :: "Scheme \<Rightarrow> ('w, 'w Cluster) oper"
  al_AddToScheme :: "api_package \<Rightarrow> goerr option"
  al_NewCertWatcher :: "string \<Rightarrow> string \<Rightarrow> ('w, unit) oper"
  al_CreateAndWaitForCluster :: "ClusterRequest \<Rightarrow> ('w, 'w Cluster) oper"
  al_NewManager :: "ManagerOptions \<Rightarrow> ('w, 'w Cluster) oper"
  al_Add :: "runnable \<Rightarrow> ('w, unit) oper"
  al_CompleteController :: "'reg \<Rightarrow> ('w, unit) oper"
  al_CompleteWebhook :: "'hook \<Rightarrow> ('w, unit) oper"
  al_AddHealthzCheck :: "string \<Rightarrow> ('w, unit) oper"
  al_AddReadyzCheck :: "string \<Rightarrow> ('w, unit) oper"
  al_Start :: "('w, unit) oper"
  al_CRDsFromFileSystem :: "string \<Rightarrow> goerr + CustomResourceDefinition list"
  al_CreateOrUpdateCRDs ::
    "string \<Rightarrow> goerr + CustomResourceDefinition list \<Rightarrow> (string \<times> 'w Cluster) list \<Rightarrow> ('w, unit) oper"
  al_PURPOSE_PLATFORM :: string
  al_PURPOSE_ONBOARDING :: string
  al_ClusterLabel :: string

section \<open>Steps that may abort\<close>

text \<open>A command ends with an error it returns, or with a panic (\<open>utilruntime.Must\<close>).\<close>

datatype abort = Failed goerr | Panicked goerr

datatype ('reg, 'hook) app_event =
    InitializedRESTConfig "goerr option"
  | InitializedClient Scheme "goerr option"
  | FetchedServiceConfig string "goerr + ServiceConfig"
  | MadeCertWatcher string string "goerr option"
  | RequestedCluster ClusterRequest "goerr option"
  | CreatedManager ManagerOptions "goerr option"
  | Added runnable "goerr option"
  | SetUpController 'reg "goerr option"
  | SetUpWebhook 'hook "goerr option"
  | AddedHealthz string "goerr option"
  | AddedReadyz string "goerr option"
  | Started "goerr option"
  | AppliedCRDs string "string list" "goerr option"
  | Printed string
  | PrintedErr string

type_synonym ('w, 'reg, 'hook, 'a) command = "('w, ('reg, 'hook) app_event, abort + 'a) prog"

text \<open>\<open>if err := oper; err != nil { return wrap(err) }\<close>, and on with \<open>f\<close>.\<close>

definition attempt ::
    "('w, 'a) oper \<Rightarrow> (goerr + 'a \<Rightarrow> 'e list) \<Rightarrow> (goerr \<Rightarrow> goerr) \<Rightarrow> ('a \<Rightarrow> ('w, 'e, abort + 'b) prog) \<Rightarrow>
     ('w, 'e, abort + 'b) prog" where
  "attempt oper ev wrap f = do {
     r \<leftarrow> call oper ev;
     case r of
       Inl err \<Rightarrow> State_Monad.return (Inl (Failed (wrap err)))
     | Inr a \<Rightarrow> f a
   }"

lemma spec_attempt [spec_intros]:
  assumes "\<And>err. answers oper (Inl err) \<Longrightarrow> T (Inl (Failed (wrap err))) (ev (Inl err))"
    and "\<And>a. answers oper (Inr a) \<Longrightarrow> spec (f a) (\<lambda>b es. T b (ev (Inr a) @ es))"
  shows "spec (attempt oper ev wrap f) T"
  unfolding attempt_def
  by (rule spec_call_bind) (use assms in \<open>auto intro!: spec_intros split: sum.splits\<close>)

definition then_do ::
    "('w, 'e, abort + 'a) prog \<Rightarrow> ('a \<Rightarrow> ('w, 'e, abort + 'b) prog) \<Rightarrow> ('w, 'e, abort + 'b) prog" where
  "then_do m f = do {
     r \<leftarrow> m;
     case r of Inl ab \<Rightarrow> State_Monad.return (Inl ab) | Inr a \<Rightarrow> f a
   }"

lemma spec_then_do:
  assumes "spec m S" and "\<And>ab es. S (Inl ab) es \<Longrightarrow> T (Inl ab) es"
    and "\<And>a es. S (Inr a) es \<Longrightarrow> spec (f a) (\<lambda>b es'. T b (es @ es'))"
  shows "spec (then_do m f) T"
  unfolding then_do_def
  by (rule spec_bind [OF assms(1)]) (use assms(2,3) in \<open>auto intro!: spec_intros split: sum.splits\<close>)

section \<open>Errors stop a command\<close>

definition event_error :: "('reg, 'hook) app_event \<Rightarrow> goerr option" where
  "event_error e = (case e of
     InitializedRESTConfig err \<Rightarrow> err | InitializedClient _ err \<Rightarrow> err
   | FetchedServiceConfig _ r \<Rightarrow> error_of r | MadeCertWatcher _ _ err \<Rightarrow> err
   | RequestedCluster _ err \<Rightarrow> err | CreatedManager _ err \<Rightarrow> err | Added _ err \<Rightarrow> err
   | SetUpController _ err \<Rightarrow> err | SetUpWebhook _ err \<Rightarrow> err | AddedHealthz _ err \<Rightarrow> err
   | AddedReadyz _ err \<Rightarrow> err | Started err \<Rightarrow> err | AppliedCRDs _ _ err \<Rightarrow> err | Printed _ \<Rightarrow> None | PrintedErr _ \<Rightarrow> None)"

lemma event_error_simps [simp]:
  "event_error (InitializedRESTConfig err) = err" "event_error (InitializedClient s err) = err"
  "event_error (FetchedServiceConfig n r) = error_of r" "event_error (MadeCertWatcher c kf err) = err"
  "event_error (RequestedCluster q err) = err" "event_error (CreatedManager mo err) = err"
  "event_error (Added rn err) = err" "event_error (SetUpController reg err) = err"
  "event_error (SetUpWebhook h err) = err" "event_error (AddedHealthz n err) = err"
  "event_error (AddedReadyz n err) = err" "event_error (Started err) = err"
  "event_error (AppliedCRDs l ls err) = err" "event_error (Printed t) = None" "event_error (PrintedErr t) = None"
  by (simp_all add: event_error_def)

text \<open>How an error names the call that failed: its message ends with that of the call, except that a
  ServiceConfig that is missing is reported by its name.\<close>

definition reports :: "klib \<Rightarrow> ('reg, 'hook) app_event \<Rightarrow> goerr \<Rightarrow> goerr \<Rightarrow> bool" where
  "reports k e cause err \<longleftrightarrow>
     (case e of
        FetchedServiceConfig p _ \<Rightarrow>
          if err_NotFound cause
          then err_Msg err = ''ServiceConfig '' @ strconv_Quote (k_Print k) p @ '' not found on the platform cluster''
          else err_Msg err = ''fetching ServiceConfig '' @ strconv_Quote (k_Print k) p @ '': '' @ err_Msg cause
      | _ \<Rightarrow> suffix ('': '' @ err_Msg cause) (err_Msg err))"

lemma reports_wrapped [simp]:
  "(\<And>p r. e \<noteq> FetchedServiceConfig p r) \<Longrightarrow> reports k e cause (Errorf_w c cause)"
  by (cases e) (auto simp: reports_def suffix_def)

lemma reports_fetch [simp]:
  "reports k (FetchedServiceConfig p r) cause err \<longleftrightarrow> err_Msg err =
     (if err_NotFound cause
      then ''ServiceConfig '' @ strconv_Quote (k_Print k) p @ '' not found on the platform cluster''
      else ''fetching ServiceConfig '' @ strconv_Quote (k_Print k) p @ '': '' @ err_Msg cause)"
  by (simp add: reports_def)

lemma reports_rewrapped:
  "(\<And>p r. e \<noteq> FetchedServiceConfig p r) \<Longrightarrow> reports k e cause err \<Longrightarrow> reports k e cause (Errorf_w c err)"
  by (cases e) (auto simp: reports_def suffix_def)

text \<open>The first failed call of the log is its last, and the command then fails with an error that
  reports it.\<close>

fun fail_stop :: "klib \<Rightarrow> abort + 'a \<Rightarrow> ('reg, 'hook) app_event list \<Rightarrow> bool" where
  "fail_stop k r [] = True"
| "fail_stop k r (e # es) = (case event_error e of
     Some cause \<Rightarrow> es = [] \<and> (\<exists>err. r = Inl (Failed err) \<and> reports k e cause err)
   | None \<Rightarrow> fail_stop k r es)"

lemma fail_stop_append:
  "fail_stop k (Inr a) es \<Longrightarrow> fail_stop k r es' \<Longrightarrow> fail_stop k r (es @ es')"
  by (induction es) (auto split: option.splits)

lemma fail_stop_abort: "fail_stop k (Inl ab :: abort + 'a) es \<Longrightarrow> fail_stop k (Inl ab :: abort + 'b) es"
  by (induction es) (auto split: option.splits)

section \<open>Complete\<close>

text \<open>\<open>SharedOptions.Complete\<close>; setting the global logger leaves no trace here.\<close>

definition shared_Complete ::
    "('w, 'reg, 'hook) app_lib \<Rightarrow> RawSharedOptions \<Rightarrow> ('w, 'reg, 'hook, unit) command" where
  "shared_Complete L so =
     (if so_Environment so = [] then
        State_Monad.return (Inl (Failed (errors_New ''--environment must not be empty'')))
      else if so_ProviderName so = [] then
        State_Monad.return (Inl (Failed (errors_New ''--provider-name must not be empty'')))
      else case al_GetLogger L of
          Some err \<Rightarrow> State_Monad.return (Inl (Failed err))
        | None \<Rightarrow>
            attempt (al_InitializeRESTConfig L) (\<lambda>r. [InitializedRESTConfig (error_of r)])
              (Errorf_w ''initializing platform-cluster REST config'')
              (\<lambda>_. State_Monad.return (Inr ())))"

definition cert_watcher ::
    "('w, 'reg, 'hook) app_lib \<Rightarrow> string \<Rightarrow> string \<Rightarrow> string \<Rightarrow> string \<Rightarrow>
     (CertWatcher \<Rightarrow> ('w, 'reg, 'hook, 'b) command) \<Rightarrow> ('w, 'reg, 'hook, 'b) command" where
  "cert_watcher L what dir cert key f =
     (let c = filepath_Join dir cert; kf = filepath_Join dir key
      in attempt (al_NewCertWatcher L c kf) (\<lambda>r. [MadeCertWatcher c kf (error_of r)])
           (Errorf_w (''initializing '' @ what @ '' certificate watcher'')) (\<lambda>_. f (CertWatcher c kf)))"

text \<open>The three parts of \<open>RunOptions.Complete\<close> after the shared one: HTTP/2, the webhook
  certificate, the metrics server.\<close>

definition complete_http2 :: "(nat \<Rightarrow> nat \<Rightarrow> nat) \<Rightarrow> RunOptions \<Rightarrow> RunOptions" where
  "complete_http2 grow o' =
     (let o' = (if \<not> rr_EnableHTTP2 (ro_Raw o')
                then case slice_append grow (ro_TLSOpts o') DisableHTTP2 (ro_Arrays o') of
                    (s, h) \<Rightarrow> o'\<lparr>ro_TLSOpts := s, ro_Arrays := h\<rparr>
                else o')
      in o'\<lparr>ro_WebhookTLSOpts := ro_TLSOpts o'\<rparr>)"

definition complete_webhook ::
    "('w, 'reg, 'hook) app_lib \<Rightarrow> RunOptions \<Rightarrow> ('w, 'reg, 'hook, RunOptions) command" where
  "complete_webhook L o' =
     (let raw = ro_Raw o'
      in if rr_WebhookCertPath raw \<noteq> [] then
           cert_watcher L ''webhook'' (rr_WebhookCertPath raw) (rr_WebhookCertName raw) (rr_WebhookCertKey raw)
             (\<lambda>w. case slice_append (al_Grow L) (ro_WebhookTLSOpts o') (GetCertificate w) (ro_Arrays o') of
                (s, h) \<Rightarrow> State_Monad.return (Inr (o'\<lparr>ro_WebhookCertWatcher := Some w,
                   ro_WebhookTLSOpts := s, ro_Arrays := h\<rparr>)))
         else State_Monad.return (Inr o'))"

definition complete_metrics ::
    "('w, 'reg, 'hook) app_lib \<Rightarrow> RunOptions \<Rightarrow> ('w, 'reg, 'hook, RunOptions) command" where
  "complete_metrics L o' =
     (let raw = ro_Raw o';
          mo = \<lparr>mo_BindAddress = rr_MetricsAddr raw, mo_SecureServing = rr_SecureMetrics raw,
                mo_TLSOpts = ro_TLSOpts o', mo_FilterProvider = NoFilter\<rparr>;
          mo = (if rr_SecureMetrics raw
                then mo\<lparr>mo_FilterProvider := WithAuthenticationAndAuthorization\<rparr> else mo);
          o' = o'\<lparr>ro_MetricsServerOptions := mo\<rparr>
      in if rr_MetricsCertPath raw \<noteq> [] then
           cert_watcher L ''metrics'' (rr_MetricsCertPath raw) (rr_MetricsCertName raw) (rr_MetricsCertKey raw)
             (\<lambda>w. case slice_append (al_Grow L) (mo_TLSOpts mo) (GetCertificate w) (ro_Arrays o') of
                (s, h) \<Rightarrow> State_Monad.return (Inr (o'\<lparr>ro_MetricsCertWatcher := Some w,
                   ro_MetricsServerOptions := mo\<lparr>mo_TLSOpts := s\<rparr>, ro_Arrays := h\<rparr>)))
         else State_Monad.return (Inr o'))"

definition run_Complete ::
    "klib \<Rightarrow> 'w env \<Rightarrow> ('w, 'reg, 'hook) app_lib \<Rightarrow> RunOptions \<Rightarrow> ('w, 'reg, 'hook, RunOptions) command" where
  "run_Complete k env L o' =
     then_do (shared_Complete L (ro_Shared o')) (\<lambda>_.
       let ns = env_Getenv env (k_EnvVariablePodNamespace k)
       in if ns = [] then
            State_Monad.return (Inl (Failed (errors_New (''environment variable '' @
              k_EnvVariablePodNamespace k @ '' must be set''))))
          else then_do (complete_webhook L (complete_http2 (al_Grow L) (o'\<lparr>ro_ProviderNamespace := ns\<rparr>)))
            (complete_metrics L))"

end
