(* ===== verification/AppTls.thy ===== *)
theory AppTls
  imports AppOptions
begin

text \<open>
  What \<open>RunOptions.Complete\<close> leaves in the TLS options of the two servers. The webhook and
  the metrics options start as one slice and are appended to one after the other, so the answer
  depends on the room the runtime left behind the first append.
\<close>

section \<open>The options of the two servers\<close>

definition http2_opts :: "RawRunOptions \<Rightarrow> tls_opt list" where
  "http2_opts raw = (if rr_EnableHTTP2 raw then [] else [DisableHTTP2])"

definition webhook_watcher :: "RawRunOptions \<Rightarrow> CertWatcher" where
  "webhook_watcher raw = CertWatcher (filepath_Join (rr_WebhookCertPath raw) (rr_WebhookCertName raw))
     (filepath_Join (rr_WebhookCertPath raw) (rr_WebhookCertKey raw))"

definition metrics_watcher :: "RawRunOptions \<Rightarrow> CertWatcher" where
  "metrics_watcher raw = CertWatcher (filepath_Join (rr_MetricsCertPath raw) (rr_MetricsCertName raw))
     (filepath_Join (rr_MetricsCertPath raw) (rr_MetricsCertKey raw))"

definition webhook_tls :: "RunOptions \<Rightarrow> tls_opt list" where
  "webhook_tls o' = contents (ro_Arrays o') (ro_WebhookTLSOpts o')"

definition metrics_tls :: "RunOptions \<Rightarrow> tls_opt list" where
  "metrics_tls o' = contents (ro_Arrays o') (mo_TLSOpts (ro_MetricsServerOptions o'))"

text \<open>The TLS configuration a server ends up with.\<close>

definition served_config :: "tls_opt list \<Rightarrow> tls_Config \<Rightarrow> tls_Config" where
  "served_config opts c = fold apply_tls_opt opts c"

lemma served_config_http2_opts:
  "served_config (http2_opts raw @ opts) c = served_config opts
     (if rr_EnableHTTP2 raw then c else c\<lparr>tc_NextProtos := [''http/1.1'']\<rparr>)"
  by (simp add: served_config_def http2_opts_def apply_tls_opt_def)

lemma served_config_certificate:
  "served_config [] c = c" "served_config [GetCertificate w] c = c\<lparr>tc_GetCertificate := Some w\<rparr>"
  by (simp_all add: served_config_def apply_tls_opt_def)

section \<open>The slices through Complete\<close>

text \<open>After the first part: one slice, with room behind it only if the runtime gave some.\<close>

lemma complete_http2_slices:
  fixes o' grow defines "o2 \<equiv> complete_http2 grow o'"
  assumes "ro_TLSOpts o' = nil_slice" "ro_Arrays o' = []"
  shows "ro_WebhookTLSOpts o2 = ro_TLSOpts o2" "slice_ok (ro_Arrays o2) (ro_TLSOpts o2)"
    "contents (ro_Arrays o2) (ro_TLSOpts o2) = http2_opts (ro_Raw o')"
    "sl_len (ro_TLSOpts o2) < sl_cap (ro_TLSOpts o2) \<longleftrightarrow> \<not> rr_EnableHTTP2 (ro_Raw o') \<and> 1 < grow 0 1"
    "ro_Raw o2 = ro_Raw o'" "ro_ProviderNamespace o2 = ro_ProviderNamespace o'"
    "ro_Shared o2 = ro_Shared o'" "ro_WebhookCertWatcher o2 = ro_WebhookCertWatcher o'"
    "ro_MetricsCertWatcher o2 = ro_MetricsCertWatcher o'"
  using assms
  by (auto simp: complete_http2_def slice_append_def Let_def http2_opts_def slice_ok_def contents_def
      nil_slice_def less_Suc_eq)

text \<open>Two appends to one slice: the second always reads as appended, the first is overwritten
  exactly when there was room.\<close>

lemma slice_append_twice:
  assumes "slice_ok h s" "slice_append grow s x h = (a, h1)" "slice_append grow s y h1 = (b, h2)"
  shows "contents h2 b = contents h s @ [y]"
    "contents h2 a = contents h s @ [if sl_len s < sl_cap s then y else x]"
proof -
  have kept: "contents h1 s = contents h s" "slice_ok h1 s"
    by (rule contents_slice_append_other [OF assms(1,1,2)], simp)
       (rule slice_ok_append_other [OF assms(1,2)])
  then show "contents h2 b = contents h s @ [y]"
    using contents_slice_append(1) [OF kept(2) assms(3)] by simp
  show "contents h2 a = contents h s @ [if sl_len s < sl_cap s then y else x]"
  proof (cases "sl_len s < sl_cap s")
    case True
    with slice_append_clash(1) [OF assms(1) True assms(2,3)] show ?thesis by simp
  next
    case False
    with assms(1) have "sl_len s = sl_cap s" by (auto simp: slice_ok_def)
    with contents_slice_append [OF assms(1,2)] contents_slice_append_other [OF _ kept(2) assms(3), of a]
    show ?thesis by simp
  qed
qed

lemma append_once_kept:
  "slice_ok h s \<Longrightarrow> slice_append grow s x h = (a, h1) \<Longrightarrow> contents h1 s = contents h s"
  by (rule contents_slice_append_other) auto

definition tls_completed :: "(nat \<Rightarrow> nat \<Rightarrow> nat) \<Rightarrow> RawRunOptions \<Rightarrow> RunOptions \<Rightarrow> bool" where
  "tls_completed grow raw o' \<longleftrightarrow>
     webhook_tls o' = http2_opts raw @
       (if rr_WebhookCertPath raw = [] then []
        else [GetCertificate (if rr_EnableHTTP2 raw \<or> rr_MetricsCertPath raw = [] \<or> grow 0 1 \<le> 1
                then webhook_watcher raw else metrics_watcher raw)]) \<and>
     metrics_tls o' = http2_opts raw @
       (if rr_MetricsCertPath raw = [] then [] else [GetCertificate (metrics_watcher raw)])"

text \<open>What the webhook and the metrics parts do to the options when they succeed.\<close>

definition webhook_step :: "(nat \<Rightarrow> nat \<Rightarrow> nat) \<Rightarrow> RunOptions \<Rightarrow> RunOptions" where
  "webhook_step grow o' =
     (if rr_WebhookCertPath (ro_Raw o') = [] then o'
      else let w = webhook_watcher (ro_Raw o')
           in case slice_append grow (ro_WebhookTLSOpts o') (GetCertificate w) (ro_Arrays o') of
                (s, h) \<Rightarrow> o'\<lparr>ro_WebhookCertWatcher := Some w, ro_WebhookTLSOpts := s, ro_Arrays := h\<rparr>)"

definition metrics_base :: "RunOptions \<Rightarrow> MetricsServerOptions" where
  "metrics_base o' =
     \<lparr>mo_BindAddress = rr_MetricsAddr (ro_Raw o'), mo_SecureServing = rr_SecureMetrics (ro_Raw o'),
      mo_TLSOpts = ro_TLSOpts o',
      mo_FilterProvider = (if rr_SecureMetrics (ro_Raw o') then WithAuthenticationAndAuthorization else NoFilter)\<rparr>"

definition metrics_step :: "(nat \<Rightarrow> nat \<Rightarrow> nat) \<Rightarrow> RunOptions \<Rightarrow> RunOptions" where
  "metrics_step grow o' =
     (if rr_MetricsCertPath (ro_Raw o') = [] then o'\<lparr>ro_MetricsServerOptions := metrics_base o'\<rparr>
      else let w = metrics_watcher (ro_Raw o')
           in case slice_append grow (ro_TLSOpts o') (GetCertificate w) (ro_Arrays o') of
                (s, h) \<Rightarrow> o'\<lparr>ro_MetricsCertWatcher := Some w,
                  ro_MetricsServerOptions := (metrics_base o')\<lparr>mo_TLSOpts := s\<rparr>, ro_Arrays := h\<rparr>)"

definition completed :: "(nat \<Rightarrow> nat \<Rightarrow> nat) \<Rightarrow> string \<Rightarrow> RunOptions \<Rightarrow> RunOptions" where
  "completed grow ns o' =
     metrics_step grow (webhook_step grow (complete_http2 grow (o'\<lparr>ro_ProviderNamespace := ns\<rparr>)))"

text \<open>The calls of a run of \<open>Complete\<close>: the REST configuration and the certificate files.\<close>

definition completes_only :: "('reg, 'hook) app_event \<Rightarrow> bool" where
  "completes_only e = (case e of InitializedRESTConfig _ \<Rightarrow> True | MadeCertWatcher _ _ _ \<Rightarrow> True | _ \<Rightarrow> False)"

fun made :: "CertWatcher \<Rightarrow> ('reg, 'hook) app_event" where
  "made (CertWatcher c kf) = MadeCertWatcher c kf None"

definition webhook_made :: "RawRunOptions \<Rightarrow> ('reg, 'hook) app_event list" where
  "webhook_made raw = (if rr_WebhookCertPath raw = [] then [] else [made (webhook_watcher raw)])"

definition metrics_made :: "RawRunOptions \<Rightarrow> ('reg, 'hook) app_event list" where
  "metrics_made raw = (if rr_MetricsCertPath raw = [] then [] else [made (metrics_watcher raw)])"

lemma spec_complete_webhook:
  "spec (complete_webhook L o') (\<lambda>r es. list_all completes_only es \<and> fail_stop k r es \<and>
     (\<forall>o2. r = Inr o2 \<longrightarrow> o2 = webhook_step (al_Grow L) o' \<and> es = webhook_made (ro_Raw o')))"
  unfolding complete_webhook_def cert_watcher_def webhook_step_def Let_def webhook_watcher_def webhook_made_def
  by (intro spec_intros) (auto simp: completes_only_def)

lemma spec_complete_metrics:
  "spec (complete_metrics L o') (\<lambda>r es. list_all completes_only es \<and> fail_stop k r es \<and>
     (\<forall>o2. r = Inr o2 \<longrightarrow> o2 = metrics_step (al_Grow L) o' \<and> es = metrics_made (ro_Raw o')))"
  unfolding complete_metrics_def cert_watcher_def metrics_step_def Let_def metrics_watcher_def metrics_base_def metrics_made_def
  by (intro spec_intros) (auto simp: completes_only_def)

lemma spec_shared_Complete:
  "spec (shared_Complete L so) (\<lambda>r es. list_all completes_only es \<and> fail_stop k r es \<and>
     (r = Inr () \<longrightarrow> so_Environment so \<noteq> [] \<and> so_ProviderName so \<noteq> [] \<and> es = [InitializedRESTConfig None]))"
  unfolding shared_Complete_def
  by (intro spec_intros) (auto simp: completes_only_def)

lemma options_steps_sel [simp]:
  "ro_Raw (complete_http2 grow o') = ro_Raw o'" "ro_Shared (complete_http2 grow o') = ro_Shared o'"
  "ro_ProviderNamespace (complete_http2 grow o') = ro_ProviderNamespace o'"
  "ro_MetricsCertWatcher (complete_http2 grow o') = ro_MetricsCertWatcher o'"
  "ro_WebhookCertWatcher (complete_http2 grow o') = ro_WebhookCertWatcher o'"
  "ro_Raw (webhook_step grow o') = ro_Raw o'" "ro_Shared (webhook_step grow o') = ro_Shared o'"
  "ro_ProviderNamespace (webhook_step grow o') = ro_ProviderNamespace o'"
  "ro_MetricsCertWatcher (webhook_step grow o') = ro_MetricsCertWatcher o'"
  "ro_WebhookCertWatcher (webhook_step grow o') =
     (if rr_WebhookCertPath (ro_Raw o') = [] then ro_WebhookCertWatcher o' else Some (webhook_watcher (ro_Raw o')))"
  "ro_Raw (metrics_step grow o') = ro_Raw o'" "ro_Shared (metrics_step grow o') = ro_Shared o'"
  "ro_ProviderNamespace (metrics_step grow o') = ro_ProviderNamespace o'"
  "ro_WebhookCertWatcher (metrics_step grow o') = ro_WebhookCertWatcher o'"
  "ro_MetricsCertWatcher (metrics_step grow o') =
     (if rr_MetricsCertPath (ro_Raw o') = [] then ro_MetricsCertWatcher o' else Some (metrics_watcher (ro_Raw o')))"
  by (simp_all add: complete_http2_def webhook_step_def metrics_step_def Let_def split: prod.splits)

definition complete_log :: "RawRunOptions \<Rightarrow> ('reg, 'hook) app_event list" where
  "complete_log raw = InitializedRESTConfig None # webhook_made raw @ metrics_made raw"

lemma spec_run_Complete:
  "spec (run_Complete k env L o') (\<lambda>r es. list_all completes_only es \<and> fail_stop k r es \<and>
     (\<forall>o2. r = Inr o2 \<longrightarrow> so_Environment (ro_Shared o') \<noteq> [] \<and> so_ProviderName (ro_Shared o') \<noteq> [] \<and>
        env_Getenv env (k_EnvVariablePodNamespace k) \<noteq> [] \<and>
        o2 = completed (al_Grow L) (env_Getenv env (k_EnvVariablePodNamespace k)) o' \<and>
        es = complete_log (ro_Raw o')))"
  unfolding run_Complete_def Let_def completed_def complete_log_def
  by (intro spec_then_do [OF spec_shared_Complete] spec_then_do [OF spec_complete_webhook] spec_intros
        spec_mono [OF spec_complete_metrics])
     (auto intro: fail_stop_append fail_stop_abort)

lemma tls_completed_completed:
  "tls_completed grow raw (completed grow ns (NewRunOptions so raw))"
proof -
  define o2 where "o2 = complete_http2 grow (NewRunOptions so raw\<lparr>ro_ProviderNamespace := ns\<rparr>)"
  have "ro_TLSOpts (NewRunOptions so raw\<lparr>ro_ProviderNamespace := ns\<rparr>) = nil_slice"
    "ro_Arrays (NewRunOptions so raw\<lparr>ro_ProviderNamespace := ns\<rparr>) = []"
    by (simp_all add: NewRunOptions_def)
  note start = complete_http2_slices [OF this, of grow, folded o2_def]
  show ?thesis
    unfolding completed_def o2_def [symmetric]
    using start append_once_kept [OF start(2)] contents_slice_append(1) [OF start(2)] slice_append_twice [OF start(2)]
    by (cases "rr_WebhookCertPath raw = []"; cases "rr_MetricsCertPath raw = []")
       (auto simp: tls_completed_def webhook_tls_def metrics_tls_def webhook_step_def metrics_step_def
         metrics_base_def NewRunOptions_def Let_def not_less split: prod.splits)
qed

section \<open>Properties\<close>

text \<open>C29. The TLS options \<open>Complete\<close> prepares: both servers speak only HTTP/1.1 unless HTTP/2 is
  enabled; the metrics server presents its own certificate exactly when one is configured; the
  webhook server presents its own certificate, as long as the runtime leaves no room behind the
  first append or one of the two certificates is not configured. With room behind it, both
  options slices share an array and the webhook server would present the metrics certificate.\<close>

theorem complete_tls_served:
  assumes "run_result (run_Complete k env L (NewRunOptions so raw)) w = Inr o'"
  shows "let hooks = served_config (webhook_tls o') c; mets = served_config (metrics_tls o') c in
    tc_NextProtos hooks = (if rr_EnableHTTP2 raw then tc_NextProtos c else [''http/1.1'']) \<and>
    tc_NextProtos mets = (if rr_EnableHTTP2 raw then tc_NextProtos c else [''http/1.1'']) \<and>
    tc_GetCertificate mets = (if rr_MetricsCertPath raw = [] then tc_GetCertificate c
      else Some (metrics_watcher raw)) \<and>
    tc_GetCertificate hooks = (if rr_WebhookCertPath raw = [] then tc_GetCertificate c
      else if rr_EnableHTTP2 raw \<or> rr_MetricsCertPath raw = [] \<or> al_Grow L 0 1 \<le> 1
        then Some (webhook_watcher raw) else Some (metrics_watcher raw))"
proof -
  have "tls_completed (al_Grow L) raw o'"
    using spec_run [OF spec_run_Complete [of k env L "NewRunOptions so raw"], of w] assms
    by (auto intro: tls_completed_completed)
  then show ?thesis
    by (simp add: tls_completed_def Let_def served_config_http2_opts served_config_certificate)
qed

end
