(* ===== verification/DeleteValidation.thy ===== *)
theory DeleteValidation
  imports Env
begin

text \<open>
  \<open>internal/webhook/delete_validation.go\<close>: the admission webhooks that refuse to delete a
  ProjectEntity, ControlPlaneTrust or ControlPlaneEntity that is still referenced. The three
  share a contract, the locale \<open>delete_guard\<close>. Warnings are always nil and are left out.
\<close>

section \<open>The contract\<close>

locale delete_guard =
  fixes dependents :: "'o \<Rightarrow> ('w, 'd list) oper"
    and refers :: "'o \<Rightarrow> 'd \<Rightarrow> bool"
    and validate :: "'o \<Rightarrow> ('w, unit) oper"
  assumes unlisted: "dependents obj w = (Inl e, w') \<Longrightarrow> \<exists>e'. validate obj w = (Inl e', w')"
    and unreferenced: "dependents obj w = (Inr ds, w') \<Longrightarrow> \<not> list_ex (refers obj) ds \<Longrightarrow>
      validate obj w = (Inr (), w')"
    and referenced: "dependents obj w = (Inr ds, w') \<Longrightarrow> list_ex (refers obj) ds \<Longrightarrow>
      \<exists>e'. validate obj w = (Inl e', w')"
begin

lemma admits_iff:
  "fst (validate obj w) = Inr () \<longleftrightarrow>
     (\<exists>ds. fst (dependents obj w) = Inr ds \<and> \<not> list_ex (refers obj) ds)"
proof (cases "dependents obj w")
  case (Pair r w')
  show ?thesis
  proof (cases r)
    case (Inl e)
    then show ?thesis using Pair unlisted [of obj w e w'] by force
  next
    case (Inr ds)
    then show ?thesis
      using Pair unreferenced [of obj w ds w'] referenced [of obj w ds w']
      by (cases "list_ex (refers obj) ds") (force simp: list_ex_iff)+
  qed
qed

text \<open>The decision only reads: the world moves as the listing moved it.\<close>

lemma validate_world: "snd (validate obj w) = snd (dependents obj w)"
proof (cases "dependents obj w")
  case (Pair r w')
  then show ?thesis
    using unlisted [of obj w _ w'] unreferenced [of obj w _ w'] referenced [of obj w _ w']
    by (cases r) (fastforce, metis snd_conv)
qed

end

section \<open>The validators\<close>

definition ProjectEntity_ValidateCreate :: "ProjectEntity \<Rightarrow> ('w, unit) oper" where
  "ProjectEntity_ValidateCreate obj w = (Inr (), w)"

definition ProjectEntity_ValidateUpdate :: "ProjectEntity \<Rightarrow> ProjectEntity \<Rightarrow> ('w, unit) oper" where
  "ProjectEntity_ValidateUpdate old new w = (Inr (), w)"

definition ControlPlaneTrust_ValidateCreate :: "ControlPlaneTrust \<Rightarrow> ('w, unit) oper" where
  "ControlPlaneTrust_ValidateCreate obj w = (Inr (), w)"

definition ControlPlaneTrust_ValidateUpdate :: "ControlPlaneTrust \<Rightarrow> ControlPlaneTrust \<Rightarrow> ('w, unit) oper" where
  "ControlPlaneTrust_ValidateUpdate old new w = (Inr (), w)"

definition ControlPlaneEntity_ValidateCreate :: "ControlPlaneEntity \<Rightarrow> ('w, unit) oper" where
  "ControlPlaneEntity_ValidateCreate obj w = (Inr (), w)"

definition ControlPlaneEntity_ValidateUpdate :: "ControlPlaneEntity \<Rightarrow> ControlPlaneEntity \<Rightarrow> ('w, unit) oper" where
  "ControlPlaneEntity_ValidateUpdate old new w = (Inr (), w)"

definition trust_refers :: "ProjectEntity \<Rightarrow> ControlPlaneTrust \<Rightarrow> bool" where
  "trust_refers obj t \<longleftrightarrow>
     nor_Namespace (cts_ProjectEntityRef (ct_Spec t)) = om_Namespace (pe_Meta obj) \<and>
     nor_Name (cts_ProjectEntityRef (ct_Spec t)) = om_Name (pe_Meta obj)"

definition entity_refers :: "ControlPlaneTrust \<Rightarrow> ControlPlaneEntity \<Rightarrow> bool" where
  "entity_refers obj e \<longleftrightarrow> lor_Name (ces_ControlPlaneTrustRef (ce_Spec e)) = om_Name (ct_Meta obj)"

definition binding_refers :: "ControlPlaneEntity \<Rightarrow> PolicyBinding \<Rightarrow> bool" where
  "binding_refers obj b \<longleftrightarrow>
     list_ex (\<lambda>ref. lor_Name ref = om_Name (ce_Meta obj)) (pbs_ControlPlaneEntityRefs (pb_Spec b))"

text \<open>\<open>cannot delete <kind> <ns>/<name>: referenced by <kind> <ns>/<name>\<close>.\<close>

definition referenced_error :: "string \<Rightarrow> ObjectMeta \<Rightarrow> string \<Rightarrow> ObjectMeta \<Rightarrow> goerr" where
  "referenced_error kind m by_kind by_m =
     errors_New (''cannot delete '' @ kind @ '' '' @ om_Namespace m @ ''/'' @ om_Name m @
       '': referenced by '' @ by_kind @ '' '' @ om_Namespace by_m @ ''/'' @ om_Name by_m)"

definition ProjectEntity_ValidateDelete :: "'w Cluster \<Rightarrow> ProjectEntity \<Rightarrow> ('w, unit) oper" where
  "ProjectEntity_ValidateDelete v obj w =
     (case kc_ListControlPlaneTrusts v None w of
        (Inl err, w') \<Rightarrow> (Inl (Errorf_w ''listing ControlPlaneTrust dependencies'' err), w')
      | (Inr items, w') \<Rightarrow> (case List.find (trust_refers obj) items of
            Some t \<Rightarrow>
              (Inl (referenced_error ''ProjectEntity'' (pe_Meta obj) ''ControlPlaneTrust'' (ct_Meta t)), w')
          | None \<Rightarrow> (Inr (), w')))"

definition ControlPlaneTrust_ValidateDelete :: "'w Cluster \<Rightarrow> ControlPlaneTrust \<Rightarrow> ('w, unit) oper" where
  "ControlPlaneTrust_ValidateDelete v obj w =
     (case kc_ListControlPlaneEntities v (Some (om_Namespace (ct_Meta obj))) w of
        (Inl err, w') \<Rightarrow> (Inl (Errorf_w ''listing ControlPlaneEntity dependencies'' err), w')
      | (Inr items, w') \<Rightarrow> (case List.find (entity_refers obj) items of
            Some e \<Rightarrow>
              (Inl (referenced_error ''ControlPlaneTrust'' (ct_Meta obj) ''ControlPlaneEntity'' (ce_Meta e)), w')
          | None \<Rightarrow> (Inr (), w')))"

definition ControlPlaneEntity_ValidateDelete :: "'w Cluster \<Rightarrow> ControlPlaneEntity \<Rightarrow> ('w, unit) oper" where
  "ControlPlaneEntity_ValidateDelete v obj w =
     (case kc_ListPolicyBindings v (Some (om_Namespace (ce_Meta obj))) w of
        (Inl err, w') \<Rightarrow> (Inl (Errorf_w ''listing PolicyBinding dependencies'' err), w')
      | (Inr items, w') \<Rightarrow> (case List.find (binding_refers obj) items of
            Some b \<Rightarrow>
              (Inl (referenced_error ''ControlPlaneEntity'' (ce_Meta obj) ''PolicyBinding'' (pb_Meta b)), w')
          | None \<Rightarrow> (Inr (), w')))"

text \<open>\<open>admission.Validator\<close> on a client.\<close>

record ('w, 'o) validator =
  vd_ValidateCreate :: "'o \<Rightarrow> ('w, unit) oper"
  vd_ValidateUpdate :: "'o \<Rightarrow> 'o \<Rightarrow> ('w, unit) oper"
  vd_ValidateDelete :: "'o \<Rightarrow> ('w, unit) oper"

definition ProjectEntityValidator :: "'w Cluster \<Rightarrow> ('w, ProjectEntity) validator" where
  "ProjectEntityValidator client = \<lparr>vd_ValidateCreate = ProjectEntity_ValidateCreate,
     vd_ValidateUpdate = ProjectEntity_ValidateUpdate, vd_ValidateDelete = ProjectEntity_ValidateDelete client\<rparr>"

definition ControlPlaneTrustValidator :: "'w Cluster \<Rightarrow> ('w, ControlPlaneTrust) validator" where
  "ControlPlaneTrustValidator client = \<lparr>vd_ValidateCreate = ControlPlaneTrust_ValidateCreate,
     vd_ValidateUpdate = ControlPlaneTrust_ValidateUpdate,
     vd_ValidateDelete = ControlPlaneTrust_ValidateDelete client\<rparr>"

definition ControlPlaneEntityValidator :: "'w Cluster \<Rightarrow> ('w, ControlPlaneEntity) validator" where
  "ControlPlaneEntityValidator client = \<lparr>vd_ValidateCreate = ControlPlaneEntity_ValidateCreate,
     vd_ValidateUpdate = ControlPlaneEntity_ValidateUpdate,
     vd_ValidateDelete = ControlPlaneEntity_ValidateDelete client\<rparr>"

section \<open>The validators meet the contract\<close>

lemma find_None_list_ex: "List.find P xs = None \<longleftrightarrow> \<not> list_ex P xs"
  by (induction xs) auto

interpretation project_entity_guard:
  delete_guard "\<lambda>_. kc_ListControlPlaneTrusts v None" trust_refers "ProjectEntity_ValidateDelete v" for v
  by unfold_locales
    (auto simp: ProjectEntity_ValidateDelete_def find_None_list_ex split: option.splits)

interpretation trust_guard:
  delete_guard "\<lambda>obj. kc_ListControlPlaneEntities v (Some (om_Namespace (ct_Meta obj)))" entity_refers
    "ControlPlaneTrust_ValidateDelete v" for v
  by unfold_locales
    (auto simp: ControlPlaneTrust_ValidateDelete_def find_None_list_ex split: option.splits)

interpretation entity_guard:
  delete_guard "\<lambda>obj. kc_ListPolicyBindings v (Some (om_Namespace (ce_Meta obj)))" binding_refers
    "ControlPlaneEntity_ValidateDelete v" for v
  by unfold_locales
    (auto simp: ControlPlaneEntity_ValidateDelete_def find_None_list_ex split: option.splits)

section \<open>Properties\<close>

text \<open>C34. The delete webhooks admit a deletion exactly when the dependents could be listed and none of
  them refers to the object: trusts in any namespace for a ProjectEntity, entities of the
  namespace for a trust, bindings of the namespace for an entity. A failed listing refuses.\<close>

theorem webhooks_admit_iff:
  "(fst (ProjectEntity_ValidateDelete v pe w) = Inr () \<longleftrightarrow>
      (\<exists>ts. fst (kc_ListControlPlaneTrusts v None w) = Inr ts \<and> \<not> list_ex (trust_refers pe) ts)) \<and>
   (fst (ControlPlaneTrust_ValidateDelete v ct w) = Inr () \<longleftrightarrow>
      (\<exists>es. fst (kc_ListControlPlaneEntities v (Some (om_Namespace (ct_Meta ct))) w) = Inr es \<and>
         \<not> list_ex (entity_refers ct) es)) \<and>
   (fst (ControlPlaneEntity_ValidateDelete v ce w) = Inr () \<longleftrightarrow>
      (\<exists>bs. fst (kc_ListPolicyBindings v (Some (om_Namespace (ce_Meta ce))) w) = Inr bs \<and>
         \<not> list_ex (binding_refers ce) bs))"
  by (intro conjI project_entity_guard.admits_iff trust_guard.admits_iff entity_guard.admits_iff)

end
