(* ===== verification/AppRun.thy ===== *)
theory AppRun
  imports AppTls System DeleteValidation
begin

text \<open>
  \<open>cmd/platform-service-openbao\<close>: the two subcommands. \<open>init\<close> installs the CRDs on the
  platform and onboarding clusters, \<open>run\<close> checks the configuration, obtains the onboarding
  cluster and starts a manager with the five reconcilers and, when certificates are configured,
  the three delete webhooks. The schemes are those of \<open>api/install\<close>; the registrations are the
  \<open>SetupWithManager\<close> functions of \<open>internal/controller\<close> and \<open>internal/webhook\<close>.
\<close>

section \<open>Schemes\<close>

definition must_add ::
    "('w, 'reg, 'hook) app_lib \<Rightarrow> api_package \<Rightarrow> abort + Scheme \<Rightarrow> abort + Scheme" where
  "must_add L p s = (case s of
     Inl ab \<Rightarrow> Inl ab
   | Inr sch \<Rightarrow> (case al_AddToScheme L p of Some err \<Rightarrow> Inl (Panicked err) | None \<Rightarrow> Inr (sch @ [p])))"

definition InstallCRDAPIs :: "('w, 'reg, 'hook) app_lib \<Rightarrow> abort + Scheme \<Rightarrow> abort + Scheme" where
  "InstallCRDAPIs L s = must_add L ApiExtensions (must_add L ClientGo s)"

definition InstallOperatorAPIsPlatform :: "('w, 'reg, 'hook) app_lib \<Rightarrow> abort + Scheme \<Rightarrow> abort + Scheme" where
  "InstallOperatorAPIsPlatform L s = must_add L OpenBaoAPI (must_add L OperatorClusters (must_add L ClientGo s))"

definition InstallOperatorAPIsOnboarding :: "('w, 'reg, 'hook) app_lib \<Rightarrow> abort + Scheme \<Rightarrow> abort + Scheme" where
  "InstallOperatorAPIsOnboarding L s = must_add L OpenBaoAPI (must_add L OperatorCore (must_add L ClientGo s))"

section \<open>Registrations\<close>

text \<open>An object a watch delivers, and the kinds to watch. A mapper checks the type of the object
  it is given. Every \<open>For\<close> and the raw source carry the generation predicate.\<close>

datatype watched =
    WatchedProjectEntity ProjectEntity
  | WatchedControlPlaneTrust ControlPlaneTrust
  | WatchedControlPlaneEntity ControlPlaneEntity
  | WatchedPolicyBinding PolicyBinding
  | WatchedOpenBaoInstance OpenBaoInstance

datatype kind = KOpenBaoInstance | KProjectEntity | KControlPlaneTrust | KControlPlaneEntity | KPolicyBinding

type_synonym 'w mapper = "watched \<Rightarrow> 'w \<Rightarrow> (string \<times> string) list \<times> 'w"

record 'w registration =
  rg_Name :: string
  rg_For :: "kind option"
  rg_PlatformSource :: "kind option"
  rg_Watches :: "(kind \<times> 'w mapper) list"
  rg_Reconcile :: "string \<Rightarrow> string \<Rightarrow> ('w, goerr + Result) action"

datatype 'w webhook =
    ProjectEntityWebhook "('w, ProjectEntity) validator"
  | ControlPlaneTrustWebhook "('w, ControlPlaneTrust) validator"
  | ControlPlaneEntityWebhook "('w, ControlPlaneEntity) validator"

definition SetupProjectEntityWebhookWithManager :: "'w Cluster \<Rightarrow> 'w webhook" where
  "SetupProjectEntityWebhookWithManager mgr = ProjectEntityWebhook (ProjectEntityValidator mgr)"

definition SetupControlPlaneTrustWebhookWithManager :: "'w Cluster \<Rightarrow> 'w webhook" where
  "SetupControlPlaneTrustWebhookWithManager mgr = ControlPlaneTrustWebhook (ControlPlaneTrustValidator mgr)"

definition SetupControlPlaneEntityWebhookWithManager :: "'w Cluster \<Rightarrow> 'w webhook" where
  "SetupControlPlaneEntityWebhookWithManager mgr = ControlPlaneEntityWebhook (ControlPlaneEntityValidator mgr)"

definition OI_SetupWithManager :: "klib \<Rightarrow> 'w OpenBaoInstanceReconciler \<Rightarrow> 'w registration" where
  "OI_SetupWithManager k R =
     \<lparr>rg_Name = ''openbaoinstance'', rg_For = None, rg_PlatformSource = Some KOpenBaoInstance,
      rg_Watches = [], rg_Reconcile = OI_Reconcile k R\<rparr>"

definition PE_SetupWithManager :: "klib \<Rightarrow> 'w ProjectEntityReconciler \<Rightarrow> 'w registration" where
  "PE_SetupWithManager k R =
     \<lparr>rg_Name = ''projectentity'', rg_For = Some KProjectEntity, rg_PlatformSource = None,
      rg_Watches = [], rg_Reconcile = PE_Reconcile k R\<rparr>"

definition CT_SetupWithManager :: "klib \<Rightarrow> 'w ControlPlaneTrustReconciler \<Rightarrow> 'w registration" where
  "CT_SetupWithManager k R =
     \<lparr>rg_Name = ''controlplanetrust'', rg_For = Some KControlPlaneTrust, rg_PlatformSource = None,
      rg_Watches = [(KProjectEntity, \<lambda>obj. case obj of
          WatchedProjectEntity pe \<Rightarrow> CT_enqueueForProjectEntity R pe | _ \<Rightarrow> Pair [])],
      rg_Reconcile = CT_Reconcile k R\<rparr>"

definition CE_SetupWithManager :: "klib \<Rightarrow> 'w env \<Rightarrow> 'w ControlPlaneEntityReconciler \<Rightarrow> 'w registration" where
  "CE_SetupWithManager k env R =
     \<lparr>rg_Name = ''controlplaneentity'', rg_For = Some KControlPlaneEntity, rg_PlatformSource = None,
      rg_Watches = [(KControlPlaneTrust, \<lambda>obj. case obj of
          WatchedControlPlaneTrust trust \<Rightarrow> CE_enqueueForTrust R trust | _ \<Rightarrow> Pair [])],
      rg_Reconcile = CE_Reconcile k env R\<rparr>"

definition PB_SetupWithManager :: "klib \<Rightarrow> 'w PolicyBindingReconciler \<Rightarrow> 'w registration" where
  "PB_SetupWithManager k R =
     \<lparr>rg_Name = ''policybinding'', rg_For = Some KPolicyBinding, rg_PlatformSource = None,
      rg_Watches = [(KControlPlaneEntity, \<lambda>obj. case obj of
          WatchedControlPlaneEntity e \<Rightarrow> PB_enqueueForEntity R e | _ \<Rightarrow> Pair []),
        (KControlPlaneTrust, \<lambda>obj. case obj of
          WatchedControlPlaneTrust trust \<Rightarrow> PB_enqueueForTrust R trust | _ \<Rightarrow> Pair [])],
      rg_Reconcile = PB_Reconcile k R\<rparr>"

type_synonym 'w lib = "('w, 'w registration, 'w webhook) app_lib"
type_synonym 'w started = "('w registration, 'w webhook) app_event"
type_synonym ('w, 'a) cmd = "('w, 'w registration, 'w webhook, 'a) command"

text \<open>One registration: built, completed with the manager, its error wrapped.\<close>

definition setup_controller :: "'w lib \<Rightarrow> string \<Rightarrow> 'w registration \<Rightarrow> ('w, 'a) cmd \<Rightarrow> ('w, 'a) cmd" where
  "setup_controller L what reg f =
     attempt (al_CompleteController L reg) (\<lambda>r. [SetUpController reg (error_of r)])
       (Errorf_w (''setting up '' @ what @ '' controller'')) (\<lambda>_. f)"

definition setup_webhook :: "'w lib \<Rightarrow> string \<Rightarrow> 'w webhook \<Rightarrow> ('w, 'a) cmd \<Rightarrow> ('w, 'a) cmd" where
  "setup_webhook L what hook f =
     attempt (al_CompleteWebhook L hook) (\<lambda>r. [SetUpWebhook hook (error_of r)])
       (Errorf_w (''setting up '' @ what @ '' webhook'')) (\<lambda>_. f)"

definition manager_add :: "'w lib \<Rightarrow> string \<Rightarrow> runnable \<Rightarrow> ('w, 'a) cmd \<Rightarrow> ('w, 'a) cmd" where
  "manager_add L what r f =
     attempt (al_Add L r) (\<lambda>res. [Added r (error_of res)]) (Errorf_w (''adding '' @ what)) (\<lambda>_. f)"

section \<open>The permissions asked for\<close>

definition access_request :: "PolicyRule list \<Rightarrow> PermissionsRequest" where
  "access_request rules = \<lparr>pr_Namespace = [], pr_DisableAutomaticNamespaceCreation = False, pr_Rules = rules\<rparr>"

definition SchemeGroup :: string where
  "SchemeGroup = ''openbao.open-control-plane.io''"

definition run_rules :: "PolicyRule list" where
  "run_rules =
     [\<lparr>rule_APIGroups = [SchemeGroup],
       rule_Resources =
         [''projectentities'', ''projectentities/status'', ''projectentities/finalizers'',
          ''controlplanetrusts'', ''controlplanetrusts/status'', ''controlplanetrusts/finalizers'',
          ''controlplaneentities'', ''controlplaneentities/status'', ''controlplaneentities/finalizers'',
          ''policybindings'', ''policybindings/status'', ''policybindings/finalizers''],
       rule_Verbs = [''*'']\<rparr>,
      \<lparr>rule_APIGroups = [''core.open-control-plane.io''], rule_Resources = [''controlplanes''],
       rule_Verbs = [''get'', ''list'', ''watch'']\<rparr>,
      \<lparr>rule_APIGroups = [[]], rule_Resources = [''events''], rule_Verbs = [''create'', ''patch'']\<rparr>]"

definition init_rules :: "PolicyRule list" where
  "init_rules =
     [\<lparr>rule_APIGroups = [''apiextensions.k8s.io''], rule_Resources = [''customresourcedefinitions''],
       rule_Verbs = [''*'']\<rparr>]"

text \<open>\<open>CreateAndWaitForCluster\<close> on the access manager both commands build.\<close>

definition cluster_request ::
    "RawSharedOptions \<Rightarrow> string \<Rightarrow> string \<Rightarrow> string \<Rightarrow> Scheme \<Rightarrow> PolicyRule list \<Rightarrow> ClusterRequest" where
  "cluster_request so ns localName purpose scheme rules =
     \<lparr>cr_ProviderName = so_ProviderName so, cr_Namespace = ns, cr_Interval = 10 * time_Second,
      cr_Timeout = 30 * time_Minute, cr_LocalName = localName, cr_Purpose = purpose,
      cr_Scheme = scheme, cr_Permissions = [access_request rules]\<rparr>"

section \<open>Run\<close>

text \<open>The body of \<open>RunOptions.Run\<close>, cut after the manager exists.\<close>

definition run_checks_and_start :: "'w lib \<Rightarrow> ('w, unit) cmd" where
  "run_checks_and_start L =
     attempt (al_AddHealthzCheck L ''healthz'') (\<lambda>r. [AddedHealthz ''healthz'' (error_of r)])
       (Errorf_w ''setting up healthz'') (\<lambda>_.
     attempt (al_AddReadyzCheck L ''readyz'') (\<lambda>r. [AddedReadyz ''readyz'' (error_of r)])
       (Errorf_w ''setting up readyz'') (\<lambda>_.
     attempt (al_Start L) (\<lambda>r. [Started (error_of r)])
       (Errorf_w ''running manager'') (\<lambda>_. State_Monad.return (Inr ()))))"

definition run_watchers :: "'w lib \<Rightarrow> RunOptions \<Rightarrow> ('w, unit) cmd" where
  "run_watchers L o' =
     (let webhookWatcher = (case ro_WebhookCertWatcher o' of
            Some w \<Rightarrow> manager_add L ''webhook cert watcher'' (RunCertWatcher w) (run_checks_and_start L)
          | None \<Rightarrow> run_checks_and_start L)
      in case ro_MetricsCertWatcher o' of
           Some w \<Rightarrow> manager_add L ''metrics cert watcher'' (RunCertWatcher w) webhookWatcher
         | None \<Rightarrow> webhookWatcher)"

definition run_webhooks :: "'w lib \<Rightarrow> RunOptions \<Rightarrow> 'w Cluster \<Rightarrow> ('w, unit) cmd" where
  "run_webhooks L o' mgr =
     (if rr_WebhookCertPath (ro_Raw o') \<noteq> [] then
        setup_webhook L ''ProjectEntity'' (SetupProjectEntityWebhookWithManager mgr)
       (setup_webhook L ''ControlPlaneTrust'' (SetupControlPlaneTrustWebhookWithManager mgr)
       (setup_webhook L ''ControlPlaneEntity'' (SetupControlPlaneEntityWebhookWithManager mgr)
       (run_watchers L o')))
      else run_watchers L o')"

definition run_service :: "klib \<Rightarrow> 'w env \<Rightarrow> 'w Cluster \<Rightarrow> 'w Cluster \<Rightarrow> string \<Rightarrow> 'w service" where
  "run_service k env platform onboarding p =
     \<lparr>sv_Instance = NewOpenBaoInstanceReconciler k env platform p,
      sv_ProjectEntity = NewProjectEntityReconciler k env platform onboarding p,
      sv_Trust = NewControlPlaneTrustReconciler k env platform onboarding p,
      sv_Entity = NewControlPlaneEntityReconciler platform onboarding p,
      sv_Binding = NewPolicyBindingReconciler k env platform onboarding p\<rparr>"

definition run_controllers :: "klib \<Rightarrow> 'w env \<Rightarrow> 'w lib \<Rightarrow> RunOptions \<Rightarrow> 'w service \<Rightarrow> 'w Cluster \<Rightarrow> ('w, unit) cmd" where
  "run_controllers k env L o' S mgr =
     setup_controller L ''OpenBaoInstance'' (OI_SetupWithManager k (sv_Instance S))
    (setup_controller L ''ProjectEntity'' (PE_SetupWithManager k (sv_ProjectEntity S))
    (setup_controller L ''ControlPlaneTrust'' (CT_SetupWithManager k (sv_Trust S))
    (setup_controller L ''ControlPlaneEntity'' (CE_SetupWithManager k env (sv_Entity S))
    (setup_controller L ''PolicyBinding'' (PB_SetupWithManager k (sv_Binding S))
    (run_webhooks L o' mgr)))))"

definition manager_options :: "RunOptions \<Rightarrow> Scheme \<Rightarrow> ManagerOptions" where
  "manager_options o' scheme =
     (let mo = ro_MetricsServerOptions o'
      in \<lparr>mg_Scheme = scheme, mg_MetricsAddress = mo_BindAddress mo, mg_MetricsSecure = mo_SecureServing mo,
          mg_MetricsFilter = mo_FilterProvider mo, mg_MetricsTLS = contents (ro_Arrays o') (mo_TLSOpts mo),
          mg_WebhookTLS = contents (ro_Arrays o') (ro_WebhookTLSOpts o'),
          mg_ProbeAddress = rr_ProbeAddr (ro_Raw o'), mg_PprofAddress = rr_PprofAddr (ro_Raw o'),
          mg_LeaderElection = rr_EnableLeaderElection (ro_Raw o'),
          mg_LeaderElectionID = ''platform-service-openbao.openbao.open-control-plane.io''\<rparr>)"

definition run_manager ::
    "klib \<Rightarrow> 'w env \<Rightarrow> 'w lib \<Rightarrow> RunOptions \<Rightarrow> 'w Cluster \<Rightarrow> ('w, unit) cmd" where
  "run_manager k env L o' platform =
     (let so = ro_Shared o'
      in case InstallOperatorAPIsOnboarding L (Inr []) of
           Inl ab \<Rightarrow> State_Monad.return (Inl ab)
         | Inr scheme \<Rightarrow>
           let req = cluster_request so (ro_ProviderNamespace o') (al_PURPOSE_ONBOARDING L)
                 (al_PURPOSE_ONBOARDING L) scheme run_rules
           in attempt (al_CreateAndWaitForCluster L req) (\<lambda>r. [RequestedCluster req (error_of r)])
                (Errorf_w ''acquiring onboarding-cluster access'') (\<lambda>onboarding.
              let mo = manager_options o' scheme
              in attempt (al_NewManager L mo) (\<lambda>r. [CreatedManager mo (error_of r)])
                   (Errorf_w ''creating manager'') (\<lambda>mgr.
                 attempt (al_Add L PlatformCache) (\<lambda>r. [Added PlatformCache (error_of r)])
                   (Errorf_w ''adding platform cluster to manager'') (\<lambda>_.
                 run_controllers k env L o'
                   (run_service k env platform onboarding (so_ProviderName so)) mgr))))"

definition run_Run :: "klib \<Rightarrow> 'w env \<Rightarrow> 'w lib \<Rightarrow> RunOptions \<Rightarrow> ('w, unit) cmd" where
  "run_Run k env L o' =
     (let nm = so_ProviderName (ro_Shared o'); q = strconv_Quote (k_Print k) nm
      in case InstallOperatorAPIsPlatform L (Inr []) of
           Inl ab \<Rightarrow> State_Monad.return (Inl ab)
         | Inr scheme \<Rightarrow>
           attempt (al_InitializeClient L scheme) (\<lambda>r. [InitializedClient scheme (error_of r)])
             (Errorf_w ''initializing platform-cluster client'') (\<lambda>platform.
           attempt (kc_GetServiceConfig platform [] nm) (\<lambda>r. [FetchedServiceConfig nm r])
             (\<lambda>err. if err_NotFound err
                then errors_New (''ServiceConfig '' @ q @ '' not found on the platform cluster'')
                else Errorf_w (''fetching ServiceConfig '' @ q) err) (\<lambda>svcCfg.
           case Validate k (sc_Spec svcCfg) of
             Some err \<Rightarrow> State_Monad.return (Inl (Failed (Errorf_w (''ServiceConfig '' @ q @ '' is invalid'') err)))
           | None \<Rightarrow> run_manager k env L o' platform)))"

section \<open>Init\<close>

text \<open>\<open>CRDs\<close> of \<open>api/crds\<close>: the embedded manifests, parsed.\<close>

definition CRDs :: "'w lib \<Rightarrow> goerr + CustomResourceDefinition list" where
  "CRDs L = al_CRDsFromFileSystem L ''manifests''"

definition init_Run :: "klib \<Rightarrow> 'w env \<Rightarrow> 'w lib \<Rightarrow> RawSharedOptions \<Rightarrow> ('w, unit) cmd" where
  "init_Run k env L so =
     (case InstallCRDAPIs L (InstallOperatorAPIsPlatform L (Inr [])) of
        Inl ab \<Rightarrow> State_Monad.return (Inl ab)
      | Inr scheme \<Rightarrow>
        attempt (al_InitializeClient L scheme) (\<lambda>r. [InitializedClient scheme (error_of r)])
          (Errorf_w ''initializing platform-cluster client'') (\<lambda>platform.
        case InstallCRDAPIs L (InstallOperatorAPIsOnboarding L (Inr [])) of
          Inl ab \<Rightarrow> State_Monad.return (Inl ab)
        | Inr onboardingScheme \<Rightarrow>
          let ns = env_Getenv env (k_EnvVariablePodNamespace k)
          in if ns = [] then
               State_Monad.return (Inl (Failed (errors_New (''environment variable '' @
                 k_EnvVariablePodNamespace k @ '' is not set''))))
             else
               let req = cluster_request so ns (al_PURPOSE_ONBOARDING L @ ''-init'') (al_PURPOSE_ONBOARDING L)
                     onboardingScheme init_rules
               in attempt (al_CreateAndWaitForCluster L req) (\<lambda>r. [RequestedCluster req (error_of r)])
                    (Errorf_w ''acquiring onboarding-cluster access'') (\<lambda>onboarding.
                  attempt (al_CreateOrUpdateCRDs L (al_ClusterLabel L) (CRDs L)
                      [(al_PURPOSE_PLATFORM L, platform), (al_PURPOSE_ONBOARDING L, onboarding)])
                    (\<lambda>r. [AppliedCRDs (al_ClusterLabel L) [al_PURPOSE_PLATFORM L, al_PURPOSE_ONBOARDING L]
                       (error_of r)])
                    (Errorf_w ''applying CRDs'') (\<lambda>_. State_Monad.return (Inr ())))))"

section \<open>The subcommands\<close>

definition print_line :: "string \<Rightarrow> ('w, unit) cmd \<Rightarrow> ('w, unit) cmd" where
  "print_line text m = do { call (Pair ()) (\<lambda>_. [Printed text]); m }"

definition printJSON :: "string \<Rightarrow> jvalue \<Rightarrow> ('w, unit) cmd \<Rightarrow> ('w, unit) cmd" where
  "printJSON label v m = (case json_MarshalIndent v of
     Inl err \<Rightarrow> do {
       call (Pair ()) (\<lambda>_. [PrintedErr (''could not marshal '' @ label @ '' '' @ err_Msg err)]);
       m
     }
   | Inr b \<Rightarrow> print_line (label @ '':'') (print_line b m))"

text \<open>The fields of the struct under the names of their tags, and the map of completed options.\<close>

definition raw_options_json :: "RawSharedOptions \<Rightarrow> jvalue" where
  "raw_options_json so = JObj [(''environment'', JStr (so_Environment so)),
     (''provider-name'', JStr (so_ProviderName so)), (''dry-run'', JBool (so_DryRun so))]"

definition completed_options_json :: "string \<Rightarrow> bool \<Rightarrow> RawSharedOptions \<Rightarrow> jvalue" where
  "completed_options_json path configured so = json_map [(''environment'', JStr (so_Environment so)),
     (''provider-name'', JStr (so_ProviderName so)), (''dry-run'', JBool (so_DryRun so)),
     (''platform-config'', JStr path), (''platform-config-set'', JBool configured)]"

definition PrintRawOptions :: "RawSharedOptions \<Rightarrow> ('w, unit) cmd \<Rightarrow> ('w, unit) cmd" where
  "PrintRawOptions so m = printJSON ''raw options'' (raw_options_json so) m"

definition PrintCompletedOptions :: "'w lib \<Rightarrow> RawSharedOptions \<Rightarrow> ('w, unit) cmd \<Rightarrow> ('w, unit) cmd" where
  "PrintCompletedOptions L so m = do {
     configured \<leftarrow> call (\<lambda>w. (al_HasRESTConfig L w, w)) (\<lambda>_. []);
     printJSON ''completed options'' (completed_options_json (al_ConfigPath L) configured so) m
   }"

text \<open>The \<open>RunE\<close> functions.\<close>

definition completing :: "('w, 'a) cmd \<Rightarrow> ('w, 'a) cmd" where
  "completing m = do {
     r \<leftarrow> m;
     State_Monad.return (case r of Inl (Failed err) \<Rightarrow> Inl (Failed (Errorf_w ''completing options'' err)) | _ \<Rightarrow> r)
   }"

definition run_command :: "klib \<Rightarrow> 'w env \<Rightarrow> 'w lib \<Rightarrow> RunOptions \<Rightarrow> ('w, unit) cmd" where
  "run_command k env L opts =
     PrintRawOptions (ro_Shared opts) (then_do (completing (run_Complete k env L opts)) (\<lambda>opts.
       PrintCompletedOptions L (ro_Shared opts)
         (if so_DryRun (ro_Shared opts)
          then print_line ''=== END OF DRY RUN ==='' (State_Monad.return (Inr ()))
          else run_Run k env L opts)))"

definition init_Complete :: "'w lib \<Rightarrow> RawSharedOptions \<Rightarrow> ('w, unit) cmd" where
  "init_Complete L so = shared_Complete L so"

definition init_command :: "klib \<Rightarrow> 'w env \<Rightarrow> 'w lib \<Rightarrow> RawSharedOptions \<Rightarrow> ('w, unit) cmd" where
  "init_command k env L so =
     PrintRawOptions so (then_do (completing (init_Complete L so)) (\<lambda>_.
       PrintCompletedOptions L so
         (if so_DryRun so then print_line ''=== END OF DRY RUN ==='' (State_Monad.return (Inr ()))
          else init_Run k env L so)))"

text \<open>\<open>main\<close>: an error is printed and the process ends with 1; a panic ends it with 2.\<close>

definition exit_code :: "abort + unit \<Rightarrow> nat" where
  "exit_code r = (case r of Inr _ \<Rightarrow> 0 | Inl (Failed _) \<Rightarrow> 1 | Inl (Panicked _) \<Rightarrow> 2)"

end
