(* ===== verification/AppBoot.thy ===== *)
theory AppBoot
  imports AppRun
begin

text \<open>
  What the subcommands do: an error stops them, a dry run reaches no cluster, and a manager is
  only started at the end of one fixed sequence of steps.
\<close>

section \<open>The steps of a start\<close>

text \<open>What a start logs from a point on; \<open>boots k tail\<close> holds of a rest of a run that is to log
  \<open>tail\<close> and then the start of the manager, if it gets that far.\<close>

definition boots :: "klib \<Rightarrow> ('reg, 'hook) app_event list \<Rightarrow> abort + 'a \<Rightarrow> ('reg, 'hook) app_event list \<Rightarrow> bool" where
  "boots k steps r es \<longleftrightarrow> fail_stop k r es \<and> (\<forall>res. Started res \<in> set es \<longrightarrow> es = steps @ [Started res])"

lemma boots_fail: "event_error e = Some cause \<Longrightarrow> reports k e cause err \<Longrightarrow> (\<And>res. e \<noteq> Started res) \<Longrightarrow> boots k steps (Inl (Failed err)) [e]"
  by (auto simp: boots_def split: option.splits)

lemma boots_Cons: "event_error e = None \<Longrightarrow> (\<And>res. e \<noteq> Started res) \<Longrightarrow> boots k steps r es \<Longrightarrow> boots k (e # steps) r (e # es)"
  by (auto simp: boots_def)

definition checks_log :: "('reg, 'hook) app_event list" where
  "checks_log = [AddedHealthz ''healthz'' None, AddedReadyz ''readyz'' None]"

definition watchers_log :: "RunOptions \<Rightarrow> ('reg, 'hook) app_event list" where
  "watchers_log o' =
     (case ro_MetricsCertWatcher o' of Some w \<Rightarrow> [Added (RunCertWatcher w) None] | None \<Rightarrow> []) @
     (case ro_WebhookCertWatcher o' of Some w \<Rightarrow> [Added (RunCertWatcher w) None] | None \<Rightarrow> [])"

definition webhooks_log :: "RawRunOptions \<Rightarrow> 'w Cluster \<Rightarrow> 'w started list" where
  "webhooks_log raw mgr =
     (if rr_WebhookCertPath raw = [] then []
      else [SetUpWebhook (SetupProjectEntityWebhookWithManager mgr) None,
            SetUpWebhook (SetupControlPlaneTrustWebhookWithManager mgr) None,
            SetUpWebhook (SetupControlPlaneEntityWebhookWithManager mgr) None])"

definition service_registrations :: "klib \<Rightarrow> 'w env \<Rightarrow> 'w service \<Rightarrow> 'w registration list" where
  "service_registrations k env S =
     [OI_SetupWithManager k (sv_Instance S), PE_SetupWithManager k (sv_ProjectEntity S),
      CT_SetupWithManager k (sv_Trust S), CE_SetupWithManager k env (sv_Entity S),
      PB_SetupWithManager k (sv_Binding S)]"

lemma spec_checks_and_start: "spec (run_checks_and_start L) (boots k checks_log)"
  unfolding run_checks_and_start_def
  by (intro spec_intros) (simp_all add: boots_def checks_log_def)

lemma boots_attempt:
  assumes "\<And>err. event_error (ev (Inl err)) = Some err" "\<And>err. reports k (ev (Inl err)) err (wrap err)" "\<And>a. event_error (ev (Inr a)) = None"
    "\<And>r res. ev r \<noteq> Started res" "\<And>a. spec (f a) (boots k steps)" "\<And>a. ev (Inr a) = e"
  shows "spec (attempt oper (\<lambda>r. [ev r]) wrap f) (boots k (e # steps))"
  by (intro spec_attempt boots_fail spec_mono [OF assms(5)])
     (use assms in \<open>auto intro!: boots_Cons\<close>)

lemma spec_manager_add: "spec m (boots k steps) \<Longrightarrow> spec (manager_add L what rn m) (boots k (Added rn None # steps))"
  unfolding manager_add_def by (rule boots_attempt) simp_all

lemma spec_run_watchers: "spec (run_watchers L o') (boots k (watchers_log o' @ checks_log))"
  unfolding run_watchers_def Let_def watchers_log_def
  by (auto intro!: spec_manager_add spec_checks_and_start split: option.splits)

lemma spec_setup_webhook: "spec m (boots k steps) \<Longrightarrow> spec (setup_webhook L what h m) (boots k (SetUpWebhook h None # steps))"
  unfolding setup_webhook_def by (rule boots_attempt) simp_all

lemma spec_setup_controller:
  "spec m (boots k steps) \<Longrightarrow> spec (setup_controller L what reg m) (boots k (SetUpController reg None # steps))"
  unfolding setup_controller_def by (rule boots_attempt) simp_all

lemma spec_run_controllers:
  "spec (run_controllers k env L o' S mgr)
     (boots k (map (\<lambda>reg. SetUpController reg None) (service_registrations k env S) @
        webhooks_log (ro_Raw o') mgr @ watchers_log o' @ checks_log))"
  unfolding run_controllers_def service_registrations_def run_webhooks_def webhooks_log_def
  by (auto intro!: spec_setup_controller spec_setup_webhook spec_run_watchers)

section \<open>The whole start\<close>

lemma fail_stop_ok: "list_all (\<lambda>e. event_error e = None) es \<Longrightarrow> fail_stop k r es"
  by (induction es) auto

text \<open>The steps from the access request on.\<close>

definition manager_log ::
    "klib \<Rightarrow> 'w env \<Rightarrow> 'w lib \<Rightarrow> RunOptions \<Rightarrow> 'w Cluster \<Rightarrow> 'w Cluster \<Rightarrow> 'w Cluster \<Rightarrow> 'w started list" where
  "manager_log k env L o' platform onboarding mgr =
     (let so = ro_Shared o'; scheme = [ClientGo, OperatorCore, OpenBaoAPI]
      in [RequestedCluster (cluster_request so (ro_ProviderNamespace o') (al_PURPOSE_ONBOARDING L)
             (al_PURPOSE_ONBOARDING L) scheme run_rules) None,
          CreatedManager (manager_options o' scheme) None, Added PlatformCache None] @
         map (\<lambda>reg. SetUpController reg None)
           (service_registrations k env (run_service k env platform onboarding (so_ProviderName so))) @
         webhooks_log (ro_Raw o') mgr @ watchers_log o' @ checks_log)"

text \<open>Where the clusters and the configuration of a start come from: each is what the library call
  for it, with the arguments of the program, answered.\<close>

definition obtained ::
    "klib \<Rightarrow> 'w lib \<Rightarrow> RunOptions \<Rightarrow> 'w Cluster \<Rightarrow> ServiceConfig \<Rightarrow> 'w Cluster \<Rightarrow> 'w Cluster \<Rightarrow> bool" where
  "obtained k L o' platform cfg onboarding mgr \<longleftrightarrow>
     (let so = ro_Shared o'; scheme = [ClientGo, OperatorCore, OpenBaoAPI]
      in answers (al_InitializeClient L [ClientGo, OperatorClusters, OpenBaoAPI]) (Inr platform) \<and>
         answers (kc_GetServiceConfig platform [] (so_ProviderName so)) (Inr cfg) \<and> Validate k (sc_Spec cfg) = None \<and>
         answers (al_CreateAndWaitForCluster L (cluster_request so (ro_ProviderNamespace o')
           (al_PURPOSE_ONBOARDING L) (al_PURPOSE_ONBOARDING L) scheme run_rules)) (Inr onboarding) \<and>
         answers (al_NewManager L (manager_options o' scheme)) (Inr mgr))"

lemma must_add_Inr: "must_add L p s = Inr sch \<longleftrightarrow> (\<exists>s0. s = Inr s0 \<and> al_AddToScheme L p = None \<and> sch = s0 @ [p])"
  by (auto simp: must_add_def split: sum.splits option.splits)

lemma schemes:
  "InstallOperatorAPIsPlatform L (Inr s) = Inr sch \<Longrightarrow> sch = s @ [ClientGo, OperatorClusters, OpenBaoAPI]"
  "InstallOperatorAPIsOnboarding L (Inr s) = Inr sch \<Longrightarrow> sch = s @ [ClientGo, OperatorCore, OpenBaoAPI]"
  "InstallCRDAPIs L (Inr s) = Inr sch \<Longrightarrow> sch = s @ [ClientGo, ApiExtensions]"
  by (auto simp: InstallOperatorAPIsPlatform_def InstallOperatorAPIsOnboarding_def InstallCRDAPIs_def must_add_Inr)

text \<open>A rest of a run that starts the manager only after one of the logs \<open>L\<close>.\<close>

definition boots_some :: "klib \<Rightarrow> (('reg, 'hook) app_event list \<Rightarrow> bool) \<Rightarrow> abort + 'a \<Rightarrow> ('reg, 'hook) app_event list \<Rightarrow> bool" where
  "boots_some k P r es \<longleftrightarrow> fail_stop k r es \<and> (\<forall>res. Started res \<in> set es \<longrightarrow> (\<exists>steps. P steps \<and> es = steps @ [Started res]))"

lemma boots_someI: "boots k steps r es \<Longrightarrow> P steps \<Longrightarrow> boots_some k P r es"
  by (auto simp: boots_def boots_some_def)

lemma boots_some_mono: "boots_some k P r es \<Longrightarrow> (\<And>steps. P steps \<Longrightarrow> Q steps) \<Longrightarrow> boots_some k Q r es"
  unfolding boots_some_def by blast

lemma boots_some_Nil [simp]: "boots_some k P r []"
  by (simp add: boots_some_def)

lemma boots_some_attempt:
  assumes "\<And>err. event_error (ev (Inl err)) = Some err" "\<And>err. reports k (ev (Inl err)) err (wrap err)" "\<And>a. event_error (ev (Inr a)) = None"
    "\<And>r res. ev r \<noteq> Started res"
    "\<And>a. answers oper (Inr a) \<Longrightarrow> spec (f a) (boots_some k (\<lambda>steps. P (ev (Inr a) # steps)))"
  shows "spec (attempt oper (\<lambda>r. [ev r]) wrap f) (boots_some k P)"
proof (rule spec_attempt)
  fix err
  show "boots_some k P (Inl (Failed (wrap err))) [ev (Inl err)]"
    using assms(1,2) [of err] assms(4) [THEN not_sym] by (auto simp: boots_some_def split: option.splits)
next
  fix a
  assume "answers oper (Inr a)"
  then show "spec (f a) (\<lambda>b es. boots_some k P b ([ev (Inr a)] @ es))"
    by (rule spec_mono [OF assms(5)])
       (use assms(3) [of a] assms(4) [THEN not_sym] in \<open>fastforce simp: boots_some_def\<close>)
qed

lemma boots_some_return [intro]: "spec (State_Monad.return r) (boots_some k P)"
  by (rule spec_return) simp

lemma spec_run_manager:
  assumes "answers (al_InitializeClient L [ClientGo, OperatorClusters, OpenBaoAPI]) (Inr platform)"
    and "answers (kc_GetServiceConfig platform [] (so_ProviderName (ro_Shared o'))) (Inr cfg)" "Validate k (sc_Spec cfg) = None"
  shows "spec (run_manager k env L o' platform)
     (boots_some k (\<lambda>steps. \<exists>onboarding mgr. obtained k L o' platform cfg onboarding mgr \<and>
        steps = manager_log k env L o' platform onboarding mgr))"
  unfolding run_manager_def Let_def
  by (auto intro!: boots_some_attempt split: sum.splits dest!: schemes)
     (rule spec_mono [OF spec_run_controllers], erule boots_someI, intro exI,
       simp add: manager_log_def obtained_def Let_def assms)

lemma spec_run_Run:
  "spec (run_Run k env L o')
     (boots_some k (\<lambda>steps. \<exists>cfg platform onboarding mgr. obtained k L o' platform cfg onboarding mgr \<and>
        steps = [InitializedClient [ClientGo, OperatorClusters, OpenBaoAPI] None,
           FetchedServiceConfig (so_ProviderName (ro_Shared o')) (Inr cfg)] @
           manager_log k env L o' platform onboarding mgr))"
  unfolding run_Run_def Let_def
  by (auto intro!: boots_some_attempt boots_some_return split: sum.splits option.splits dest!: schemes)
     (rule spec_mono [OF spec_run_manager], assumption+, erule boots_some_mono, blast)

lemma spec_print_line: "spec m (\<lambda>r es. T r (Printed text # es)) \<Longrightarrow> spec (print_line text m) T"
  unfolding print_line_def by (rule spec_call_bind) simp

text \<open>What the two prints leave in the log.\<close>

definition raw_printed :: "RawSharedOptions \<Rightarrow> ('reg, 'hook) app_event list" where
  "raw_printed so = [Printed ''raw options:'', Printed (json_indent 0 (raw_options_json so))]"

definition completed_printed :: "string \<Rightarrow> bool \<Rightarrow> RawSharedOptions \<Rightarrow> ('reg, 'hook) app_event list" where
  "completed_printed path rc so =
     [Printed ''completed options:'', Printed (json_indent 0 (completed_options_json path rc so))]"

lemma spec_PrintRawOptions:
  "spec m (\<lambda>r es. T r (raw_printed so @ es)) \<Longrightarrow> spec (PrintRawOptions so m) T"
  unfolding PrintRawOptions_def printJSON_def
  by (auto simp: raw_printed_def json_MarshalIndent_def intro!: spec_print_line)

lemma spec_PrintCompletedOptions:
  "(\<And>rc. spec m (\<lambda>r es. T r (completed_printed (al_ConfigPath L) rc so @ es))) \<Longrightarrow>
   spec (PrintCompletedOptions L so m) T"
  unfolding PrintCompletedOptions_def printJSON_def
  by (rule spec_call_bind) (auto simp: completed_printed_def json_MarshalIndent_def intro!: spec_print_line)

lemma printed_harmless [simp]:
  "list_all (\<lambda>e. P e \<or> (\<exists>t. e = Printed t)) (raw_printed so)"
  "list_all (\<lambda>e. P e \<or> (\<exists>t. e = Printed t)) (completed_printed path rc so)"
  "Started res \<notin> set (raw_printed so)" "Started res \<notin> set (completed_printed path rc so)"
  "fail_stop k r (raw_printed so @ es) = fail_stop k r es"
  "fail_stop k r (completed_printed path rc so @ es) = fail_stop k r es"
  by (simp_all add: raw_printed_def completed_printed_def)

lemma spec_completing:
  assumes "spec m (\<lambda>r es. T (case r of Inl (Failed err) \<Rightarrow> Inl (Failed (Errorf_w ''completing options'' err)) | _ \<Rightarrow> r) es)"
  shows "spec (completing m) T"
  unfolding completing_def by (rule spec_bind [OF assms]) (auto intro: spec_intros)

lemma fail_stop_rewrap:
  "fail_stop k (Inl (Failed err) :: abort + 'a) es \<Longrightarrow> list_all completes_only es \<Longrightarrow>
   fail_stop k (Inl (Failed (Errorf_w c err)) :: abort + 'b) es"
  by (induction es) (auto simp: completes_only_def split: option.splits app_event.splits intro!: reports_rewrapped)

text \<open>The completed options of a command line, and the log of a run that starts the manager.\<close>

definition run_options :: "klib \<Rightarrow> 'w env \<Rightarrow> 'w lib \<Rightarrow> RawSharedOptions \<Rightarrow> RawRunOptions \<Rightarrow> RunOptions" where
  "run_options k env L so raw =
     completed (al_Grow L) (env_Getenv env (k_EnvVariablePodNamespace k)) (NewRunOptions so raw)"

definition boot_log ::
    "klib \<Rightarrow> 'w env \<Rightarrow> 'w lib \<Rightarrow> RawSharedOptions \<Rightarrow> RawRunOptions \<Rightarrow> ServiceConfig \<Rightarrow> 'w Cluster \<Rightarrow>
     'w Cluster \<Rightarrow> 'w Cluster \<Rightarrow> bool \<Rightarrow> 'w started list" where
  "boot_log k env L so raw cfg platform onboarding mgr restConfig =
     raw_printed so @ complete_log raw @ completed_printed (al_ConfigPath L) restConfig so @
     [InitializedClient [ClientGo, OperatorClusters, OpenBaoAPI] None,
      FetchedServiceConfig (so_ProviderName so) (Inr cfg)] @
     manager_log k env L (run_options k env L so raw) platform onboarding mgr"

lemma spec_completed_Run:
  "spec (completing (run_Complete k env L opts)) (\<lambda>r es. list_all completes_only es \<and> fail_stop k r es \<and>
     (\<forall>o2. r = Inr o2 \<longrightarrow> so_Environment (ro_Shared opts) \<noteq> [] \<and> so_ProviderName (ro_Shared opts) \<noteq> [] \<and>
        env_Getenv env (k_EnvVariablePodNamespace k) \<noteq> [] \<and>
        o2 = completed (al_Grow L) (env_Getenv env (k_EnvVariablePodNamespace k)) opts \<and>
        es = complete_log (ro_Raw opts)))"
  by (rule spec_completing, rule spec_mono [OF spec_run_Complete])
     (auto intro: fail_stop_rewrap split: sum.splits abort.splits)

lemma spec_completed_Init:
  "spec (completing (shared_Complete L so)) (\<lambda>r es. list_all completes_only es \<and> fail_stop k r es \<and>
     (\<forall>u. r = Inr u \<longrightarrow> so_Environment so \<noteq> [] \<and> so_ProviderName so \<noteq> [] \<and> es = [InitializedRESTConfig None]))"
  by (rule spec_completing, rule spec_mono [OF spec_shared_Complete])
     (auto intro: fail_stop_rewrap split: sum.splits abort.splits)

lemma completes_only_simps [simp]:
  "\<not> completes_only (Started res)" "\<not> completes_only (Printed t)"
  by (simp_all add: completes_only_def)

lemma not_started_completes: "list_all completes_only es \<Longrightarrow> Started res \<notin> set es"
  by (auto simp: list_all_iff)

lemma completed_sel [simp]:
  "ro_Shared (completed grow ns opts) = ro_Shared opts" "ro_Raw (completed grow ns opts) = ro_Raw opts"
  by (simp_all add: completed_def)

lemma NewRunOptions_sel [simp]: "ro_Shared (NewRunOptions so raw) = so" "ro_Raw (NewRunOptions so raw) = raw"
  by (simp_all add: NewRunOptions_def)

lemma fail_stop_complete_log: "fail_stop k r es \<Longrightarrow> fail_stop k r (complete_log raw @ es)"
  by (rule fail_stop_append [OF fail_stop_ok])
     (auto simp: complete_log_def webhook_made_def metrics_made_def webhook_watcher_def metrics_watcher_def)

lemma spec_run_command:
  "spec (run_command k env L (NewRunOptions so raw)) (\<lambda>r es. fail_stop k r es \<and>
     (\<forall>res. Started res \<in> set es \<longrightarrow> so_Environment so \<noteq> [] \<and> so_ProviderName so \<noteq> [] \<and> \<not> so_DryRun so \<and>
        env_Getenv env (k_EnvVariablePodNamespace k) \<noteq> [] \<and>
        (\<exists>cfg platform onboarding mgr rc. obtained k L (run_options k env L so raw) platform cfg onboarding mgr \<and>
           es = boot_log k env L so raw cfg platform onboarding mgr rc @ [Started res])) \<and>
     (so_DryRun so \<longrightarrow> list_all (\<lambda>e. completes_only e \<or> (\<exists>t. e = Printed t)) es))"
  unfolding run_command_def
  apply (intro spec_PrintRawOptions spec_then_do [OF spec_completed_Run])
   apply (auto dest: not_started_completes intro: fail_stop_abort elim: list.pred_mono_strong)[1]
  apply (intro spec_PrintCompletedOptions spec_intros spec_print_line)
   apply (auto intro!: fail_stop_complete_log dest: not_started_completes elim: list.pred_mono_strong)[1]
  apply (rule spec_mono [OF spec_run_Run])
  apply (auto intro!: fail_stop_complete_log simp: boots_some_def boot_log_def run_options_def dest: not_started_completes)
  apply fastforce
  done

text \<open>The log of an \<open>init\<close> that succeeds.\<close>

definition init_steps :: "klib \<Rightarrow> 'w env \<Rightarrow> 'w lib \<Rightarrow> RawSharedOptions \<Rightarrow> 'w started list" where
  "init_steps k env L so =
     [InitializedClient [ClientGo, OperatorClusters, OpenBaoAPI, ClientGo, ApiExtensions] None,
      RequestedCluster (cluster_request so (env_Getenv env (k_EnvVariablePodNamespace k))
        (al_PURPOSE_ONBOARDING L @ ''-init'') (al_PURPOSE_ONBOARDING L)
        [ClientGo, OperatorCore, OpenBaoAPI, ClientGo, ApiExtensions] init_rules) None,
      AppliedCRDs (al_ClusterLabel L) [al_PURPOSE_PLATFORM L, al_PURPOSE_ONBOARDING L] None]"

definition init_log :: "klib \<Rightarrow> 'w env \<Rightarrow> 'w lib \<Rightarrow> RawSharedOptions \<Rightarrow> bool \<Rightarrow> 'w started list" where
  "init_log k env L so restConfig =
     raw_printed so @ InitializedRESTConfig None # completed_printed (al_ConfigPath L) restConfig so @
     init_steps k env L so"

lemma init_schemes:
  "InstallCRDAPIs L (InstallOperatorAPIsPlatform L (Inr [])) = Inr sch \<Longrightarrow>
     sch = [ClientGo, OperatorClusters, OpenBaoAPI, ClientGo, ApiExtensions]"
  "InstallCRDAPIs L (InstallOperatorAPIsOnboarding L (Inr [])) = Inr sch \<Longrightarrow>
     sch = [ClientGo, OperatorCore, OpenBaoAPI, ClientGo, ApiExtensions]"
  by (auto simp: InstallOperatorAPIsPlatform_def InstallOperatorAPIsOnboarding_def InstallCRDAPIs_def must_add_Inr)

lemma spec_init_Run:
  "spec (init_Run k env L so) (\<lambda>r es. fail_stop k r es \<and> (\<forall>u. r = Inr u \<longrightarrow>
     env_Getenv env (k_EnvVariablePodNamespace k) \<noteq> [] \<and> es = init_steps k env L so))"
  unfolding init_Run_def Let_def
  by (intro spec_intros) (auto simp: init_steps_def dest!: init_schemes)

lemma spec_init_command:
  "spec (init_command k env L so) (\<lambda>r es. fail_stop k r es \<and>
     (so_DryRun so \<longrightarrow> list_all (\<lambda>e. completes_only e \<or> (\<exists>t. e = Printed t)) es) \<and>
     (r = Inr () \<longrightarrow> so_DryRun so \<or> (\<exists>rc. es = init_log k env L so rc)))"
  unfolding init_command_def init_Complete_def
  apply (intro spec_PrintRawOptions spec_then_do [OF spec_completed_Init])
   apply (auto intro: fail_stop_abort elim: list.pred_mono_strong)[1]
  apply (intro spec_PrintCompletedOptions spec_intros spec_print_line)
   apply (auto elim: list.pred_mono_strong)[1]
  apply (rule spec_mono [OF spec_init_Run])
  apply (auto simp: init_log_def)
  done

section \<open>Properties\<close>

text \<open>C28. The manager starts only at the end of the full sequence: whatever the libraries answer, if
  \<open>run\<close> starts it, then the command line named an environment and a provider and was no dry
  run, the ServiceConfig was fetched from the platform cluster and is valid, the onboarding cluster
  was requested with the rules of the program, and the five reconcilers over these two clusters and, exactly when a
  webhook certificate is configured, the three delete webhooks were registered, in this order
  and with no step in between or failed.\<close>

theorem run_boot_sequence:
  assumes "Started res \<in> set (run_log (run_command k env L (NewRunOptions so raw)) w)"
  shows "so_Environment so \<noteq> [] \<and> so_ProviderName so \<noteq> [] \<and> \<not> so_DryRun so \<and>
    env_Getenv env (k_EnvVariablePodNamespace k) \<noteq> [] \<and>
    (\<exists>cfg platform onboarding mgr restConfig. obtained k L (run_options k env L so raw) platform cfg onboarding mgr \<and>
       run_log (run_command k env L (NewRunOptions so raw)) w =
         boot_log k env L so raw cfg platform onboarding mgr restConfig @ [Started res])"
  using spec_run [OF spec_run_command, of k env L so raw w] assms by blast

text \<open>An error stops either command: no call follows one that failed, and the command then fails.\<close>

theorem commands_fail_stop:
  "fail_stop k (run_result (run_command k env L (NewRunOptions so raw)) w)
     (run_log (run_command k env L (NewRunOptions so raw)) w) \<and>
   fail_stop k (run_result (init_command k env L so) w) (run_log (init_command k env L so) w)"
  using spec_run [OF spec_run_command, of k env L so raw w] spec_run [OF spec_init_command, of k env L so w]
  by blast

text \<open>A dry run of either command reaches no cluster: it prints, reads the REST configuration and
  opens certificate files.\<close>

theorem dry_run_inert:
  "list_all (\<lambda>e. completes_only e \<or> (\<exists>t. e = Printed t))
     (run_log (run_command k env L (NewRunOptions (so\<lparr>so_DryRun := True\<rparr>) raw)) w) \<and>
   list_all (\<lambda>e. completes_only e \<or> (\<exists>t. e = Printed t))
     (run_log (init_command k env L (so\<lparr>so_DryRun := True\<rparr>)) w)"
  using spec_run [OF spec_run_command, of k env L "so\<lparr>so_DryRun := True\<rparr>" raw w]
    spec_run [OF spec_init_command, of k env L "so\<lparr>so_DryRun := True\<rparr>" w]
  by simp

end
