(* ===== verification/FakeClient.thy ===== *)
theory FakeClient
  imports BaoClient
begin

text \<open>
  \<open>internal/openbao/fake.go\<close>: the in-memory backend. Its state is the Go struct; a Go
  map is a finite map, and reading an absent key gives the zero value. The mutex makes every
  method atomic. Roles are keyed by the joined text \<open>mount/name\<close>, as in the code, so
  the contract's facts about roles need the mounts to be URL segments.
\<close>

record FakeClient =
  fk_HealthResult :: HealthInfo
  fk_HealthErr :: "goerr option"
  fk_Policies :: "(string, bool) fmap"
  fk_PoliciesUnknown :: bool
  fk_mounts :: "(string, bool) fmap"
  fk_configs :: "(string, JWTAuthConfig) fmap"
  fk_roles :: "(string, JWTRole) fmap"
  fk_entities :: "(string, string) fmap"

definition NewFakeClient :: FakeClient where
  "NewFakeClient = \<lparr>fk_HealthResult = \<lparr>hi_Initialized = False, hi_Sealed = False, hi_Version = []\<rparr>,
     fk_HealthErr = None, fk_Policies = fmempty, fk_PoliciesUnknown = False, fk_mounts = fmempty,
     fk_configs = fmempty, fk_roles = fmempty, fk_entities = fmempty\<rparr>"

text \<open>A Go map read: the zero value for an absent key.\<close>

definition map_read :: "'v \<Rightarrow> ('k, 'v) fmap \<Rightarrow> 'k \<Rightarrow> 'v" where
  "map_read zero m k = (case fmlookup m k of Some v \<Rightarrow> v | None \<Rightarrow> zero)"

definition role_key :: "string \<Rightarrow> string \<Rightarrow> string" where
  "role_key mount nm = mount @ ''/'' @ nm"

definition Fake_Health :: "(FakeClient, HealthInfo) oper" where
  "Fake_Health f = (case fk_HealthErr f of Some e \<Rightarrow> (Inl e, f) | None \<Rightarrow> (Inr (fk_HealthResult f), f))"

definition Fake_EnsureEntity :: "string \<Rightarrow> (string, string) fmap \<Rightarrow> (FakeClient, string) oper" where
  "Fake_EnsureEntity nm metadata f =
     (let f' = (if map_read [] (fk_entities f) nm = []
                then f\<lparr>fk_entities := fmupd nm (''entity-'' @ nm) (fk_entities f)\<rparr> else f)
      in (Inr (map_read [] (fk_entities f') nm), f'))"

definition Fake_EnsureJWTAuthMount :: "string \<Rightarrow> (FakeClient, unit) oper" where
  "Fake_EnsureJWTAuthMount path f = (Inr (), f\<lparr>fk_mounts := fmupd path True (fk_mounts f)\<rparr>)"

definition Fake_ConfigureJWTTrust :: "string \<Rightarrow> JWTAuthConfig \<Rightarrow> (FakeClient, unit) oper" where
  "Fake_ConfigureJWTTrust path cfg f =
     (if \<not> map_read False (fk_mounts f) path then (Inl ErrNotFound, f)
      else (Inr (), f\<lparr>fk_configs := fmupd path cfg (fk_configs f)\<rparr>))"

definition Fake_EnsureJWTRole :: "string \<Rightarrow> JWTRole \<Rightarrow> (FakeClient, unit) oper" where
  "Fake_EnsureJWTRole mount role f =
     (if \<not> map_read False (fk_mounts f) mount then (Inl ErrNotFound, f)
      else (Inr (), f\<lparr>fk_roles := fmupd (role_key mount (jr_Name role)) role (fk_roles f)\<rparr>))"

definition Fake_DeleteJWTRole :: "string \<Rightarrow> string \<Rightarrow> (FakeClient, unit) oper" where
  "Fake_DeleteJWTRole mount nm f = (Inr (), f\<lparr>fk_roles := fmdrop (role_key mount nm) (fk_roles f)\<rparr>)"

definition under_mount :: "string \<Rightarrow> string \<Rightarrow> bool" where
  "under_mount path k \<longleftrightarrow> length k > length path + 1 \<and> take (length path + 1) k = path @ ''/''"

definition Fake_DeleteAuthMount :: "string \<Rightarrow> (FakeClient, unit) oper" where
  "Fake_DeleteAuthMount path f =
     (Inr (), f\<lparr>fk_mounts := fmdrop path (fk_mounts f), fk_configs := fmdrop path (fk_configs f),
                fk_roles := fmfilter (\<lambda>k. \<not> under_mount path k) (fk_roles f)\<rparr>)"

definition Fake_PolicyExists :: "string \<Rightarrow> (FakeClient, PolicyExistence) oper" where
  "Fake_PolicyExists nm f =
     (if fk_PoliciesUnknown f then (Inr \<lparr>px_Exists = False, px_Known = False\<rparr>, f)
      else (Inr \<lparr>px_Exists = map_read False (fk_Policies f) nm, px_Known = True\<rparr>, f))"

definition fake_client :: "FakeClient Client" where
  "fake_client = \<lparr>cl_Health = Fake_Health, cl_EnsureEntity = Fake_EnsureEntity,
     cl_EnsureJWTAuthMount = Fake_EnsureJWTAuthMount, cl_ConfigureJWTTrust = Fake_ConfigureJWTTrust,
     cl_EnsureJWTRole = Fake_EnsureJWTRole, cl_DeleteJWTRole = Fake_DeleteJWTRole,
     cl_DeleteAuthMount = Fake_DeleteAuthMount, cl_PolicyExists = Fake_PolicyExists\<rparr>"

section \<open>Inspection helpers\<close>

definition HasMount :: "FakeClient \<Rightarrow> string \<Rightarrow> bool" where
  "HasMount f path = map_read False (fk_mounts f) path"

definition Config :: "FakeClient \<Rightarrow> string \<Rightarrow> JWTAuthConfig option" where
  "Config f path = fmlookup (fk_configs f) path"

definition Role :: "FakeClient \<Rightarrow> string \<Rightarrow> string \<Rightarrow> JWTRole option" where
  "Role f mount nm = fmlookup (fk_roles f) (role_key mount nm)"

definition RoleCount :: "FakeClient \<Rightarrow> nat" where
  "RoleCount f = fcard (fmdom (fk_roles f))"

lemmas fake_defs = Fake_Health_def Fake_EnsureEntity_def Fake_EnsureJWTAuthMount_def
  Fake_ConfigureJWTTrust_def Fake_EnsureJWTRole_def Fake_DeleteJWTRole_def
  Fake_DeleteAuthMount_def Fake_PolicyExists_def HasMount_def Config_def Role_def map_read_def

lemma fake_client_simps [simp]:
  "cl_Health fake_client = Fake_Health" "cl_EnsureEntity fake_client = Fake_EnsureEntity"
  "cl_EnsureJWTAuthMount fake_client = Fake_EnsureJWTAuthMount"
  "cl_ConfigureJWTTrust fake_client = Fake_ConfigureJWTTrust"
  "cl_EnsureJWTRole fake_client = Fake_EnsureJWTRole"
  "cl_DeleteJWTRole fake_client = Fake_DeleteJWTRole"
  "cl_DeleteAuthMount fake_client = Fake_DeleteAuthMount"
  "cl_PolicyExists fake_client = Fake_PolicyExists"
  by (simp_all add: fake_client_def)

section \<open>Role keys\<close>

lemma append_slash_inj:
  "CHR ''/'' \<notin> set m \<Longrightarrow> CHR ''/'' \<notin> set m' \<Longrightarrow>
   m @ CHR ''/'' # n = m' @ CHR ''/'' # n' \<longleftrightarrow> m = m' \<and> n = n'"
proof (induction m arbitrary: m')
  case Nil
  then show ?case by (cases m') auto
next
  case (Cons c m)
  then show ?case by (cases m') auto
qed

lemma role_key_inj:
  "segment m \<Longrightarrow> segment m' \<Longrightarrow> role_key m n = role_key m' n' \<longleftrightarrow> m = m' \<and> n = n'"
  by (simp add: role_key_def segment_def append_slash_inj)

lemma under_mount_role_key:
  assumes "segment p" "segment m" "n \<noteq> []"
  shows "under_mount p (role_key m n) \<longleftrightarrow> m = p"
proof
  assume "under_mount p (role_key m n)"
  then have "p @ ''/'' @ drop (length p + 1) (role_key m n) = m @ ''/'' @ n"
    unfolding under_mount_def role_key_def by (metis append.assoc append_take_drop_id)
  then show "m = p" using append_slash_inj [of p m] assms by (simp add: segment_def)
next
  assume "m = p"
  then show "under_mount p (role_key m n)" using assms by (simp add: under_mount_def role_key_def)
qed

section \<open>The fake keeps the contract\<close>

interpretation fake: openbao_backend fake_client HasMount Config Role
proof (unfold_locales, goal_cases)
  case (12 w m m' r n)
  then show ?case using role_key_inj [of m' m n "jr_Name r"] by (auto simp: fake_defs)
next
  case (16 m m' n w n')
  then show ?case using role_key_inj [of m' m n' n] by (auto simp: fake_defs)
next
  case (22 p m n w)
  then show ?case using under_mount_role_key [of p m n] by (auto simp: fake_defs)
qed (auto simp: fake_defs fun_eq_iff split: if_splits)

end
