(* ===== verification/Replay.thy ===== *)
theory Replay
  imports System FakeClient
begin

text \<open>
  The log of a pass against the in-memory OpenBao of \<open>internal/openbao/fake.go\<close>. A world
  hosts it when the client calls act on it as the methods of \<open>FakeClient\<close> do and all other
  calls leave it alone. Then a log tells everything: the state of OpenBao after a pass is the
  replay of the log, and the answers in the log are the ones OpenBao gives along the replay.
\<close>

section \<open>Replaying a log\<close>

text \<open>What an OpenBao call of the log does to the in-memory OpenBao; other events do nothing.\<close>

definition apply_event :: "event \<Rightarrow> FakeClient \<Rightarrow> FakeClient" where
  "apply_event e f = (case e of
     BaoEnsureEntity _ n md _ \<Rightarrow> snd (Fake_EnsureEntity n md f)
   | BaoEnsureMount _ p _ \<Rightarrow> snd (Fake_EnsureJWTAuthMount p f)
   | BaoConfigure _ p c _ \<Rightarrow> snd (Fake_ConfigureJWTTrust p c f)
   | BaoEnsureRole _ m r _ \<Rightarrow> snd (Fake_EnsureJWTRole m r f)
   | BaoDeleteRole _ m n _ \<Rightarrow> snd (Fake_DeleteJWTRole m n f)
   | BaoDeleteMount _ p _ \<Rightarrow> snd (Fake_DeleteAuthMount p f)
   | _ \<Rightarrow> f)"

definition replay :: "event list \<Rightarrow> FakeClient \<Rightarrow> FakeClient" where
  "replay es f = fold apply_event es f"

lemma replay_simps [simp]:
  "replay [] f = f" "replay (e # es) f = replay es (apply_event e f)"
  "replay (es @ es') f = replay es' (replay es f)"
  by (simp_all add: replay_def)

text \<open>The answers in the log are the ones the in-memory OpenBao gives in the state reached.\<close>

definition answered :: "event \<Rightarrow> FakeClient \<Rightarrow> bool" where
  "answered e f = (case e of
     BaoHealth _ r \<Rightarrow> r = fst (Fake_Health f)
   | BaoPolicyExists _ n r \<Rightarrow> r = fst (Fake_PolicyExists n f)
   | BaoEnsureEntity _ n md r \<Rightarrow> r = fst (Fake_EnsureEntity n md f)
   | BaoEnsureMount _ p r \<Rightarrow> r = fst (Fake_EnsureJWTAuthMount p f)
   | BaoConfigure _ p c r \<Rightarrow> r = fst (Fake_ConfigureJWTTrust p c f)
   | BaoEnsureRole _ m role r \<Rightarrow> r = fst (Fake_EnsureJWTRole m role f)
   | BaoDeleteRole _ m n r \<Rightarrow> r = fst (Fake_DeleteJWTRole m n f)
   | BaoDeleteMount _ p r \<Rightarrow> r = fst (Fake_DeleteAuthMount p f)
   | _ \<Rightarrow> True)"

fun faithful :: "event list \<Rightarrow> FakeClient \<Rightarrow> bool" where
  "faithful [] f = True"
| "faithful (e # es) f = (answered e f \<and> faithful es (apply_event e f))"

lemma faithful_append [simp]: "faithful (es @ es') f \<longleftrightarrow> faithful es f \<and> faithful es' (replay es f)"
  by (induction es arbitrary: f) auto

text \<open>\<open>follows bao m\<close>: whatever the world, \<open>m\<close> moves its OpenBao as the calls it logs
  say, with the answers they have there.\<close>

definition follows :: "('w \<Rightarrow> FakeClient) \<Rightarrow> ('w, event, 'a) prog \<Rightarrow> bool" where
  "follows bao m \<longleftrightarrow> (\<forall>s. \<exists>es. trace (snd (run_state m s)) = trace s @ es \<and>
     bao (world (snd (run_state m s))) = replay es (bao (world s)) \<and> faithful es (bao (world s)))"

named_theorems follows_intros

lemma follows_return [follows_intros]: "follows bao (State_Monad.return x)"
  by (simp add: follows_def)

lemma follows_call [follows_intros]:
  assumes "\<And>w. bao (snd (oper w)) = replay (ev (fst (oper w))) (bao w) \<and> faithful (ev (fst (oper w))) (bao w)"
  shows "follows bao (call oper ev)"
  unfolding follows_def
proof
  fix s
  show "\<exists>es. trace (snd (run_state (call oper ev) s)) = trace s @ es \<and>
      bao (world (snd (run_state (call oper ev) s))) = replay es (bao (world s)) \<and> faithful es (bao (world s))"
    using assms [of "world s"] by (cases "oper (world s)") (simp add: run_state_call)
qed

lemma follows_bind:
  assumes "follows bao m" and "\<And>a. follows bao (f a)"
  shows "follows bao (State_Monad.bind m f)"
  unfolding follows_def
proof
  fix s
  obtain a s1 where m: "run_state m s = (a, s1)" by fastforce
  with assms(1) obtain es where es: "trace s1 = trace s @ es" "bao (world s1) = replay es (bao (world s))"
    "faithful es (bao (world s))"
    unfolding follows_def by (metis snd_conv)
  from assms(2) [of a] obtain es' where "trace (snd (run_state (f a) s1)) = trace s1 @ es'"
    "bao (world (snd (run_state (f a) s1))) = replay es' (bao (world s1))" "faithful es' (bao (world s1))"
    unfolding follows_def by blast
  with m es show "\<exists>es. trace (snd (run_state (State_Monad.bind m f) s)) = trace s @ es \<and>
      bao (world (snd (run_state (State_Monad.bind m f) s))) = replay es (bao (world s)) \<and> faithful es (bao (world s))"
    by (intro exI [of _ "es @ es'"]) simp
qed

lemma follows_call_bind [follows_intros]:
  fixes oper :: "'a \<Rightarrow> 'b \<times> 'a"
  assumes "\<And>w. bao (snd (oper w)) = replay (ev (fst (oper w))) (bao w) \<and> faithful (ev (fst (oper w))) (bao w)"
    and "\<And>r. answers oper r \<Longrightarrow> follows bao (f r)"
  shows "follows bao (State_Monad.bind (call oper ev) f)"
  unfolding follows_def
proof
  fix s :: "('a, event) sys"
  obtain r w' where r: "oper (world s) = (r, w')" by fastforce
  let ?s1 = "s\<lparr>world := w', trace := trace s @ ev r\<rparr>"
  have w': "bao w' = replay (ev r) (bao (world s))" "faithful (ev r) (bao (world s))" using assms(1) [of "world s"] r by simp_all
  have "follows bao (f r)" by (rule assms(2)) (use r in \<open>rule answers_intro\<close>)
  then obtain es' where "trace (snd (run_state (f r) ?s1)) = trace ?s1 @ es'"
    "bao (world (snd (run_state (f r) ?s1))) = replay es' (bao (world ?s1))" "faithful es' (bao (world ?s1))"
    unfolding follows_def by blast
  with r w' show "\<exists>es. trace (snd (run_state (State_Monad.bind (call oper ev) f) s)) = trace s @ es \<and>
      bao (world (snd (run_state (State_Monad.bind (call oper ev) f) s))) = replay es (bao (world s)) \<and> faithful es (bao (world s))"
    by (intro exI [of _ "ev r @ es'"]) (simp add: run_state_call)
qed

lemma follows_if [follows_intros]:
  "(b \<Longrightarrow> follows bao m) \<Longrightarrow> (\<not> b \<Longrightarrow> follows bao n) \<Longrightarrow> follows bao (if b then m else n)"
  by simp

lemma follows_case_sum [follows_intros]:
  "(\<And>e. x = Inl e \<Longrightarrow> follows bao (f e)) \<Longrightarrow> (\<And>a. x = Inr a \<Longrightarrow> follows bao (g a)) \<Longrightarrow>
   follows bao (case x of Inl e \<Rightarrow> f e | Inr a \<Rightarrow> g a)"
  by (cases x) auto

lemma follows_case_option [follows_intros]:
  "(x = None \<Longrightarrow> follows bao m) \<Longrightarrow> (\<And>a. x = Some a \<Longrightarrow> follows bao (g a)) \<Longrightarrow>
   follows bao (case x of None \<Rightarrow> m | Some a \<Rightarrow> g a)"
  by (cases x) auto

lemma follows_case_prod [follows_intros]:
  "(\<And>a b. x = (a, b) \<Longrightarrow> follows bao (f a b)) \<Longrightarrow> follows bao (case x of (a, b) \<Rightarrow> f a b)"
  by (cases x) auto

lemma follows_Let [follows_intros]: "(\<And>x. x = t \<Longrightarrow> follows bao (f x)) \<Longrightarrow> follows bao (Let t f)"
  by simp

lemma follows_log:
  assumes "follows bao m"
  shows "bao (run_world m w) = replay (run_log m w) (bao w)" "faithful (run_log m w) (bao w)"
proof -
  obtain es where "run_log m w = es" "bao (run_world m w) = replay es (bao w)" "faithful es (bao w)"
    using assms unfolding follows_def run_log_def run_world_def
    by (metis append_Nil sys.select_convs)
  then show "bao (run_world m w) = replay (run_log m w) (bao w)" "faithful (run_log m w) (bao w)" by simp_all
qed

section \<open>An environment over the in-memory OpenBao\<close>

text \<open>A call that leaves OpenBao alone, and one that acts on it as a method of the fake.\<close>

definition quiet :: "('w \<Rightarrow> FakeClient) \<Rightarrow> ('w \<Rightarrow> 'r \<times> 'w) \<Rightarrow> bool" where
  "quiet bao oper \<longleftrightarrow> (\<forall>w. bao (snd (oper w)) = bao w)"

definition hosts :: "('w \<Rightarrow> FakeClient) \<Rightarrow> (FakeClient \<Rightarrow> 'r \<times> FakeClient) \<Rightarrow> ('w \<Rightarrow> 'r \<times> 'w) \<Rightarrow> bool" where
  "hosts bao fake oper \<longleftrightarrow> (\<forall>w. fst (oper w) = fst (fake (bao w)) \<and> bao (snd (oper w)) = snd (fake (bao w)))"

definition client_hosted :: "('w \<Rightarrow> FakeClient) \<Rightarrow> 'w Client \<Rightarrow> bool" where
  "client_hosted bao cl \<longleftrightarrow>
     hosts bao Fake_Health (cl_Health cl) \<and>
     (\<forall>n md. hosts bao (Fake_EnsureEntity n md) (cl_EnsureEntity cl n md)) \<and>
     (\<forall>p. hosts bao (Fake_EnsureJWTAuthMount p) (cl_EnsureJWTAuthMount cl p)) \<and>
     (\<forall>p c. hosts bao (Fake_ConfigureJWTTrust p c) (cl_ConfigureJWTTrust cl p c)) \<and>
     (\<forall>m r. hosts bao (Fake_EnsureJWTRole m r) (cl_EnsureJWTRole cl m r)) \<and>
     (\<forall>m n. hosts bao (Fake_DeleteJWTRole m n) (cl_DeleteJWTRole cl m n)) \<and>
     (\<forall>p. hosts bao (Fake_DeleteAuthMount p) (cl_DeleteAuthMount cl p)) \<and>
     (\<forall>n. hosts bao (Fake_PolicyExists n) (cl_PolicyExists cl n))"

definition factory_hosted :: "('w \<Rightarrow> FakeClient) \<Rightarrow> 'w OpenBaoClientFactory \<Rightarrow> bool" where
  "factory_hosted bao f \<longleftrightarrow>
     (\<forall>i. quiet bao (f i)) \<and> (\<forall>i cl. answers (f i) (Inr cl) \<longrightarrow> client_hosted bao cl)"

definition cluster_quiet :: "('w \<Rightarrow> FakeClient) \<Rightarrow> 'w Cluster \<Rightarrow> bool" where
  "cluster_quiet bao c \<longleftrightarrow>
     (\<forall>ns n. quiet bao (kc_GetOpenBaoInstance c ns n) \<and> quiet bao (kc_GetServiceConfig c ns n) \<and>
        quiet bao (kc_GetProjectEntity c ns n) \<and> quiet bao (kc_GetControlPlaneTrust c ns n) \<and>
        quiet bao (kc_GetControlPlaneEntity c ns n) \<and> quiet bao (kc_GetPolicyBinding c ns n) \<and>
        quiet bao (kc_GetControlPlane c ns n)) \<and>
     (\<forall>ns. quiet bao (kc_ListControlPlaneTrusts c ns)) \<and>
     (\<forall>x. quiet bao (kc_UpdateControlPlaneTrust c x)) \<and> (\<forall>x. quiet bao (kc_UpdatePolicyBinding c x)) \<and>
     (\<forall>x. quiet bao (kc_StatusOpenBaoInstance c x)) \<and> (\<forall>x. quiet bao (kc_StatusProjectEntity c x)) \<and>
     (\<forall>x. quiet bao (kc_StatusControlPlaneTrust c x)) \<and> (\<forall>x. quiet bao (kc_StatusControlPlaneEntity c x)) \<and>
     (\<forall>x. quiet bao (kc_StatusPolicyBinding c x)) \<and>
     (\<forall>cs. kc_NewForConfig c = Inr cs \<longrightarrow>
        (\<forall>ns n. quiet bao (cs_GetServiceAccount cs ns n)) \<and>
        (\<forall>ns n t. quiet bao (cs_CreateToken cs ns n t)))"

definition env_quiet :: "('w \<Rightarrow> FakeClient) \<Rightarrow> 'w env \<Rightarrow> bool" where
  "env_quiet bao env \<longleftrightarrow> (\<forall>a. quiet bao (env_WaitForClusterAccess env a)) \<and>
     (\<forall>a c. answers (env_WaitForClusterAccess env a) (Inr c) \<longrightarrow> cluster_quiet bao c)"


lemma quietD: "quiet bao oper \<Longrightarrow> bao (snd (oper w)) = bao w"
  by (simp add: quiet_def)

lemma client_hostedD:
  assumes "client_hosted bao cl"
  shows "bao (snd (cl_Health cl w)) = bao w"
    "bao (snd (cl_EnsureEntity cl n md w)) = snd (Fake_EnsureEntity n md (bao w))"
    "bao (snd (cl_EnsureJWTAuthMount cl p w)) = snd (Fake_EnsureJWTAuthMount p (bao w))"
    "bao (snd (cl_ConfigureJWTTrust cl p c w)) = snd (Fake_ConfigureJWTTrust p c (bao w))"
    "bao (snd (cl_EnsureJWTRole cl m r w)) = snd (Fake_EnsureJWTRole m r (bao w))"
    "bao (snd (cl_DeleteJWTRole cl m n w)) = snd (Fake_DeleteJWTRole m n (bao w))"
    "bao (snd (cl_DeleteAuthMount cl p w)) = snd (Fake_DeleteAuthMount p (bao w))"
    "bao (snd (cl_PolicyExists cl n w)) = bao w"
    "fst (cl_Health cl w) = fst (Fake_Health (bao w))"
    "fst (cl_EnsureEntity cl n md w) = fst (Fake_EnsureEntity n md (bao w))"
    "fst (cl_EnsureJWTAuthMount cl p w) = fst (Fake_EnsureJWTAuthMount p (bao w))"
    "fst (cl_ConfigureJWTTrust cl p c w) = fst (Fake_ConfigureJWTTrust p c (bao w))"
    "fst (cl_EnsureJWTRole cl m r w) = fst (Fake_EnsureJWTRole m r (bao w))"
    "fst (cl_DeleteJWTRole cl m n w) = fst (Fake_DeleteJWTRole m n (bao w))"
    "fst (cl_DeleteAuthMount cl p w) = fst (Fake_DeleteAuthMount p (bao w))"
    "fst (cl_PolicyExists cl n w) = fst (Fake_PolicyExists n (bao w))"
  using assms by (simp_all add: client_hosted_def hosts_def Fake_Health_def Fake_PolicyExists_def split: option.splits)

lemma cluster_quietD:
  assumes "cluster_quiet bao c"
  shows "bao (snd (kc_GetOpenBaoInstance c ns n w)) = bao w" "bao (snd (kc_GetServiceConfig c ns n w)) = bao w"
    "bao (snd (kc_GetProjectEntity c ns n w)) = bao w" "bao (snd (kc_GetControlPlaneTrust c ns n w)) = bao w"
    "bao (snd (kc_GetControlPlaneEntity c ns n w)) = bao w" "bao (snd (kc_GetPolicyBinding c ns n w)) = bao w"
    "bao (snd (kc_GetControlPlane c ns n w)) = bao w" "bao (snd (kc_ListControlPlaneTrusts c sel w)) = bao w"
    "bao (snd (kc_UpdateControlPlaneTrust c t w)) = bao w" "bao (snd (kc_UpdatePolicyBinding c pb w)) = bao w"
    "bao (snd (kc_StatusOpenBaoInstance c oi w)) = bao w" "bao (snd (kc_StatusProjectEntity c pe w)) = bao w"
    "bao (snd (kc_StatusControlPlaneTrust c t w)) = bao w" "bao (snd (kc_StatusControlPlaneEntity c ce w)) = bao w"
    "bao (snd (kc_StatusPolicyBinding c pb w)) = bao w"
    "kc_NewForConfig c = Inr cs \<Longrightarrow> bao (snd (cs_GetServiceAccount cs ns n w)) = bao w"
    "kc_NewForConfig c = Inr cs \<Longrightarrow> bao (snd (cs_CreateToken cs ns n tr w)) = bao w"
  using assms by (auto simp: cluster_quiet_def intro!: quietD)

lemma quiet_reads:
  assumes "cluster_quiet bao c"
  shows "bao (snd (getServiceConfig k c p w)) = bao w" "bao (snd (getOpenBaoInstance k c n w)) = bao w"
    "bao (snd (getControlPlane k c ns n w)) = bao w"
  using cluster_quietD(1) [OF assms, of "[]" n w] cluster_quietD(2) [OF assms, of "[]" p w]
    cluster_quietD(7) [OF assms, of ns n w]
  by (auto simp: getServiceConfig_def getOpenBaoInstance_def getControlPlane_def split: sum.splits prod.splits option.splits)

lemma factory_hostedD:
  assumes "factory_hosted bao f"
  shows "bao (snd (f i w)) = bao w" "answers (f i) (Inr cl) \<Longrightarrow> client_hosted bao cl"
  using assms by (auto simp: factory_hosted_def intro: quietD)

lemmas hosted_rules = cluster_quietD quiet_reads factory_hostedD client_hostedD

lemma apply_event_simps [simp]:
  "apply_event (GotOpenBaoInstance n oi) f = f" "apply_event (GotServiceConfig p sc) f = f"
  "apply_event (GotProjectEntity ns n pe) f = f" "apply_event (GotControlPlaneTrust ns n t) f = f"
  "apply_event (GotControlPlaneEntity ns n ce) f = f" "apply_event (GotPolicyBinding ns n pb) f = f"
  "apply_event (GotControlPlane ns n cp) f = f" "apply_event (ListedControlPlaneTrusts sel ts) f = f"
  "apply_event (UpdatedControlPlaneTrust t' t) f = f" "apply_event (UpdatedPolicyBinding pb' pb) f = f"
  "apply_event (StatusOpenBaoInstance x u) f = f" "apply_event (StatusProjectEntity y u) f = f"
  "apply_event (StatusControlPlaneTrust t' u) f = f" "apply_event (StatusControlPlaneEntity z u) f = f"
  "apply_event (StatusPolicyBinding pb' u) f = f" "apply_event (BuiltClient i e) f = f"
  "apply_event (BaoHealth i h) f = f" "apply_event (BaoPolicyExists i n x') f = f"
  "apply_event (ClusterAccess a e) f = f" "apply_event (GotServiceAccount ns n v) f = f"
  "apply_event (CreatedToken ns n tr e) f = f"
  "apply_event (BaoEnsureEntity i n md r1) f = snd (Fake_EnsureEntity n md f)"
  "apply_event (BaoEnsureMount i p r2) f = snd (Fake_EnsureJWTAuthMount p f)"
  "apply_event (BaoConfigure i p c r2) f = snd (Fake_ConfigureJWTTrust p c f)"
  "apply_event (BaoEnsureRole i m r r2) f = snd (Fake_EnsureJWTRole m r f)"
  "apply_event (BaoDeleteRole i m n r2) f = snd (Fake_DeleteJWTRole m n f)"
  "apply_event (BaoDeleteMount i p r2) f = snd (Fake_DeleteAuthMount p f)"
  by (simp_all add: apply_event_def)

lemma answered_simps [simp]:
  "answered (GotOpenBaoInstance n oi) f"
  "answered (GotServiceConfig p sc) f"
  "answered (GotProjectEntity ns n pe) f"
  "answered (GotControlPlaneTrust ns n t) f"
  "answered (GotControlPlaneEntity ns n ce) f"
  "answered (GotPolicyBinding ns n pb) f"
  "answered (GotControlPlane ns n cp) f"
  "answered (ListedControlPlaneTrusts sel ts) f"
  "answered (UpdatedControlPlaneTrust t' t) f"
  "answered (UpdatedPolicyBinding pb' pb) f"
  "answered (StatusOpenBaoInstance x u) f"
  "answered (StatusProjectEntity y u) f"
  "answered (StatusControlPlaneTrust t' u) f"
  "answered (StatusControlPlaneEntity z u) f"
  "answered (StatusPolicyBinding pb' u) f"
  "answered (BuiltClient i e) f"
  "answered (ClusterAccess a e) f"
  "answered (GotServiceAccount ns n v) f"
  "answered (CreatedToken ns n tr e) f"
  "answered (BaoHealth i r0) f \<longleftrightarrow> r0 = fst (Fake_Health f)"
  "answered (BaoPolicyExists i n r3) f \<longleftrightarrow> r3 = fst (Fake_PolicyExists n f)"
  "answered (BaoEnsureEntity i n md r1) f \<longleftrightarrow> r1 = fst (Fake_EnsureEntity n md f)"
  "answered (BaoEnsureMount i p r2) f \<longleftrightarrow> r2 = fst (Fake_EnsureJWTAuthMount p f)"
  "answered (BaoConfigure i p c r2) f \<longleftrightarrow> r2 = fst (Fake_ConfigureJWTTrust p c f)"
  "answered (BaoEnsureRole i m r r2) f \<longleftrightarrow> r2 = fst (Fake_EnsureJWTRole m r f)"
  "answered (BaoDeleteRole i m n r2) f \<longleftrightarrow> r2 = fst (Fake_DeleteJWTRole m n f)"
  "answered (BaoDeleteMount i p r2) f \<longleftrightarrow> r2 = fst (Fake_DeleteAuthMount p f)"
  by (simp_all add: answered_def)

section \<open>The reconcilers\<close>

lemma follows_OI:
  assumes "cluster_quiet bao (ir_PlatformCluster R)" "factory_hosted bao (ir_ClientFactory R)"
  shows "follows bao (OI_Reconcile k R ns nm)"
  unfolding OI_Reconcile_def OI_patchStatus_def
  by (intro follows_intros) (simp_all add: cluster_quietD [OF assms(1)] quiet_reads [OF assms(1)] factory_hostedD(1) [OF assms(2)] client_hostedD [OF factory_hostedD(2) [OF assms(2)]])


lemma follows_PE:
  assumes "cluster_quiet bao (er_PlatformCluster R)" "cluster_quiet bao (er_OnboardingCluster R)"
    "factory_hosted bao (er_ClientFactory R)"
  shows "follows bao (PE_Reconcile k R ns nm)"
  unfolding PE_Reconcile_def PE_patchStatus_def
  by (intro follows_intros) (simp_all add: cluster_quietD [OF assms(1)] quiet_reads [OF assms(1)] cluster_quietD [OF assms(2)] quiet_reads [OF assms(2)] factory_hostedD(1) [OF assms(3)] client_hostedD [OF factory_hostedD(2) [OF assms(3)]])

lemma follows_CT:
  assumes "cluster_quiet bao (tr_PlatformCluster R)" "cluster_quiet bao (tr_OnboardingCluster R)"
    "factory_hosted bao (tr_ClientFactory R)"
  shows "follows bao (CT_Reconcile k R ns nm)"
  unfolding CT_defs CT_patchStatus_def
  by (intro follows_intros) (simp_all add: cluster_quietD [OF assms(1)] quiet_reads [OF assms(1)] cluster_quietD [OF assms(2)] quiet_reads [OF assms(2)] factory_hostedD(1) [OF assms(3)] client_hostedD [OF factory_hostedD(2) [OF assms(3)]])

lemma follows_cluster_access:
  assumes "env_quiet bao env"
  shows "follows bao (controlPlaneClusterAccess k env p cp perms)"
  unfolding controlPlaneClusterAccess_def
  by (intro follows_intros) (use assms in \<open>simp_all add: env_quiet_def quietD\<close>)

lemma follows_identity:
  assumes "cluster_quiet bao c"
  shows "follows bao (resolveServiceAccountIdentity k c a b ns nm aud)"
  unfolding resolveServiceAccountIdentity_def
  by (intro follows_intros) (use assms cluster_quietD [where bao = bao] in simp_all)


lemma follows_bind_result:
  assumes "follows bao m" and "spec m S" and "\<And>a es. S a es \<Longrightarrow> follows bao (f a)"
  shows "follows bao (State_Monad.bind m f)"
  unfolding follows_def
proof
  fix s
  obtain a s1 where m: "run_state m s = (a, s1)" by fastforce
  with assms(1) obtain es where es: "trace s1 = trace s @ es" "bao (world s1) = replay es (bao (world s))"
    "faithful es (bao (world s))"
    unfolding follows_def by (metis snd_conv)
  have "follows bao (f a)" using assms(2,3) m unfolding spec_def by (metis fst_conv)
  then obtain es' where "trace (snd (run_state (f a) s1)) = trace s1 @ es'"
    "bao (world (snd (run_state (f a) s1))) = replay es' (bao (world s1))" "faithful es' (bao (world s1))"
    unfolding follows_def by blast
  with m es show "\<exists>es. trace (snd (run_state (State_Monad.bind m f) s)) = trace s @ es \<and>
      bao (world (snd (run_state (State_Monad.bind m f) s))) = replay es (bao (world s)) \<and> faithful es (bao (world s))"
    by (intro exI [of _ "es @ es'"]) simp
qed

lemma spec_cluster_access:
  assumes "env_quiet bao env"
  shows "spec (controlPlaneClusterAccess k env p cp perms) (\<lambda>r _. \<forall>c. r = Inr c \<longrightarrow> cluster_quiet bao c)"
  unfolding controlPlaneClusterAccess_def
  by (intro spec_intros) (use assms in \<open>auto simp: env_quiet_def\<close>)

lemma follows_CE:
  assumes "cluster_quiet bao (nr_PlatformCluster R)" "cluster_quiet bao (nr_OnboardingCluster R)" "env_quiet bao env"
  shows "follows bao (CE_Reconcile k env R ns nm)"
  unfolding CE_Reconcile_def CE_identify_def CE_patchStatus_def
  by (intro follows_intros follows_bind_result [OF follows_cluster_access spec_cluster_access]
      follows_bind [OF follows_identity])
    (simp_all add: assms(3) cluster_quietD [OF assms(1)] quiet_reads [OF assms(1)] cluster_quietD [OF assms(2)] quiet_reads [OF assms(2)])

lemma follows_PB_round:
  assumes "cluster_quiet bao (br_PlatformCluster R)" "cluster_quiet bao (br_OnboardingCluster R)"
    "factory_hosted bao (br_ClientFactory R)"
  shows "follows bao (PB_round k R pb ref acc)"
  unfolding PB_round_def PB_writeRole_def
  by (intro follows_intros) (simp_all add: cluster_quietD [OF assms(1)] quiet_reads [OF assms(1)] cluster_quietD [OF assms(2)] quiet_reads [OF assms(2)] factory_hostedD(1) [OF assms(3)] client_hostedD [OF factory_hostedD(2) [OF assms(3)]])

lemma follows_PB_rounds:
  assumes "cluster_quiet bao (br_PlatformCluster R)" "cluster_quiet bao (br_OnboardingCluster R)"
    "factory_hosted bao (br_ClientFactory R)"
  shows "follows bao (PB_rounds k R pb refs acc)"
  by (induction refs arbitrary: acc)
    (auto intro!: follows_intros follows_bind [OF follows_PB_round [OF assms]])

lemma follows_PB_deleteRole:
  assumes "cluster_quiet bao (br_PlatformCluster R)" "cluster_quiet bao (br_OnboardingCluster R)"
    "factory_hosted bao (br_ClientFactory R)"
  shows "follows bao (PB_deleteRole k R pb rs)"
proof -
  have "follows bao (PB_findTrustForAuthMount R a m)" for a m
    unfolding PB_findTrustForAuthMount_def
    by (intro follows_intros) (use cluster_quietD [where bao = bao] assms in simp_all)
  then show ?thesis
    unfolding PB_deleteRole_def
    by (intro follows_intros follows_bind) (simp_all add: cluster_quietD [OF assms(1)] quiet_reads [OF assms(1)] cluster_quietD [OF assms(2)] quiet_reads [OF assms(2)] factory_hostedD(1) [OF assms(3)] client_hostedD [OF factory_hostedD(2) [OF assms(3)]])
qed

lemma follows_PB_deleteRoles:
  assumes "cluster_quiet bao (br_PlatformCluster R)" "cluster_quiet bao (br_OnboardingCluster R)"
    "factory_hosted bao (br_ClientFactory R)"
  shows "follows bao (PB_deleteRoles k R pb rss)"
  by (induction rss) (auto intro!: follows_intros follows_bind [OF follows_PB_deleteRole [OF assms]])

lemma follows_PB:
  assumes "cluster_quiet bao (br_PlatformCluster R)" "cluster_quiet bao (br_OnboardingCluster R)"
    "factory_hosted bao (br_ClientFactory R)"
  shows "follows bao (PB_Reconcile k R ns nm)"
  unfolding PB_Reconcile_def PB_sync_def PB_reconcileDelete_def PB_finishDelete_def PB_patchStatus_def
  by (intro follows_intros follows_bind [OF follows_PB_rounds [OF assms]] follows_bind [OF follows_PB_deleteRoles [OF assms]])
    (simp_all add: cluster_quietD [OF assms(1)] quiet_reads [OF assms(1)] cluster_quietD [OF assms(2)] quiet_reads [OF assms(2)] factory_hostedD(1) [OF assms(3)] client_hostedD [OF factory_hostedD(2) [OF assms(3)]])


definition service_hosted :: "('w \<Rightarrow> FakeClient) \<Rightarrow> 'w env \<Rightarrow> 'w service \<Rightarrow> bool" where
  "service_hosted bao env S \<longleftrightarrow> env_quiet bao env \<and>
     list_all (cluster_quiet bao)
       [ir_PlatformCluster (sv_Instance S), er_PlatformCluster (sv_ProjectEntity S),
        er_OnboardingCluster (sv_ProjectEntity S), tr_PlatformCluster (sv_Trust S),
        tr_OnboardingCluster (sv_Trust S), nr_PlatformCluster (sv_Entity S),
        nr_OnboardingCluster (sv_Entity S), br_PlatformCluster (sv_Binding S),
        br_OnboardingCluster (sv_Binding S)] \<and>
     list_all (factory_hosted bao)
       [ir_ClientFactory (sv_Instance S), er_ClientFactory (sv_ProjectEntity S),
        tr_ClientFactory (sv_Trust S), br_ClientFactory (sv_Binding S)]"

lemma follows_service:
  assumes "service_hosted bao env S"
  shows "follows bao (service_handle k env S q)"
  using assms
  by (cases q) (simp_all add: service_hosted_def service_handle_def follows_OI follows_PE follows_CT
      follows_CE follows_PB)

lemma follows_queue:
  assumes "\<And>q. follows bao (h q)"
  shows "follows bao (run_queue h qs)"
  by (induction qs) (auto intro!: follows_intros follows_bind [OF assms] follows_bind)

lemma follows_service_queue:
  assumes "service_hosted bao env S"
  shows "follows bao (run_queue (service_handle k env S) qs)"
  by (rule follows_queue) (rule follows_service [OF assms])

section \<open>The state that safe writes reach\<close>

definition bao_safe :: "FakeClient \<Rightarrow> bool" where
  "bao_safe f \<longleftrightarrow>
     (\<forall>p v. fmlookup (fk_mounts f) p = Some v \<longrightarrow> v \<and> valid_name 60 p) \<and>
     (\<forall>p c. fmlookup (fk_configs f) p = Some c \<longrightarrow> HasMount f p \<and> safe_config c) \<and>
     (\<forall>x r. fmlookup (fk_roles f) x = Some r \<longrightarrow>
        safe_role r \<and> (\<exists>m. HasMount f m \<and> x = role_key m (jr_Name r))) \<and>
     (\<forall>n i. fmlookup (fk_entities f) n = Some i \<longrightarrow> valid_name 60 n \<and> i = ''entity-'' @ n)"

lemma under_own_mount: "n \<noteq> [] \<Longrightarrow> under_mount m (role_key m n)"
  by (simp add: under_mount_def role_key_def)

lemma HasMount_iff: "HasMount f p \<longleftrightarrow> fmlookup (fk_mounts f) p = Some True"
  by (simp add: HasMount_def map_read_def split: option.splits)

lemma safe_role_named: "safe_role r \<Longrightarrow> jr_Name r \<noteq> []"
  by (simp add: safe_role_def valid_name_def)

lemma bao_safe_apply:
  assumes "bao_safe f" "safe_write e"
  shows "bao_safe (apply_event e f)"
proof (cases e)
  case (BaoEnsureEntity i n md r)
  then show ?thesis
    using assms by (auto simp: bao_safe_def safe_write_def Fake_EnsureEntity_def HasMount_iff Let_def)
next
  case (BaoEnsureMount i p r)
  then show ?thesis
    using assms unfolding bao_safe_def HasMount_iff
    by (auto simp: safe_write_def Fake_EnsureJWTAuthMount_def) metis
next
  case (BaoConfigure i p c r)
  then show ?thesis
    using assms unfolding bao_safe_def HasMount_iff
    by (auto simp: safe_write_def Fake_ConfigureJWTTrust_def map_read_def split: option.splits)
next
  case (BaoEnsureRole i m role r)
  then show ?thesis
    using assms unfolding bao_safe_def HasMount_iff
    by (auto simp: safe_write_def Fake_EnsureJWTRole_def map_read_def split: option.splits)
next
  case (BaoDeleteRole i m n r)
  then show ?thesis
    using assms unfolding bao_safe_def HasMount_iff by (auto simp: Fake_DeleteJWTRole_def)
next
  case (BaoDeleteMount i p r)
  then show ?thesis
    using assms unfolding bao_safe_def HasMount_iff
    by (auto simp: Fake_DeleteAuthMount_def dest!: safe_role_named)
       (metis under_own_mount safe_role_named)
qed (use assms in simp_all)

lemma bao_safe_replay: "bao_safe f \<Longrightarrow> list_all safe_write es \<Longrightarrow> bao_safe (replay es f)"
  by (induction es arbitrary: f) (simp_all add: bao_safe_apply)

section \<open>Properties\<close>

text \<open>C9. Invariant of OpenBao: if every mount and entity has a valid name, every configuration and
  role sits under an existing mount, every configuration trusts one issuer and every role
  grants one policy to a bound subject, then this still holds after any sequence of passes.\<close>

theorem openbao_stays_safe:
  assumes "service_hosted bao env S" and "bao_safe (bao w)"
  shows "bao_safe (bao (run_world (run_queue (service_handle k env S) qs) w))"
  unfolding follows_log(1) [OF follows_service_queue [OF assms(1)]]
  by (rule bao_safe_replay [OF assms(2) spec_run [OF service_controller.queue_spec]])

end
