(* ===== verification/BindingRuns.thy ===== *)
theory BindingRuns
  imports CtlBinding
begin

text \<open>
  The runs of the PolicyBinding reconciler. The logs its parts can produce are the inductive
  predicates \<open>rounds_log\<close>, \<open>sync_log\<close>, \<open>delete_log\<close> and \<open>binding_log\<close>; every
  run of \<open>PB_Reconcile\<close> is shown to be such a log, whatever the environment answers, and
  the properties follow by case analysis on it.
\<close>

section \<open>Parts\<close>


lemma spec_PB_patchStatus [spec_intros]:
  assumes "\<And>r. T (case r of Inl err \<Rightarrow> Inl (Errorf_w ''updating PolicyBinding status'' err)
              | Inr _ \<Rightarrow> Inr (requeueResult (Some cfg))) [StatusPolicyBinding t r]"
  shows "spec (PB_patchStatus R t cfg) T"
  unfolding PB_patchStatus_def
  by (intro spec_intros) (use assms in \<open>auto split: sum.splits, (metis append_Nil2 sum.case)+\<close>)

lemma PB_map_conditions_sel [simp]:
  "pb_Meta (PB_map_conditions f t) = pb_Meta t" "pb_Spec (PB_map_conditions f t) = pb_Spec t"
  "pbst_Conditions (pb_Status (PB_map_conditions f t)) = f (pbst_Conditions (pb_Status t))"
  "pbst_Roles (pb_Status (PB_map_conditions f t)) = pbst_Roles (pb_Status t)"
  "pbst_PolicyExists (pb_Status (PB_map_conditions f t)) = pbst_PolicyExists (pb_Status t)"
  by (simp_all add: PB_map_conditions_def)

lemma PB_publish_sel [simp]:
  "pb_Meta (PB_publishPolicy k acc t) = pb_Meta t" "pb_Spec (PB_publishPolicy k acc t) = pb_Spec t"
  "pbst_Roles (pb_Status (PB_publishPolicy k acc t)) = pbst_Roles (pb_Status t)"
  "pb_Meta (PB_publishReady k acc t) = pb_Meta t" "pb_Spec (PB_publishReady k acc t) = pb_Spec t"
  "pbst_Roles (pb_Status (PB_publishReady k acc t)) = pbst_Roles (pb_Status t)"
  "pbst_PolicyExists (pb_Status (PB_publishReady k acc t)) = pbst_PolicyExists (pb_Status t)"
  by (simp_all add: PB_publishPolicy_def PB_policyCondition_def PB_publishReady_def Let_def)

text \<open>The log of a sequence of rounds, cut into the logs of the rounds.\<close>

inductive rounds_log ::
    "(LocalObjectReference \<Rightarrow> pb_loop \<Rightarrow> goerr + pb_loop \<Rightarrow> event list \<Rightarrow> bool) \<Rightarrow>
     LocalObjectReference list \<Rightarrow> pb_loop \<Rightarrow> goerr + pb_loop \<Rightarrow> event list \<Rightarrow> bool"
  for S where
  rounds_done: "rounds_log S [] acc (Inr acc) []"
| rounds_stop: "S ref acc (Inl e) es \<Longrightarrow> rounds_log S (ref # refs) acc (Inl e) es"
| rounds_next: "S ref acc (Inr acc') es \<Longrightarrow> rounds_log S refs acc' r es' \<Longrightarrow>
     rounds_log S (ref # refs) acc r (es @ es')"

lemma spec_PB_rounds:
  assumes "\<And>ref acc. spec (PB_round k R pb ref acc) (S ref acc)"
  shows "spec (PB_rounds k R pb refs acc) (rounds_log S refs acc)"
proof (induction refs arbitrary: acc)
  case Nil
  show ?case by (auto intro: spec_intros rounds_done)
next
  case (Cons ref refs)
  show ?case unfolding PB_rounds.simps
  proof (rule spec_bind [OF assms])
    fix r es
    assume S: "S ref acc r es"
    show "spec (case r of Inl err \<Rightarrow> State_Monad.return (Inl err) | Inr acc \<Rightarrow> PB_rounds k R pb refs acc)
       (\<lambda>b es'. rounds_log S (ref # refs) acc b (es @ es'))"
    proof (cases r)
      case (Inl e)
      with S show ?thesis by (auto intro!: spec_return rounds_stop)
    next
      case (Inr acc')
      with S Cons.IH [of acc'] show ?thesis by (auto intro: spec_mono rounds_next)
    qed
  qed
qed

lemma PB_block_sel [simp]:
  "pbr_ControlPlaneEntityRef (fst (PB_block m q)) = pbr_ControlPlaneEntityRef (fst q)"
  "pbr_RoleName (fst (PB_block m q)) = pbr_RoleName (fst q)"
  "pbr_AuthMountPath (fst (PB_block m q)) = pbr_AuthMountPath (fst q)"
  "pbr_Ready (fst (PB_block m q)) = pbr_Ready (fst q)"
  "pbr_Message (fst (PB_block m q)) = m"
  "lp_Roles (snd (PB_block m q)) = lp_Roles (snd q)"
  "\<not> lp_AllRolesReady (snd (PB_block m q))"
  "lp_DependencyMissing (snd (PB_block m q)) = lp_DependencyMissing (snd q)"
  "lp_PolicyKnown (snd (PB_block m q)) = lp_PolicyKnown (snd q)"
  "lp_PolicyExists (snd (PB_block m q)) = lp_PolicyExists (snd q)"
  "lp_PolicyChecked (snd (PB_block m q)) = lp_PolicyChecked (snd q)"
  by (simp_all add: PB_block_def split: prod.splits)

lemma PB_push_sel [simp]:
  "lp_Roles (PB_push q) = lp_Roles (snd q) @ [fst q]"
  "lp_AllRolesReady (PB_push q) = lp_AllRolesReady (snd q)"
  "lp_DependencyMissing (PB_push q) = lp_DependencyMissing (snd q)"
  "lp_PolicyKnown (PB_push q) = lp_PolicyKnown (snd q)"
  "lp_PolicyExists (PB_push q) = lp_PolicyExists (snd q)"
  "lp_PolicyChecked (PB_push q) = lp_PolicyChecked (snd q)"
  by (simp_all add: PB_push_def split: prod.splits)

definition policy_fine :: "goerr + PolicyExistence \<Rightarrow> bool" where
  "policy_fine r \<longleftrightarrow> (case r of Inl _ \<Rightarrow> False | Inr x \<Rightarrow> px_Known x \<longrightarrow> px_Exists x)"

lemma PB_policy_switch_sel [simp]:
  "pbr_ControlPlaneEntityRef (fst (PB_policy_switch k n r q)) = pbr_ControlPlaneEntityRef (fst q)"
  "pbr_RoleName (fst (PB_policy_switch k n r q)) = pbr_RoleName (fst q)"
  "pbr_AuthMountPath (fst (PB_policy_switch k n r q)) = pbr_AuthMountPath (fst q)"
  "pbr_Ready (fst (PB_policy_switch k n r q)) = pbr_Ready (fst q)"
  "policy_fine r \<Longrightarrow> pbr_Message (fst (PB_policy_switch k n r q)) = pbr_Message (fst q)"
  "lp_Roles (snd (PB_policy_switch k n r q)) = lp_Roles (snd q)"
  "lp_AllRolesReady (snd (PB_policy_switch k n r q)) \<longleftrightarrow> lp_AllRolesReady (snd q) \<and> policy_fine r"
  "lp_DependencyMissing (snd (PB_policy_switch k n r q)) = lp_DependencyMissing (snd q)"
  "lp_PolicyKnown (snd (PB_policy_switch k n r q)) \<longleftrightarrow>
     lp_PolicyKnown (snd q) \<and> (\<exists>x. r = Inr x \<and> px_Known x)"
  "lp_PolicyExists (snd (PB_policy_switch k n r q)) \<longleftrightarrow>
     lp_PolicyExists (snd q) \<and> (\<forall>x. r = Inr x \<longrightarrow> px_Known x \<longrightarrow> px_Exists x)"
  "lp_PolicyChecked (snd (PB_policy_switch k n r q))"
  by (auto simp: PB_policy_switch_def Let_def policy_fine_def split: prod.splits sum.splits)

text \<open>The log shows where a role that is written comes from.\<close>

definition role_origin ::
    "klib \<Rightarrow> PolicyBinding \<Rightarrow> LocalObjectReference list \<Rightarrow> event list \<Rightarrow> OpenBaoInstance \<Rightarrow> string \<Rightarrow>
     JWTRole \<Rightarrow> bool" where
  "role_origin k pb refs es inst mount role \<longleftrightarrow>
     (\<exists>ref \<in> set refs. \<exists>ce identity trust.
        GotControlPlaneEntity (om_Namespace (pb_Meta pb)) (lor_Name ref) (Inr ce) \<in> set es \<and>
        isConditionTrue k (cest_Conditions (ce_Status ce)) ConditionIdentityResolved \<and>
        cest_Identity (ce_Status ce) = Some identity \<and> sai_Subject identity \<noteq> [] \<and>
        GotControlPlaneTrust (om_Namespace (pb_Meta pb)) (lor_Name (ces_ControlPlaneTrustRef (ce_Spec ce)))
          (Inr trust) \<in> set es \<and>
        isConditionTrue k (ctst_Conditions (ct_Status trust)) ConditionTrustConfigured \<and>
        mount = ctst_AuthMountPath (ct_Status trust) \<and> mount \<noteq> [] \<and>
        GotOpenBaoInstance (ctst_ResolvedOpenBaoInstance (ct_Status trust)) (Inr (Some inst)) \<in> set es \<and>
        isInstanceReachable k (Some inst) \<and>
        role = \<lparr>jr_Name = RoleName (om_Namespace (pb_Meta pb)) (om_Name (pb_Meta pb) @ ''-'' @ lor_Name ref),
          jr_RoleType = ''jwt'', jr_BoundAudiences = [ctst_Audience (ct_Status trust)],
          jr_BoundSubject = sai_Subject identity, jr_BoundClaims = fmempty, jr_UserClaim = ''sub'',
          jr_TokenPolicies = [pbs_PolicyName (pb_Spec pb)],
          jr_TokenTTL = pbs_TTL (pb_Spec pb), jr_TokenMaxTTL = pbs_MaxTTL (pb_Spec pb)\<rparr>)"

definition role_write_ok ::
    "klib \<Rightarrow> PolicyBinding \<Rightarrow> LocalObjectReference list \<Rightarrow> event list \<Rightarrow> event \<Rightarrow> bool" where
  "role_write_ok k pb refs es e = (case e of
     BaoEnsureRole inst mount role _ \<Rightarrow> role_origin k pb refs es inst mount role
   | BaoPolicyExists _ nm _ \<Rightarrow> nm = pbs_PolicyName (pb_Spec pb)
   | GotControlPlaneEntity _ _ _ \<Rightarrow> True | GotControlPlaneTrust _ _ _ \<Rightarrow> True
   | GotOpenBaoInstance _ _ \<Rightarrow> True | BuiltClient _ _ \<Rightarrow> True
   | _ \<Rightarrow> False)"

lemma role_origin_mono:
  "role_origin k pb refs es i m r \<Longrightarrow> set refs \<subseteq> set refs' \<Longrightarrow> set es \<subseteq> set es' \<Longrightarrow>
     role_origin k pb refs' es' i m r"
  unfolding role_origin_def by (meson subsetD)

lemma role_write_ok_mono:
  "role_write_ok k pb refs es e \<Longrightarrow> set refs \<subseteq> set refs' \<Longrightarrow> set es \<subseteq> set es' \<Longrightarrow>
     role_write_ok k pb refs' es' e"
  unfolding role_write_ok_def by (auto intro: role_origin_mono split: event.splits)

lemma PB_entityResolvedD:
  "PB_entityResolved k ce \<Longrightarrow> \<exists>i. cest_Identity (ce_Status ce) = Some i \<and> sai_Subject i \<noteq> []"
  by (auto simp: PB_entityResolved_def split: option.splits)

lemma PB_round_scope: "spec (PB_round k R pb ref acc) (\<lambda>_ es. list_all (role_write_ok k pb [ref] es) es)"
  unfolding PB_round_def PB_writeRole_def
  by (intro spec_intros)
     (auto simp: role_write_ok_def role_origin_def PB_role_def PB_trustResolved_def PB_entityResolved_def
      split: option.splits)

lemma PB_rounds_scope: "spec (PB_rounds k R pb refs acc) (\<lambda>_ es. list_all (role_write_ok k pb refs es) es)"
proof (rule spec_mono [OF spec_PB_rounds [OF PB_round_scope]])
  fix r es
  assume "rounds_log (\<lambda>ref acc _ es. list_all (role_write_ok k pb [ref] es) es) refs acc r es"
  then show "list_all (role_write_ok k pb refs es) es"
    by (induction) (auto simp: list_all_iff elim!: role_write_ok_mono)
qed

text \<open>What the log of a pass must show for the published status \<open>rs\<close> of the reference
  \<open>ref\<close>: a mount path only after this pass read the entity and its resolved trust, Ready only
  after this pass wrote the role under that path.\<close>

definition role_reported ::
    "klib \<Rightarrow> PolicyBinding \<Rightarrow> event list \<Rightarrow> LocalObjectReference \<Rightarrow> PolicyBindingRoleStatus \<Rightarrow> bool" where
  "role_reported k pb es ref rs \<longleftrightarrow>
     pbr_ControlPlaneEntityRef rs = ref \<and>
     pbr_RoleName rs = RoleName (om_Namespace (pb_Meta pb)) (om_Name (pb_Meta pb) @ ''-'' @ lor_Name ref) \<and>
     (pbr_AuthMountPath rs = [] \<or>
        (\<exists>ce trust.
           GotControlPlaneEntity (om_Namespace (pb_Meta pb)) (lor_Name ref) (Inr ce) \<in> set es \<and>
           PB_entityResolved k ce \<and>
           GotControlPlaneTrust (om_Namespace (pb_Meta pb)) (lor_Name (ces_ControlPlaneTrustRef (ce_Spec ce)))
             (Inr trust) \<in> set es \<and>
           PB_trustResolved k trust \<and> pbr_AuthMountPath rs = ctst_AuthMountPath (ct_Status trust))) \<and>
     (\<not> pbr_Ready rs \<or> pbr_Message rs = [] \<and>
        (\<exists>inst role. BaoEnsureRole inst (pbr_AuthMountPath rs) role (Inr ()) \<in> set es \<and>
           jr_Name role = pbr_RoleName rs))"

lemma role_reported_mono:
  "role_reported k pb es ref rs \<Longrightarrow> set es \<subseteq> set es' \<Longrightarrow> role_reported k pb es' ref rs"
  unfolding role_reported_def by (meson subsetD)

text \<open>What single calls tell the loop: a dependency could not be read; the policy was asked
  for; the answer was definite; no definite answer was negative.\<close>

definition read_failed :: "event \<Rightarrow> bool" where
  "read_failed e = (case e of
     GotControlPlaneEntity _ _ (Inl _) \<Rightarrow> True | GotControlPlaneTrust _ _ (Inl _) \<Rightarrow> True | _ \<Rightarrow> False)"

definition policy_asked :: "event \<Rightarrow> bool" where
  "policy_asked e = (case e of BaoPolicyExists _ _ _ \<Rightarrow> True | _ \<Rightarrow> False)"

definition policy_definite :: "event \<Rightarrow> bool" where
  "policy_definite e = (case e of
     BaoPolicyExists _ _ (Inl _) \<Rightarrow> False | BaoPolicyExists _ _ (Inr x) \<Rightarrow> px_Known x | _ \<Rightarrow> True)"

definition policy_not_missing :: "event \<Rightarrow> bool" where
  "policy_not_missing e = (case e of
     BaoPolicyExists _ _ (Inr x) \<Rightarrow> \<not> px_Known x \<or> px_Exists x | _ \<Rightarrow> True)"

lemmas policy_event_defs = read_failed_def policy_asked_def policy_definite_def policy_not_missing_def

text \<open>The loop variables after a log, from what they were before it.\<close>

definition flags_follow :: "pb_loop \<Rightarrow> event list \<Rightarrow> pb_loop \<Rightarrow> bool" where
  "flags_follow acc es acc' \<longleftrightarrow>
     (lp_DependencyMissing acc' \<longleftrightarrow> lp_DependencyMissing acc \<or> list_ex read_failed es) \<and>
     (lp_PolicyChecked acc' \<longleftrightarrow> lp_PolicyChecked acc \<or> list_ex policy_asked es) \<and>
     (lp_PolicyKnown acc' \<longleftrightarrow> lp_PolicyKnown acc \<and> list_all policy_definite es) \<and>
     (lp_PolicyExists acc' \<longleftrightarrow> lp_PolicyExists acc \<and> list_all policy_not_missing es)"

lemma flags_follow_Nil [simp]: "flags_follow acc [] acc"
  by (simp add: flags_follow_def)

lemma flags_follow_append:
  "flags_follow a es b \<Longrightarrow> flags_follow b es' c \<Longrightarrow> flags_follow a (es @ es') c"
  by (auto simp: flags_follow_def)

definition round_summary ::
    "klib \<Rightarrow> PolicyBinding \<Rightarrow> LocalObjectReference \<Rightarrow> pb_loop \<Rightarrow> goerr + pb_loop \<Rightarrow> event list \<Rightarrow> bool" where
  "round_summary k pb ref acc r es \<longleftrightarrow> (case r of Inl _ \<Rightarrow> True | Inr acc' \<Rightarrow>
     flags_follow acc es acc' \<and>
     (\<exists>rs. lp_Roles acc' = lp_Roles acc @ [rs] \<and> role_reported k pb es ref rs \<and>
        (lp_AllRolesReady acc' \<longrightarrow> lp_AllRolesReady acc \<and> pbr_Ready rs)))"

lemma PB_round_summary: "spec (PB_round k R pb ref acc) (round_summary k pb ref acc)"
  unfolding PB_round_def PB_writeRole_def
  by (intro spec_intros)
     (auto simp: round_summary_def role_reported_def flags_follow_def PB_role_def policy_fine_def
      policy_event_defs dest: PB_entityResolvedD split: sum.splits)

lemma rounds_summary:
  assumes "rounds_log (round_summary k pb) refs acc r es" and "r = Inr acc'"
  shows "flags_follow acc es acc' \<and>
    (\<exists>rss. lp_Roles acc' = lp_Roles acc @ rss \<and> list_all2 (role_reported k pb es) refs rss \<and>
       (lp_AllRolesReady acc' \<longrightarrow> lp_AllRolesReady acc \<and> list_all pbr_Ready rss))"
  using assms
proof (induction)
  case (rounds_next ref acc acc1 es refs r es')
  from rounds_next.hyps(1) obtain rs where first: "flags_follow acc es acc1"
    "lp_Roles acc1 = lp_Roles acc @ [rs]" "role_reported k pb es ref rs"
    "lp_AllRolesReady acc1 \<longrightarrow> lp_AllRolesReady acc \<and> pbr_Ready rs"
    by (auto simp: round_summary_def)
  from rounds_next.IH [OF rounds_next.prems] obtain rss where rest: "flags_follow acc1 es' acc'"
    "lp_Roles acc' = lp_Roles acc1 @ rss" "list_all2 (role_reported k pb es') refs rss"
    "lp_AllRolesReady acc' \<longrightarrow> lp_AllRolesReady acc1 \<and> list_all pbr_Ready rss"
    by auto
  have "list_all2 (role_reported k pb (es @ es')) (ref # refs) (rs # rss)"
    using first(3) rest(3) by (auto elim!: role_reported_mono list_all2_mono)
  with first rest show ?case
    by (intro conjI flags_follow_append [OF first(1) rest(1)] exI [of _ "rs # rss"]) simp_all
qed simp_all

lemma spec_PB_rounds_summary:
  "spec (PB_rounds k R pb refs acc) (\<lambda>r es. \<forall>acc'. r = Inr acc' \<longrightarrow> flags_follow acc es acc' \<and>
    (\<exists>rss. lp_Roles acc' = lp_Roles acc @ rss \<and> list_all2 (role_reported k pb es) refs rss \<and>
       (lp_AllRolesReady acc' \<longrightarrow> lp_AllRolesReady acc \<and> list_all pbr_Ready rss)))"
  by (rule spec_mono [OF spec_PB_rounds [OF PB_round_summary]]) (blast dest: rounds_summary)


text \<open>A synchronisation either stops at an instance that could not be read, or publishes what its
  rounds found.\<close>

definition PB_published :: "klib \<Rightarrow> pb_loop \<Rightarrow> PolicyBinding \<Rightarrow> PolicyBinding" where
  "PB_published k acc pb = PB_publishReady k acc (PB_publishPolicy k acc
     (pb\<lparr>pb_Status := (pb_Status pb)\<lparr>pbst_Roles := lp_Roles acc\<rparr>\<rparr>))"

definition PB_status_result :: "ServiceConfig \<Rightarrow> goerr + unit \<Rightarrow> goerr + Result" where
  "PB_status_result cfg ru = (case ru of
       Inl err \<Rightarrow> Inl (Errorf_w ''updating PolicyBinding status'' err)
     | Inr _ \<Rightarrow> Inr (requeueResult (Some cfg)))"

inductive sync_log ::
    "klib \<Rightarrow> ServiceConfig \<Rightarrow> PolicyBinding \<Rightarrow> goerr + Result \<Rightarrow> event list \<Rightarrow> bool"
  for k cfg pb where
  sync_stopped: "list_all (role_write_ok k pb (pbs_ControlPlaneEntityRefs (pb_Spec pb)) es) es \<Longrightarrow>
     sync_log k cfg pb (Inl e) es"
| sync_published: "list_all (role_write_ok k pb (pbs_ControlPlaneEntityRefs (pb_Spec pb)) es) es \<Longrightarrow>
     flags_follow PB_loop_init es acc \<Longrightarrow>
     list_all2 (role_reported k pb es) (pbs_ControlPlaneEntityRefs (pb_Spec pb)) (lp_Roles acc) \<Longrightarrow>
     (lp_AllRolesReady acc \<longrightarrow> list_all pbr_Ready (lp_Roles acc)) \<Longrightarrow>
     sync_log k cfg pb (PB_status_result cfg ru) (es @ [StatusPolicyBinding (PB_published k acc pb) ru])"

lemma PB_sync_log: "spec (PB_sync k R cfg pb) (sync_log k cfg pb)"
  unfolding PB_sync_def
proof (rule spec_bind [OF spec_conj [OF PB_rounds_scope spec_PB_rounds_summary]], goal_cases)
  case (1 r es)
  show ?case
  proof (cases r)
    case (Inl e)
    with 1 show ?thesis by (auto intro!: spec_intros sync_stopped)
  next
    case (Inr acc)
    with 1 have "sync_log k cfg pb (PB_status_result cfg ru)
        (es @ [StatusPolicyBinding (PB_published k acc pb) ru])" for ru
      by (intro sync_published) (auto simp: PB_loop_init_def)
    then show ?thesis
      by (auto simp: Inr PB_published_def PB_status_result_def Let_def intro!: spec_PB_patchStatus)
  qed
qed

lemma PB_published_sel [simp]:
  "pb_Meta (PB_published k acc t) = pb_Meta t" "pb_Spec (PB_published k acc t) = pb_Spec t"
  "pbst_Roles (pb_Status (PB_published k acc t)) = lp_Roles acc"
  by (simp_all add: PB_published_def)


text \<open>What becomes of a recorded role when the binding is deleted: it is deleted in OpenBao, or
  there is nothing to delete it by.\<close>

definition role_deleted :: "event list \<Rightarrow> PolicyBindingRoleStatus \<Rightarrow> bool" where
  "role_deleted es rs \<longleftrightarrow>
     (\<exists>inst. BaoDeleteRole inst (pbr_AuthMountPath rs) (pbr_RoleName rs) (Inr ()) \<in> set es)"

definition instance_unusable :: "klib \<Rightarrow> event list \<Rightarrow> string \<Rightarrow> bool" where
  "instance_unusable k es nm \<longleftrightarrow> nm = [] \<or> GotOpenBaoInstance nm (Inr None) \<in> set es \<or>
     (\<exists>inst. GotOpenBaoInstance nm (Inr (Some inst)) \<in> set es \<and> \<not> isInstanceReachable k (Some inst)) \<or>
     (\<exists>inst e. GotOpenBaoInstance nm (Inr (Some inst)) \<in> set es \<and> BuiltClient inst (Some e) \<in> set es)"

definition role_skipped :: "klib \<Rightarrow> string \<Rightarrow> event list \<Rightarrow> PolicyBindingRoleStatus \<Rightarrow> bool" where
  "role_skipped k ns es rs \<longleftrightarrow>
     pbr_RoleName rs = [] \<or> pbr_AuthMountPath rs = [] \<or>
     (\<exists>ts. ListedControlPlaneTrusts (Some ns) (Inr ts) \<in> set es \<and>
        first_trust_with_mount (pbr_AuthMountPath rs) ts = None) \<or>
     (\<exists>ts t. ListedControlPlaneTrusts (Some ns) (Inr ts) \<in> set es \<and>
        first_trust_with_mount (pbr_AuthMountPath rs) ts = Some t \<and>
        instance_unusable k es (ctst_ResolvedOpenBaoInstance (ct_Status t)))"

definition role_delete_ok ::
    "klib \<Rightarrow> string \<Rightarrow> PolicyBindingRoleStatus list \<Rightarrow> event list \<Rightarrow> event \<Rightarrow> bool" where
  "role_delete_ok k ns rss es e = (case e of
     BaoDeleteRole inst mount roleName _ \<Rightarrow>
       (\<exists>rs \<in> set rss. \<exists>ts t. mount = pbr_AuthMountPath rs \<and> roleName = pbr_RoleName rs \<and>
          ListedControlPlaneTrusts (Some ns) (Inr ts) \<in> set es \<and>
          first_trust_with_mount mount ts = Some t \<and>
          GotOpenBaoInstance (ctst_ResolvedOpenBaoInstance (ct_Status t)) (Inr (Some inst)) \<in> set es \<and>
          isInstanceReachable k (Some inst))
   | ListedControlPlaneTrusts n _ \<Rightarrow> n = Some ns
   | GotOpenBaoInstance _ _ \<Rightarrow> True | BuiltClient _ _ \<Rightarrow> True
   | _ \<Rightarrow> False)"

lemma role_delete_ok_mono:
  "role_delete_ok k ns rss es e \<Longrightarrow> set rss \<subseteq> set rss' \<Longrightarrow> set es \<subseteq> set es' \<Longrightarrow>
     role_delete_ok k ns rss' es' e"
  unfolding role_delete_ok_def by (simp split: event.splits) (meson subsetD)

lemma list_all_delete_mono:
  assumes "list_all (role_delete_ok k ns rss es) xs" "set rss \<subseteq> set rss'" "set es \<subseteq> set es'"
  shows "list_all (role_delete_ok k ns rss' es') xs"
  using assms(1) role_delete_ok_mono [OF _ assms(2,3)] by (simp add: list_all_iff)

lemma instance_unusable_mono: "instance_unusable k es nm \<Longrightarrow> set es \<subseteq> set es' \<Longrightarrow> instance_unusable k es' nm"
  unfolding instance_unusable_def by (meson subsetD)

lemma role_gone_mono:
  "role_deleted es rs \<or> role_skipped k ns es rs \<Longrightarrow> set es \<subseteq> set es' \<Longrightarrow>
     role_deleted es' rs \<or> role_skipped k ns es' rs"
  unfolding role_deleted_def role_skipped_def by (meson subsetD instance_unusable_mono)

definition role_delete_failed :: "event \<Rightarrow> bool" where
  "role_delete_failed e = (case e of BaoDeleteRole _ _ _ (Inl _) \<Rightarrow> True | _ \<Rightarrow> False)"

text \<open>The log of a run over the recorded roles: each role is dealt with, or the run stopped with an
  error.\<close>

definition deletes_log ::
    "klib \<Rightarrow> string \<Rightarrow> PolicyBindingRoleStatus list \<Rightarrow> goerr + unit \<Rightarrow> event list \<Rightarrow> bool" where
  "deletes_log k ns rss r es \<longleftrightarrow>
     list_all (role_delete_ok k ns rss es) es \<and>
     (case r of
        Inl _ \<Rightarrow> True
      | Inr _ \<Rightarrow> list_all (\<lambda>rs. role_deleted es rs \<or> role_skipped k ns es rs) rss \<and>
          list_all (\<lambda>e. \<not> role_delete_failed e) es)"

lemma PB_findTrust_log:
  "spec (PB_findTrustForAuthMount R ns mount) (\<lambda>r es.
     (\<exists>e e'. r = Inl e \<and> es = [ListedControlPlaneTrusts (Some ns) (Inl e')]) \<or>
     (\<exists>ts. r = Inr (first_trust_with_mount mount ts) \<and> es = [ListedControlPlaneTrusts (Some ns) (Inr ts)]))"
  unfolding PB_findTrustForAuthMount_def by (intro spec_intros) auto

lemma PB_deleteRole_log: "spec (PB_deleteRole k R pb rs) (deletes_log k (om_Namespace (pb_Meta pb)) [rs])"
  unfolding PB_deleteRole_def Let_def
proof (intro spec_if spec_bind [OF PB_findTrust_log], goal_cases)
  case 1
  then show ?case by (auto intro!: spec_intros simp: deletes_log_def role_skipped_def)
next
  case (2 a es)
  from 2(2) show ?case
  proof (elim disjE exE conjE)
    fix e e'
    assume "a = Inl e" "es = [ListedControlPlaneTrusts (Some (om_Namespace (pb_Meta pb))) (Inl e')]"
    then show ?thesis by (auto intro!: spec_return simp: deletes_log_def role_delete_failed_def role_delete_ok_def)
  next
    fix ts
    assume a: "a = Inr (first_trust_with_mount (pbr_AuthMountPath rs) ts)"
      and es: "es = [ListedControlPlaneTrusts (Some (om_Namespace (pb_Meta pb))) (Inr ts)]"
    show ?thesis
    proof (cases "first_trust_with_mount (pbr_AuthMountPath rs) ts")
      case None
      with a es show ?thesis
        by (auto intro!: spec_return simp: deletes_log_def role_delete_failed_def role_delete_ok_def role_skipped_def)
    next
      case (Some t)
      show ?thesis
        unfolding a Some es sum.case option.case
        by (intro spec_intros)
          (auto simp: Some deletes_log_def role_delete_failed_def role_deleted_def role_skipped_def instance_unusable_def
            role_delete_ok_def)
    qed
  qed
qed


lemma deletes_log_Cons:
  assumes "deletes_log k ns [rs] (Inr u) es" "deletes_log k ns rss r es'"
  shows "deletes_log k ns (rs # rss) r (es @ es')"
proof -
  have scope: "list_all (role_delete_ok k ns (rs # rss) (es @ es')) (es @ es')"
    using assms list_all_delete_mono [of k ns "[rs]" es es "rs # rss" "es @ es'"]
      list_all_delete_mono [of k ns rss es' es' "rs # rss" "es @ es'"]
    by (auto simp: deletes_log_def)
  moreover have rs: "role_deleted (es @ es') rs \<or> role_skipped k ns (es @ es') rs"
    by (rule role_gone_mono [of es]) (use assms(1) in \<open>simp_all add: deletes_log_def\<close>)
  ultimately show ?thesis
  proof (cases r)
    case (Inr v)
    have "\<forall>x \<in> set rss. role_deleted (es @ es') x \<or> role_skipped k ns (es @ es') x"
      by (rule ballI, rule role_gone_mono [of es'])
         (use assms(2) Inr in \<open>simp_all add: deletes_log_def list_all_iff\<close>)
    with scope rs assms Inr show ?thesis by (auto simp: deletes_log_def list_all_iff)
  qed (simp add: deletes_log_def)
qed

lemma PB_deleteRoles_log: "spec (PB_deleteRoles k R pb rss) (deletes_log k (om_Namespace (pb_Meta pb)) rss)"
proof (induction rss)
  case Nil
  show ?case by (auto intro!: spec_return simp: deletes_log_def)
next
  case (Cons rs rss)
  show ?case unfolding PB_deleteRoles.simps
  proof (rule spec_bind [OF PB_deleteRole_log])
    fix r es
    assume one: "deletes_log k (om_Namespace (pb_Meta pb)) [rs] r es"
    show "spec (case r of Inl err \<Rightarrow> State_Monad.return (Inl err) | Inr _ \<Rightarrow> PB_deleteRoles k R pb rss)
       (\<lambda>b es'. deletes_log k (om_Namespace (pb_Meta pb)) (rs # rss) b (es @ es'))"
    proof (cases r)
      case (Inl e)
      with one list_all_delete_mono [of k "om_Namespace (pb_Meta pb)" "[rs]" es es "rs # rss" es]
      show ?thesis by (auto intro!: spec_return simp: deletes_log_def)
    next
      case (Inr u)
      with one Cons.IH show ?thesis by (auto intro: spec_mono deletes_log_Cons)
    qed
  qed
qed

text \<open>A deletion pass: the roles first, then the finalizer, and that only if no role failed.\<close>

definition PB_finish_result :: "goerr + PolicyBinding \<Rightarrow> goerr + Result" where
  "PB_finish_result ru = (case ru of
       Inl err \<Rightarrow> Inl (Errorf_w ''removing finalizer'' err) | Inr _ \<Rightarrow> Inr Result0)"

inductive delete_log :: "klib \<Rightarrow> PolicyBinding \<Rightarrow> goerr + Result \<Rightarrow> event list \<Rightarrow> bool" for k pb where
  delete_failed: "deletes_log k (om_Namespace (pb_Meta pb)) (pbst_Roles (pb_Status pb)) (Inl e) es \<Longrightarrow>
     delete_log k pb (Inl e) es"
| delete_kept: "deletes_log k (om_Namespace (pb_Meta pb)) (pbst_Roles (pb_Status pb)) (Inr ()) es \<Longrightarrow>
     delete_log k pb (Inr Result0) es"
| delete_finished: "deletes_log k (om_Namespace (pb_Meta pb)) (pbst_Roles (pb_Status pb)) (Inr ()) es \<Longrightarrow>
     k_RemoveFinalizer k FinalizerPolicyBinding (om_Finalizers (pb_Meta pb)) = (fs, True) \<Longrightarrow>
     delete_log k pb (PB_finish_result ru)
       (es @ [UpdatedPolicyBinding (PB_with_finalizers fs pb) ru])"

lemma PB_reconcileDelete_log: "spec (PB_reconcileDelete k R pb) (delete_log k pb)"
  unfolding PB_reconcileDelete_def
proof (rule spec_bind [OF PB_deleteRoles_log])
  fix r es
  assume log: "deletes_log k (om_Namespace (pb_Meta pb)) (pbst_Roles (pb_Status pb)) r es"
  show "spec (case r of Inl err \<Rightarrow> State_Monad.return (Inl err) | Inr _ \<Rightarrow> PB_finishDelete k R pb)
     (\<lambda>b es'. delete_log k pb b (es @ es'))"
  proof (cases r)
    case (Inl e)
    with log show ?thesis by (auto intro!: spec_return delete_failed)
  next
    case (Inr u)
    obtain fs changed where rf:
      "k_RemoveFinalizer k FinalizerPolicyBinding (om_Finalizers (pb_Meta pb)) = (fs, changed)" by fastforce
    have fin: "delete_log k pb (PB_finish_result ru)
        (es @ [UpdatedPolicyBinding (PB_with_finalizers fs pb) ru])" if changed for ru
      using log rf that Inr by (intro delete_finished) simp_all
    have kept: "delete_log k pb (Inr Result0) es" using log Inr by (intro delete_kept) simp
    show ?thesis
      unfolding Inr sum.case PB_finishDelete_def rf prod.case Let_def
      using fin [of "Inl _"] fin [of "Inr _"] kept
      by (intro spec_intros) (simp_all add: PB_finish_result_def)
  qed
qed

inductive_cases delete_logE: "delete_log k pb r es"
inductive_cases sync_logE: "sync_log k cfg pb r es"


lemma PB_entered_sel [simp]:
  "pb_Meta (PB_entered pb) = pb_Meta pb" "pb_Spec (PB_entered pb) = pb_Spec pb"
  "pbst_Roles (pb_Status (PB_entered pb)) = pbst_Roles (pb_Status pb)"
  by (simp_all add: PB_entered_def)

lemma PB_with_finalizers_sel [simp]:
  "om_Finalizers (pb_Meta (PB_with_finalizers fs pb)) = fs"
  "om_Namespace (pb_Meta (PB_with_finalizers fs pb)) = om_Namespace (pb_Meta pb)"
  "om_Name (pb_Meta (PB_with_finalizers fs pb)) = om_Name (pb_Meta pb)"
  "om_Generation (pb_Meta (PB_with_finalizers fs pb)) = om_Generation (pb_Meta pb)"
  "pb_Spec (PB_with_finalizers fs pb) = pb_Spec pb" "pb_Status (PB_with_finalizers fs pb) = pb_Status pb"
  by (simp_all add: PB_with_finalizers_def)

text \<open>The passes of the handler.\<close>

inductive binding_log ::
    "klib \<Rightarrow> string \<Rightarrow> string \<Rightarrow> string \<Rightarrow> goerr + Result \<Rightarrow> event list \<Rightarrow> bool"
  for k prov ns nm where
  binding_unread: "err_NotFound e \<and> r = Inr Result0 \<or> \<not> err_NotFound e \<and> (\<exists>e'. r = Inl e') \<Longrightarrow>
     binding_log k prov ns nm r [GotPolicyBinding ns nm (Inl e)]"
| binding_unconfigured: "binding_log k prov ns nm (Inl e)
     [GotPolicyBinding ns nm (Inr pb), GotServiceConfig prov (Inl e)]"
| binding_delete: "deleting (pb_Meta pb) \<Longrightarrow> delete_log k (PB_entered pb) r es \<Longrightarrow>
     binding_log k prov ns nm r
       (GotPolicyBinding ns nm (Inr pb) # GotServiceConfig prov (Inr cfg) # es)"
| binding_unfinalized: "\<not> deleting (pb_Meta pb) \<Longrightarrow>
     k_AddFinalizer k FinalizerPolicyBinding (om_Finalizers (pb_Meta pb)) = (fs, True) \<Longrightarrow>
     binding_log k prov ns nm (Inl e')
       [GotPolicyBinding ns nm (Inr pb), GotServiceConfig prov (Inr cfg),
        UpdatedPolicyBinding (PB_with_finalizers fs (PB_entered pb)) (Inl e)]"
| binding_finalized: "\<not> deleting (pb_Meta pb) \<Longrightarrow>
     k_AddFinalizer k FinalizerPolicyBinding (om_Finalizers (pb_Meta pb)) = (fs, True) \<Longrightarrow>
     sync_log k cfg pb' r es \<Longrightarrow>
     binding_log k prov ns nm r
       (GotPolicyBinding ns nm (Inr pb) # GotServiceConfig prov (Inr cfg) #
        UpdatedPolicyBinding (PB_with_finalizers fs (PB_entered pb)) (Inr pb') # es)"
| binding_sync: "\<not> deleting (pb_Meta pb) \<Longrightarrow>
     k_AddFinalizer k FinalizerPolicyBinding (om_Finalizers (pb_Meta pb)) = (fs, False) \<Longrightarrow>
     sync_log k cfg (PB_with_finalizers fs (PB_entered pb)) r es \<Longrightarrow>
     binding_log k prov ns nm r
       (GotPolicyBinding ns nm (Inr pb) # GotServiceConfig prov (Inr cfg) # es)"

lemma PB_Reconcile_log: "spec (PB_Reconcile k R ns nm) (binding_log k (br_ProviderName R) ns nm)"
  unfolding PB_Reconcile_def
  by (intro spec_intros spec_mono [OF PB_sync_log] spec_mono [OF PB_reconcileDelete_log])
     (auto simp: deleting_def intro: binding_log.intros)

section \<open>Properties\<close>

definition binding_has_finalizer :: "event \<Rightarrow> bool" where
  "binding_has_finalizer e = (case e of
     GotPolicyBinding _ _ (Inr t) \<Rightarrow> FinalizerPolicyBinding \<in> set (om_Finalizers (pb_Meta t))
   | UpdatedPolicyBinding t (Inr _) \<Rightarrow> FinalizerPolicyBinding \<in> set (om_Finalizers (pb_Meta t))
   | _ \<Rightarrow> False)"

lemma role_delete_ok_no_provision: "role_delete_ok k ns rss es e \<Longrightarrow> \<not> bao_provision e"
  by (auto simp: role_delete_ok_def bao_provision_def split: event.splits)

lemma delete_log_no_provision: "delete_log k pb r es \<Longrightarrow> list_all (\<lambda>e. \<not> bao_provision e) es"
  by (induction rule: delete_log.induct)
     (auto simp: deletes_log_def bao_provision_def elim!: list.pred_mono_strong dest: role_delete_ok_no_provision)

text \<open>The finalizer comes before external work: no role is written in OpenBao before the binding
  carries the finalizer, as it was read or by an update the server accepted.\<close>

theorem binding_finalizer_first:
  assumes "lawful_finalizers k"
  shows "spec (PB_Reconcile k R ns nm) (\<lambda>_. preceded binding_has_finalizer bao_provision)"
proof (rule spec_mono [OF PB_Reconcile_log])
  fix r es
  assume "binding_log k (br_ProviderName R) ns nm r es"
  then show "preceded binding_has_finalizer bao_provision es"
    using assms
    by cases (auto simp: binding_has_finalizer_def bao_provision_def lawful_finalizers_def
      preceded_none [OF delete_log_no_provision] split: if_splits)
qed

text \<open>The binding a pass works on: as it was read, or as the last update returned it.\<close>

definition binding_seen :: "event \<Rightarrow> PolicyBinding option" where
  "binding_seen e = (case e of
     GotPolicyBinding _ _ (Inr t) \<Rightarrow> Some t | UpdatedPolicyBinding _ (Inr t) \<Rightarrow> Some t | _ \<Rightarrow> None)"

definition binding_working :: "event list \<Rightarrow> PolicyBinding option" where
  "binding_working es = fold (\<lambda>e acc. case binding_seen e of None \<Rightarrow> acc | Some t \<Rightarrow> Some t) es None"

lemma binding_working_unseen:
  assumes "list_all (\<lambda>e. binding_seen e = None) es"
  shows "binding_working (pre @ es) = binding_working pre"
proof -
  have "fold (\<lambda>e acc. case binding_seen e of None \<Rightarrow> acc | Some t \<Rightarrow> Some t) es x = x" for x
    using assms by (induction es) simp_all
  then show ?thesis by (simp add: binding_working_def)
qed

definition binding_call_ok :: "klib \<Rightarrow> string \<Rightarrow> string \<Rightarrow> event list \<Rightarrow> event \<Rightarrow> bool" where
  "binding_call_ok k ns nm es e = (case e of
     BaoEnsureRole inst mount role _ \<Rightarrow>
       (\<exists>pb0 pb. GotPolicyBinding ns nm (Inr pb0) \<in> set es \<and> \<not> deleting (pb_Meta pb0) \<and>
          binding_working es = Some pb \<and>
          role_origin k pb (pbs_ControlPlaneEntityRefs (pb_Spec pb)) es inst mount role)
   | BaoPolicyExists _ nm' _ \<Rightarrow> (\<exists>pb. binding_working es = Some pb \<and> nm' = pbs_PolicyName (pb_Spec pb))
   | BaoDeleteRole inst mount roleName _ \<Rightarrow>
       (\<exists>pb. GotPolicyBinding ns nm (Inr pb) \<in> set es \<and> deleting (pb_Meta pb) \<and>
          role_delete_ok k (om_Namespace (pb_Meta pb)) (pbst_Roles (pb_Status pb)) es e)
   | StatusPolicyBinding pb' _ \<Rightarrow>
       (\<exists>pb. binding_working es = Some pb \<and> pb_Spec pb' = pb_Spec pb \<and>
         om_Namespace (pb_Meta pb') = om_Namespace (pb_Meta pb) \<and> om_Name (pb_Meta pb') = om_Name (pb_Meta pb))
   | UpdatedPolicyBinding pb' _ \<Rightarrow>
       (\<exists>pb. GotPolicyBinding ns nm (Inr pb) \<in> set es \<and> pb_Spec pb' = pb_Spec pb \<and>
         om_Namespace (pb_Meta pb') = om_Namespace (pb_Meta pb) \<and> om_Name (pb_Meta pb') = om_Name (pb_Meta pb))
   | GotPolicyBinding _ _ _ \<Rightarrow> True | GotServiceConfig _ _ \<Rightarrow> True
   | GotControlPlaneEntity _ _ _ \<Rightarrow> True | GotControlPlaneTrust _ _ _ \<Rightarrow> True
   | ListedControlPlaneTrusts n _ \<Rightarrow> True
   | GotOpenBaoInstance _ _ \<Rightarrow> True | BuiltClient _ _ \<Rightarrow> True
   | _ \<Rightarrow> False)"

lemma role_origin_cong:
  assumes "pb_Spec pb = pb_Spec pb'" "om_Namespace (pb_Meta pb) = om_Namespace (pb_Meta pb')"
    "om_Name (pb_Meta pb) = om_Name (pb_Meta pb')"
  shows "role_origin k pb = role_origin k pb'"
  using assms by (simp add: role_origin_def fun_eq_iff)

lemma list_all_write_mono:
  assumes "list_all (role_write_ok k pb refs es) xs" "set refs \<subseteq> set refs'" "set es \<subseteq> set es'"
  shows "list_all (role_write_ok k pb refs' es') xs"
  using assms(1) role_write_ok_mono [OF _ assms(2,3)] by (simp add: list_all_iff)

lemma role_write_ok_unseen: "role_write_ok k pb refs es e \<Longrightarrow> binding_seen e = None"
  by (auto simp: role_write_ok_def binding_seen_def split: event.splits)

lemma sync_log_unseen: "sync_log k cfg pb r es \<Longrightarrow> list_all (\<lambda>e. binding_seen e = None) es"
  by (induction rule: sync_log.induct)
     (auto simp: binding_seen_def [of "StatusPolicyBinding _ _"] elim!: list.pred_mono_strong
        dest: role_write_ok_unseen)

lemma sync_log_scope:
  assumes "sync_log k cfg pb r es"
  shows "list_all (\<lambda>e. role_write_ok k pb (pbs_ControlPlaneEntityRefs (pb_Spec pb)) es e \<or>
     (\<exists>pb' ru. e = StatusPolicyBinding pb' ru \<and> pb_Spec pb' = pb_Spec pb \<and> pb_Meta pb' = pb_Meta pb)) es"
  using assms
proof cases
  case (sync_published es0 acc ru)
  have "list_all (role_write_ok k pb (pbs_ControlPlaneEntityRefs (pb_Spec pb)) es) es0"
    unfolding sync_published(2) by (rule list_all_write_mono [OF sync_published(3) subset_refl]) auto
  then show ?thesis by (simp add: sync_published(2) list_all_iff)
qed (auto elim!: list.pred_mono_strong)

lemma role_write_ok_cong:
  assumes "pb_Spec pb = pb_Spec pb'" "om_Namespace (pb_Meta pb) = om_Namespace (pb_Meta pb')"
    "om_Name (pb_Meta pb) = om_Name (pb_Meta pb')"
  shows "role_write_ok k pb = role_write_ok k pb'"
  unfolding role_write_ok_def [abs_def] role_origin_cong [OF assms] by (simp only: assms)

lemma sync_call_ok:
  assumes log: "sync_log k cfg pb r es" and e: "e \<in> set es"
    and pre: "GotPolicyBinding ns nm (Inr pb0) \<in> set pre" "\<not> deleting (pb_Meta pb0)"
    and pb1: "binding_working pre = Some pb1" "pb_Spec pb1 = pb_Spec pb"
    "om_Namespace (pb_Meta pb1) = om_Namespace (pb_Meta pb)" "om_Name (pb_Meta pb1) = om_Name (pb_Meta pb)"
  shows "binding_call_ok k ns nm (pre @ es) e"
proof -
  have w: "binding_working (pre @ es) = Some pb1"
    using binding_working_unseen [OF sync_log_unseen [OF log]] pb1(1) by simp
  from sync_log_scope [OF log] e consider
      (round) "role_write_ok k pb (pbs_ControlPlaneEntityRefs (pb_Spec pb)) es e"
    | (status) pb' ru where "e = StatusPolicyBinding pb' ru" "pb_Spec pb' = pb_Spec pb" "pb_Meta pb' = pb_Meta pb"
    by (auto simp: list_all_iff)
  then show ?thesis
  proof cases
    case round
    have "role_write_ok k pb (pbs_ControlPlaneEntityRefs (pb_Spec pb)) (pre @ es) e"
      by (rule role_write_ok_mono [OF round]) auto
    then have "role_write_ok k pb1 (pbs_ControlPlaneEntityRefs (pb_Spec pb1)) (pre @ es) e"
      by (simp only: role_write_ok_cong [OF pb1(2,3,4)] pb1(2))
    with pre w show ?thesis
      by (auto simp: binding_call_ok_def role_write_ok_def split: event.splits)
  next
    case status
    with w pb1 show ?thesis by (simp add: binding_call_ok_def)
  qed
qed

lemma role_delete_call_ok:
  assumes "role_delete_ok k (om_Namespace (pb_Meta pb)) (pbst_Roles (pb_Status pb)) es e"
    and "deleting (pb_Meta pb)" "GotPolicyBinding ns nm (Inr pb) \<in> set pre" "set pre \<subseteq> set es'" "set es \<subseteq> set es'"
  shows "binding_call_ok k ns nm es' e"
proof -
  have "role_delete_ok k (om_Namespace (pb_Meta pb)) (pbst_Roles (pb_Status pb)) es' e"
    using role_delete_ok_mono [OF assms(1) subset_refl assms(5)] .
  moreover have "GotPolicyBinding ns nm (Inr pb) \<in> set es'" using assms(3,4) by blast
  ultimately show ?thesis
    using assms(2) by (cases e) (auto simp: binding_call_ok_def role_delete_ok_def)
qed

lemma delete_call_ok:
  assumes "delete_log k (PB_entered pb) r es" "e \<in> set es" "deleting (pb_Meta pb)"
    and "GotPolicyBinding ns nm (Inr pb) \<in> set pre"
  shows "binding_call_ok k ns nm (pre @ es) e"
proof -
  from assms(1) obtain es0 where es0: "set es0 \<subseteq> set es"
    "list_all (role_delete_ok k (om_Namespace (pb_Meta pb)) (pbst_Roles (pb_Status pb)) es0) es0"
    "e \<in> set es0 \<or> (\<exists>fs ru. e = UpdatedPolicyBinding (PB_with_finalizers fs (PB_entered pb)) ru)"
    using assms(2) by cases (auto simp: deletes_log_def)
  from es0(3) show ?thesis
  proof (elim disjE exE)
    assume "e \<in> set es0"
    with es0 assms(3,4) show ?thesis
      by (intro role_delete_call_ok [of k pb es0 e ns nm pre]) (auto simp: list_all_iff)
  next
    fix fs ru
    assume "e = UpdatedPolicyBinding (PB_with_finalizers fs (PB_entered pb)) ru"
    with assms(4) show ?thesis by (auto simp: binding_call_ok_def)
  qed
qed

lemma PB_scope:
  "spec (PB_Reconcile k R ns nm) (\<lambda>_ es. list_all (binding_call_ok k ns nm es) es)"
proof (rule spec_mono [OF PB_Reconcile_log])
  fix r es
  assume "binding_log k (br_ProviderName R) ns nm r es"
  then show "list_all (binding_call_ok k ns nm es) es"
  proof cases
    case (binding_delete pb es' cfg)
    then show ?thesis
      using delete_call_ok [OF binding_delete(3) _ binding_delete(2), of _ ns nm
          "[GotPolicyBinding ns nm (Inr pb), GotServiceConfig (br_ProviderName R) (Inr cfg)]"]
      by (simp add: list_all_iff) (simp add: binding_call_ok_def)
  next
    case (binding_finalized pb fs cfg pb' es')
    then show ?thesis
      using sync_call_ok [OF binding_finalized(4) _ _ binding_finalized(2), of _ ns nm
          "[GotPolicyBinding ns nm (Inr pb), GotServiceConfig (br_ProviderName R) (Inr cfg),
            UpdatedPolicyBinding (PB_with_finalizers fs (PB_entered pb)) (Inr pb')]" pb']
      by (auto simp: list_all_iff binding_working_def binding_seen_def) (auto simp: binding_call_ok_def)
  next
    case (binding_sync pb fs cfg es')
    then show ?thesis
      using sync_call_ok [OF binding_sync(4) _ _ binding_sync(2), of _ ns nm
          "[GotPolicyBinding ns nm (Inr pb), GotServiceConfig (br_ProviderName R) (Inr cfg)]" pb]
      by (auto simp: list_all_iff binding_working_def binding_seen_def) (auto simp: binding_call_ok_def)
  qed (auto simp: binding_call_ok_def)
qed

text \<open>C5. Scope of a binding pass. A role it writes belongs to a reference of the spec: it is named
  after binding and entity, is of type jwt with user claim sub, bound to the entity's resolved
  non-empty subject and to the audience of the entity's resolved trust, carries exactly the
  binding's policy, and goes to that trust's mount on its reachable instance. Only the
  binding's own policy is asked for. Roles are deleted only on a deleted binding, and only
  those recorded in its status. No Kubernetes object but the binding is written, and its spec
  is never changed.\<close>

theorem binding_pass_scope:
  "spec (PB_Reconcile k R ns nm) (\<lambda>_ es. list_all (binding_call_ok k ns nm es) es)"
  by (rule PB_scope)


lemma binding_log_status:
  assumes "binding_log k prov ns nm r es" "StatusPolicyBinding t ru \<in> set es"
  obtains pb0 cfg pb es0 acc pre where "GotPolicyBinding ns nm (Inr pb0) \<in> set es" "\<not> deleting (pb_Meta pb0)"
    "es = pre @ es0 @ [StatusPolicyBinding t ru]" "t = PB_published k acc pb"
    "list_all (role_write_ok k pb (pbs_ControlPlaneEntityRefs (pb_Spec pb)) es0) es0"
    "flags_follow PB_loop_init es0 acc"
    "list_all2 (role_reported k pb es0) (pbs_ControlPlaneEntityRefs (pb_Spec pb)) (lp_Roles acc)"
    "lp_AllRolesReady acc \<longrightarrow> list_all pbr_Ready (lp_Roles acc)"
    "list_all (\<lambda>e. \<not> read_failed e \<and> \<not> policy_asked e \<and> policy_definite e \<and> policy_not_missing e \<and> \<not> bao_call e) pre"
    "GotServiceConfig prov (Inr cfg) \<in> set es" "r = PB_status_result cfg ru"
proof -
  note result = that
  have not_write: "StatusPolicyBinding t ru \<notin> set xs" if "list_all (role_write_ok k pb refs ys) xs" for pb refs xs ys
    using that by (auto simp: list_all_iff role_write_ok_def)
  have not_delete: "StatusPolicyBinding t ru \<notin> set xs" if "list_all (role_delete_ok k n rss ys) xs" for n rss xs ys
    using that by (auto simp: list_all_iff role_delete_ok_def)
  have sync: thesis if "sync_log k cfg pb r xs" "es = pre @ xs" "GotPolicyBinding ns nm (Inr pb0) \<in> set pre"
    "\<not> deleting (pb_Meta pb0)" "GotServiceConfig prov (Inr cfg) \<in> set pre" "StatusPolicyBinding t ru \<notin> set pre"
    "list_all (\<lambda>e. \<not> read_failed e \<and> \<not> policy_asked e \<and> policy_definite e \<and> policy_not_missing e \<and> \<not> bao_call e) pre"
    for cfg pb pb0 xs pre
    using that(1)
  proof cases
    case (sync_stopped e)
    with that assms(2) not_write show ?thesis by auto
  next
    case (sync_published es0 acc ru')
    with that assms(2) not_write [OF sync_published(3)] show ?thesis
      by (intro result [of pb0 pre es0 acc pb cfg]) auto
  qed
  show thesis
    using assms(1)
  proof cases
    case (binding_delete pb es' cfg)
    from binding_delete(3) show ?thesis
      by cases (use assms(2) not_delete binding_delete(1) in \<open>auto simp: deletes_log_def\<close>)
  next
    case (binding_finalized pb fs cfg pb' es')
    then show ?thesis
      by (intro sync [of cfg pb' es' "[GotPolicyBinding ns nm (Inr pb), GotServiceConfig prov (Inr cfg),
            UpdatedPolicyBinding (PB_with_finalizers fs (PB_entered pb)) (Inr pb')]" pb])
        (auto simp: policy_event_defs log_defs)
  next
    case (binding_sync pb fs cfg es')
    then show ?thesis
      by (intro sync [of cfg "PB_with_finalizers fs (PB_entered pb)" es'
            "[GotPolicyBinding ns nm (Inr pb), GotServiceConfig prov (Inr cfg)]" pb])
        (auto simp: policy_event_defs log_defs)
  qed (use assms(2) in auto)
qed


lemma role_reported_cong: "pb_Meta pb = pb_Meta pb' \<Longrightarrow> role_reported k pb = role_reported k pb'"
  by (simp add: role_reported_def fun_eq_iff)

lemma isConditionTrue_published:
  assumes "lawful_conditions k"
  shows "isConditionTrue k (pbst_Conditions (pb_Status (PB_published k acc pb))) ConditionReady \<longleftrightarrow>
    lp_PolicyExists acc \<and> lp_AllRolesReady acc"
  by (simp add: PB_published_def PB_publishReady_def Let_def condition_rules [OF assms])

lemma shows_ready_published:
  assumes "lawful_conditions k" "\<not> (lp_PolicyExists acc \<and> lp_AllRolesReady acc)"
  shows "\<exists>message. shows_condition k (pbst_Conditions (pb_Status (PB_published k acc pb)))
    (om_Generation (pb_Meta pb)) ConditionReady ConditionFalse
    (if \<not> lp_PolicyExists acc then ReasonWaitingForPolicy
     else if lp_DependencyMissing acc then ReasonDependencyNotFound else ReasonDependencyNotReady) message"
  using assms(2) by (auto simp: PB_published_def PB_publishReady_def Let_def condition_rules [OF assms(1)])

lemma policy_published:
  assumes "lawful_conditions k"
  shows "pbst_PolicyExists (pb_Status (PB_published k acc pb)) =
      (if \<not> lp_PolicyChecked acc \<or> \<not> lp_PolicyKnown acc then PolicyExistenceUnknown
       else if \<not> lp_PolicyExists acc then PolicyExistenceFalse else PolicyExistenceTrue)"
    and "\<exists>message. shows_condition k (pbst_Conditions (pb_Status (PB_published k acc pb)))
      (om_Generation (pb_Meta pb)) ConditionPolicyResolved
      (if \<not> lp_PolicyChecked acc \<or> \<not> lp_PolicyKnown acc then ConditionUnknown
       else if \<not> lp_PolicyExists acc then ConditionFalse else ConditionTrue)
      (if \<not> lp_PolicyChecked acc \<or> \<not> lp_PolicyKnown acc then ReasonPolicyCheckSkipped
       else if \<not> lp_PolicyExists acc then ReasonPolicyNotFound else ReasonPolicyExists) message"
  by (auto simp: PB_published_def PB_publishReady_def PB_publishPolicy_def PB_policyCondition_def Let_def
      condition_rules [OF assms])

lemma policy_flags:
  assumes "flags_follow PB_loop_init es acc"
  shows "lp_PolicyChecked acc \<longleftrightarrow> list_ex policy_asked es" "lp_PolicyKnown acc \<longleftrightarrow> list_all policy_definite es"
    "lp_PolicyExists acc \<longleftrightarrow> list_all policy_not_missing es" "lp_DependencyMissing acc \<longleftrightarrow> list_ex read_failed es"
  using assms by (simp_all add: flags_follow_def PB_loop_init_def)

lemma status_events [simp]:
  "\<not> policy_asked (StatusPolicyBinding t ru)" "policy_definite (StatusPolicyBinding t ru)"
  "policy_not_missing (StatusPolicyBinding t ru)" "\<not> read_failed (StatusPolicyBinding t ru)"
  by (simp_all add: policy_event_defs)

lemma pass_flags:
  assumes "flags_follow PB_loop_init es0 acc"
    and "list_all (\<lambda>e. \<not> read_failed e \<and> \<not> policy_asked e \<and> policy_definite e \<and> policy_not_missing e \<and> \<not> bao_call e) pre"
    and "es = pre @ es0 @ [StatusPolicyBinding t ru]"
  shows "lp_PolicyChecked acc \<longleftrightarrow> list_ex policy_asked es" "lp_PolicyKnown acc \<longleftrightarrow> list_all policy_definite es"
    "lp_PolicyExists acc \<longleftrightarrow> list_all policy_not_missing es" "lp_DependencyMissing acc \<longleftrightarrow> list_ex read_failed es"
  using assms(2) policy_flags [OF assms(1)] by (auto simp: assms(3) list_all_iff list_ex_iff)

text \<open>C18. The published status has exactly one entry per reference, in the order of the spec, with
  the deterministic role name; an entry names a mount only if this pass read the resolved
  entity and trust it comes from, and is Ready only if this pass wrote that role under that
  mount. Nothing is carried over from the previous status.\<close>

theorem binding_roles_published:
  "spec (PB_Reconcile k R ns nm) (\<lambda>_ es. \<forall>t ru. StatusPolicyBinding t ru \<in> set es \<longrightarrow>
     list_all2 (role_reported k t es) (pbs_ControlPlaneEntityRefs (pb_Spec t)) (pbst_Roles (pb_Status t)))"
proof (rule spec_mono [OF PB_Reconcile_log], intro allI impI)
  fix r es t ru
  assume "binding_log k (br_ProviderName R) ns nm r es" "StatusPolicyBinding t ru \<in> set es"
  then show "list_all2 (role_reported k t es) (pbs_ControlPlaneEntityRefs (pb_Spec t)) (pbst_Roles (pb_Status t))"
  proof (cases rule: binding_log_status)
    case (1 pb0 cfg pb es0 acc pre)
    have "role_reported k t = role_reported k pb" by (rule role_reported_cong) (simp add: 1(4))
    with 1(7) show ?thesis
      by (auto simp: 1(3,4) elim!: list_all2_mono role_reported_mono)
  qed
qed

text \<open>C13. Ready is sound: when the binding is published as Ready, the role of every reference was
  written in this pass and no OpenBao server said that the policy is missing.\<close>

theorem binding_ready_sound:
  assumes "lawful_conditions k"
  shows "spec (PB_Reconcile k R ns nm) (\<lambda>_ es. \<forall>t ru. StatusPolicyBinding t ru \<in> set es \<and>
     isConditionTrue k (pbst_Conditions (pb_Status t)) ConditionReady \<longrightarrow>
     list_all policy_not_missing es \<and>
     list_all2 (\<lambda>ref rs. pbr_Ready rs \<and> role_reported k t es ref rs)
       (pbs_ControlPlaneEntityRefs (pb_Spec t)) (pbst_Roles (pb_Status t)))"
proof (rule spec_mono [OF PB_Reconcile_log], intro allI impI)
  fix r es t ru
  assume log: "binding_log k (br_ProviderName R) ns nm r es"
    and st: "StatusPolicyBinding t ru \<in> set es \<and> isConditionTrue k (pbst_Conditions (pb_Status t)) ConditionReady"
  from log conjunct1 [OF st]
  show "list_all policy_not_missing es \<and> list_all2 (\<lambda>ref rs. pbr_Ready rs \<and> role_reported k t es ref rs)
      (pbs_ControlPlaneEntityRefs (pb_Spec t)) (pbst_Roles (pb_Status t))"
  proof (cases rule: binding_log_status)
    case (1 pb0 cfg pb es0 acc pre)
    have "role_reported k t = role_reported k pb" by (rule role_reported_cong) (simp add: 1(4))
    moreover have "lp_PolicyExists acc \<and> lp_AllRolesReady acc"
      using st isConditionTrue_published [OF assms] by (simp add: 1(4))
    ultimately have ready: "list_all policy_not_missing es" "list_all pbr_Ready (pbst_Roles (pb_Status t))"
      and rep: "list_all2 (role_reported k t es) (pbs_ControlPlaneEntityRefs (pb_Spec t)) (pbst_Roles (pb_Status t))"
      using 1(7,8) pass_flags(3) [OF 1(6,9,3)]
      by (auto simp: 1(3,4) elim!: list_all2_mono role_reported_mono)
    from ready(1) show ?thesis
      by (rule conjI) (use ready(2) rep in \<open>simp add: list_all2_conv_all_nth list_all_length\<close>)
  qed
qed

text \<open>C23. When the binding is published as not Ready, the reason is WaitingForPolicy if a server said
  the policy is missing, otherwise DependencyNotFound if any entity or trust could not be read
  (for whatever reason), otherwise DependencyNotReady.\<close>

theorem binding_not_ready_reason:
  assumes "lawful_conditions k"
  shows "spec (PB_Reconcile k R ns nm) (\<lambda>_ es. \<forall>t ru. StatusPolicyBinding t ru \<in> set es \<and>
     \<not> isConditionTrue k (pbst_Conditions (pb_Status t)) ConditionReady \<longrightarrow>
     (\<exists>message. shows_condition k (pbst_Conditions (pb_Status t)) (om_Generation (pb_Meta t))
        ConditionReady ConditionFalse
        (if \<not> list_all policy_not_missing es then ReasonWaitingForPolicy
         else if list_ex read_failed es then ReasonDependencyNotFound
         else ReasonDependencyNotReady) message))"
proof (rule spec_mono [OF PB_Reconcile_log], intro allI impI)
  fix r es t ru
  assume log: "binding_log k (br_ProviderName R) ns nm r es"
    and st: "StatusPolicyBinding t ru \<in> set es \<and> \<not> isConditionTrue k (pbst_Conditions (pb_Status t)) ConditionReady"
  from log conjunct1 [OF st]
  show "\<exists>message. shows_condition k (pbst_Conditions (pb_Status t)) (om_Generation (pb_Meta t))
        ConditionReady ConditionFalse
        (if \<not> list_all policy_not_missing es then ReasonWaitingForPolicy
         else if list_ex read_failed es then ReasonDependencyNotFound
         else ReasonDependencyNotReady) message"
  proof (cases rule: binding_log_status)
    case (1 pb0 cfg pb es0 acc pre)
    have "\<not> (lp_PolicyExists acc \<and> lp_AllRolesReady acc)"
      using st isConditionTrue_published [OF assms] by (simp add: 1(4))
    from shows_ready_published [OF assms this] show ?thesis
      unfolding pass_flags [OF 1(6,9,3)] 1(4) PB_published_sel .
  qed
qed

text \<open>C24. The published policy state is three-valued: Unknown when the policy was not asked for or
  some answer was indefinite, False when all answers were definite and one was negative, True
  otherwise, and the PolicyResolved condition agrees with it.\<close>

theorem binding_policy_state:
  assumes "lawful_conditions k"
  shows "spec (PB_Reconcile k R ns nm) (\<lambda>_ es. \<forall>t ru. StatusPolicyBinding t ru \<in> set es \<longrightarrow>
     (let unknown = (\<not> list_ex policy_asked es \<or> \<not> list_all policy_definite es);
          missing = (\<not> list_all policy_not_missing es)
      in pbst_PolicyExists (pb_Status t) =
           (if unknown then PolicyExistenceUnknown else if missing then PolicyExistenceFalse
            else PolicyExistenceTrue) \<and>
         (\<exists>message. shows_condition k (pbst_Conditions (pb_Status t)) (om_Generation (pb_Meta t))
            ConditionPolicyResolved
            (if unknown then ConditionUnknown else if missing then ConditionFalse else ConditionTrue)
            (if unknown then ReasonPolicyCheckSkipped else if missing then ReasonPolicyNotFound
             else ReasonPolicyExists) message)))"
proof (rule spec_mono [OF PB_Reconcile_log], intro allI impI, unfold Let_def)
  fix r es t ru
  assume "binding_log k (br_ProviderName R) ns nm r es" "StatusPolicyBinding t ru \<in> set es"
  then show "pbst_PolicyExists (pb_Status t) =
       (if \<not> list_ex policy_asked es \<or> \<not> list_all policy_definite es then PolicyExistenceUnknown
        else if \<not> list_all policy_not_missing es then PolicyExistenceFalse else PolicyExistenceTrue) \<and>
     (\<exists>message. shows_condition k (pbst_Conditions (pb_Status t)) (om_Generation (pb_Meta t))
        ConditionPolicyResolved
        (if \<not> list_ex policy_asked es \<or> \<not> list_all policy_definite es then ConditionUnknown
         else if \<not> list_all policy_not_missing es then ConditionFalse else ConditionTrue)
        (if \<not> list_ex policy_asked es \<or> \<not> list_all policy_definite es then ReasonPolicyCheckSkipped
         else if \<not> list_all policy_not_missing es then ReasonPolicyNotFound
         else ReasonPolicyExists) message)"
  proof (cases rule: binding_log_status)
    case (1 pb0 cfg pb es0 acc pre)
    from policy_published [OF assms, of acc pb] show ?thesis
      unfolding pass_flags [OF 1(6,9,3)] 1(4) PB_published_sel by simp
  qed
qed

text \<open>C17. Deletion: the finalizer is dropped only in a pass in which no role deletion failed and every
  recorded role was deleted, unless it has no name or mount, no trust of the namespace has its
  mount any more, or that trust's instance is gone, unreachable or has no client.\<close>

theorem binding_delete_finalizer:
  "spec (PB_Reconcile k R ns nm) (\<lambda>_ es. \<forall>pb t ru. GotPolicyBinding ns nm (Inr pb) \<in> set es \<and>
     deleting (pb_Meta pb) \<and> UpdatedPolicyBinding t ru \<in> set es \<longrightarrow>
     list_all (\<lambda>rs. role_deleted es rs \<or> role_skipped k (om_Namespace (pb_Meta pb)) es rs)
       (pbst_Roles (pb_Status pb)) \<and>
     list_all (\<lambda>e. \<not> role_delete_failed e) es)"
proof (rule spec_mono [OF PB_Reconcile_log], intro allI impI, elim conjE)
  fix r es pb t ru
  assume log: "binding_log k (br_ProviderName R) ns nm r es" and got: "GotPolicyBinding ns nm (Inr pb) \<in> set es"
    and del: "deleting (pb_Meta pb)" and upd: "UpdatedPolicyBinding t ru \<in> set es"
  have no_update: "UpdatedPolicyBinding t' ru' \<notin> set xs" "GotPolicyBinding ns' nm' g \<notin> set xs"
    if "list_all (role_delete_ok k n rss ys) xs" for n rss xs ys t' ru' ns' nm' g
    using that by (auto simp: list_all_iff role_delete_ok_def)
  have sync_no_get: "GotPolicyBinding ns' nm' (Inr g) \<notin> set xs" if "sync_log k c p q xs" for c p q xs ns' nm' g
    using sync_log_unseen [OF that] by (auto simp: list_all_iff binding_seen_def)
  from log show "list_all (\<lambda>rs. role_deleted es rs \<or> role_skipped k (om_Namespace (pb_Meta pb)) es rs)
       (pbst_Roles (pb_Status pb)) \<and> list_all (\<lambda>e. \<not> role_delete_failed e) es"
  proof cases
    case (binding_delete pb' es' cfg)
    from binding_delete(3) show ?thesis
    proof cases
      case (delete_finished es0 fs ru')
      have pb: "pb = pb'"
        using got no_update(2) delete_finished(3) by (auto simp: binding_delete(1) delete_finished(2) deletes_log_def)
      have "list_all (\<lambda>rs. role_deleted es rs \<or> role_skipped k (om_Namespace (pb_Meta pb)) es rs) (pbst_Roles (pb_Status pb))"
        unfolding list_all_iff
        by (rule ballI, rule role_gone_mono [of es0])
          (use delete_finished(3) in \<open>auto simp: deletes_log_def list_all_iff binding_delete(1) delete_finished(2) pb\<close>)
      moreover have "list_all (\<lambda>e. \<not> role_delete_failed e) es"
        using delete_finished(3) by (auto simp: deletes_log_def binding_delete(1) delete_finished(2) role_delete_failed_def [of "UpdatedPolicyBinding _ _"]
            role_delete_failed_def [of "GotPolicyBinding _ _ _"] role_delete_failed_def [of "GotServiceConfig _ _"])
      ultimately show ?thesis ..
    qed (use upd no_update(1) in \<open>auto simp: binding_delete(1) deletes_log_def\<close>)
  qed (use got del upd sync_no_get in auto)
qed

text \<open>C25. A pass over a binding that is not being deleted removes nothing from OpenBao: a role whose
  reference has been dropped from the spec stays, while the published status, which lists
  only current references, no longer records it for the deletion.\<close>

theorem binding_never_prunes:
  "spec (PB_Reconcile k R ns nm) (\<lambda>_ es. \<forall>pb. GotPolicyBinding ns nm (Inr pb) \<in> set es \<and>
     \<not> deleting (pb_Meta pb) \<longrightarrow> list_all (\<lambda>e. \<not> bao_removal e) es)"
proof (rule spec_mono [OF PB_Reconcile_log], intro allI impI, elim conjE)
  fix r es pb
  assume log: "binding_log k (br_ProviderName R) ns nm r es" and got: "GotPolicyBinding ns nm (Inr pb) \<in> set es"
    and nodel: "\<not> deleting (pb_Meta pb)"
  have sync: "list_all (\<lambda>e. \<not> bao_removal e) xs" if "sync_log k c p q xs" for c p q xs
    using sync_log_scope [OF that]
    by (rule list.pred_mono_strong) (auto simp: role_write_ok_def bao_removal_def split: event.splits)
  have no_get: "GotPolicyBinding ns' nm' g \<notin> set xs" if "delete_log k p q xs" for p q xs ns' nm' g
    using that by cases (auto simp: deletes_log_def list_all_iff role_delete_ok_def)
  from log show "list_all (\<lambda>e. \<not> bao_removal e) es"
    by cases (use got nodel sync no_get in \<open>auto simp: bao_removal_def\<close>)
qed

end
