(* ===== verification/Effects.thy ===== *)
theory Effects
  imports Replay BindingRuns
begin

text \<open>
  What a pass does to OpenBao, on a world that hosts the in-memory OpenBao: the properties of
  the logs read through their replay.
\<close>

section \<open>Trust passes\<close>

text \<open>What a trust pass that starts from \<open>t0\<close> makes of OpenBao, as one operation. Without a client it
  changes nothing. With one, a deleted trust loses its recorded mount; a live trust gets the mount
  of the configuration and instance the pass read, configured for the issuer of the ControlPlane it
  read, and its status says so.\<close>

definition trust_effect ::
    "klib \<Rightarrow> string \<Rightarrow> event list \<Rightarrow> ControlPlaneTrust \<Rightarrow> FakeClient \<Rightarrow> FakeClient \<Rightarrow> bool" where
  "trust_effect k prov es t0 f g \<longleftrightarrow>
     (if \<forall>inst. BuiltClient inst None \<notin> set es then g = f
      else if deleting (ct_Meta t0) then g = snd (Fake_DeleteAuthMount (ctst_AuthMountPath (ct_Status t0)) f)
      else \<exists>t cfg inst cp p c st ru. trust_working es = Some t \<and> GotServiceConfig prov (Inr cfg) \<in> set es \<and>
        trust_instance k es t inst \<and>
        GotControlPlane (om_Namespace (ct_Meta t)) (lor_Name (cts_ControlPlaneRef (ct_Spec t))) (Inr (Some cp)) \<in> set es \<and>
        p = AuthMountPath (resolveAuthMountPrefix (sc_Spec cfg) (Some inst)) (om_Namespace (ct_Meta t))
          (lor_Name (cts_ControlPlaneRef (ct_Spec t))) \<and>
        c = \<lparr>jc_OIDCDiscoveryURL = [], jc_OIDCDiscoveryCAPEM = [],
          jc_JWKSURL = controlPlaneIssuer (Some cp) @ ''/jwks'', jc_JWKSCAPEM = [],
          jc_BoundIssuer = controlPlaneIssuer (Some cp), jc_DefaultRole = []\<rparr> \<and>
        g = snd (Fake_ConfigureJWTTrust p c (snd (Fake_EnsureJWTAuthMount p f))) \<and>
        StatusControlPlaneTrust st ru \<in> set es \<and> ctst_AuthMountPath (ct_Status st) = p \<and>
        isConditionTrue k (ctst_Conditions (ct_Status st)) ConditionTrustConfigured)"

lemma configure_mounted [simp]:
  "fst (Fake_EnsureJWTAuthMount p f) = Inr ()"
  "fst (Fake_ConfigureJWTTrust p c (snd (Fake_EnsureJWTAuthMount p f))) = Inr ()"
  "fst (Fake_DeleteAuthMount p f) = Inr ()"
  by (simp_all add: Fake_EnsureJWTAuthMount_def Fake_ConfigureJWTTrust_def Fake_DeleteAuthMount_def map_read_def)

lemma trust_effect_log:
  assumes "lawful_conditions k"
  shows "spec (CT_Reconcile k R ns nm) (\<lambda>_ es. \<forall>f t0. faithful es f \<and>
     GotControlPlaneTrust ns nm (Inr t0) \<in> set es \<longrightarrow> trust_effect k (tr_ProviderName R) es t0 f (replay es f))"
  unfolding CT_defs
  by (intro spec_intros)
    (auto simp: trust_effect_def deleting_def error_of_None_iff answered_def apply_event_def trust_working_def
      trust_instance_def CT_mountPath_def CT_trustConfig_def condition_rules [OF assms] split: if_splits)

section \<open>Binding passes\<close>

text \<open>A pass that only writes roles satisfying \<open>P\<close> leaves, under every key it wrote, such a role.\<close>

definition grants_only :: "(JWTRole \<Rightarrow> bool) \<Rightarrow> event \<Rightarrow> bool" where
  "grants_only P e \<longleftrightarrow> (case e of BaoEnsureRole _ _ r _ \<Rightarrow> P r | _ \<Rightarrow> \<not> bao_removal e)"

lemma grants_only_apply:
  assumes "grants_only P e" "Role f m n = Some r" "P r"
  shows "\<exists>r'. Role (apply_event e f) m n = Some r' \<and> P r'"
  using assms
  by (cases e) (auto simp: grants_only_def bao_removal_def Role_def Fake_EnsureEntity_def
      Fake_EnsureJWTAuthMount_def Fake_ConfigureJWTTrust_def Fake_EnsureJWTRole_def Let_def)

lemma replay_grants:
  assumes "list_all (grants_only P) es" "faithful es f" "BaoEnsureRole i m r (Inr ()) \<in> set es"
  shows "\<exists>r'. Role (replay es f) m (jr_Name r) = Some r' \<and> P r'"
  using assms
proof (induction es rule: rev_induct)
  case (snoc e es)
  show ?case
  proof (cases "BaoEnsureRole i m r (Inr ()) \<in> set es")
    case True
    with snoc show ?thesis using grants_only_apply [of P e] by fastforce
  next
    case False
    with snoc.prems have "e = BaoEnsureRole i m r (Inr ())" by simp
    with snoc.prems show ?thesis
      by (auto simp: grants_only_def Role_def Fake_EnsureJWTRole_def split: if_splits)
  qed
qed simp

lemma role_write_grants:
  assumes "role_write_ok k pb refs es e"
  shows "grants_only (\<lambda>role. jr_TokenPolicies role = [pbs_PolicyName (pb_Spec pb)] \<and> jr_BoundSubject role \<noteq> []) e"
  using assms by (cases e) (auto simp: grants_only_def role_write_ok_def role_origin_def bao_removal_def)

lemma no_call_grants: "\<not> bao_call e \<Longrightarrow> grants_only P e"
  by (cases e) (auto simp: grants_only_def bao_call_def bao_provision_def bao_removal_def)

lemma role_reported_written:
  "role_reported k pb es ref rs \<Longrightarrow> pbr_Ready rs \<Longrightarrow>
     \<exists>i role. BaoEnsureRole i (pbr_AuthMountPath rs) role (Inr ()) \<in> set es \<and> jr_Name role = pbr_RoleName rs"
  unfolding role_reported_def by blast

lemma binding_grants_log:
  assumes "lawful_conditions k"
  shows "spec (PB_Reconcile k R ns nm) (\<lambda>_ es. \<forall>f t ru. faithful es f \<and> StatusPolicyBinding t ru \<in> set es \<and>
     isConditionTrue k (pbst_Conditions (pb_Status t)) ConditionReady \<longrightarrow>
     list_all (\<lambda>rs. \<exists>role. Role (replay es f) (pbr_AuthMountPath rs) (pbr_RoleName rs) = Some role \<and>
         jr_TokenPolicies role = [pbs_PolicyName (pb_Spec t)] \<and> jr_BoundSubject role \<noteq> [])
       (pbst_Roles (pb_Status t)))"
proof (rule spec_mono [OF PB_Reconcile_log], intro allI impI, elim conjE)
  fix r es f t ru
  assume log: "binding_log k (br_ProviderName R) ns nm r es" and f: "faithful es f"
    and st: "StatusPolicyBinding t ru \<in> set es"
    and ready: "isConditionTrue k (pbst_Conditions (pb_Status t)) ConditionReady"
  let ?P = "\<lambda>role. jr_TokenPolicies role = [pbs_PolicyName (pb_Spec t)] \<and> jr_BoundSubject role \<noteq> []"
  from log st show "list_all (\<lambda>rs. \<exists>role. Role (replay es f) (pbr_AuthMountPath rs) (pbr_RoleName rs) = Some role \<and>
      ?P role) (pbst_Roles (pb_Status t))"
  proof (cases rule: binding_log_status)
    case (1 pb0 cfg pb es0 acc pre)
    have spec: "pb_Spec t = pb_Spec pb" by (simp add: 1(4))
    have "list_all (grants_only ?P) pre" "list_all (grants_only ?P) es0"
      unfolding spec
      by (rule list.pred_mono_strong [OF 1(9)], simp add: no_call_grants)
        (rule list.pred_mono_strong [OF 1(5)], rule role_write_grants)
    moreover have "grants_only ?P (StatusPolicyBinding t ru)" by (simp add: grants_only_def bao_removal_def)
    ultimately have grants: "list_all (grants_only ?P) es" by (simp add: 1(3))
    have "lp_AllRolesReady acc"
      using ready isConditionTrue_published [OF assms] by (simp add: 1(4))
    with 1(7,8) have "list_all (\<lambda>rs. pbr_Ready rs \<and> (\<exists>ref. role_reported k pb es0 ref rs)) (lp_Roles acc)"
      by (auto simp: list_all2_conv_all_nth list_all_length)
    then have ok: "\<exists>i role. BaoEnsureRole i (pbr_AuthMountPath rs) role (Inr ()) \<in> set es \<and>
        jr_Name role = pbr_RoleName rs" if "rs \<in> set (lp_Roles acc)" for rs
      using that role_reported_written by (fastforce simp: list_all_iff 1(3))
    have roles: "pbst_Roles (pb_Status t) = lp_Roles acc" by (simp add: 1(4))
    show ?thesis
      unfolding roles list_all_iff
    proof
      fix rs
      assume "rs \<in> set (lp_Roles acc)"
      from ok [OF this] obtain i role where
        w: "BaoEnsureRole i (pbr_AuthMountPath rs) role (Inr ()) \<in> set es" "jr_Name role = pbr_RoleName rs"
        by blast
      from replay_grants [OF grants f w(1)] w(2)
      show "\<exists>role. Role (replay es f) (pbr_AuthMountPath rs) (pbr_RoleName rs) = Some role \<and> ?P role"
        by simp
    qed
  qed
qed


section \<open>Properties\<close>

text \<open>C8. The effect of a trust pass, on a world that hosts an in-memory OpenBao and whatever the API
  servers answer: as long as no client was built OpenBao is as it was; else a pass over a deleted
  trust amounts to the removal of the recorded mount, with its configuration and roles, and a pass
  over a live one to enabling the mount of this trust on this instance and configuring it for the
  issuer of its ControlPlane, which the published status records as configured. There is no
  outcome in between.\<close>

theorem trust_pass_effect:
  assumes "lawful_conditions k"
    and "cluster_quiet bao (tr_PlatformCluster R)" "cluster_quiet bao (tr_OnboardingCluster R)"
      "factory_hosted bao (tr_ClientFactory R)"
    and "GotControlPlaneTrust ns nm (Inr t) \<in> set (run_log (CT_Reconcile k R ns nm) w)"
  shows "trust_effect k (tr_ProviderName R) (run_log (CT_Reconcile k R ns nm) w) t
    (bao w) (bao (run_world (CT_Reconcile k R ns nm) w))"
  unfolding follows_log(1) [OF follows_CT [OF assms(2-4)]]
  using spec_run [OF trust_effect_log [OF assms(1)], of R ns nm w]
    follows_log(2) [OF follows_CT [OF assms(2-4)], of k ns nm w] assms(5) by blast

text \<open>C7. A Ready binding is granted: when a pass publishes the binding as Ready, OpenBao has under the
  published mount and name of every reference a role that grants exactly the policy of the
  spec to a bound subject.\<close>

theorem binding_ready_granted:
  assumes "lawful_conditions k"
    and "cluster_quiet bao (br_PlatformCluster R)" "cluster_quiet bao (br_OnboardingCluster R)"
      "factory_hosted bao (br_ClientFactory R)"
    and "StatusPolicyBinding t ru \<in> set (run_log (PB_Reconcile k R ns nm) w)"
      "isConditionTrue k (pbst_Conditions (pb_Status t)) ConditionReady"
  shows "list_all (\<lambda>rs. \<exists>role.
      Role (bao (run_world (PB_Reconcile k R ns nm) w)) (pbr_AuthMountPath rs) (pbr_RoleName rs) = Some role \<and>
      jr_TokenPolicies role = [pbs_PolicyName (pb_Spec t)] \<and> jr_BoundSubject role \<noteq> [])
    (pbst_Roles (pb_Status t))"
  unfolding follows_log(1) [OF follows_PB [OF assms(2-4)]]
  using spec_run [OF binding_grants_log [OF assms(1)], of R ns nm w]
    follows_log(2) [OF follows_PB [OF assms(2-4)], of k ns nm w] assms(5,6) by blast

end
