(* ===== verification/Accounts.thy ===== *)
theory Accounts
  imports Replay BindingRuns
begin

text \<open>
  Who changes what in OpenBao: every mount, trust configuration and role that differs after any
  queue of passes is accounted for by an object that was read in one of them and names it. So the
  passes over the objects of one tenant leave alone what no object of theirs names.
\<close>

section \<open>Objects that name a mount or a role\<close>

definition trust_seen :: "event list \<Rightarrow> ControlPlaneTrust \<Rightarrow> bool" where
  "trust_seen es t \<longleftrightarrow> (\<exists>ns nm. GotControlPlaneTrust ns nm (Inr t) \<in> set es) \<or>
     (\<exists>t0. UpdatedControlPlaneTrust t0 (Inr t) \<in> set es)"

definition binding_shown :: "event list \<Rightarrow> PolicyBinding \<Rightarrow> bool" where
  "binding_shown es b \<longleftrightarrow> (\<exists>ns nm. GotPolicyBinding ns nm (Inr b) \<in> set es) \<or>
     (\<exists>b0. UpdatedPolicyBinding b0 (Inr b) \<in> set es)"

text \<open>A live trust whose path, under a configuration and on an instance of the log, is \<open>p\<close>; a deleted
  trust that recorded \<open>p\<close>.\<close>

definition mount_claimed :: "event list \<Rightarrow> string \<Rightarrow> bool" where
  "mount_claimed es p \<longleftrightarrow> (\<exists>t cfg i. trust_seen es t \<and> (\<exists>pn. GotServiceConfig pn (Inr cfg) \<in> set es) \<and>
     (\<exists>n. GotOpenBaoInstance n (Inr (Some i)) \<in> set es) \<and> p = CT_mountPath cfg i t)"

definition mount_released :: "event list \<Rightarrow> string \<Rightarrow> bool" where
  "mount_released es p \<longleftrightarrow>
     (\<exists>ns nm t. GotControlPlaneTrust ns nm (Inr t) \<in> set es \<and> deleting (ct_Meta t) \<and> p = ctst_AuthMountPath (ct_Status t))"

text \<open>A binding with a reference that gives the role its name, beside a trust configured under the
  mount; a deleted binding that recorded mount and role.\<close>

definition role_claimed :: "event list \<Rightarrow> string \<Rightarrow> string \<Rightarrow> bool" where
  "role_claimed es m n \<longleftrightarrow> (\<exists>b t ref ns nm. binding_shown es b \<and> ref \<in> set (pbs_ControlPlaneEntityRefs (pb_Spec b)) \<and>
     n = RoleName (om_Namespace (pb_Meta b)) (om_Name (pb_Meta b) @ ''-'' @ lor_Name ref) \<and>
     GotControlPlaneTrust ns nm (Inr t) \<in> set es \<and> ns = om_Namespace (pb_Meta b) \<and> m = ctst_AuthMountPath (ct_Status t))"

definition role_released :: "event list \<Rightarrow> string \<Rightarrow> string \<Rightarrow> bool" where
  "role_released es m n \<longleftrightarrow> (\<exists>ns nm b. GotPolicyBinding ns nm (Inr b) \<in> set es \<and> deleting (pb_Meta b) \<and>
     (\<exists>rs \<in> set (pbst_Roles (pb_Status b)). m = pbr_AuthMountPath rs \<and> n = pbr_RoleName rs))"

lemmas claim_defs = trust_seen_def binding_shown_def mount_claimed_def mount_released_def role_claimed_def
  role_released_def

definition accounted :: "event list \<Rightarrow> event \<Rightarrow> bool" where
  "accounted es e = (case e of
     BaoEnsureMount _ p _ \<Rightarrow> mount_claimed es p
   | BaoConfigure _ p _ _ \<Rightarrow> mount_claimed es p
   | BaoDeleteMount _ p _ \<Rightarrow> mount_released es p
   | BaoEnsureRole _ m r _ \<Rightarrow> role_claimed es m (jr_Name r)
   | BaoDeleteRole _ m n _ \<Rightarrow> role_released es m n
   | _ \<Rightarrow> True)"

lemma claim_mono:
  assumes "set es \<subseteq> set es'"
  shows "mount_claimed es p \<Longrightarrow> mount_claimed es' p" "mount_released es p \<Longrightarrow> mount_released es' p"
    "role_claimed es m n \<Longrightarrow> role_claimed es' m n" "role_released es m n \<Longrightarrow> role_released es' m n"
proof -
  have t: "trust_seen es t \<Longrightarrow> trust_seen es' t" for t using assms by (auto simp: trust_seen_def)
  have b: "binding_shown es b \<Longrightarrow> binding_shown es' b" for b using assms by (auto simp: binding_shown_def)
  show "mount_claimed es p \<Longrightarrow> mount_claimed es' p" unfolding mount_claimed_def using assms t by blast
  show "mount_released es p \<Longrightarrow> mount_released es' p" unfolding mount_released_def using assms by blast
  show "role_claimed es m n \<Longrightarrow> role_claimed es' m n" unfolding role_claimed_def using assms b by blast
  show "role_released es m n \<Longrightarrow> role_released es' m n" unfolding role_released_def using assms by blast
qed

section \<open>Accountable controllers\<close>

text \<open>A controller each of whose calls is accounted for by the log of its own pass.\<close>

locale accountable =
  fixes handle :: "'q \<Rightarrow> ('w, 'e, 'a) prog" and account :: "'e list \<Rightarrow> 'e \<Rightarrow> bool"
  assumes handle_accounts: "spec (handle q) (\<lambda>_ es. list_all (account es) es)"
    and account_mono: "set es \<subseteq> set es' \<Longrightarrow> account es e \<Longrightarrow> account es' e"
begin

lemma queue_accounts: "spec (run_queue handle qs) (\<lambda>_ es. list_all (account es) es)"
proof (induction qs)
  case Nil
  then show ?case by (simp add: spec_return)
next
  case (Cons q qs)
  have both: "list_all (account (es @ es')) (es @ es')"
    if "list_all (account es) es" "list_all (account es') es'" for es es'
    using that account_mono [of es "es @ es'"] account_mono [of es' "es @ es'"] by (auto simp: list_all_iff)
  show ?case
    unfolding run_queue.simps
    by (rule spec_bind [OF handle_accounts], rule spec_bind [OF Cons.IH], rule spec_return)
       (simp only: append_Nil2 both)
qed

end

lemma accounted_mono:
  assumes "set es \<subseteq> set es'" "accounted es e"
  shows "accounted es' e"
  using assms(2) claim_mono [OF assms(1)] by (cases e) (auto simp: accounted_def)

lemma spec_list_all:
  assumes "emits (\<lambda>e. \<forall>es. accounted es e) m"
  shows "spec m (\<lambda>_ es. list_all (accounted es) es)"
  using spec_emits [of "\<lambda>e. \<forall>es. accounted es e" m] assms
  by (auto intro: spec_mono simp: list_all_iff)

lemma trust_working_seen: "trust_working es = Some t \<Longrightarrow> trust_seen es t"
proof (induction es rule: rev_induct)
  case (snoc e es)
  then show ?case by (cases e) (auto simp: trust_working_def trust_seen_def split: sum.splits)
qed (simp add: trust_working_def)

lemma binding_working_shown: "binding_working es = Some b \<Longrightarrow> binding_shown es b"
proof (induction es rule: rev_induct)
  case (snoc e es)
  then show ?case by (cases e) (auto simp: binding_working_def binding_seen_def binding_shown_def split: sum.splits)
qed (simp add: binding_working_def)

lemma trust_call_accounted:
  assumes "trust_call_ok k prov ns nm es e"
  shows "accounted es e"
proof -
  have claimed: "mount_claimed es (AuthMountPath (resolveAuthMountPrefix (sc_Spec cfg) (Some i)) (om_Namespace (ct_Meta t))
      (lor_Name (cts_ControlPlaneRef (ct_Spec t))))"
    if "trust_working es = Some t" "GotServiceConfig prov (Inr cfg) \<in> set es" "trust_instance k es t i" for t cfg i
    using that trust_working_seen unfolding mount_claimed_def trust_instance_def CT_mountPath_def by blast
  show ?thesis
    using assms claimed by (cases e) (auto simp: accounted_def trust_call_ok_def mount_released_def)
qed

lemma binding_call_accounted:
  assumes "binding_call_ok k ns nm es e"
  shows "accounted es e"
proof -
  have claimed: "role_claimed es m (jr_Name r)"
    if "binding_working es = Some b" "role_origin k b (pbs_ControlPlaneEntityRefs (pb_Spec b)) es i m r" for b i m r
    using that binding_working_shown unfolding role_claimed_def role_origin_def by fastforce
  have released: "role_released es m n"
    if "GotPolicyBinding ns nm (Inr b) \<in> set es" "deleting (pb_Meta b)"
      "role_delete_ok k (om_Namespace (pb_Meta b)) (pbst_Roles (pb_Status b)) es (BaoDeleteRole i m n u)" for b i m n u
    using that unfolding role_released_def role_delete_ok_def by (simp, blast)
  show ?thesis
    using assms claimed released by (cases e) (auto simp: accounted_def binding_call_ok_def)
qed

lemma OI_accounts: "emits (\<lambda>e. \<forall>es. accounted es e) (OI_Reconcile k R ns nm)"
  unfolding OI_Reconcile_def OI_patchStatus_def by (intro emits_intros) (simp_all add: accounted_def)

lemma PE_accounts: "emits (\<lambda>e. \<forall>es. accounted es e) (PE_Reconcile k R ns nm)"
  unfolding PE_Reconcile_def PE_patchStatus_def by (intro emits_intros) (simp_all add: accounted_def)

lemma CE_accounts: "emits (\<lambda>e. \<forall>es. accounted es e) (CE_Reconcile k env R ns nm)"
  unfolding CE_Reconcile_def CE_identify_def CE_patchStatus_def controlPlaneClusterAccess_def
    resolveServiceAccountIdentity_def
  by (intro emits_intros) (simp_all add: accounted_def)

lemma service_accounts: "spec (service_handle k env S q) (\<lambda>_ es. list_all (accounted es) es)"
proof (cases q)
  case (ReqTrust ns nm)
  then show ?thesis
    unfolding service_handle_def
    by simp (rule spec_mono [OF CT_scope], auto simp: list_all_iff intro: trust_call_accounted)
next
  case (ReqBinding ns nm)
  then show ?thesis
    unfolding service_handle_def
    by simp (rule spec_mono [OF PB_scope], auto simp: list_all_iff intro: binding_call_accounted)
qed (simp_all add: service_handle_def spec_list_all OI_accounts PE_accounts CE_accounts)

interpretation service_accountable: accountable "service_handle k env S" accounted for k env S
  by unfold_locales (rule service_accounts, rule accounted_mono)

section \<open>What an event of the log can change\<close>

lemma replay_changed:
  "g (replay es f) \<noteq> g f \<Longrightarrow> \<exists>e \<in> set es. \<exists>f'. g (apply_event e f') \<noteq> g f'"
proof (induction es arbitrary: f)
  case (Cons e es)
  then show ?case by (cases "g (apply_event e f) = g f") fastforce+
qed simp

lemma apply_mount_changed:
  assumes "(HasMount (apply_event e f) p, Config (apply_event e f) p) \<noteq> (HasMount f p, Config f p)" "accounted es e"
  shows "mount_claimed es p \<or> mount_released es p"
  using assms
  by (cases e) (auto simp: fake_defs accounted_def Let_def split: option.splits if_splits)

lemma apply_role_changed:
  assumes "fmlookup (fk_roles (apply_event e f)) x \<noteq> fmlookup (fk_roles f) x" "accounted es e"
  shows "(\<exists>m n. role_key m n = x \<and> (role_claimed es m n \<or> role_released es m n)) \<or>
    (\<exists>p. under_mount p x \<and> mount_released es p)"
  using assms
  by (cases e) (auto simp: fake_defs accounted_def Let_def split: option.splits if_splits)

section \<open>Properties\<close>

text \<open>C10. Accountability: after any queue of passes, whatever the API servers answer, a mount or trust
  configuration of OpenBao that differs is the computed path of a trust that was seen in the queue
  or was recorded by a deleted one; a role that differs belongs to a reference of a binding that
  was seen, or was recorded by a deleted binding, or lies under the recorded mount of a deleted
  trust. What no object names stays as it is.\<close>

theorem openbao_accountability:
  assumes "service_hosted bao env S"
  shows "let es = run_log (run_queue (service_handle k env S) qs) w;
        g = bao (run_world (run_queue (service_handle k env S) qs) w)
    in ((HasMount g p, Config g p) \<noteq> (HasMount (bao w) p, Config (bao w) p) \<longrightarrow>
          mount_claimed es p \<or> mount_released es p) \<and>
       (Role g m n \<noteq> Role (bao w) m n \<longrightarrow>
          (\<exists>m' n'. role_key m' n' = role_key m n \<and> (role_claimed es m' n' \<or> role_released es m' n')) \<or>
          (\<exists>q. under_mount q (role_key m n) \<and> mount_released es q))"
proof -
  define es where "es = run_log (run_queue (service_handle k env S) qs) w"
  have g: "bao (run_world (run_queue (service_handle k env S) qs) w) = replay es (bao w)"
    unfolding es_def by (rule follows_log [OF follows_service_queue [OF assms]])
  have acc: "accounted es e" if "e \<in> set es" for e
    using spec_run [OF service_accountable.queue_accounts [of k env S qs], of w] that unfolding es_def list_all_iff by blast
  have mount: "mount_claimed es p \<or> mount_released es p"
    if "(HasMount (replay es (bao w)) p, Config (replay es (bao w)) p) \<noteq> (HasMount (bao w) p, Config (bao w) p)"
    using replay_changed [where g = "\<lambda>f. (HasMount f p, Config f p)", OF that] apply_mount_changed acc by blast
  have role: "(\<exists>m' n'. role_key m' n' = role_key m n \<and> (role_claimed es m' n' \<or> role_released es m' n')) \<or>
      (\<exists>q. under_mount q (role_key m n) \<and> mount_released es q)"
    if "Role (replay es (bao w)) m n \<noteq> Role (bao w) m n"
    using replay_changed [where g = "\<lambda>f. fmlookup (fk_roles f) (role_key m n)", OF that [unfolded Role_def]]
      apply_role_changed acc by blast
  show ?thesis
    unfolding Let_def g es_def [symmetric] using mount role by blast
qed

end
