(* ===== verification/Watches.thy ===== *)
theory Watches
  imports CtlTrust CtlEntity CtlBinding DeleteValidation
begin

text \<open>
  The functions that map a change of one object to the objects to reconcile, against the
  references that the delete webhooks protect: a change wakes exactly the objects that would
  block its deletion, and a change of a trust reaches the bindings over its entities.
\<close>

lemma webhook_refers:
  "(let ref = cts_ProjectEntityRef (ct_Spec t)
    in nor_Namespace ref = om_Namespace (pe_Meta pe) \<and> nor_Name ref = om_Name (pe_Meta pe)) = trust_refers pe t"
  "(lor_Name (ces_ControlPlaneTrustRef (ce_Spec e)) = om_Name (ct_Meta trust)) = entity_refers trust e"
  "policyBindingReferencesEntity b (om_Name (ce_Meta e)) = binding_refers e b"
  by (simp_all add: Let_def trust_refers_def entity_refers_def binding_refers_def policyBindingReferencesEntity_def)

definition request_of :: "ObjectMeta \<Rightarrow> string \<times> string" where
  "request_of m = (om_Namespace m, om_Name m)"

section \<open>Properties\<close>

lemma enqueued_for_trust:
  "q \<in> set (fst (PB_enqueueForTrust R trust w)) \<longleftrightarrow>
     (\<exists>es bs. fst (kc_ListControlPlaneEntities (br_OnboardingCluster R) (Some (om_Namespace (ct_Meta trust))) w) = Inr es \<and>
        fst (kc_ListPolicyBindings (br_OnboardingCluster R) (Some (om_Namespace (ct_Meta trust)))
          (snd (kc_ListControlPlaneEntities (br_OnboardingCluster R) (Some (om_Namespace (ct_Meta trust))) w))) = Inr bs \<and>
        (\<exists>e \<in> set es. \<exists>b \<in> set bs. entity_refers trust e \<and> binding_refers e b \<and> q = request_of (pb_Meta b)))"
  by (simp add: PB_enqueueForTrust_def Let_def webhook_refers request_of_def binding_refers_def list_ex_iff
      filter_empty_conv split: prod.splits sum.splits) fastforce

text \<open>C33. A change of a ProjectEntity, trust or entity enqueues exactly the listed trusts, entities
  or bindings that refer to it, in the order of the list: the objects whose reference makes
  the delete webhook refuse. A change of a trust also enqueues exactly the bindings of its namespace
  that reference an entity which refers to the trust, so that the watches compose. A failed listing
  enqueues nothing.\<close>

theorem watches_enqueue_dependents:
  "fst (CT_enqueueForProjectEntity R pe w) =
     (case fst (kc_ListControlPlaneTrusts (tr_OnboardingCluster R) None w) of Inl _ \<Rightarrow> []
      | Inr ts \<Rightarrow> map (\<lambda>t. request_of (ct_Meta t)) (filter (trust_refers pe) ts)) \<and>
   fst (CE_enqueueForTrust R' trust w) =
     (case fst (kc_ListControlPlaneEntities (nr_OnboardingCluster R') (Some (om_Namespace (ct_Meta trust))) w) of
        Inl _ \<Rightarrow> []
      | Inr es \<Rightarrow> map (\<lambda>e. request_of (ce_Meta e)) (filter (entity_refers trust) es)) \<and>
   fst (PB_enqueueForEntity R'' entity w) =
     (case fst (kc_ListPolicyBindings (br_OnboardingCluster R'') (Some (om_Namespace (ce_Meta entity))) w) of
        Inl _ \<Rightarrow> []
      | Inr bs \<Rightarrow> map (\<lambda>b. request_of (pb_Meta b)) (filter (binding_refers entity) bs)) \<and>
   (q \<in> set (fst (PB_enqueueForTrust R'' trust w)) \<longleftrightarrow>
     (\<exists>es bs. fst (kc_ListControlPlaneEntities (br_OnboardingCluster R'') (Some (om_Namespace (ct_Meta trust))) w) = Inr es \<and>
        fst (kc_ListPolicyBindings (br_OnboardingCluster R'') (Some (om_Namespace (ct_Meta trust)))
          (snd (kc_ListControlPlaneEntities (br_OnboardingCluster R'') (Some (om_Namespace (ct_Meta trust))) w))) = Inr bs \<and>
        (\<exists>e \<in> set es. \<exists>b \<in> set bs. entity_refers trust e \<and> binding_refers e b \<and> q = request_of (pb_Meta b))))"
  by (simp add: enqueued_for_trust, intro conjI;
      simp add: CT_enqueueForProjectEntity_def CE_enqueueForTrust_def PB_enqueueForEntity_def webhook_refers
        request_of_def split: prod.splits sum.splits)

end
