(* ===== verification/Sample.thy ===== *)
theory Sample
  imports CtlInstance CtlProjectEntity CtlTrust CtlEntity BindingRuns DeleteValidation FakeClient
begin

text \<open>
  A concrete environment on which the properties are instantiated: the helpers of
  apimachinery and controller-runtime as their documentation describes them, a cluster that
  answers from a fixed set of objects and accepts every write, and a client factory that hands
  out the in-memory OpenBao of \<open>fake.go\<close>, which is the world.
\<close>

section \<open>The library helpers\<close>

fun ref_set :: "Condition list \<Rightarrow> Condition \<Rightarrow> Condition list" where
  "ref_set [] c = [c]"
| "ref_set (d # ds) c =
     (if c_Type d = c_Type c
      then (if c_Status d = c_Status c then c\<lparr>c_LastTransitionTime := c_LastTransitionTime d\<rparr> else c) # ds
      else d # ref_set ds c)"

definition ref_find :: "Condition list \<Rightarrow> string \<Rightarrow> Condition option" where
  "ref_find cs t = List.find (\<lambda>c. c_Type c = t) cs"

definition ref_klib :: klib where
  "ref_klib = \<lparr>k_SetStatusCondition = ref_set, k_FindStatusCondition = ref_find,
     k_AddFinalizer = (\<lambda>f fs. if f \<in> set fs then (fs, False) else (fs @ [f], True)),
     k_RemoveFinalizer = (\<lambda>f fs. (removeAll f fs, f \<in> set fs)),
     k_Now = 1, k_Print = (\<lambda>_. False), k_KeyString = (\<lambda>ns nm. ns @ ''/'' @ nm),
     k_JSONError = (\<lambda>_. errors_New ''invalid JSON''),
     k_StableMCPNamespace = (\<lambda>nm ns. Inr (''mcp--'' @ ns @ ''--'' @ nm)),
     k_EnvVariablePodNamespace = ''POD_NAMESPACE'',
     k_EnvVariablePodServiceAccountName = ''POD_SERVICE_ACCOUNT''\<rparr>"

lemma ref_klib_sel [simp]:
  "k_SetStatusCondition ref_klib = ref_set" "k_FindStatusCondition ref_klib = ref_find"
  "k_AddFinalizer ref_klib f fs = (if f \<in> set fs then (fs, False) else (fs @ [f], True))"
  "k_RemoveFinalizer ref_klib f fs = (removeAll f fs, f \<in> set fs)"
  "k_Now ref_klib = 1" "k_StableMCPNamespace ref_klib nm ns = Inr (''mcp--'' @ ns @ ''--'' @ nm)"
  "k_EnvVariablePodNamespace ref_klib = ''POD_NAMESPACE''"
  by (simp_all add: ref_klib_def)

lemma ref_find_set_same: "\<exists>d. ref_find (ref_set cs c) (c_Type c) = Some d \<and> same_condition d c"
  by (induction cs) (auto simp: ref_find_def same_condition_def)

lemma ref_find_set_other: "t \<noteq> c_Type c \<Longrightarrow> ref_find (ref_set cs c) t = ref_find cs t"
  by (induction cs) (auto simp: ref_find_def)

lemma lawful_conditions_ref: "lawful_conditions ref_klib"
  unfolding lawful_conditions_def
proof (intro allI)
  fix cs c t
  show "case k_FindStatusCondition ref_klib (k_SetStatusCondition ref_klib cs c) t of
        None \<Rightarrow> t \<noteq> c_Type c \<and> k_FindStatusCondition ref_klib cs t = None
      | Some d \<Rightarrow> if t = c_Type c then same_condition d c else k_FindStatusCondition ref_klib cs t = Some d"
    using ref_find_set_same [of cs c] ref_find_set_other [of t c cs]
    by (cases "t = c_Type c") (auto split: option.splits)
qed

lemma lawful_finalizers_ref: "lawful_finalizers ref_klib"
  by (simp add: lawful_finalizers_def)

section \<open>A cluster with fixed answers\<close>

record objects =
  ob_Instances :: "OpenBaoInstance list"
  ob_Configs :: "ServiceConfig list"
  ob_ProjectEntities :: "ProjectEntity list"
  ob_Trusts :: "ControlPlaneTrust list"
  ob_Entities :: "ControlPlaneEntity list"
  ob_Bindings :: "PolicyBinding list"
  ob_ControlPlanes :: "ControlPlane list"

definition not_found :: goerr where
  "not_found = \<lparr>err_Msg = ''not found'', err_Response = None, err_NotFound = True\<rparr>"

definition fetch :: "('a \<Rightarrow> string \<times> string) \<Rightarrow> 'a list \<Rightarrow> string \<Rightarrow> string \<Rightarrow> ('w, 'a) oper" where
  "fetch key xs ns nm w = (case List.find (\<lambda>x. key x = (ns, nm)) xs of
       Some x \<Rightarrow> (Inr x, w) | None \<Rightarrow> (Inl not_found, w))"

definition listing :: "('a \<Rightarrow> string) \<Rightarrow> 'a list \<Rightarrow> string option \<Rightarrow> ('w, 'a list) oper" where
  "listing ns xs sel w = (Inr (case sel of None \<Rightarrow> xs | Some n \<Rightarrow> filter (\<lambda>x. ns x = n) xs), w)"

definition key_of :: "ObjectMeta \<Rightarrow> string \<times> string" where
  "key_of m = (om_Namespace m, om_Name m)"

text \<open>\<open>token\<close> is what the cluster's token endpoint returns.\<close>

definition fixed_cluster :: "string \<Rightarrow> objects \<Rightarrow> 'w Cluster" where
  "fixed_cluster token ob = \<lparr>
     kc_GetOpenBaoInstance = fetch (\<lambda>x. key_of (oi_Meta x)) (ob_Instances ob),
     kc_GetServiceConfig = fetch (\<lambda>x. key_of (sc_Meta x)) (ob_Configs ob),
     kc_GetProjectEntity = fetch (\<lambda>x. key_of (pe_Meta x)) (ob_ProjectEntities ob),
     kc_GetControlPlaneTrust = fetch (\<lambda>x. key_of (ct_Meta x)) (ob_Trusts ob),
     kc_GetControlPlaneEntity = fetch (\<lambda>x. key_of (ce_Meta x)) (ob_Entities ob),
     kc_GetPolicyBinding = fetch (\<lambda>x. key_of (pb_Meta x)) (ob_Bindings ob),
     kc_GetControlPlane = fetch (\<lambda>x. (cp_Namespace x, cp_Name x)) (ob_ControlPlanes ob),
     kc_GetSecret = (\<lambda>ns nm w. (Inl not_found, w)),
     kc_ListControlPlaneTrusts = listing (\<lambda>x. om_Namespace (ct_Meta x)) (ob_Trusts ob),
     kc_ListControlPlaneEntities = listing (\<lambda>x. om_Namespace (ce_Meta x)) (ob_Entities ob),
     kc_ListPolicyBindings = listing (\<lambda>x. om_Namespace (pb_Meta x)) (ob_Bindings ob),
     kc_UpdateControlPlaneTrust = (\<lambda>x w. (Inr x, w)),
     kc_UpdatePolicyBinding = (\<lambda>x w. (Inr x, w)),
     kc_StatusOpenBaoInstance = (\<lambda>x w. (Inr (), w)),
     kc_StatusProjectEntity = (\<lambda>x w. (Inr (), w)),
     kc_StatusControlPlaneTrust = (\<lambda>x w. (Inr (), w)),
     kc_StatusControlPlaneEntity = (\<lambda>x w. (Inr (), w)),
     kc_StatusPolicyBinding = (\<lambda>x w. (Inr (), w)),
     kc_NewForConfig = Inr \<lparr>cs_GetServiceAccount = (\<lambda>ns nm w. (Inr (), w)),
       cs_CreateToken = (\<lambda>ns nm tr w. (Inr token, w))\<rparr>\<rparr>"

lemmas fixed_cluster_defs = fixed_cluster_def fetch_def listing_def key_of_def not_found_def

section \<open>Sample objects\<close>

definition sample_meta :: "string \<Rightarrow> string \<Rightarrow> ObjectMeta" where
  "sample_meta ns nm = \<lparr>om_Name = nm, om_Namespace = ns, om_Generation = 3,
     om_DeletionTimestamp = None, om_Finalizers = []\<rparr>"

definition sample_instance :: OpenBaoInstance where
  "sample_instance = \<lparr>oi_Meta = sample_meta [] ''bao'',
     oi_Spec = \<lparr>ois_Address = ''https://bao'', ois_CABundleRef = None, ois_InsecureSkipVerify = False,
       ois_Namespace = [], ois_Auth = \<lparr>as_JWT = None\<rparr>\<rparr>,
     oi_Status = \<lparr>oist_ObservedGeneration = 3, oist_Version = [], oist_Initialized = None,
       oist_Sealed = None, oist_LastProbeTime = None,
       oist_Conditions = [mk_condition ConditionOpenBaoReachable ConditionTrue ReasonReconciled []]\<rparr>\<rparr>"

definition sample_config :: ServiceConfig where
  "sample_config = \<lparr>sc_Meta = sample_meta [] ''prov'',
     sc_Spec = \<lparr>scs_AuthMountPrefix = ''ocp'', scs_RequeueAfter = [], scs_PlatformCredentialRef = None\<rparr>,
     sc_Status = \<lparr>scst_ObservedGeneration = 0, scst_Conditions = []\<rparr>\<rparr>"

definition sample_project_entity :: ProjectEntity where
  "sample_project_entity = \<lparr>pe_Meta = sample_meta ''p'' ''pe'',
     pe_Spec = \<lparr>pes_OpenBaoInstanceRef = \<lparr>lor_Name = ''bao''\<rparr>\<rparr>,
     pe_Status = \<lparr>pest_ObservedGeneration = 0, pest_EntityID = [], pest_GroupID = [],
       pest_ResolvedOpenBaoRef = [], pest_Conditions = []\<rparr>\<rparr>"

definition sample_control_plane :: ControlPlane where
  "sample_control_plane = \<lparr>cp_Name = ''cp'', cp_Namespace = ''ns'',
     cp_Endpoints = [\<lparr>ep_Name = ''service-account-issuer'', ep_URL = ''https://iss''\<rparr>]\<rparr>"

definition sample_trust_spec :: ControlPlaneTrustSpec where
  "sample_trust_spec = \<lparr>cts_ProjectEntityRef = \<lparr>nor_Name = ''pe'', nor_Namespace = ''p''\<rparr>,
     cts_ControlPlaneRef = \<lparr>lor_Name = ''cp''\<rparr>, cts_Audience = ''aud''\<rparr>"

text \<open>A trust as created, one that is configured under the mount \<open>m\<close>, and one being deleted.\<close>

definition sample_trust :: ControlPlaneTrust where
  "sample_trust = \<lparr>ct_Meta = sample_meta ''ns'' ''t'', ct_Spec = sample_trust_spec,
     ct_Status = \<lparr>ctst_ObservedGeneration = 0, ctst_AuthMountPath = [], ctst_Issuer = [],
       ctst_Audience = [], ctst_ResolvedOpenBaoInstance = [], ctst_Conditions = []\<rparr>\<rparr>"

definition sample_trust_ready :: ControlPlaneTrust where
  "sample_trust_ready = sample_trust\<lparr>ct_Status := \<lparr>ctst_ObservedGeneration = 3, ctst_AuthMountPath = ''m'',
     ctst_Issuer = ''https://iss'', ctst_Audience = ''aud'', ctst_ResolvedOpenBaoInstance = ''bao'',
     ctst_Conditions = [mk_condition ConditionTrustConfigured ConditionTrue ReasonReconciled []]\<rparr>\<rparr>"

definition sample_trust_deleted :: ControlPlaneTrust where
  "sample_trust_deleted = sample_trust_ready\<lparr>ct_Meta := (sample_meta ''ns'' ''t'')
     \<lparr>om_DeletionTimestamp := Some 9, om_Finalizers := [FinalizerControlPlaneTrust]\<rparr>\<rparr>"

definition sample_entity :: ControlPlaneEntity where
  "sample_entity = \<lparr>ce_Meta = sample_meta ''ns'' ''e'',
     ce_Spec = \<lparr>ces_ControlPlaneTrustRef = \<lparr>lor_Name = ''t''\<rparr>,
       ces_ServiceAccountRef = \<lparr>nor_Name = ''sa'', nor_Namespace = ''sans''\<rparr>\<rparr>,
     ce_Status = \<lparr>cest_ObservedGeneration = 3,
       cest_Identity = Some \<lparr>sai_Alias = ''a'', sai_Subject = ''sub'', sai_Issuer = ''https://iss'',
         sai_Audiences = [''aud'']\<rparr>, cest_IdentityID = ''id'',
       cest_Conditions = [mk_condition ConditionIdentityResolved ConditionTrue ReasonReconciled []]\<rparr>\<rparr>"

definition sample_binding :: PolicyBinding where
  "sample_binding = \<lparr>pb_Meta = sample_meta ''ns'' ''b'',
     pb_Spec = \<lparr>pbs_PolicyName = ''pol'', pbs_ControlPlaneEntityRefs = [\<lparr>lor_Name = ''e''\<rparr>],
       pbs_TTL = ''1h'', pbs_MaxTTL = ''2h''\<rparr>,
     pb_Status = \<lparr>pbst_ObservedGeneration = 0, pbst_Roles = [], pbst_PolicyName = [],
       pbst_PolicyExists = [], pbst_Conditions = []\<rparr>\<rparr>"

definition sample_factory :: "FakeClient OpenBaoClientFactory" where
  "sample_factory inst w = (Inr fake_client, w)"

lemmas sample_defs = sample_meta_def sample_instance_def sample_config_def sample_project_entity_def
  sample_control_plane_def sample_trust_spec_def sample_trust_def sample_trust_ready_def
  sample_trust_deleted_def sample_entity_def sample_binding_def

lemma sample_sel [simp]:
  "om_Name (sample_meta ns nm) = nm" "om_Namespace (sample_meta ns nm) = ns"
  "om_Generation (sample_meta ns nm) = 3" "om_DeletionTimestamp (sample_meta ns nm) = None"
  "om_Finalizers (sample_meta ns nm) = []"
  "oi_Meta sample_instance = sample_meta [] ''bao''"
  "sc_Meta sample_config = sample_meta [] ''prov''"
  "pe_Meta sample_project_entity = sample_meta ''p'' ''pe''"
  "pes_OpenBaoInstanceRef (pe_Spec sample_project_entity) = \<lparr>lor_Name = ''bao''\<rparr>"
  "cp_Name sample_control_plane = ''cp''" "cp_Namespace sample_control_plane = ''ns''"
  "ct_Meta sample_trust = sample_meta ''ns'' ''t''" "ct_Spec sample_trust = sample_trust_spec"
  "ctst_Conditions (ct_Status sample_trust) = []"
  "ct_Meta sample_trust_ready = sample_meta ''ns'' ''t''" "ct_Spec sample_trust_ready = sample_trust_spec"
  "ctst_AuthMountPath (ct_Status sample_trust_ready) = ''m''"
  "ctst_Audience (ct_Status sample_trust_ready) = ''aud''"
  "ctst_ResolvedOpenBaoInstance (ct_Status sample_trust_ready) = ''bao''"
  "ctst_AuthMountPath (ct_Status sample_trust_deleted) = ''m''"
  "ctst_ResolvedOpenBaoInstance (ct_Status sample_trust_deleted) = ''bao''"
  "ct_Meta sample_trust_deleted = (sample_meta ''ns'' ''t'')
     \<lparr>om_DeletionTimestamp := Some 9, om_Finalizers := [FinalizerControlPlaneTrust]\<rparr>"
  "cts_ProjectEntityRef sample_trust_spec = \<lparr>nor_Name = ''pe'', nor_Namespace = ''p''\<rparr>"
  "cts_ControlPlaneRef sample_trust_spec = \<lparr>lor_Name = ''cp''\<rparr>" "cts_Audience sample_trust_spec = ''aud''"
  "ce_Meta sample_entity = sample_meta ''ns'' ''e''"
  "ces_ControlPlaneTrustRef (ce_Spec sample_entity) = \<lparr>lor_Name = ''t''\<rparr>"
  "ces_ServiceAccountRef (ce_Spec sample_entity) = \<lparr>nor_Name = ''sa'', nor_Namespace = ''sans''\<rparr>"
  "pb_Meta sample_binding = sample_meta ''ns'' ''b''"
  "pbs_PolicyName (pb_Spec sample_binding) = ''pol''"
  "pbs_ControlPlaneEntityRefs (pb_Spec sample_binding) = [\<lparr>lor_Name = ''e''\<rparr>]"
  "pbst_Roles (pb_Status sample_binding) = []"
  by (simp_all add: sample_defs)

lemma sample_reachable [simp]: "isInstanceReachable ref_klib (Some sample_instance)"
  by (simp add: isInstanceReachable_def isConditionTrue_def ref_find_def sample_instance_def)

lemma sample_config_valid [simp]: "Validate ref_klib (sc_Spec sample_config) = None"
  by (simp add: Validate_def sample_config_def)

lemma sample_issuer [simp]: "controlPlaneIssuer (Some sample_control_plane) = ''https://iss''"
  by (simp add: controlPlaneIssuer_def sample_control_plane_def strings_TrimRight_def)

lemma sample_trust_configured [simp]:
  "isConditionTrue ref_klib (ctst_Conditions (ct_Status sample_trust_ready)) ConditionTrustConfigured"
  by (simp add: isConditionTrue_def ref_find_def sample_trust_ready_def)

lemma sample_resolved [simp]:
  "PB_entityResolved ref_klib sample_entity" "PB_trustResolved ref_klib sample_trust_ready"
  "cest_Identity (ce_Status sample_entity) =
     Some \<lparr>sai_Alias = ''a'', sai_Subject = ''sub'', sai_Issuer = ''https://iss'', sai_Audiences = [''aud'']\<rparr>"
proof -
  show "PB_entityResolved ref_klib sample_entity"
    by (simp add: PB_entityResolved_def isConditionTrue_def ref_find_def sample_entity_def)
  show "PB_trustResolved ref_klib sample_trust_ready" by (simp add: PB_trustResolved_def)
qed (simp add: sample_entity_def)

section \<open>Sample clusters and reconcilers\<close>

definition sample_cluster ::
    "string \<Rightarrow> ControlPlaneTrust \<Rightarrow> ControlPlaneEntity list \<Rightarrow> PolicyBinding \<Rightarrow> FakeClient Cluster" where
  "sample_cluster token t es b = fixed_cluster token
     \<lparr>ob_Instances = [sample_instance], ob_Configs = [sample_config],
      ob_ProjectEntities = [sample_project_entity], ob_Trusts = [t], ob_Entities = es,
      ob_Bindings = [b], ob_ControlPlanes = [sample_control_plane]\<rparr>"

lemma sample_cluster_sel [simp]:
  "kc_GetOpenBaoInstance (sample_cluster tok t es b) = fetch (\<lambda>x. key_of (oi_Meta x)) [sample_instance]"
  "kc_GetServiceConfig (sample_cluster tok t es b) = fetch (\<lambda>x. key_of (sc_Meta x)) [sample_config]"
  "kc_GetProjectEntity (sample_cluster tok t es b) = fetch (\<lambda>x. key_of (pe_Meta x)) [sample_project_entity]"
  "kc_GetControlPlaneTrust (sample_cluster tok t es b) = fetch (\<lambda>x. key_of (ct_Meta x)) [t]"
  "kc_GetControlPlaneEntity (sample_cluster tok t es b) = fetch (\<lambda>x. key_of (ce_Meta x)) es"
  "kc_GetPolicyBinding (sample_cluster tok t es b) = fetch (\<lambda>x. key_of (pb_Meta x)) [b]"
  "kc_GetControlPlane (sample_cluster tok t es b) =
     fetch (\<lambda>x. (cp_Namespace x, cp_Name x)) [sample_control_plane]"
  "kc_ListControlPlaneTrusts (sample_cluster tok t es b) = listing (\<lambda>x. om_Namespace (ct_Meta x)) [t]"
  "kc_ListControlPlaneEntities (sample_cluster tok t es b) = listing (\<lambda>x. om_Namespace (ce_Meta x)) es"
  "kc_ListPolicyBindings (sample_cluster tok t es b) = listing (\<lambda>x. om_Namespace (pb_Meta x)) [b]"
  "kc_UpdateControlPlaneTrust (sample_cluster tok t es b) = (\<lambda>x w. (Inr x, w))"
  "kc_UpdatePolicyBinding (sample_cluster tok t es b) = (\<lambda>x w. (Inr x, w))"
  "kc_StatusOpenBaoInstance (sample_cluster tok t es b) = (\<lambda>x w. (Inr (), w))"
  "kc_StatusProjectEntity (sample_cluster tok t es b) = (\<lambda>x w. (Inr (), w))"
  "kc_StatusControlPlaneTrust (sample_cluster tok t es b) = (\<lambda>x w. (Inr (), w))"
  "kc_StatusControlPlaneEntity (sample_cluster tok t es b) = (\<lambda>x w. (Inr (), w))"
  "kc_StatusPolicyBinding (sample_cluster tok t es b) = (\<lambda>x w. (Inr (), w))"
  "kc_NewForConfig (sample_cluster tok t es b) = Inr \<lparr>cs_GetServiceAccount = (\<lambda>ns nm w. (Inr (), w)),
       cs_CreateToken = (\<lambda>ns nm tr w. (Inr tok, w))\<rparr>"
  by (simp_all add: sample_cluster_def fixed_cluster_def)

definition sample_CT :: "ControlPlaneTrust \<Rightarrow> FakeClient ControlPlaneTrustReconciler" where
  "sample_CT t = \<lparr>tr_PlatformCluster = sample_cluster [] t [sample_entity] sample_binding,
     tr_OnboardingCluster = sample_cluster [] t [sample_entity] sample_binding,
     tr_ProviderName = ''prov'', tr_ClientFactory = sample_factory\<rparr>"

definition sample_PB ::
    "ControlPlaneEntity list \<Rightarrow> PolicyBinding \<Rightarrow> FakeClient PolicyBindingReconciler" where
  "sample_PB es b = \<lparr>br_PlatformCluster = sample_cluster [] sample_trust_ready es b,
     br_OnboardingCluster = sample_cluster [] sample_trust_ready es b,
     br_ProviderName = ''prov'', br_ClientFactory = sample_factory\<rparr>"

lemma sample_reconciler_sel [simp]:
  "tr_PlatformCluster (sample_CT t) = sample_cluster [] t [sample_entity] sample_binding"
  "tr_OnboardingCluster (sample_CT t) = sample_cluster [] t [sample_entity] sample_binding"
  "tr_ProviderName (sample_CT t) = ''prov''" "tr_ClientFactory (sample_CT t) = sample_factory"
  "br_PlatformCluster (sample_PB es b) = sample_cluster [] sample_trust_ready es b"
  "br_OnboardingCluster (sample_PB es b) = sample_cluster [] sample_trust_ready es b"
  "br_ProviderName (sample_PB es b) = ''prov''" "br_ClientFactory (sample_PB es b) = sample_factory"
  by (simp_all add: sample_CT_def sample_PB_def)

text \<open>A world with the policy \<open>pol\<close> and the mount \<open>m\<close>.\<close>

definition sample_world :: FakeClient where
  "sample_world = NewFakeClient\<lparr>
     fk_HealthResult := \<lparr>hi_Initialized = True, hi_Sealed = False, hi_Version = ''2.0''\<rparr>,
     fk_Policies := fmap_of_list [(''pol'', True)], fk_mounts := fmap_of_list [(''m'', True)]\<rparr>"

lemmas run_simps = run_state_call fetch_def listing_def key_of_def getServiceConfig_def
  getOpenBaoInstance_def getControlPlane_def time_IsZero_def Let_def sample_factory_def not_found_def
  fake_defs

end
