(* ===== verification/Witnesses.thy ===== *)
theory Witnesses
  imports Effects Accounts Watches Sample
begin

text \<open>
  The properties with hypotheses applied to concrete passes: each controller is run on the
  sample cluster, its log is computed, and the property is read off that log.
\<close>


section \<open>Sample runs\<close>

lemmas run_defs = run_result_def run_log_def run_simps

section \<open>Reconcilers\<close>

definition sample_OI :: "FakeClient OpenBaoInstanceReconciler" where
  "sample_OI = \<lparr>ir_PlatformCluster = sample_cluster [] sample_trust [] sample_binding,
     ir_ProviderName = ''prov'', ir_ClientFactory = sample_factory\<rparr>"

definition sample_PE :: "FakeClient ProjectEntityReconciler" where
  "sample_PE = \<lparr>er_PlatformCluster = sample_cluster [] sample_trust [] sample_binding,
     er_OnboardingCluster = sample_cluster [] sample_trust [] sample_binding,
     er_ProviderName = ''prov'', er_ClientFactory = sample_factory\<rparr>"

definition sample_CE :: "ControlPlaneTrust \<Rightarrow> FakeClient ControlPlaneEntityReconciler" where
  "sample_CE t = \<lparr>nr_PlatformCluster = sample_cluster ''h.e30.s'' t [sample_entity] sample_binding,
     nr_OnboardingCluster = sample_cluster ''h.e30.s'' t [sample_entity] sample_binding,
     nr_ProviderName = ''prov''\<rparr>"

definition sample_api :: "FakeClient bao_api" where
  "sample_api = \<lparr>api_DefaultConfig = \<lparr>bcfg_Address = [], bcfg_Transport = OtherTransport\<rparr>,
     api_DefaultTransportSettings = 0, api_NewClient = (\<lambda>c. Inl not_found),
     api_SetNamespace = (\<lambda>_ h. h), api_SetToken = (\<lambda>_ h. h), api_WithNamespace = (\<lambda>_ h. h),
     api_SystemCertPool = True, api_PEMHasCerts = (\<lambda>_. False), api_Print = (\<lambda>_. False),
     api_Write = (\<lambda>_ _ _ w. (Inl not_found, w)), api_Read = (\<lambda>_ _ w. (Inl not_found, w)),
     api_Delete = (\<lambda>_ _ w. (Inl not_found, w)), api_EnableAuth = (\<lambda>_ _ _ w. (Inl not_found, w)),
     api_DisableAuth = (\<lambda>_ _ w. (Inl not_found, w)), api_SysHealth = (\<lambda>_ w. (Inl not_found, w))\<rparr>"

definition sample_env :: "FakeClient env" where
  "sample_env = \<lparr>env_Getenv = (\<lambda>_. ''pns''), env_AddToScheme = None,
     env_WaitForClusterAccess =
       (\<lambda>_ w. (Inr (sample_cluster ''h.e30.s'' sample_trust_ready [sample_entity] sample_binding), w)),
     env_bao = sample_api\<rparr>"

lemma sample_sel2 [simp]:
  "ir_PlatformCluster sample_OI = sample_cluster [] sample_trust [] sample_binding"
  "ir_ProviderName sample_OI = ''prov''" "ir_ClientFactory sample_OI = sample_factory"
  "er_PlatformCluster sample_PE = sample_cluster [] sample_trust [] sample_binding"
  "er_OnboardingCluster sample_PE = sample_cluster [] sample_trust [] sample_binding"
  "er_ProviderName sample_PE = ''prov''" "er_ClientFactory sample_PE = sample_factory"
  "nr_PlatformCluster (sample_CE t) = sample_cluster ''h.e30.s'' t [sample_entity] sample_binding"
  "nr_OnboardingCluster (sample_CE t) = sample_cluster ''h.e30.s'' t [sample_entity] sample_binding"
  "nr_ProviderName (sample_CE t) = ''prov''"
  "env_Getenv sample_env x = ''pns''" "env_AddToScheme sample_env = None"
  "env_WaitForClusterAccess sample_env args w =
     (Inr (sample_cluster ''h.e30.s'' sample_trust_ready [sample_entity] sample_binding), w)"
  by (simp_all add: sample_OI_def sample_PE_def sample_CE_def sample_env_def)

lemma sample_claims [simp]: "parseServiceAccountJWT je ''h.e30.s'' =
    Inr \<lparr>sai_Alias = [], sai_Subject = [], sai_Issuer = [], sai_Audiences = []\<rparr>"
proof -
  have "RawURLEncoding_DecodeString ''e30'' = Inr ''{}''" by code_simp
  moreover have "json_Unmarshal_claims ''{}'' = Some \<lparr>cl_Issuer = [], cl_Subject = [], cl_Audience = None\<rparr>"
    by code_simp
  ultimately show ?thesis by (simp add: parseServiceAccountJWT_def normalizeAudiences_def)
qed

abbreviation OI_log :: "event list" where
  "OI_log \<equiv> run_log (OI_Reconcile ref_klib sample_OI [] ''bao'') sample_world"
abbreviation PE_log :: "event list" where
  "PE_log \<equiv> run_log (PE_Reconcile ref_klib sample_PE ''p'' ''pe'') sample_world"
abbreviation CT_log :: "ControlPlaneTrust \<Rightarrow> event list" where
  "CT_log t \<equiv> run_log (CT_Reconcile ref_klib (sample_CT t) ''ns'' ''t'') sample_world"
abbreviation CE_log :: "ControlPlaneTrust \<Rightarrow> event list" where
  "CE_log t \<equiv> run_log (CE_Reconcile ref_klib sample_env (sample_CE t) ''ns'' ''e'') sample_world"
abbreviation PB_log :: "ControlPlaneEntity list \<Rightarrow> PolicyBinding \<Rightarrow> event list" where
  "PB_log es b \<equiv> run_log (PB_Reconcile ref_klib (sample_PB es b) ''ns'' ''b'') sample_world"


lemma sample_health [simp]:
  "fk_HealthErr sample_world = None"
  "fk_HealthResult sample_world = \<lparr>hi_Initialized = True, hi_Sealed = False, hi_Version = ''2.0''\<rparr>"
  "fk_HealthErr NewFakeClient = None"
  "fk_HealthResult NewFakeClient = \<lparr>hi_Initialized = False, hi_Sealed = False, hi_Version = []\<rparr>"
  by (simp_all add: sample_world_def NewFakeClient_def)

lemma ref_no_condition [simp]: "\<not> isConditionTrue ref_klib [] t"
  by (simp add: isConditionTrue_def ref_find_def)

lemma sample_trimmed [simp]: "strings_TrimSpace ''sans'' = ''sans''" "strings_TrimSpace ''sa'' = ''sa''"
  by code_simp+

lemmas PB_run_defs = PB_Reconcile_def PB_sync_def PB_round_def PB_writeRole_def PB_policy_switch_def
  PB_patchStatus_def PB_loop_init_def PB_reconcileDelete_def PB_deleteRole_def PB_finishDelete_def
  PB_findTrustForAuthMount_def

section \<open>Logs of the sample passes\<close>

lemma OI_healthy:
  obtains t where "StatusOpenBaoInstance t (Inr ()) \<in> set OI_log" "list_ex probe_healthy OI_log"
  by (simp add: run_defs OI_Reconcile_def OI_patchStatus_def probe_healthy_def)

abbreviation OI_sealed_log :: "event list" where
  "OI_sealed_log \<equiv> run_log (OI_Reconcile ref_klib sample_OI [] ''bao'') NewFakeClient"

lemma OI_unhealthy:
  obtains t where "GotOpenBaoInstance ''bao'' (Inr (Some sample_instance)) \<in> set OI_sealed_log"
    "StatusOpenBaoInstance t (Inr ()) \<in> set OI_sealed_log" "\<not> list_ex probe_healthy OI_sealed_log"
  by (simp add: run_defs OI_Reconcile_def OI_patchStatus_def probe_healthy_def)

lemma PE_ensured:
  obtains t i where "GotProjectEntity ''p'' ''pe'' (Inr sample_project_entity) \<in> set PE_log"
    "StatusProjectEntity t (Inr ()) \<in> set PE_log"
    "BaoEnsureEntity sample_instance (EntityName ''p'' ''pe'') (PE_metadata sample_project_entity) (Inr i) \<in> set PE_log"
  by (simp add: run_defs PE_Reconcile_def PE_patchStatus_def)

lemma CT_configured:
  obtains p c t where "BaoConfigure sample_instance p c (Inr ()) \<in> set (CT_log sample_trust)"
    "StatusControlPlaneTrust t (Inr ()) \<in> set (CT_log sample_trust)"
  by (simp add: run_defs CT_defs CT_patchStatus_def)

lemma CT_provisioned: "list_ex bao_provision (CT_log sample_trust)"
  by (simp add: run_defs CT_defs CT_patchStatus_def bao_provision_def)

lemma CT_deleted:
  obtains t where "GotControlPlaneTrust ''ns'' ''t'' (Inr sample_trust_deleted) \<in> set (CT_log sample_trust_deleted)"
    "UpdatedControlPlaneTrust t (Inr t) \<in> set (CT_log sample_trust_deleted)"
    "deleting (ct_Meta sample_trust_deleted)"
  by (simp add: run_defs CT_defs CT_patchStatus_def deleting_def)

lemma CE_resolved:
  obtains t where "GotControlPlaneEntity ''ns'' ''e'' (Inr sample_entity) \<in> set (CE_log sample_trust_ready)"
    "StatusControlPlaneEntity t (Inr ()) \<in> set (CE_log sample_trust_ready)"
  by (simp add: run_defs CE_Reconcile_def CE_patchStatus_def CE_identify_def controlPlaneClusterAccess_def
     resolveServiceAccountIdentity_def)

lemma CE_waiting:
  obtains t where "GotControlPlaneEntity ''ns'' ''e'' (Inr sample_entity) \<in> set (CE_log sample_trust)"
    "StatusControlPlaneEntity t (Inr ()) \<in> set (CE_log sample_trust)"
    "GotControlPlaneTrust ''ns'' ''t'' (Inr sample_trust) \<in> set (CE_log sample_trust)"
  by (simp add: run_defs CE_Reconcile_def CE_patchStatus_def CE_identify_def)

lemma sample_policies [simp]:
  "fk_PoliciesUnknown sample_world = False" "fk_Policies sample_world = fmupd ''pol'' True fmempty"
  "fk_mounts sample_world = fmupd ''m'' True fmempty"
  by (simp_all add: sample_world_def NewFakeClient_def)

lemma PB_ready:
  obtains t where "StatusPolicyBinding t (Inr ()) \<in> set (PB_log [sample_entity] sample_binding)"
    "isConditionTrue ref_klib (pbst_Conditions (pb_Status t)) ConditionReady"
  by (simp add: run_defs PB_run_defs PB_push_def PB_role_def PB_publishReady_def
     condition_rules [OF lawful_conditions_ref])

lemma PB_blocked:
  obtains t where "StatusPolicyBinding t (Inr ()) \<in> set (PB_log [] sample_binding)"
    "\<not> isConditionTrue ref_klib (pbst_Conditions (pb_Status t)) ConditionReady"
  by (simp add: run_defs PB_run_defs PB_push_def PB_block_def PB_publishReady_def
     condition_rules [OF lawful_conditions_ref])

definition sample_binding_deleted :: PolicyBinding where
  "sample_binding_deleted = sample_binding
     \<lparr>pb_Meta := (sample_meta ''ns'' ''b'')
        \<lparr>om_DeletionTimestamp := Some 9, om_Finalizers := [FinalizerPolicyBinding]\<rparr>,
      pb_Status := (pb_Status sample_binding)\<lparr>pbst_Roles :=
        [\<lparr>pbr_ControlPlaneEntityRef = \<lparr>lor_Name = ''e''\<rparr>, pbr_RoleName = ''r'', pbr_AuthMountPath = ''m'',
          pbr_Ready = True, pbr_Message = []\<rparr>]\<rparr>\<rparr>"

lemma PB_deleted:
  obtains t where "GotPolicyBinding ''ns'' ''b'' (Inr sample_binding_deleted) \<in> set (PB_log [] sample_binding_deleted)"
    "UpdatedPolicyBinding t (Inr t) \<in> set (PB_log [] sample_binding_deleted)"
    "deleting (pb_Meta sample_binding_deleted)"
  by (simp add: run_defs PB_run_defs PB_entered_def PB_with_finalizers_def sample_binding_deleted_def deleting_def
     sample_binding_def)

definition sample_trust_dangling :: ControlPlaneTrust where
  "sample_trust_dangling = sample_trust\<lparr>ct_Spec := sample_trust_spec
     \<lparr>cts_ProjectEntityRef := \<lparr>nor_Name = ''gone'', nor_Namespace = ''p''\<rparr>\<rparr>\<rparr>"

lemma CT_dangling:
  "GotControlPlaneTrust ''ns'' ''t'' (Inr sample_trust_dangling) \<in> set (CT_log sample_trust_dangling)"
  "\<not> deleting (ct_Meta sample_trust_dangling)"
  "trust_blocked ref_klib (CT_log sample_trust_dangling) ReasonDependencyNotFound"
  by (simp_all add: run_defs CT_defs CT_patchStatus_def deleting_def sample_trust_dangling_def trust_blocked_def)

section \<open>Witnesses\<close>

lemma trust_finalizer_first_witness:
  "list_ex bao_provision (CT_log sample_trust) \<and> preceded trust_finalized bao_provision (CT_log sample_trust)"
  using CT_provisioned spec_run [OF trust_finalizer_first [where k = ref_klib and R = "sample_CT sample_trust" and ns = "''ns''" and nm = "''t''", OF lawful_finalizers_ref], of sample_world] by blast

lemma trust_success_published_witness:
  "\<exists>p c t ru. BaoConfigure sample_instance p c (Inr ()) \<in> set (CT_log sample_trust) \<and>
     BaoEnsureMount sample_instance p (Inr ()) \<in> set (CT_log sample_trust) \<and>
     last (CT_log sample_trust) = StatusControlPlaneTrust t ru \<and> ctst_AuthMountPath (ct_Status t) = p"
  by (rule CT_configured)
     (use spec_run [OF trust_success_published [where k = ref_klib and R = "sample_CT sample_trust" and ns = "''ns''" and nm = "''t''", OF lawful_conditions_ref], of sample_world]
      in blast)

lemma trust_ready_iff_witness:
  "\<exists>t. StatusControlPlaneTrust t (Inr ()) \<in> set (CT_log sample_trust) \<and>
     isConditionTrue ref_klib (ctst_Conditions (ct_Status t)) ConditionReady"
  by (rule CT_configured)
     (use spec_run [OF trust_ready_iff [where k = ref_klib and R = "sample_CT sample_trust" and ns = "''ns''" and nm = "''t''", OF lawful_conditions_ref], of sample_world]
      in blast)

lemma trust_blocked_published_witness:
  "list_all (\<lambda>e. \<not> bao_call e) (CT_log sample_trust_dangling) \<and>
   (\<exists>t ru. last (CT_log sample_trust_dangling) = StatusControlPlaneTrust t ru)"
  using CT_dangling
    spec_run [OF trust_blocked_published [where k = ref_klib and R = "sample_CT sample_trust_dangling" and ns = "''ns''" and nm = "''t''", OF lawful_conditions_ref], of sample_world]
  by blast

lemma trust_delete_finalizer_witness:
  "\<exists>t. UpdatedControlPlaneTrust t (Inr t) \<in> set (CT_log sample_trust_deleted) \<and>
     ((\<exists>inst. BaoDeleteMount inst ''m'' (Inr ()) \<in> set (CT_log sample_trust_deleted)) \<or>
      GotOpenBaoInstance ''bao'' (Inr None) \<in> set (CT_log sample_trust_deleted) \<or>
      (\<exists>inst. GotOpenBaoInstance ''bao'' (Inr (Some inst)) \<in> set (CT_log sample_trust_deleted)))"
  by (rule CT_deleted)
     (use spec_run [OF trust_delete_finalizer [where k = ref_klib and R = "sample_CT sample_trust_deleted" and ns = "''ns''" and nm = "''t''"], of sample_world]
      in \<open>fastforce simp: Let_def\<close>)

lemma binding_finalizer_first_witness:
  "preceded binding_has_finalizer bao_provision (PB_log [sample_entity] sample_binding)"
  by (rule spec_run [OF binding_finalizer_first [OF lawful_finalizers_ref]])

lemma binding_roles_published_witness:
  "\<exists>t. StatusPolicyBinding t (Inr ()) \<in> set (PB_log [sample_entity] sample_binding) \<and>
     list_all2 (role_reported ref_klib t (PB_log [sample_entity] sample_binding))
       (pbs_ControlPlaneEntityRefs (pb_Spec t)) (pbst_Roles (pb_Status t))"
  by (rule PB_ready)
     (use spec_run [OF binding_roles_published [where k = ref_klib and R = "sample_PB [sample_entity] sample_binding" and ns = "''ns''" and nm = "''b''"], of sample_world]
      in blast)

lemma binding_ready_sound_witness:
  "\<exists>t. StatusPolicyBinding t (Inr ()) \<in> set (PB_log [sample_entity] sample_binding) \<and>
     list_all policy_not_missing (PB_log [sample_entity] sample_binding) \<and>
     list_all2 (\<lambda>ref rs. pbr_Ready rs) (pbs_ControlPlaneEntityRefs (pb_Spec t)) (pbst_Roles (pb_Status t))"
  by (rule PB_ready)
     (use spec_run [OF binding_ready_sound [where k = ref_klib and R = "sample_PB [sample_entity] sample_binding" and ns = "''ns''" and nm = "''b''", OF lawful_conditions_ref], of sample_world]
      in \<open>blast intro: list_all2_mono\<close>)

lemma binding_not_ready_reason_witness:
  "\<exists>t reason message. StatusPolicyBinding t (Inr ()) \<in> set (PB_log [] sample_binding) \<and>
     shows_condition ref_klib (pbst_Conditions (pb_Status t)) (om_Generation (pb_Meta t))
        ConditionReady ConditionFalse reason message"
  by (rule PB_blocked)
     (use spec_run [OF binding_not_ready_reason [where k = ref_klib and R = "sample_PB [] sample_binding" and ns = "''ns''" and nm = "''b''", OF lawful_conditions_ref], of sample_world]
      in blast)

lemma binding_policy_state_witness:
  "\<exists>t. StatusPolicyBinding t (Inr ()) \<in> set (PB_log [sample_entity] sample_binding) \<and>
     pbst_PolicyExists (pb_Status t) \<in> {PolicyExistenceUnknown, PolicyExistenceFalse, PolicyExistenceTrue}"
  by (rule PB_ready)
     (use spec_run [OF binding_policy_state [where k = ref_klib and R = "sample_PB [sample_entity] sample_binding" and ns = "''ns''" and nm = "''b''", OF lawful_conditions_ref], of sample_world]
      in \<open>fastforce simp: Let_def\<close>)

lemma binding_delete_finalizer_witness:
  "\<exists>t. UpdatedPolicyBinding t (Inr t) \<in> set (PB_log [] sample_binding_deleted) \<and>
     list_all (\<lambda>e. \<not> role_delete_failed e) (PB_log [] sample_binding_deleted)"
  by (rule PB_deleted)
     (use spec_run [OF binding_delete_finalizer [where k = ref_klib and R = "sample_PB [] sample_binding_deleted" and ns = "''ns''" and nm = "''b''"], of sample_world]
      in blast)

lemma binding_never_prunes_witness:
  "GotPolicyBinding ''ns'' ''b'' (Inr sample_binding) \<in> set (PB_log [sample_entity] sample_binding) \<and>
   list_all (\<lambda>e. \<not> bao_removal e) (PB_log [sample_entity] sample_binding)"
proof -
  have "GotPolicyBinding ''ns'' ''b'' (Inr sample_binding) \<in> set (PB_log [sample_entity] sample_binding)"
    "\<not> deleting (pb_Meta sample_binding)"
    by (simp_all add: run_defs PB_run_defs PB_push_def deleting_def)
  then show ?thesis
    using spec_run [OF binding_never_prunes [where k = ref_klib and R = "sample_PB [sample_entity] sample_binding" and ns = "''ns''" and nm = "''b''"], of sample_world]
    by blast
qed

lemma instance_reachable_iff_witness:
  "\<exists>t. StatusOpenBaoInstance t (Inr ()) \<in> set OI_log \<and> isInstanceReachable ref_klib (Some t)"
  by (rule OI_healthy)
     (use spec_run [OF instance_reachable_iff [where k = ref_klib and R = sample_OI and ns = "[]" and nm = "''bao''", OF lawful_conditions_ref], of sample_world]
      in blast)

lemma instance_dependency_stale_witness:
  "\<exists>t. StatusOpenBaoInstance t (Inr ()) \<in> set OI_sealed_log \<and>
     ref_find (oist_Conditions (oi_Status t)) ConditionDependencyReady =
     ref_find (oist_Conditions (oi_Status sample_instance)) ConditionDependencyReady"
  by (rule OI_unhealthy)
     (use spec_run [OF instance_dependency_stale [where k = ref_klib and R = sample_OI and ns = "[]" and nm = "''bao''", OF lawful_conditions_ref], of NewFakeClient]
      in \<open>auto\<close>)

lemma project_entity_ready_iff_witness:
  "\<exists>t. StatusProjectEntity t (Inr ()) \<in> set PE_log \<and>
     isConditionTrue ref_klib (pest_Conditions (pe_Status t)) ConditionReady"
  by (rule PE_ensured)
     (use spec_run [OF project_entity_ready_iff [where k = ref_klib and R = sample_PE and ns = "''p''" and nm = "''pe''", OF lawful_conditions_ref], of sample_world]
      in meson)

lemma entity_ready_iff_witness:
  "\<exists>t. StatusControlPlaneEntity t (Inr ()) \<in> set (CE_log sample_trust_ready) \<and>
     (isConditionTrue ref_klib (cest_Conditions (ce_Status t)) ConditionReady \<longrightarrow>
        isConditionTrue ref_klib (cest_Conditions (ce_Status t)) ConditionIdentityResolved)"
  by (rule CE_resolved)
     (use spec_run [OF entity_ready_iff [where k = ref_klib and env = sample_env and R = "sample_CE sample_trust_ready" and ns = "''ns''" and nm = "''e''", OF lawful_conditions_ref], of sample_world]
      in \<open>metis (no_types, lifting)\<close>)

lemma entity_identity_stale_witness:
  "\<exists>t. StatusControlPlaneEntity t (Inr ()) \<in> set (CE_log sample_trust) \<and>
     isConditionTrue ref_klib (cest_Conditions (ce_Status t)) ConditionIdentityResolved"
proof (rule CE_waiting)
  fix t
  assume log: "GotControlPlaneEntity ''ns'' ''e'' (Inr sample_entity) \<in> set (CE_log sample_trust)"
    "StatusControlPlaneEntity t (Inr ()) \<in> set (CE_log sample_trust)"
    "GotControlPlaneTrust ''ns'' ''t'' (Inr sample_trust) \<in> set (CE_log sample_trust)"
  have "isConditionTrue ref_klib (cest_Conditions (ce_Status sample_entity)) ConditionIdentityResolved"
    "\<not> isConditionTrue ref_klib (ctst_Conditions (ct_Status sample_trust)) ConditionTrustConfigured"
    by (simp_all add: isConditionTrue_def ref_find_def sample_entity_def)
  with log show ?thesis
    using spec_run [OF entity_identity_stale [where k = ref_klib and env = sample_env and R = "sample_CE sample_trust" and ns = "''ns''" and nm = "''e''", OF lawful_conditions_ref], of sample_world]
    by blast
qed

lemma accepted_config_requeue_witness:
  "RequeueAfter (requeueResult (Some sample_config)) = 300000000000"
proof -
  have "getServiceConfig ref_klib (sample_cluster [] sample_trust [] sample_binding) ''prov'' sample_world =
      (Inr sample_config, sample_world)"
    by (simp add: run_simps)
  from accepted_config_requeue [OF this] show ?thesis by (simp add: sample_config_def)
qed


section \<open>A service on the in-memory OpenBao\<close>

definition sample_service :: "FakeClient service" where
  "sample_service = \<lparr>sv_Instance = sample_OI, sv_ProjectEntity = sample_PE, sv_Trust = sample_CT sample_trust,
     sv_Entity = sample_CE sample_trust_ready, sv_Binding = sample_PB [sample_entity] sample_binding\<rparr>"

lemma sample_cluster_quiet: "cluster_quiet id (sample_cluster tok t es b)"
  by (simp add: cluster_quiet_def quiet_def fetch_def listing_def split: option.splits)

lemma sample_factory_hosted: "factory_hosted id sample_factory"
  by (auto simp: factory_hosted_def quiet_def sample_factory_def client_hosted_def hosts_def elim!: answersE)

lemma sample_env_quiet: "env_quiet id sample_env"
  by (auto simp: env_quiet_def quiet_def sample_cluster_quiet elim!: answersE)

lemma sample_service_hosted: "service_hosted id sample_env sample_service"
  by (simp add: service_hosted_def sample_service_def sample_cluster_quiet sample_factory_hosted sample_env_quiet)

lemma NewFakeClient_safe: "bao_safe NewFakeClient"
  by (simp add: bao_safe_def NewFakeClient_def)

lemma openbao_accountability_witness:
  "let es = run_log (run_queue (service_handle ref_klib sample_env sample_service) [ReqTrust ''ns'' ''t'', ReqBinding ''ns'' ''b'']) sample_world;
       g = run_world (run_queue (service_handle ref_klib sample_env sample_service) [ReqTrust ''ns'' ''t'', ReqBinding ''ns'' ''b'']) sample_world
   in (HasMount g ''q'' \<longrightarrow> mount_claimed es ''q'' \<or> mount_released es ''q'') \<and> HasMount sample_world ''m'' \<and>
      (\<not> HasMount g ''m'' \<longrightarrow> mount_claimed es ''m'' \<or> mount_released es ''m'')"
  using openbao_accountability [OF sample_service_hosted, of ref_klib "[ReqTrust ''ns'' ''t'', ReqBinding ''ns'' ''b'']" sample_world "''q''"]
    openbao_accountability [OF sample_service_hosted, of ref_klib "[ReqTrust ''ns'' ''t'', ReqBinding ''ns'' ''b'']" sample_world "''m''"]
  by (auto simp: Let_def) (simp_all add: sample_world_def NewFakeClient_def HasMount_def map_read_def)

lemma openbao_stays_safe_witness:
  "bao_safe (run_world (run_queue (service_handle ref_klib sample_env sample_service)
     [ReqTrust ''ns'' ''t'', ReqBinding ''ns'' ''b'']) NewFakeClient)"
  by (rule openbao_stays_safe [OF sample_service_hosted, of NewFakeClient, unfolded id_apply, OF NewFakeClient_safe])

text \<open>A live trust gets its mount, a deleted one loses it.\<close>

lemma trust_pass_effect_witness:
  "(\<exists>p c. Config (run_world (CT_Reconcile ref_klib (sample_CT sample_trust) ''ns'' ''t'') sample_world) p = Some c) \<and>
   \<not> HasMount (run_world (CT_Reconcile ref_klib (sample_CT sample_trust_deleted) ''ns'' ''t'') sample_world) ''m''"
proof -
  have live: "GotControlPlaneTrust ''ns'' ''t'' (Inr sample_trust) \<in> set (CT_log sample_trust)"
    "\<not> deleting (ct_Meta sample_trust)" "BuiltClient sample_instance None \<in> set (CT_log sample_trust)"
    by (simp_all add: run_defs CT_defs CT_patchStatus_def deleting_def)
  have gone: "GotControlPlaneTrust ''ns'' ''t'' (Inr sample_trust_deleted) \<in> set (CT_log sample_trust_deleted)"
    "deleting (ct_Meta sample_trust_deleted)" "BuiltClient sample_instance None \<in> set (CT_log sample_trust_deleted)"
    by (simp_all add: run_defs CT_defs CT_patchStatus_def deleting_def)
  have "trust_effect ref_klib (tr_ProviderName (sample_CT t)) (CT_log t) t sample_world
      (run_world (CT_Reconcile ref_klib (sample_CT t) ''ns'' ''t'') sample_world)"
    if "GotControlPlaneTrust ''ns'' ''t'' (Inr t) \<in> set (CT_log t)" for t
    using trust_pass_effect [OF lawful_conditions_ref, of id "sample_CT t"] that
    by (simp add: sample_cluster_quiet sample_factory_hosted)
  note effect = this
  have built: "\<not> (\<forall>inst. BuiltClient inst None \<notin> set (CT_log sample_trust))"
    "\<not> (\<forall>inst. BuiltClient inst None \<notin> set (CT_log sample_trust_deleted))" using live(3) gone(3) by blast+
  from effect [OF live(1)] obtain p c where
    "run_world (CT_Reconcile ref_klib (sample_CT sample_trust) ''ns'' ''t'') sample_world =
       snd (Fake_ConfigureJWTTrust p c (snd (Fake_EnsureJWTAuthMount p sample_world)))"
    unfolding trust_effect_def if_not_P [OF built(1)] if_not_P [OF live(2)] by blast
  then have "Config (run_world (CT_Reconcile ref_klib (sample_CT sample_trust) ''ns'' ''t'') sample_world) p = Some c"
    by (simp add: fake_defs)
  moreover from effect [OF gone(1)] have
    "run_world (CT_Reconcile ref_klib (sample_CT sample_trust_deleted) ''ns'' ''t'') sample_world =
       snd (Fake_DeleteAuthMount ''m'' sample_world)"
    unfolding trust_effect_def if_not_P [OF built(2)] if_P [OF gone(2)] by simp
  then have "\<not> HasMount (run_world (CT_Reconcile ref_klib (sample_CT sample_trust_deleted) ''ns'' ''t'') sample_world) ''m''"
    by (simp add: fake_defs)
  ultimately show ?thesis by blast
qed

lemma binding_ready_granted_witness:
  "\<exists>t. StatusPolicyBinding t (Inr ()) \<in> set (PB_log [sample_entity] sample_binding) \<and>
     list_all (\<lambda>rs. \<exists>role. Role (run_world (PB_Reconcile ref_klib (sample_PB [sample_entity] sample_binding)
         ''ns'' ''b'') sample_world) (pbr_AuthMountPath rs) (pbr_RoleName rs) = Some role)
       (pbst_Roles (pb_Status t))"
  by (rule PB_ready)
    (use binding_ready_granted [OF lawful_conditions_ref, of id "sample_PB [sample_entity] sample_binding" _ _ "''ns''" "''b''"]
      in \<open>fastforce simp: sample_cluster_quiet sample_factory_hosted list_all_iff\<close>)

end
