(* ===== verification/AppSample.thy ===== *)
theory AppSample
  imports AppBoot Witnesses
begin

text \<open>
  The commands run on libraries that always succeed, with the sample cluster behind both
  clients, and the properties of the start applied there.
\<close>

definition sample_lib :: "FakeClient lib" where
  "sample_lib = \<lparr>al_Grow = (\<lambda>_ n. n), al_GetLogger = None, al_InitializeRESTConfig = (\<lambda>w. (Inr (), w)), al_ConfigPath = [],
     al_HasRESTConfig = (\<lambda>_. True),
     al_InitializeClient = (\<lambda>_ w. (Inr (sample_cluster [] sample_trust [] sample_binding), w)),
     al_AddToScheme = (\<lambda>_. None), al_NewCertWatcher = (\<lambda>_ _ w. (Inr (), w)),
     al_CreateAndWaitForCluster = (\<lambda>_ w. (Inr (sample_cluster [] sample_trust [] sample_binding), w)),
     al_NewManager = (\<lambda>_ w. (Inr (sample_cluster [] sample_trust [] sample_binding), w)),
     al_Add = (\<lambda>_ w. (Inr (), w)), al_CompleteController = (\<lambda>_ w. (Inr (), w)),
     al_CompleteWebhook = (\<lambda>_ w. (Inr (), w)), al_AddHealthzCheck = (\<lambda>_ w. (Inr (), w)),
     al_AddReadyzCheck = (\<lambda>_ w. (Inr (), w)), al_Start = (\<lambda>w. (Inr (), w)),
     al_CRDsFromFileSystem = (\<lambda>_. Inr []),
     al_CreateOrUpdateCRDs = (\<lambda>_ _ _ w. (Inr (), w)), al_PURPOSE_PLATFORM = ''platform'',
     al_PURPOSE_ONBOARDING = ''onboarding'', al_ClusterLabel = ''openmcp.cloud/cluster''\<rparr>"

definition sample_shared_options :: RawSharedOptions where
  "sample_shared_options = \<lparr>so_Environment = ''dev'', so_ProviderName = ''prov'', so_DryRun = False\<rparr>"

definition sample_run_flags :: RawRunOptions where
  "sample_run_flags = (AddFlags (RawRunOptions.make [] [] [] [] [] [] [] False [] [] False False))
     \<lparr>rr_WebhookCertPath := ''/certs/webhook/'', rr_MetricsCertPath := ''/certs/metrics''\<rparr>"

lemma sample_flags_sel [simp]:
  "so_Environment sample_shared_options = ''dev''" "so_ProviderName sample_shared_options = ''prov''"
  "\<not> so_DryRun sample_shared_options" "rr_WebhookCertPath sample_run_flags = ''/certs/webhook/''"
  "rr_MetricsCertPath sample_run_flags = ''/certs/metrics''" "rr_WebhookCertName sample_run_flags = ''tls.crt''"
  "rr_WebhookCertKey sample_run_flags = ''tls.key''" "\<not> rr_EnableHTTP2 sample_run_flags"
  by (simp_all add: sample_shared_options_def sample_run_flags_def AddFlags_defaults RawRunOptions.defs)

lemma sample_lib_sel [simp]:
  "al_Grow sample_lib cap need = need" "al_GetLogger sample_lib = None"
  "al_InitializeRESTConfig sample_lib w = (Inr (), w)"
  "al_InitializeClient sample_lib s w = (Inr (sample_cluster [] sample_trust [] sample_binding), w)"
  "al_AddToScheme sample_lib p = None" "al_NewCertWatcher sample_lib c kf w = (Inr (), w)"
  "al_CreateAndWaitForCluster sample_lib q w = (Inr (sample_cluster [] sample_trust [] sample_binding), w)"
  "al_NewManager sample_lib mo w = (Inr (sample_cluster [] sample_trust [] sample_binding), w)"
  "al_Add sample_lib r w = (Inr (), w)" "al_CompleteController sample_lib reg w = (Inr (), w)"
  "al_CompleteWebhook sample_lib h w = (Inr (), w)" "al_AddHealthzCheck sample_lib n w = (Inr (), w)"
  "al_AddReadyzCheck sample_lib n w = (Inr (), w)" "al_Start sample_lib w = (Inr (), w)"
  by (simp_all add: sample_lib_def)

lemmas command_defs = run_command_def init_Complete_def PrintRawOptions_def PrintCompletedOptions_def printJSON_def
  json_MarshalIndent_def print_line_def then_do_def completing_def run_Complete_def
  shared_Complete_def attempt_def complete_webhook_def complete_metrics_def cert_watcher_def Let_def

lemma sample_completes:
  "\<exists>o'. run_result (run_Complete ref_klib sample_env sample_lib (NewRunOptions sample_shared_options sample_run_flags))
     NewFakeClient = Inr o'"
  by (simp add: command_defs run_result_def run_state_call complete_http2_def split: prod.splits)

lemma complete_tls_served_witness:
  "\<exists>o'. tc_GetCertificate (served_config (webhook_tls o') \<lparr>tc_NextProtos = [], tc_GetCertificate = None\<rparr>) =
     Some (CertWatcher ''/certs/webhook/tls.crt'' ''/certs/webhook/tls.key'')"
proof -
  obtain o' where o': "run_result (run_Complete ref_klib sample_env sample_lib
      (NewRunOptions sample_shared_options sample_run_flags)) NewFakeClient = Inr o'"
    using sample_completes by blast
  have "filepath_Join ''/certs/webhook/'' ''tls.crt'' = ''/certs/webhook/tls.crt''"
    "filepath_Join ''/certs/webhook/'' ''tls.key'' = ''/certs/webhook/tls.key''"
    by code_simp+
  then show ?thesis
    using complete_tls_served [OF o', of "\<lparr>tc_NextProtos = [], tc_GetCertificate = None\<rparr>"]
    by (auto simp: Let_def webhook_watcher_def)
qed

lemma sample_starts:
  "Started None \<in> set (run_log (run_command ref_klib sample_env sample_lib
     (NewRunOptions sample_shared_options sample_run_flags)) sample_world)"
  by (simp add: run_log_def command_defs run_state_call run_Run_def InstallOperatorAPIsPlatform_def must_add_def
      run_simps run_manager_def InstallOperatorAPIsOnboarding_def run_controllers_def setup_controller_def
      run_webhooks_def setup_webhook_def run_watchers_def manager_add_def run_checks_and_start_def complete_http2_def
      split: prod.splits option.splits)

lemma run_boot_sequence_witness:
  "\<exists>cfg platform onboarding mgr restConfig. run_log (run_command ref_klib sample_env sample_lib
      (NewRunOptions sample_shared_options sample_run_flags)) sample_world =
    boot_log ref_klib sample_env sample_lib sample_shared_options sample_run_flags cfg platform onboarding mgr
      restConfig @ [Started None]"
  using run_boot_sequence [OF sample_starts] by blast

end
