(* ===== verification/AppCommand.thy ===== *)
theory AppCommand
  imports AppSample
begin

text \<open>
  The command tree of \<open>app.go\<close>, \<open>run.go\<close> and \<open>init.go\<close> and \<open>main.go\<close>: from a command
  line to the options, what is printed of them, and the exit code. Cutting the command line into
  a subcommand and flag occurrences is cobra's and a parameter.
\<close>

section \<open>Flags on the command line\<close>

text \<open>One occurrence of a flag, its text converted to the type of the flag. It writes the
  variable the flag is bound to; occurrences of the libraries' own flags write none of these.\<close>

datatype flag_value = FString string | FBool bool

type_synonym occurrence = "string \<times> flag_value"

fun set_flag :: "'o flag \<Rightarrow> flag_value \<Rightarrow> 'o \<Rightarrow> 'o" where
  "set_flag (StringVar w n d u) (FString t) o' = w t o'"
| "set_flag (BoolVar w n d u) (FBool b) o' = w b o'"
| "set_flag _ _ o' = o'"

fun apply_flag :: "'o flag list \<Rightarrow> occurrence \<Rightarrow> 'o \<Rightarrow> 'o" where
  "apply_flag [] (n, v) o' = o'"
| "apply_flag (f # fs) (n, v) o' = (if n = flag_name f then set_flag f v o' else apply_flag fs (n, v) o')"

definition shared_parsed :: "occurrence list \<Rightarrow> RawSharedOptions" where
  "shared_parsed occs = fold (apply_flag shared_flags) occs
     (AddPersistentFlags \<lparr>so_Environment = [], so_ProviderName = [], so_DryRun = False\<rparr>)"

definition run_parsed :: "occurrence list \<Rightarrow> RawRunOptions" where
  "run_parsed occs = fold (apply_flag run_flags) occs
     (AddFlags (RawRunOptions.make [] [] [] [] [] [] [] False [] [] False False))"

section \<open>The commands\<close>

text \<open>A command: its name, description, its own flags, what it runs on the parsed options, and
  its subcommands. The writers of the root command are the standard ones.\<close>

datatype 'w Command = Command
  (cmd_Use: string) (cmd_Short: string) (cmd_Flags: "RawRunOptions flag list")
  (cmd_RunE: "(RawSharedOptions \<Rightarrow> RawRunOptions \<Rightarrow> ('w, unit) cmd) option")
  (cmd_Commands: "'w Command list")

definition NewRunCommand :: "klib \<Rightarrow> 'w env \<Rightarrow> 'w lib \<Rightarrow> 'w Command" where
  "NewRunCommand k env L =
     Command ''run'' ''Run the platform-service-openbao controller manager'' run_flags
       (Some (\<lambda>so raw. run_command k env L (NewRunOptions so raw))) []"

definition NewInitCommand :: "klib \<Rightarrow> 'w env \<Rightarrow> 'w lib \<Rightarrow> 'w Command" where
  "NewInitCommand k env L =
     Command ''init'' ''Install platform-service-openbao CRDs on the platform and onboarding clusters'' []
       (Some (\<lambda>so raw. init_command k env L so)) []"

definition NewCommand :: "klib \<Rightarrow> 'w env \<Rightarrow> 'w lib \<Rightarrow> 'w Command" where
  "NewCommand k env L =
     Command ''platform-service-openbao''
       ''platform-service-openbao configures OpenBao OIDC/JWT trust for OpenMCP ControlPlanes'' [] None
       [NewInitCommand k env L, NewRunCommand k env L]"

section \<open>main\<close>

text \<open>What cobra makes of the arguments: an error, a request it serves itself (help, or the root
  command, which runs nothing), or a subcommand with the flags given.\<close>

datatype parsed = Rejected goerr | Served | Chosen string "occurrence list"

text \<open>\<open>cmd.Execute()\<close>: the error of the subcommand is that of the program.\<close>

definition Execute :: "(string list \<Rightarrow> parsed) \<Rightarrow> 'w Command \<Rightarrow> string list \<Rightarrow> ('w, unit) cmd" where
  "Execute parse root args = (case parse args of
     Rejected err \<Rightarrow> State_Monad.return (Inl (Failed err))
   | Served \<Rightarrow> State_Monad.return (Inr ())
   | Chosen sub occs \<Rightarrow> (case List.find (\<lambda>c. cmd_Use c = sub) (cmd_Commands root) of
       None \<Rightarrow> State_Monad.return (Inr ())
     | Some c \<Rightarrow> (case cmd_RunE c of
         None \<Rightarrow> State_Monad.return (Inr ())
       | Some runE \<Rightarrow> runE (shared_parsed occs) (run_parsed occs))))"

text \<open>An error is printed and the process ends with 1; a panic ends it with 2 without a print of
  this program.\<close>

definition main :: "klib \<Rightarrow> 'w env \<Rightarrow> 'w lib \<Rightarrow> (string list \<Rightarrow> parsed) \<Rightarrow> string list \<Rightarrow>
    ('w, 'w started, nat) prog" where
  "main k env L parse args = do {
     r \<leftarrow> Execute parse (NewCommand k env L) args;
     (case r of Inl (Failed err) \<Rightarrow> call (Pair ()) (\<lambda>_. [PrintedErr (err_Msg err)])
      | _ \<Rightarrow> State_Monad.return ());
     State_Monad.return (exit_code r)
   }"

section \<open>Every flag reaches its own option\<close>

text \<open>The last value a flag is given, or its default.\<close>

fun last_string :: "string \<Rightarrow> occurrence list \<Rightarrow> string \<Rightarrow> string" where
  "last_string n [] d = d"
| "last_string n ((m, v) # occs) d =
     last_string n occs (case v of FString t \<Rightarrow> if m = n then t else d | FBool _ \<Rightarrow> d)"

fun last_bool :: "string \<Rightarrow> occurrence list \<Rightarrow> bool \<Rightarrow> bool" where
  "last_bool n [] d = d"
| "last_bool n ((m, v) # occs) d =
     last_bool n occs (case v of FBool b \<Rightarrow> if m = n then b else d | FString _ \<Rightarrow> d)"

text \<open>A field is written by one flag only: the others keep it.\<close>

definition writes_only :: "'o flag list \<Rightarrow> string \<Rightarrow> ('o \<Rightarrow> 'a) \<Rightarrow> bool" where
  "writes_only flags m get \<longleftrightarrow>
     list_all (\<lambda>f. flag_name f = m \<or> (\<forall>v o'. get (set_flag f v o') = get o')) flags"

lemma set_flag_keeps [simp]:
  "(\<And>t o'. get (w t o') = get o') \<Longrightarrow> get (set_flag (StringVar w n d u) v o') = get o'"
  "(\<And>b o'. get (w' b o') = get o') \<Longrightarrow> get (set_flag (BoolVar w' n d' u) v o') = get o'"
  by (cases v; simp)+

lemma apply_flag_keeps: "writes_only flags m get \<Longrightarrow> n \<noteq> m \<Longrightarrow> get (apply_flag flags (n, v) o') = get o'"
  by (induction flags) (auto simp: writes_only_def)

lemma last_string_fold:
  assumes "writes_only flags m get" "\<And>t o'. get (apply_flag flags (m, FString t) o') = t"
    "\<And>b o'. get (apply_flag flags (m, FBool b) o') = get o'"
  shows "get (fold (apply_flag flags) occs o') = last_string m occs (get o')"
proof (induction occs arbitrary: o')
  case (Cons oc occs)
  then show ?case
    by (cases oc; cases "snd oc"; cases "fst oc = m")
       (simp_all add: assms(2,3) apply_flag_keeps [OF assms(1)])
qed simp

lemma last_bool_fold:
  assumes "writes_only flags m get" "\<And>b o'. get (apply_flag flags (m, FBool b) o') = b"
    "\<And>t o'. get (apply_flag flags (m, FString t) o') = get o'"
  shows "get (fold (apply_flag flags) occs o') = last_bool m occs (get o')"
proof (induction occs arbitrary: o')
  case (Cons oc occs)
  then show ?case
    by (cases oc; cases "snd oc"; cases "fst oc = m")
       (simp_all add: assms(2,3) apply_flag_keeps [OF assms(1)])
qed simp

lemma shared_flags_applied:
  "so_Environment (fold (apply_flag shared_flags) occs o') = last_string ''environment'' occs (so_Environment o')"
  "so_ProviderName (fold (apply_flag shared_flags) occs o') = last_string ''provider-name'' occs (so_ProviderName o')"
  "so_DryRun (fold (apply_flag shared_flags) occs o') = last_bool ''dry-run'' occs (so_DryRun o')"
  by ((rule last_string_fold last_bool_fold; simp add: writes_only_def shared_flags_def)+)

lemma run_flags_applied:
  "rr_MetricsAddr (fold (apply_flag run_flags) occs o') = last_string ''metrics-bind-address'' occs (rr_MetricsAddr o')"
  "rr_MetricsCertPath (fold (apply_flag run_flags) occs o') = last_string ''metrics-cert-path'' occs (rr_MetricsCertPath o')"
  "rr_MetricsCertName (fold (apply_flag run_flags) occs o') = last_string ''metrics-cert-name'' occs (rr_MetricsCertName o')"
  "rr_MetricsCertKey (fold (apply_flag run_flags) occs o') = last_string ''metrics-cert-key'' occs (rr_MetricsCertKey o')"
  "rr_WebhookCertPath (fold (apply_flag run_flags) occs o') = last_string ''webhook-cert-path'' occs (rr_WebhookCertPath o')"
  "rr_WebhookCertName (fold (apply_flag run_flags) occs o') = last_string ''webhook-cert-name'' occs (rr_WebhookCertName o')"
  "rr_WebhookCertKey (fold (apply_flag run_flags) occs o') = last_string ''webhook-cert-key'' occs (rr_WebhookCertKey o')"
  "rr_EnableLeaderElection (fold (apply_flag run_flags) occs o') = last_bool ''leader-elect'' occs (rr_EnableLeaderElection o')"
  "rr_ProbeAddr (fold (apply_flag run_flags) occs o') = last_string ''health-probe-bind-address'' occs (rr_ProbeAddr o')"
  "rr_PprofAddr (fold (apply_flag run_flags) occs o') = last_string ''pprof-bind-address'' occs (rr_PprofAddr o')"
  "rr_SecureMetrics (fold (apply_flag run_flags) occs o') = last_bool ''metrics-secure'' occs (rr_SecureMetrics o')"
  "rr_EnableHTTP2 (fold (apply_flag run_flags) occs o') = last_bool ''enable-http2'' occs (rr_EnableHTTP2 o')"
  by ((rule last_string_fold last_bool_fold; simp add: writes_only_def run_flags_def)+)

text \<open>The options a list of occurrences stands for.\<close>

definition given_shared :: "occurrence list \<Rightarrow> RawSharedOptions" where
  "given_shared occs =
     \<lparr>so_Environment = last_string ''environment'' occs [],
      so_ProviderName = last_string ''provider-name'' occs [], so_DryRun = last_bool ''dry-run'' occs False\<rparr>"

definition given_run :: "occurrence list \<Rightarrow> RawRunOptions" where
  "given_run occs =
     \<lparr>rr_MetricsAddr = last_string ''metrics-bind-address'' occs ''0'',
      rr_MetricsCertPath = last_string ''metrics-cert-path'' occs [],
      rr_MetricsCertName = last_string ''metrics-cert-name'' occs ''tls.crt'',
      rr_MetricsCertKey = last_string ''metrics-cert-key'' occs ''tls.key'',
      rr_WebhookCertPath = last_string ''webhook-cert-path'' occs [],
      rr_WebhookCertName = last_string ''webhook-cert-name'' occs ''tls.crt'',
      rr_WebhookCertKey = last_string ''webhook-cert-key'' occs ''tls.key'',
      rr_EnableLeaderElection = last_bool ''leader-elect'' occs False,
      rr_ProbeAddr = last_string ''health-probe-bind-address'' occs '':8081'',
      rr_PprofAddr = last_string ''pprof-bind-address'' occs [],
      rr_SecureMetrics = last_bool ''metrics-secure'' occs True,
      rr_EnableHTTP2 = last_bool ''enable-http2'' occs False\<rparr>"

lemma parsed_given: "shared_parsed occs = given_shared occs" "run_parsed occs = given_run occs"
  by (simp_all add: given_shared_def given_run_def shared_parsed_def run_parsed_def RawSharedOptions.equality
      RawRunOptions.equality shared_flags_applied run_flags_applied AddPersistentFlags_defaults AddFlags_defaults
      RawRunOptions.defs)

section \<open>What is printed reads back\<close>

lemma to_valid_ascii: "list_all (\<lambda>c. (of_char c :: nat) < 0x80) s \<Longrightarrow> to_valid s = s"
proof (induction s)
  case (Cons c s)
  then show ?case
    by (subst to_valid.simps) (simp add: decode_ascii rune_error_def)
qed (simp add: to_valid.simps)

lemma to_valid_keys [simp]:
  "to_valid ''environment'' = ''environment''" "to_valid ''provider-name'' = ''provider-name''"
  "to_valid ''dry-run'' = ''dry-run''" "to_valid ''platform-config'' = ''platform-config''"
  "to_valid ''platform-config-set'' = ''platform-config-set''"
  by (simp_all add: to_valid_ascii)

lemma completed_options_sorted:
  "completed_options_json path rc so = JObj [(''dry-run'', JBool (so_DryRun so)),
     (''environment'', JStr (so_Environment so)), (''platform-config'', JStr path),
     (''platform-config-set'', JBool rc), (''provider-name'', JStr (so_ProviderName so))]"
  by (simp add: completed_options_json_def json_map_def less_eq_list_code less_list_code)

lemma raw_options_read_back:
  "json_parse (json_indent 0 (raw_options_json so)) = Some (JObj
     [(''environment'', JStr (to_valid (so_Environment so))),
      (''provider-name'', JStr (to_valid (so_ProviderName so))), (''dry-run'', JBool (so_DryRun so))])"
  unfolding raw_options_json_def by (subst json_indent_read_back) simp_all

lemma completed_options_read_back:
  "json_parse (json_indent 0 (completed_options_json path rc so)) = Some (JObj
     [(''dry-run'', JBool (so_DryRun so)), (''environment'', JStr (to_valid (so_Environment so))),
      (''platform-config'', JStr (to_valid path)), (''platform-config-set'', JBool rc),
      (''provider-name'', JStr (to_valid (so_ProviderName so)))])"
  unfolding completed_options_sorted by (subst json_indent_read_back) simp_all

text \<open>The whole log of a dry run of \<open>run\<close> that succeeds.\<close>

lemma spec_dry_run:
  "so_DryRun (ro_Shared opts) \<Longrightarrow> spec (run_command k env L opts) (\<lambda>r es. r = Inr () \<longrightarrow>
     so_Environment (ro_Shared opts) \<noteq> [] \<and> so_ProviderName (ro_Shared opts) \<noteq> [] \<and>
     env_Getenv env (k_EnvVariablePodNamespace k) \<noteq> [] \<and>
     (\<exists>rc. es = raw_printed (ro_Shared opts) @ complete_log (ro_Raw opts) @
        completed_printed (al_ConfigPath L) rc (ro_Shared opts) @ [Printed ''=== END OF DRY RUN ==='']))"
  unfolding run_command_def
  by (intro spec_PrintRawOptions spec_then_do [OF spec_completed_Run], simp,
      intro spec_PrintCompletedOptions spec_intros spec_print_line) auto

lemma spec_Execute: "spec (Execute parse (NewCommand k env L) args) (fail_stop k)"
proof -
  have "spec (run_command k env L (NewRunOptions so raw)) (fail_stop k)" for so raw
    by (rule spec_mono [OF spec_run_command]) blast
  moreover have "spec (init_command k env L so) (fail_stop k)" for so
    by (rule spec_mono [OF spec_init_command]) blast
  ultimately show ?thesis
    by (auto simp: Execute_def NewCommand_def NewInitCommand_def NewRunCommand_def
        intro!: spec_intros split: parsed.splits)
qed

lemma fail_stop_last:
  "fail_stop k r es \<Longrightarrow> e \<in> set es \<Longrightarrow> event_error e = Some cause \<Longrightarrow>
   \<exists>es' err. es = es' @ [e] \<and> r = Inl (Failed err) \<and> reports k e cause err"
  by (induction es) (auto split: option.splits)

section \<open>Properties\<close>

text \<open>C31. Every flag reaches its own option and nothing else: the subcommand that a command line
  chooses runs on options each of which is the last value given to its own flag, or the
  documented default.\<close>

theorem flags_reach_options:
  assumes "parse args = Chosen sub occs"
  shows "Execute parse (NewCommand k env L) args =
    (if sub = ''init'' then init_command k env L (given_shared occs)
     else if sub = ''run'' then run_command k env L (NewRunOptions (given_shared occs) (given_run occs))
     else State_Monad.return (Inr ()))"
  using assms by (simp add: Execute_def NewCommand_def NewInitCommand_def NewRunCommand_def parsed_given)

lemma flags_reach_options_witness:
  "Execute (\<lambda>args. Chosen (hd args) [(''environment'', FString ''dev''), (''dry-run'', FBool True),
      (''environment'', FString ''live'')]) (NewCommand ref_klib sample_env sample_lib) [''init''] =
    init_command ref_klib sample_env sample_lib
      \<lparr>so_Environment = ''live'', so_ProviderName = [], so_DryRun = True\<rparr>"
  using flags_reach_options [where parse = "\<lambda>args. Chosen (hd args) [(''environment'', FString ''dev''),
      (''dry-run'', FBool True), (''environment'', FString ''live'')]" and args = "[''init'']" and sub = "''init''"
      and occs = "[(''environment'', FString ''dev''), (''dry-run'', FBool True), (''environment'', FString ''live'')]"
      and k = ref_klib and env = sample_env and L = sample_lib]
  by (simp add: given_shared_def)

text \<open>C32. Round trip of what is printed: a dry run of \<open>run\<close> that succeeds was given an environment, a
  provider and a pod namespace, and prints two JSON objects and the final line; read back, the
  first holds the flags it was given and the second these and the state of the platform cluster.
  Strings come back whole, up to bytes that are no UTF-8.\<close>

theorem dry_run_reads_back:
  assumes "so_DryRun so"
    and "run_result (run_command k env L (NewRunOptions so raw)) w = Inr ()"
  shows "so_Environment so \<noteq> [] \<and> so_ProviderName so \<noteq> [] \<and> env_Getenv env (k_EnvVariablePodNamespace k) \<noteq> [] \<and>
    (\<exists>t t' rc. run_log (run_command k env L (NewRunOptions so raw)) w =
        [Printed ''raw options:'', Printed t] @ complete_log raw @
        [Printed ''completed options:'', Printed t', Printed ''=== END OF DRY RUN ===''] \<and>
      json_parse t = Some (JObj [(''environment'', JStr (to_valid (so_Environment so))),
        (''provider-name'', JStr (to_valid (so_ProviderName so))), (''dry-run'', JBool True)]) \<and>
      json_parse t' = Some (JObj [(''dry-run'', JBool True),
        (''environment'', JStr (to_valid (so_Environment so))),
        (''platform-config'', JStr (to_valid (al_ConfigPath L))), (''platform-config-set'', JBool rc),
        (''provider-name'', JStr (to_valid (so_ProviderName so)))]))"
proof -
  have "so_DryRun (ro_Shared (NewRunOptions so raw))" using assms(1) by simp
  from spec_run [OF spec_dry_run [OF this], of k env L w] assms
  obtain rc where "run_log (run_command k env L (NewRunOptions so raw)) w =
      raw_printed so @ complete_log raw @ completed_printed (al_ConfigPath L) rc so @ [Printed ''=== END OF DRY RUN ==='']"
    and "so_Environment so \<noteq> []" "so_ProviderName so \<noteq> []" "env_Getenv env (k_EnvVariablePodNamespace k) \<noteq> []"
    by auto
  then show ?thesis
    using raw_options_read_back [of so] completed_options_read_back [of "al_ConfigPath L" rc so] assms(1)
    by (simp add: raw_printed_def completed_printed_def)
qed

lemma dry_run_reads_back_witness:
  "\<exists>t t' rc. run_log (run_command ref_klib sample_env sample_lib
      (NewRunOptions (sample_shared_options\<lparr>so_DryRun := True\<rparr>) sample_run_flags)) NewFakeClient =
    [Printed ''raw options:'', Printed t] @ complete_log sample_run_flags @
    [Printed ''completed options:'', Printed t', Printed ''=== END OF DRY RUN ===''] \<and>
    json_parse t = Some (JObj [(''environment'', JStr (to_valid ''dev'')),
      (''provider-name'', JStr (to_valid ''prov'')), (''dry-run'', JBool True)])"
proof -
  have "run_result (run_command ref_klib sample_env sample_lib
      (NewRunOptions (sample_shared_options\<lparr>so_DryRun := True\<rparr>) sample_run_flags)) NewFakeClient = Inr ()"
    by (simp add: command_defs run_result_def run_state_call complete_http2_def split: prod.splits)
  from dry_run_reads_back [OF _ this] show ?thesis by simp blast
qed

text \<open>C30. An error stops the program and is told: when a call of \<open>main\<close> fails, that call is the last
  one, the process ends with 1, and the last thing printed is an error whose message ends with that
  of the call; for a ServiceConfig that cannot be fetched, or does not exist, it names the
  provider.\<close>

theorem main_stops_on_error:
  assumes "e \<in> set (run_log (main k env L parse args) w)" "event_error e = Some cause"
  shows "run_result (main k env L parse args) w = 1 \<and>
    (\<exists>es err. run_log (main k env L parse args) w = es @ [e, PrintedErr (err_Msg err)] \<and> reports k e cause err)"
proof -
  have "spec (main k env L parse args) (\<lambda>r es. \<forall>e \<in> set es. \<forall>cause. event_error e = Some cause \<longrightarrow>
      r = 1 \<and> (\<exists>es' err. es = es' @ [e, PrintedErr (err_Msg err)] \<and> reports k e cause err))"
    unfolding main_def
    by (rule spec_bind [OF spec_Execute])
       (auto intro!: spec_intros split: sum.splits abort.splits simp: exit_code_def,
         (drule (2) fail_stop_last, fastforce)+)
  from spec_run [OF this, of w] show ?thesis using assms by blast
qed

text \<open>The configuration of the platform cluster cannot be read.\<close>

lemma main_stops_on_error_witness:
  "\<exists>es (err :: goerr). run_log (main ref_klib sample_env
     (sample_lib\<lparr>al_InitializeRESTConfig := (\<lambda>w. (Inl (errors_New ''no kubeconfig''), w))\<rparr>)
     (\<lambda>_. Chosen ''init'' [(''environment'', FString ''dev''), (''provider-name'', FString ''prov'')]) []) NewFakeClient =
       es @ [InitializedRESTConfig (Some (errors_New ''no kubeconfig'')), PrintedErr (err_Msg err)] \<and>
     suffix '': no kubeconfig'' (err_Msg err)"
proof -
  have "InitializedRESTConfig (Some (errors_New ''no kubeconfig'')) \<in> set (run_log (main ref_klib sample_env
     (sample_lib\<lparr>al_InitializeRESTConfig := (\<lambda>w. (Inl (errors_New ''no kubeconfig''), w))\<rparr>)
     (\<lambda>_. Chosen ''init'' [(''environment'', FString ''dev''), (''provider-name'', FString ''prov'')]) [])
     NewFakeClient)"
    by (simp add: main_def Execute_def NewCommand_def NewInitCommand_def parsed_given given_shared_def
        init_command_def command_defs run_log_def run_state_call)
  from main_stops_on_error [OF this] show ?thesis by (simp add: reports_def)
qed

end
