(* ===== verification/KubeStore.thy ===== *)
theory KubeStore
  imports System FakeClient
begin

text \<open>
  An API server and an OpenBao that answer, as a view of the world: which objects are stored
  under which keys, and the state of the in-memory OpenBao. The laws say of each client call
  what it answers and how it moves the view; the rest of the world is free. With them a pass
  is run forward: \<open>moves v x m Q\<close> says that from every world that looks like \<open>x\<close> the
  program \<open>m\<close> ends with a result and a view that satisfy \<open>Q\<close>.
\<close>

section \<open>The view\<close>

record kube =
  ku_Instance :: "string \<Rightarrow> OpenBaoInstance option"
  ku_Config :: "string \<Rightarrow> ServiceConfig option"
  ku_ProjectEntity :: "string \<times> string \<Rightarrow> ProjectEntity option"
  ku_Trust :: "string \<times> string \<Rightarrow> ControlPlaneTrust option"
  ku_Entity :: "string \<times> string \<Rightarrow> ControlPlaneEntity option"
  ku_Binding :: "string \<times> string \<Rightarrow> PolicyBinding option"
  ku_ControlPlane :: "string \<times> string \<Rightarrow> ControlPlane option"
  ku_Bao :: FakeClient

definition key :: "ObjectMeta \<Rightarrow> string \<times> string" where
  "key m = (om_Namespace m, om_Name m)"

text \<open>Status updates keep the stored metadata and spec; object updates keep the stored status.\<close>

definition set_instance :: "string \<Rightarrow> OpenBaoInstanceStatus \<Rightarrow> kube \<Rightarrow> kube" where
  "set_instance nm st x = x\<lparr>ku_Instance := (ku_Instance x)(nm \<mapsto> (the (ku_Instance x nm))\<lparr>oi_Status := st\<rparr>)\<rparr>"

definition set_project_entity :: "string \<times> string \<Rightarrow> ProjectEntityStatus \<Rightarrow> kube \<Rightarrow> kube" where
  "set_project_entity a st x =
     x\<lparr>ku_ProjectEntity := (ku_ProjectEntity x)(a \<mapsto> (the (ku_ProjectEntity x a))\<lparr>pe_Status := st\<rparr>)\<rparr>"

definition set_trust :: "string \<times> string \<Rightarrow> ControlPlaneTrustStatus \<Rightarrow> kube \<Rightarrow> kube" where
  "set_trust a st x = x\<lparr>ku_Trust := (ku_Trust x)(a \<mapsto> (the (ku_Trust x a))\<lparr>ct_Status := st\<rparr>)\<rparr>"

definition set_entity :: "string \<times> string \<Rightarrow> ControlPlaneEntityStatus \<Rightarrow> kube \<Rightarrow> kube" where
  "set_entity a st x = x\<lparr>ku_Entity := (ku_Entity x)(a \<mapsto> (the (ku_Entity x a))\<lparr>ce_Status := st\<rparr>)\<rparr>"

definition set_binding :: "string \<times> string \<Rightarrow> PolicyBindingStatus \<Rightarrow> kube \<Rightarrow> kube" where
  "set_binding a st x = x\<lparr>ku_Binding := (ku_Binding x)(a \<mapsto> (the (ku_Binding x a))\<lparr>pb_Status := st\<rparr>)\<rparr>"

text \<open>An update that leaves an object that is being deleted without finalizers removes it.\<close>

definition put_trust :: "ControlPlaneTrust \<Rightarrow> kube \<Rightarrow> kube" where
  "put_trust t x =
     (let a = key (ct_Meta t); old = the (ku_Trust x a)
      in x\<lparr>ku_Trust := (ku_Trust x)(a := if deleting (ct_Meta old) \<and> om_Finalizers (ct_Meta t) = [] then None
           else Some (t\<lparr>ct_Status := ct_Status old\<rparr>))\<rparr>)"

definition put_binding :: "PolicyBinding \<Rightarrow> kube \<Rightarrow> kube" where
  "put_binding b x =
     (let a = key (pb_Meta b); old = the (ku_Binding x a)
      in x\<lparr>ku_Binding := (ku_Binding x)(a := if deleting (pb_Meta old) \<and> om_Finalizers (pb_Meta b) = [] then None
           else Some (b\<lparr>pb_Status := pb_Status old\<rparr>))\<rparr>)"

definition in_bao :: "(FakeClient \<Rightarrow> FakeClient) \<Rightarrow> kube \<Rightarrow> kube" where
  "in_bao f x = x\<lparr>ku_Bao := f (ku_Bao x)\<rparr>"

lemmas setter_defs = set_instance_def set_project_entity_def set_trust_def set_entity_def set_binding_def
  put_trust_def put_binding_def in_bao_def Let_def

lemma setter_sel [simp]:
  "ku_Config (set_instance nm ist x) = ku_Config x" "ku_Config (set_project_entity a pst x) = ku_Config x"
  "ku_Config (set_trust a tst x) = ku_Config x" "ku_Config (set_entity a est x) = ku_Config x"
  "ku_Config (set_binding a bst x) = ku_Config x" "ku_Config (put_trust t x) = ku_Config x"
  "ku_Config (put_binding b x) = ku_Config x" "ku_Config (in_bao f x) = ku_Config x"
  "ku_ControlPlane (set_instance nm ist x) = ku_ControlPlane x" "ku_ControlPlane (set_project_entity a pst x) = ku_ControlPlane x"
  "ku_ControlPlane (set_trust a tst x) = ku_ControlPlane x" "ku_ControlPlane (set_entity a est x) = ku_ControlPlane x"
  "ku_ControlPlane (set_binding a bst x) = ku_ControlPlane x" "ku_ControlPlane (put_trust t x) = ku_ControlPlane x"
  "ku_ControlPlane (put_binding b x) = ku_ControlPlane x" "ku_ControlPlane (in_bao f x) = ku_ControlPlane x"
  "ku_Instance (set_project_entity a pst x) = ku_Instance x" "ku_Instance (set_trust a tst x) = ku_Instance x"
  "ku_Instance (set_entity a est x) = ku_Instance x" "ku_Instance (set_binding a bst x) = ku_Instance x"
  "ku_Instance (put_trust t x) = ku_Instance x" "ku_Instance (put_binding b x) = ku_Instance x"
  "ku_Instance (in_bao f x) = ku_Instance x"
  "ku_ProjectEntity (set_instance nm ist x) = ku_ProjectEntity x" "ku_ProjectEntity (set_trust a tst x) = ku_ProjectEntity x"
  "ku_ProjectEntity (set_entity a est x) = ku_ProjectEntity x" "ku_ProjectEntity (set_binding a bst x) = ku_ProjectEntity x"
  "ku_ProjectEntity (put_trust t x) = ku_ProjectEntity x" "ku_ProjectEntity (put_binding b x) = ku_ProjectEntity x"
  "ku_ProjectEntity (in_bao f x) = ku_ProjectEntity x"
  "ku_Trust (set_instance nm ist x) = ku_Trust x" "ku_Trust (set_project_entity a pst x) = ku_Trust x"
  "ku_Trust (set_entity a est x) = ku_Trust x" "ku_Trust (set_binding a bst x) = ku_Trust x"
  "ku_Trust (put_binding b x) = ku_Trust x" "ku_Trust (in_bao f x) = ku_Trust x"
  "ku_Entity (set_instance nm ist x) = ku_Entity x" "ku_Entity (set_project_entity a pst x) = ku_Entity x"
  "ku_Entity (set_trust a tst x) = ku_Entity x" "ku_Entity (set_binding a bst x) = ku_Entity x"
  "ku_Entity (put_trust t x) = ku_Entity x" "ku_Entity (put_binding b x) = ku_Entity x"
  "ku_Entity (in_bao f x) = ku_Entity x"
  "ku_Binding (set_instance nm ist x) = ku_Binding x" "ku_Binding (set_project_entity a pst x) = ku_Binding x"
  "ku_Binding (set_trust a tst x) = ku_Binding x" "ku_Binding (set_entity a est x) = ku_Binding x"
  "ku_Binding (put_trust t x) = ku_Binding x" "ku_Binding (in_bao f x) = ku_Binding x"
  "ku_Bao (set_instance nm ist x) = ku_Bao x" "ku_Bao (set_project_entity a pst x) = ku_Bao x"
  "ku_Bao (set_trust a tst x) = ku_Bao x" "ku_Bao (set_entity a est x) = ku_Bao x"
  "ku_Bao (set_binding a bst x) = ku_Bao x" "ku_Bao (put_trust t x) = ku_Bao x"
  "ku_Bao (put_binding b x) = ku_Bao x" "ku_Bao (in_bao f x) = f (ku_Bao x)"
  by (simp_all add: setter_defs)

lemma setter_same [simp]:
  "ku_Instance (set_instance nm ist x) nm = Some ((the (ku_Instance x nm))\<lparr>oi_Status := ist\<rparr>)"
  "ku_ProjectEntity (set_project_entity a pst x) a = Some ((the (ku_ProjectEntity x a))\<lparr>pe_Status := pst\<rparr>)"
  "ku_Trust (set_trust a tst x) a = Some ((the (ku_Trust x a))\<lparr>ct_Status := tst\<rparr>)"
  "ku_Entity (set_entity a est x) a = Some ((the (ku_Entity x a))\<lparr>ce_Status := est\<rparr>)"
  "ku_Binding (set_binding a bst x) a = Some ((the (ku_Binding x a))\<lparr>pb_Status := bst\<rparr>)"
  by (simp_all add: setter_defs)

lemma put_live:
  "ku_Trust x (key (ct_Meta t)) = Some told \<Longrightarrow> \<not> deleting (ct_Meta told) \<Longrightarrow>
     put_trust t x = x\<lparr>ku_Trust := (ku_Trust x)(key (ct_Meta t) \<mapsto> t\<lparr>ct_Status := ct_Status told\<rparr>)\<rparr>"
  "ku_Binding x (key (pb_Meta b)) = Some bold \<Longrightarrow> \<not> deleting (pb_Meta bold) \<Longrightarrow>
     put_binding b x = x\<lparr>ku_Binding := (ku_Binding x)(key (pb_Meta b) \<mapsto> b\<lparr>pb_Status := pb_Status bold\<rparr>)\<rparr>"
  by (simp_all add: put_trust_def put_binding_def)

section \<open>The laws\<close>

text \<open>\<open>steps v oper x r y\<close>: from a world that looks like \<open>x\<close> the call answers \<open>r\<close> and leaves a
  world that looks like \<open>y\<close>.\<close>

definition steps :: "('w \<Rightarrow> 'v) \<Rightarrow> ('w \<Rightarrow> 'r \<times> 'w) \<Rightarrow> 'v \<Rightarrow> 'r \<Rightarrow> 'v \<Rightarrow> bool" where
  "steps v oper x r y \<longleftrightarrow> (\<forall>w. v w = x \<longrightarrow> fst (oper w) = r \<and> v (snd (oper w)) = y)"

text \<open>The server of the platform cluster serves instances and configurations.\<close>

definition serves_platform :: "('w \<Rightarrow> kube) \<Rightarrow> 'w Cluster \<Rightarrow> bool" where
  "serves_platform v c \<longleftrightarrow>
     (\<forall>x nm i. ku_Instance x nm = Some i \<longrightarrow> steps v (kc_GetOpenBaoInstance c [] nm) x (Inr i) x) \<and>
     (\<forall>x nm cfg. ku_Config x nm = Some cfg \<longrightarrow> steps v (kc_GetServiceConfig c [] nm) x (Inr cfg) x) \<and>
     (\<forall>x i. ku_Instance x (om_Name (oi_Meta i)) \<noteq> None \<longrightarrow>
        steps v (kc_StatusOpenBaoInstance c i) x (Inr ()) (set_instance (om_Name (oi_Meta i)) (oi_Status i) x))"

text \<open>What an update may change of the metadata here: the finalizers, and none is added to an object
  that is being deleted.\<close>

definition refinalized :: "ObjectMeta \<Rightarrow> ObjectMeta \<Rightarrow> bool" where
  "refinalized m m' \<longleftrightarrow> m' = m\<lparr>om_Finalizers := om_Finalizers m'\<rparr> \<and>
     (deleting m \<longrightarrow> set (om_Finalizers m') \<subseteq> set (om_Finalizers m))"

text \<open>The server of the onboarding cluster. An update of the finalizers answers with the object it was
  given; which status the caller then holds is left open.\<close>

definition serves_onboarding :: "('w \<Rightarrow> kube) \<Rightarrow> 'w Cluster \<Rightarrow> bool" where
  "serves_onboarding v c \<longleftrightarrow>
     (\<forall>x ns nm o'. ku_ProjectEntity x (ns, nm) = Some o' \<longrightarrow> steps v (kc_GetProjectEntity c ns nm) x (Inr o') x) \<and>
     (\<forall>x ns nm o'. ku_Trust x (ns, nm) = Some o' \<longrightarrow> steps v (kc_GetControlPlaneTrust c ns nm) x (Inr o') x) \<and>
     (\<forall>x ns nm o'. ku_Entity x (ns, nm) = Some o' \<longrightarrow> steps v (kc_GetControlPlaneEntity c ns nm) x (Inr o') x) \<and>
     (\<forall>x ns nm o'. ku_Binding x (ns, nm) = Some o' \<longrightarrow> steps v (kc_GetPolicyBinding c ns nm) x (Inr o') x) \<and>
     (\<forall>x ns nm o'. ku_ControlPlane x (ns, nm) = Some o' \<longrightarrow> steps v (kc_GetControlPlane c ns nm) x (Inr o') x) \<and>
     (\<forall>x o'. ku_ProjectEntity x (key (pe_Meta o')) \<noteq> None \<longrightarrow>
        steps v (kc_StatusProjectEntity c o') x (Inr ()) (set_project_entity (key (pe_Meta o')) (pe_Status o') x)) \<and>
     (\<forall>x o'. ku_Trust x (key (ct_Meta o')) \<noteq> None \<longrightarrow>
        steps v (kc_StatusControlPlaneTrust c o') x (Inr ()) (set_trust (key (ct_Meta o')) (ct_Status o') x)) \<and>
     (\<forall>x o'. ku_Entity x (key (ce_Meta o')) \<noteq> None \<longrightarrow>
        steps v (kc_StatusControlPlaneEntity c o') x (Inr ()) (set_entity (key (ce_Meta o')) (ce_Status o') x)) \<and>
     (\<forall>x o'. ku_Binding x (key (pb_Meta o')) \<noteq> None \<longrightarrow>
        steps v (kc_StatusPolicyBinding c o') x (Inr ()) (set_binding (key (pb_Meta o')) (pb_Status o') x)) \<and>
     (\<forall>o' old w. ku_Trust (v w) (key (ct_Meta o')) = Some old \<and> refinalized (ct_Meta old) (ct_Meta o') \<and>
          ct_Spec o' = ct_Spec old \<longrightarrow>
        (\<exists>st w'. kc_UpdateControlPlaneTrust c o' w = (Inr (o'\<lparr>ct_Status := st\<rparr>), w') \<and> v w' = put_trust o' (v w))) \<and>
     (\<forall>o' old w. ku_Binding (v w) (key (pb_Meta o')) = Some old \<and> refinalized (pb_Meta old) (pb_Meta o') \<and>
          pb_Spec o' = pb_Spec old \<longrightarrow>
        (\<exists>st w'. kc_UpdatePolicyBinding c o' w = (Inr (o'\<lparr>pb_Status := st\<rparr>), w') \<and> v w' = put_binding o' (v w)))"

text \<open>A client that acts on the OpenBao of the view.\<close>

definition on_bao :: "('w \<Rightarrow> kube) \<Rightarrow> ('w, 'a) oper \<Rightarrow> (FakeClient, 'a) oper \<Rightarrow> bool" where
  "on_bao v oper f \<longleftrightarrow> (\<forall>x. steps v oper x (fst (f (ku_Bao x))) (in_bao (\<lambda>f'. snd (f f')) x))"

definition serves_bao :: "('w \<Rightarrow> kube) \<Rightarrow> 'w Client \<Rightarrow> bool" where
  "serves_bao v cl \<longleftrightarrow>
     on_bao v (cl_Health cl) Fake_Health \<and>
     (\<forall>n md. on_bao v (cl_EnsureEntity cl n md) (Fake_EnsureEntity n md)) \<and>
     (\<forall>p. on_bao v (cl_EnsureJWTAuthMount cl p) (Fake_EnsureJWTAuthMount p)) \<and>
     (\<forall>p c. on_bao v (cl_ConfigureJWTTrust cl p c) (Fake_ConfigureJWTTrust p c)) \<and>
     (\<forall>m r. on_bao v (cl_EnsureJWTRole cl m r) (Fake_EnsureJWTRole m r)) \<and>
     (\<forall>m n. on_bao v (cl_DeleteJWTRole cl m n) (Fake_DeleteJWTRole m n)) \<and>
     (\<forall>p. on_bao v (cl_DeleteAuthMount cl p) (Fake_DeleteAuthMount p)) \<and>
     (\<forall>n. on_bao v (cl_PolicyExists cl n) (Fake_PolicyExists n))"

definition serves_factory :: "('w \<Rightarrow> kube) \<Rightarrow> 'w OpenBaoClientFactory \<Rightarrow> bool" where
  "serves_factory v f \<longleftrightarrow> (\<forall>i. \<exists>cl. serves_bao v cl \<and> (\<forall>x. steps v (f (Some i)) x (Inr cl) x))"

section \<open>Running forward\<close>

definition moves :: "('w \<Rightarrow> 'v) \<Rightarrow> 'v \<Rightarrow> ('w, 'e, 'a) prog \<Rightarrow> ('a \<Rightarrow> 'v \<Rightarrow> bool) \<Rightarrow> bool" where
  "moves v x m Q \<longleftrightarrow> (\<forall>s. v (world s) = x \<longrightarrow> Q (fst (run_state m s)) (v (world (snd (run_state m s)))))"

lemma moves_return: "Q a x \<Longrightarrow> moves v x (State_Monad.return a) Q"
  by (simp add: moves_def)

lemma moves_bind:
  fixes v :: "'w \<Rightarrow> 'v" and m :: "('w, 'e, 'a) prog"
  assumes "moves v x m R" and "\<And>a y. R a y \<Longrightarrow> moves v y (f a) Q"
  shows "moves v x (State_Monad.bind m f) Q"
  unfolding moves_def
proof (intro allI impI)
  fix s :: "('w, 'e) sys"
  assume s: "v (world s) = x"
  obtain a s1 where m: "run_state m s = (a, s1)" by fastforce
  with assms(1) s have "R a (v (world s1))" unfolding moves_def by (metis fst_conv snd_conv)
  from assms(2) [OF this] have "Q (fst (run_state (f a) s1)) (v (world (snd (run_state (f a) s1))))"
    unfolding moves_def by blast
  with m show "Q (fst (run_state (State_Monad.bind m f) s)) (v (world (snd (run_state (State_Monad.bind m f) s))))"
    by simp
qed

lemma moves_call: "steps v oper x r y \<Longrightarrow> Q r y \<Longrightarrow> moves v x (call oper ev) Q"
  by (auto simp: moves_def steps_def run_state_call split: prod.splits)

lemma moves_call_bind:
  "steps v oper x r y \<Longrightarrow> moves v y (f r) Q \<Longrightarrow> moves v x (State_Monad.bind (call oper ev) f) Q"
  by (rule moves_bind [where R = "\<lambda>a z. a = r \<and> z = y"]) (auto intro: moves_call)

lemma moves_call_some:
  assumes "\<And>w. v w = x \<Longrightarrow> \<exists>r w'. oper w = (r, w') \<and> R r (v w')"
  shows "moves v x (call oper ev) R"
  unfolding moves_def
proof (intro allI impI)
  fix s :: "('a, 'd) sys"
  assume "v (world s) = x"
  from assms [OF this] show "R (fst (run_state (call oper ev) s)) (v (world (snd (run_state (call oper ev) s))))"
    by (auto simp: run_state_call)
qed

lemma moves_mono: "moves v x m Q \<Longrightarrow> (\<And>a y. Q a y \<Longrightarrow> R a y) \<Longrightarrow> moves v x m R"
  by (simp add: moves_def)

lemma moves_run: "moves v x m Q \<Longrightarrow> v w = x \<Longrightarrow> Q (run_result m w) (v (run_world m w))"
  by (simp add: moves_def run_result_def run_world_def)

lemma moves_queue_Nil: "Q [] x \<Longrightarrow> moves v x (run_queue h []) Q"
  by (simp add: moves_return)

lemma moves_queue_Cons:
  assumes "moves v x (h q) R" and "\<And>r y. R r y \<Longrightarrow> moves v y (run_queue h qs) (\<lambda>rs z. Q (r # rs) z)"
  shows "moves v x (run_queue h (q # qs)) Q"
  by (simp, rule moves_bind [OF assms(1)], rule moves_bind, erule assms(2)) (rule moves_return)

section \<open>The laws as steps\<close>

lemma platform_steps:
  assumes "serves_platform v c"
  shows "ku_Instance x nm = Some i \<Longrightarrow> steps v (kc_GetOpenBaoInstance c [] nm) x (Inr i) x"
    and "ku_Config x nm = Some cfg \<Longrightarrow> steps v (kc_GetServiceConfig c [] nm) x (Inr cfg) x"
    and "ku_Instance x (om_Name (oi_Meta i)) = Some old \<Longrightarrow> steps v (kc_StatusOpenBaoInstance c i) x (Inr ())
      (set_instance (om_Name (oi_Meta i)) (oi_Status i) x)"
  using assms by (simp_all add: serves_platform_def)

lemma platform_reads:
  assumes "serves_platform v c"
  shows "ku_Instance x nm = Some i \<Longrightarrow> steps v (getOpenBaoInstance k c nm) x (Inr (Some i)) x"
    and "ku_Config x nm = Some cfg \<Longrightarrow> Validate k (sc_Spec cfg) = None \<Longrightarrow>
      steps v (getServiceConfig k c nm) x (Inr cfg) x"
  using platform_steps(1,2) [OF assms]
  by (fastforce simp: steps_def getOpenBaoInstance_def getServiceConfig_def split: prod.splits sum.splits)+

lemma onboarding_steps:
  assumes "serves_onboarding v c"
  shows "ku_ProjectEntity x (ns, nm) = Some pe \<Longrightarrow> steps v (kc_GetProjectEntity c ns nm) x (Inr pe) x"
    and "ku_Trust x (ns, nm) = Some t \<Longrightarrow> steps v (kc_GetControlPlaneTrust c ns nm) x (Inr t) x"
    and "ku_Entity x (ns, nm) = Some e \<Longrightarrow> steps v (kc_GetControlPlaneEntity c ns nm) x (Inr e) x"
    and "ku_Binding x (ns, nm) = Some b \<Longrightarrow> steps v (kc_GetPolicyBinding c ns nm) x (Inr b) x"
    and "ku_ProjectEntity x (key (pe_Meta pe')) = Some pe \<Longrightarrow> steps v (kc_StatusProjectEntity c pe') x (Inr ())
      (set_project_entity (key (pe_Meta pe')) (pe_Status pe') x)"
    and "ku_Trust x (key (ct_Meta t')) = Some t \<Longrightarrow> steps v (kc_StatusControlPlaneTrust c t') x (Inr ())
      (set_trust (key (ct_Meta t')) (ct_Status t') x)"
    and "ku_Entity x (key (ce_Meta e')) = Some e \<Longrightarrow> steps v (kc_StatusControlPlaneEntity c e') x (Inr ())
      (set_entity (key (ce_Meta e')) (ce_Status e') x)"
    and "ku_Binding x (key (pb_Meta b')) = Some b \<Longrightarrow> steps v (kc_StatusPolicyBinding c b') x (Inr ())
      (set_binding (key (pb_Meta b')) (pb_Status b') x)"
  using assms by (simp_all add: serves_onboarding_def)

lemma onboarding_updates:
  assumes "serves_onboarding v c"
  shows "ku_Trust (v w) (key (ct_Meta t')) = Some t \<Longrightarrow> refinalized (ct_Meta t) (ct_Meta t') \<Longrightarrow>
      ct_Spec t' = ct_Spec t \<Longrightarrow>
      \<exists>st w'. kc_UpdateControlPlaneTrust c t' w = (Inr (t'\<lparr>ct_Status := st\<rparr>), w') \<and> v w' = put_trust t' (v w)"
    and "ku_Binding (v w) (key (pb_Meta b')) = Some b \<Longrightarrow> refinalized (pb_Meta b) (pb_Meta b') \<Longrightarrow>
      pb_Spec b' = pb_Spec b \<Longrightarrow>
      \<exists>st w'. kc_UpdatePolicyBinding c b' w = (Inr (b'\<lparr>pb_Status := st\<rparr>), w') \<and> v w' = put_binding b' (v w)"
  using assms by (auto simp: serves_onboarding_def)

text \<open>The same calls as the handlers make them.\<close>

lemma moves_updates:
  assumes "serves_onboarding v c"
  shows "ku_Trust x (key (ct_Meta t')) = Some t \<Longrightarrow> refinalized (ct_Meta t) (ct_Meta t') \<Longrightarrow> ct_Spec t' = ct_Spec t \<Longrightarrow>
      moves v x (call (kc_UpdateControlPlaneTrust c t') ev) (\<lambda>r y. \<exists>st. r = Inr (t'\<lparr>ct_Status := st\<rparr>) \<and> y = put_trust t' x)"
    and "ku_Binding x (key (pb_Meta b')) = Some b \<Longrightarrow> refinalized (pb_Meta b) (pb_Meta b') \<Longrightarrow> pb_Spec b' = pb_Spec b \<Longrightarrow>
      moves v x (call (kc_UpdatePolicyBinding c b') ev') (\<lambda>r y. \<exists>st. r = Inr (b'\<lparr>pb_Status := st\<rparr>) \<and> y = put_binding b' x)"
  by (rule moves_call_some, use onboarding_updates [OF assms] in metis)+

lemma control_plane_read:
  assumes "serves_onboarding v c" "ku_ControlPlane x (ns, nm) = Some cp"
  shows "steps v (getControlPlane k c ns nm) x (Inr (Some cp)) x"
proof -
  have "steps v (kc_GetControlPlane c ns nm) x (Inr cp) x"
    using assms by (simp add: serves_onboarding_def)
  then show ?thesis
    by (fastforce simp: steps_def getControlPlane_def split: prod.splits sum.splits)
qed

lemma bao_steps:
  assumes "serves_bao v cl"
  shows "on_bao v (cl_Health cl) Fake_Health" "on_bao v (cl_EnsureEntity cl n md) (Fake_EnsureEntity n md)"
    "on_bao v (cl_EnsureJWTAuthMount cl p) (Fake_EnsureJWTAuthMount p)"
    "on_bao v (cl_ConfigureJWTTrust cl p c) (Fake_ConfigureJWTTrust p c)"
    "on_bao v (cl_EnsureJWTRole cl m r) (Fake_EnsureJWTRole m r)"
    "on_bao v (cl_DeleteJWTRole cl m rn) (Fake_DeleteJWTRole m rn)"
    "on_bao v (cl_DeleteAuthMount cl p) (Fake_DeleteAuthMount p)"
    "on_bao v (cl_PolicyExists cl pn) (Fake_PolicyExists pn)"
  using assms unfolding serves_bao_def by blast+

lemma on_baoD: "on_bao v oper f \<Longrightarrow> steps v oper x (fst (f (ku_Bao x))) (in_bao (\<lambda>f'. snd (f f')) x)"
  by (simp add: on_bao_def)

text \<open>Building a client and making one call through it.\<close>

lemma moves_client_bind:
  assumes "serves_factory v f"
    and "\<And>cl. serves_bao v cl \<Longrightarrow> moves v x (g (Inr cl)) Q"
  shows "moves v x (State_Monad.bind (build_client f i) g) Q"
  using assms unfolding serves_factory_def by (meson moves_call_bind)

lemma moves_bao_bind:
  assumes "on_bao v oper f"
    and "moves v (in_bao (\<lambda>f'. snd (f f')) x) (g (fst (f (ku_Bao x)))) Q"
  shows "moves v x (State_Monad.bind (call oper ev) g) Q"
  by (rule moves_call_bind [OF on_baoD [OF assms(1), of x]], rule assms(2))

end
