(* ===== verification/Converge.thy ===== *)
theory Converge
  imports KubeStore BindingRuns
begin

text \<open>
  The controllers on servers that answer: the pass of each controller is run forward over the
  view, from what it needs to the status it writes and the OpenBao it leaves.
\<close>

section \<open>One pass each\<close>

definition configured :: "klib \<Rightarrow> kube \<Rightarrow> string \<Rightarrow> ServiceConfig \<Rightarrow> bool" where
  "configured k x p cfg \<longleftrightarrow> ku_Config x p = Some cfg \<and> Validate k (sc_Spec cfg) = None"

definition healthy :: "FakeClient \<Rightarrow> bool" where
  "healthy f \<longleftrightarrow> fk_HealthErr f = None \<and> hi_Initialized (fk_HealthResult f) \<and> \<not> hi_Sealed (fk_HealthResult f)"

lemma time_IsZero_deleting: "time_IsZero (om_DeletionTimestamp m) \<longleftrightarrow> \<not> deleting m"
  by (simp add: deleting_def)

lemma moves_OI_patch:
  assumes "serves_platform v (ir_PlatformCluster R)" "ku_Instance x (om_Name (oi_Meta t)) = Some old"
    and "Q (Inr (requeueResult (Some cfg))) (set_instance (om_Name (oi_Meta t)) (oi_Status t) x)"
  shows "moves v x (OI_patchStatus R t cfg) Q"
  unfolding OI_patchStatus_def
  by (rule moves_call_bind [OF platform_steps(3) [OF assms(1,2)]]) (simp add: assms(3) moves_return)

lemma moves_config_bind:
  assumes "serves_platform v c" "configured k x p cfg" "moves v x (g (Inr cfg)) Q"
  shows "moves v x (State_Monad.bind (get_config k c p) g) Q"
  by (rule moves_call_bind [OF platform_reads(2) [OF assms(1)]]) (use assms in \<open>auto simp: configured_def\<close>)

lemma OI_pass:
  assumes "serves_platform v (ir_PlatformCluster R)" "serves_factory v (ir_ClientFactory R)" "lawful_conditions k"
    and "configured k x (ir_ProviderName R) cfg" "healthy (ku_Bao x)"
    and "ku_Instance x nm = Some i" "om_Name (oi_Meta i) = nm" "\<not> deleting (oi_Meta i)"
  shows "moves v x (OI_Reconcile k R [] nm) (\<lambda>r y. \<exists>st. y = set_instance nm st x \<and>
     isConditionTrue k (oist_Conditions st) ConditionOpenBaoReachable)"
  unfolding OI_Reconcile_def
  apply (rule moves_call_bind [OF platform_steps(1) [OF assms(1,6)]])
  apply (simp add: time_IsZero_deleting assms)
  apply (rule moves_config_bind [OF assms(1,4)])
  apply (simp add: Let_def)
  apply (rule moves_client_bind [OF assms(2)])
  apply simp
  apply (rule moves_bao_bind [OF bao_steps(1)], assumption)
  using assms(5,6,7)
  by (auto simp: healthy_def Fake_Health_def Let_def isInstanceReachable_def condition_rules assms(3) in_bao_def
      intro!: moves_OI_patch [OF assms(1)] exI)

lemma moves_PE_patch:
  assumes "serves_onboarding v (er_OnboardingCluster R)" "ku_ProjectEntity x (key (pe_Meta t)) = Some old"
    and "Q (Inr (requeueResult (Some cfg))) (set_project_entity (key (pe_Meta t)) (pe_Status t) x)"
  shows "moves v x (PE_patchStatus R t cfg) Q"
  unfolding PE_patchStatus_def
  by (rule moves_call_bind [OF onboarding_steps(5) [OF assms(1,2)]]) (simp add: assms(3) moves_return)

lemma PE_pass:
  assumes "serves_platform v (er_PlatformCluster R)" "serves_onboarding v (er_OnboardingCluster R)"
    and "serves_factory v (er_ClientFactory R)" "lawful_conditions k" "configured k x (er_ProviderName R) cfg"
    and "ku_ProjectEntity x (ns, nm) = Some pe" "key (pe_Meta pe) = (ns, nm)" "\<not> deleting (pe_Meta pe)"
    and "ku_Instance x (lor_Name (pes_OpenBaoInstanceRef (pe_Spec pe))) = Some i" "isInstanceReachable k (Some i)"
  shows "moves v x (PE_Reconcile k R ns nm) (\<lambda>r y. \<exists>st.
     y = set_project_entity (ns, nm) st (in_bao (\<lambda>f. snd (Fake_EnsureEntity (EntityName ns nm) (PE_metadata pe) f)) x) \<and>
     isConditionTrue k (pest_Conditions st) ConditionReady)"
proof -
  obtain ident where ident: "fst (Fake_EnsureEntity (EntityName ns nm) (PE_metadata pe) (ku_Bao x)) = Inr ident"
    by (simp add: Fake_EnsureEntity_def Let_def)
  have names: "om_Namespace (pe_Meta pe) = ns" "om_Name (pe_Meta pe) = nm"
    using assms(7) by (simp_all add: key_def)
  show ?thesis
    unfolding PE_Reconcile_def
    apply (rule moves_call_bind [OF onboarding_steps(1) [OF assms(2,6)]])
    apply (simp add: time_IsZero_deleting assms)
    apply (rule moves_config_bind [OF assms(1,5)])
    apply (simp add: Let_def)
    apply (rule moves_call_bind [OF platform_reads(1) [OF assms(1,9)]])
    apply (simp add: assms(10))
    apply (rule moves_client_bind [OF assms(3)])
    apply (simp add: Let_def names)
    apply (rule moves_bao_bind [OF bao_steps(2)], assumption)
    by (auto simp: ident condition_rules assms(4,6,7) intro!: moves_PE_patch [OF assms(2)] exI)
qed

section \<open>The trust pass\<close>

lemma moves_CT_patch:
  assumes "serves_onboarding v (tr_OnboardingCluster R)" "ku_Trust x (key (ct_Meta t)) = Some old"
    and "Q (Inr (requeueResult (Some cfg))) (set_trust (key (ct_Meta t)) (ct_Status t) x)"
  shows "moves v x (CT_patchStatus R t cfg) Q"
  unfolding CT_patchStatus_def
  by (rule moves_call_bind [OF onboarding_steps(6) [OF assms(1,2)]]) (simp add: assms(3) moves_return)

text \<open>OpenBao with a mount enabled and configured.\<close>

definition provisioned :: "string \<Rightarrow> JWTAuthConfig \<Rightarrow> FakeClient \<Rightarrow> FakeClient" where
  "provisioned p c f = snd (Fake_ConfigureJWTTrust p c (snd (Fake_EnsureJWTAuthMount p f)))"

text \<open>The status of a trust that is configured.\<close>

definition trust_done ::
    "klib \<Rightarrow> ServiceConfig \<Rightarrow> OpenBaoInstance \<Rightarrow> ControlPlane \<Rightarrow> ControlPlaneTrust \<Rightarrow> ControlPlaneTrustStatus \<Rightarrow> bool" where
  "trust_done k cfg i cp t st \<longleftrightarrow> ctst_AuthMountPath st = CT_mountPath cfg i t \<and>
     ctst_ResolvedOpenBaoInstance st = om_Name (oi_Meta i) \<and> ctst_Issuer st = controlPlaneIssuer (Some cp) \<and>
     ctst_Audience st = resolveControlPlaneAudience (cts_Audience (ct_Spec t)) \<and>
     isConditionTrue k (ctst_Conditions st) ConditionTrustConfigured \<and>
     isConditionTrue k (ctst_Conditions st) ConditionReady"

text \<open>What a trust needs: its ProjectEntity, a reachable instance and a ControlPlane with an issuer.\<close>

definition trust_ready :: "klib \<Rightarrow> kube \<Rightarrow> ControlPlaneTrust \<Rightarrow> OpenBaoInstance \<Rightarrow> ControlPlane \<Rightarrow> bool" where
  "trust_ready k x t i cp \<longleftrightarrow>
     (\<exists>pe. ku_ProjectEntity x (nor_Namespace (cts_ProjectEntityRef (ct_Spec t)),
          nor_Name (cts_ProjectEntityRef (ct_Spec t))) = Some pe \<and>
        ku_Instance x (lor_Name (pes_OpenBaoInstanceRef (pe_Spec pe))) = Some i) \<and>
     isInstanceReachable k (Some i) \<and>
     ku_ControlPlane x (om_Namespace (ct_Meta t), lor_Name (cts_ControlPlaneRef (ct_Spec t))) = Some cp \<and>
     controlPlaneIssuer (Some cp) \<noteq> []"

lemma CT_map_conditions_status:
  "ct_Meta (CT_map_conditions g t) = ct_Meta t" "ct_Spec (CT_map_conditions g t) = ct_Spec t"
  by (simp_all add: CT_map_conditions_def)

lemma CT_configure_moves:
  assumes "serves_onboarding v (tr_OnboardingCluster R)" "serves_factory v (tr_ClientFactory R)" "lawful_conditions k"
    and "ku_Trust x (key (ct_Meta t)) = Some old" "controlPlaneIssuer (Some cp) \<noteq> []"
    and "ctst_ResolvedOpenBaoInstance (ct_Status t) = om_Name (oi_Meta i)"
  shows "moves v x (CT_configure k R cfg i cp t) (\<lambda>r y. \<exists>st.
     y = set_trust (key (ct_Meta t)) st
           (in_bao (provisioned (CT_mountPath cfg i t) (CT_trustConfig (controlPlaneIssuer (Some cp)))) x) \<and>
     trust_done k cfg i cp t st)"
proof -
  let ?p = "CT_mountPath cfg i t" and ?c = "CT_trustConfig (controlPlaneIssuer (Some cp))"
  have path: "CT_mountPath cfg i (t\<lparr>ct_Status := st\<rparr>) = ?p" for st
    by (simp add: CT_mountPath_def)
  have bao: "in_bao (\<lambda>f. snd (Fake_ConfigureJWTTrust ?p ?c f)) (in_bao (\<lambda>f. snd (Fake_EnsureJWTAuthMount ?p f)) x) =
      in_bao (provisioned ?p ?c) x"
    by (simp add: in_bao_def provisioned_def)
  have ok: "fst (Fake_EnsureJWTAuthMount ?p f) = Inr ()"
    "fst (Fake_ConfigureJWTTrust ?p ?c (snd (Fake_EnsureJWTAuthMount ?p f))) = Inr ()" for f
    by (simp_all add: fake_defs)
  show ?thesis
    unfolding CT_configure_def
    apply (simp add: Let_def assms(5) path)
    apply (rule moves_client_bind [OF assms(2)])
    apply simp
    apply (rule moves_bao_bind [OF bao_steps(3)], assumption)
    apply (simp add: ok)
    apply (rule moves_bao_bind [OF bao_steps(4)], assumption)
    apply (simp add: ok bao)
    apply (rule moves_CT_patch [OF assms(1)])
    by (auto simp: CT_map_conditions_status CT_map_conditions_sel condition_rules assms(3,4,6) trust_done_def intro!: exI)
qed

lemma CT_resolve_moves:
  assumes "serves_platform v (tr_PlatformCluster R)" "serves_onboarding v (tr_OnboardingCluster R)"
    and "serves_factory v (tr_ClientFactory R)" "lawful_conditions k"
    and "ku_Trust x (key (ct_Meta t)) = Some old" "trust_ready k x t i cp"
  shows "moves v x (CT_resolve k R cfg t) (\<lambda>r y. \<exists>st.
     y = set_trust (key (ct_Meta t)) st
           (in_bao (provisioned (CT_mountPath cfg i t) (CT_trustConfig (controlPlaneIssuer (Some cp)))) x) \<and>
     trust_done k cfg i cp t st)"
proof -
  obtain pe where pe: "ku_ProjectEntity x (nor_Namespace (cts_ProjectEntityRef (ct_Spec t)),
        nor_Name (cts_ProjectEntityRef (ct_Spec t))) = Some pe"
      "ku_Instance x (lor_Name (pes_OpenBaoInstanceRef (pe_Spec pe))) = Some i"
    and ready: "isInstanceReachable k (Some i)" "controlPlaneIssuer (Some cp) \<noteq> []"
      "ku_ControlPlane x (om_Namespace (ct_Meta t), lor_Name (cts_ControlPlaneRef (ct_Spec t))) = Some cp"
    using assms(6) by (auto simp: trust_ready_def)
  let ?t = "t\<lparr>ct_Status := (ct_Status t)\<lparr>ctst_ResolvedOpenBaoInstance := om_Name (oi_Meta i)\<rparr>\<rparr>"
  have same: "CT_mountPath cfg i ?t = CT_mountPath cfg i t" "trust_done k cfg i cp ?t = trust_done k cfg i cp t"
    by (simp_all add: CT_mountPath_def trust_done_def fun_eq_iff)
  have "ku_Trust x (key (ct_Meta ?t)) = Some old" by (simp add: assms(5))
  note go = CT_configure_moves [OF assms(2,3,4) this ready(2), of i cfg]
  show ?thesis
    unfolding CT_resolve_def Let_def
    apply (rule moves_call_bind [OF onboarding_steps(1) [OF assms(2) pe(1)]])
    apply simp
    apply (rule moves_call_bind [OF platform_reads(1) [OF assms(1) pe(2)]])
    apply (simp add: ready(1))
    apply (rule moves_call_bind [OF control_plane_read [OF assms(2) ready(3)]])
    using go by (simp add: same)
qed

lemma CT_pass_kept:
  assumes "serves_platform v (tr_PlatformCluster R)" "serves_onboarding v (tr_OnboardingCluster R)"
    and "serves_factory v (tr_ClientFactory R)" "lawful_conditions k" "configured k x (tr_ProviderName R) cfg"
    and "ku_Trust x (ns, nm) = Some t" "key (ct_Meta t) = (ns, nm)" "\<not> deleting (ct_Meta t)" "trust_ready k x t i cp"
  shows "moves v x (CT_Reconcile k R ns nm) (\<lambda>r y. \<exists>t'.
     y = x\<lparr>ku_Trust := (ku_Trust x)((ns, nm) \<mapsto> t'),
           ku_Bao := provisioned (CT_mountPath cfg i t) (CT_trustConfig (controlPlaneIssuer (Some cp))) (ku_Bao x)\<rparr> \<and>
     ct_Spec t' = ct_Spec t \<and> key (ct_Meta t') = (ns, nm) \<and> trust_done k cfg i cp t (ct_Status t') \<and>
     (lawful_finalizers k \<longrightarrow> FinalizerControlPlaneTrust \<in> set (om_Finalizers (ct_Meta t'))))"
proof -
  obtain fs changed where fin: "k_AddFinalizer k FinalizerControlPlaneTrust (om_Finalizers (ct_Meta t)) = (fs, changed)"
    by fastforce
  let ?t = "t\<lparr>ct_Status := (ct_Status t)\<lparr>ctst_ObservedGeneration := om_Generation (ct_Meta t)\<rparr>,
      ct_Meta := (ct_Meta t)\<lparr>om_Finalizers := fs\<rparr>\<rparr>"
  have resolve: "moves v z (CT_resolve k R cfg (?t\<lparr>ct_Status := st\<rparr>)) (\<lambda>r y. \<exists>t'.
       y = x\<lparr>ku_Trust := (ku_Trust x)((ns, nm) \<mapsto> t'),
           ku_Bao := provisioned (CT_mountPath cfg i t) (CT_trustConfig (controlPlaneIssuer (Some cp))) (ku_Bao x)\<rparr> \<and>
       ct_Spec t' = ct_Spec t \<and> key (ct_Meta t') = (ns, nm) \<and> trust_done k cfg i cp t (ct_Status t') \<and>
     (lawful_finalizers k \<longrightarrow> FinalizerControlPlaneTrust \<in> set (om_Finalizers (ct_Meta t'))))"
    if z: "z = x\<lparr>ku_Trust := (ku_Trust x)((ns, nm) \<mapsto> old)\<rparr>" "ct_Spec old = ct_Spec t" "key (ct_Meta old) = (ns, nm)"
      "lawful_finalizers k \<longrightarrow> FinalizerControlPlaneTrust \<in> set (om_Finalizers (ct_Meta old))"
    for z st old
  proof -
    have k': "key (ct_Meta (?t\<lparr>ct_Status := st\<rparr>)) = (ns, nm)" using assms(7) by (simp add: key_def)
    have "ku_Trust z (key (ct_Meta (?t\<lparr>ct_Status := st\<rparr>))) = Some old" unfolding k' by (simp add: z)
    moreover have "trust_ready k z (?t\<lparr>ct_Status := st\<rparr>) i cp" using assms(9) by (simp add: trust_ready_def z)
    ultimately show ?thesis
    proof (rule moves_mono [OF CT_resolve_moves [OF assms(1,2,3,4)]], elim exE conjE)
      fix y st'
      assume "y = set_trust (key (ct_Meta (?t\<lparr>ct_Status := st\<rparr>))) st'
          (in_bao (provisioned (CT_mountPath cfg i (?t\<lparr>ct_Status := st\<rparr>)) (CT_trustConfig (controlPlaneIssuer (Some cp)))) z)"
        "trust_done k cfg i cp (?t\<lparr>ct_Status := st\<rparr>) st'"
      then show "\<exists>t'. y = x\<lparr>ku_Trust := (ku_Trust x)((ns, nm) \<mapsto> t'),
           ku_Bao := provisioned (CT_mountPath cfg i t) (CT_trustConfig (controlPlaneIssuer (Some cp))) (ku_Bao x)\<rparr> \<and>
         ct_Spec t' = ct_Spec t \<and> key (ct_Meta t') = (ns, nm) \<and> trust_done k cfg i cp t (ct_Status t') \<and>
         (lawful_finalizers k \<longrightarrow> FinalizerControlPlaneTrust \<in> set (om_Finalizers (ct_Meta t')))"
        unfolding k'
        by (intro exI [of _ "old\<lparr>ct_Status := st'\<rparr>"])
           (simp add: z set_trust_def in_bao_def CT_mountPath_def trust_done_def)
    qed
  qed
  have stored: "ku_Trust x (key (ct_Meta ?t)) = Some t" using assms(6,7) by (simp add: key_def)
  have put: "put_trust ?t x = x\<lparr>ku_Trust := (ku_Trust x)((ns, nm) \<mapsto> ?t\<lparr>ct_Status := ct_Status t\<rparr>)\<rparr>"
    using put_live(1) [OF stored assms(8)] assms(7) by (simp add: key_def)
  have update: "moves v x (call (kc_UpdateControlPlaneTrust (tr_OnboardingCluster R) ?t) ev)
      (\<lambda>r y. \<exists>st. r = Inr (?t\<lparr>ct_Status := st\<rparr>) \<and> y = put_trust ?t x)" for ev
    by (rule moves_updates(1) [OF assms(2) stored]) (use assms(8) in \<open>simp_all add: refinalized_def\<close>)
  have "lawful_finalizers k \<Longrightarrow> (fs, changed) = (if FinalizerControlPlaneTrust \<in> set (om_Finalizers (ct_Meta t))
      then (om_Finalizers (ct_Meta t), False) else (om_Finalizers (ct_Meta t) @ [FinalizerControlPlaneTrust], True))"
    unfolding lawful_finalizers_def fin [symmetric] by blast
  then have kept: "lawful_finalizers k \<longrightarrow> FinalizerControlPlaneTrust \<in> set fs"
    "\<not> changed \<Longrightarrow> lawful_finalizers k \<longrightarrow> FinalizerControlPlaneTrust \<in> set (om_Finalizers (ct_Meta t))"
    by (auto split: if_splits)
  have comm: "t\<lparr>ct_Status := a, ct_Meta := b\<rparr> = t\<lparr>ct_Meta := b, ct_Status := a\<rparr>" for a b
    by simp
  show ?thesis
    unfolding CT_Reconcile_def
    apply (rule moves_call_bind [OF onboarding_steps(2) [OF assms(2,6)]])
    apply simp
    apply (rule moves_config_bind [OF assms(1,5)])
    apply (simp add: time_IsZero_deleting assms(8) fin Let_def)
    apply (intro conjI impI)
     apply (rule moves_bind [OF update])
     apply (clarsimp simp: put)
    subgoal for st
      using resolve [of "put_trust ?t x" "?t\<lparr>ct_Status := ct_Status t\<rparr>" st] assms(7) kept(1) by (simp add: put key_def)
    using resolve [of x t "(ct_Status t)\<lparr>ctst_ObservedGeneration := om_Generation (ct_Meta t)\<rparr>"] assms(6,7) kept(2)
    by (simp add: fun_upd_idem comm)
qed

lemma CT_pass:
  assumes "serves_platform v (tr_PlatformCluster R)" "serves_onboarding v (tr_OnboardingCluster R)"
    and "serves_factory v (tr_ClientFactory R)" "lawful_conditions k" "configured k x (tr_ProviderName R) cfg"
    and "ku_Trust x (ns, nm) = Some t" "key (ct_Meta t) = (ns, nm)" "\<not> deleting (ct_Meta t)" "trust_ready k x t i cp"
  shows "moves v x (CT_Reconcile k R ns nm) (\<lambda>r y. \<exists>t'.
     y = x\<lparr>ku_Trust := (ku_Trust x)((ns, nm) \<mapsto> t'),
           ku_Bao := provisioned (CT_mountPath cfg i t) (CT_trustConfig (controlPlaneIssuer (Some cp))) (ku_Bao x)\<rparr> \<and>
     ct_Spec t' = ct_Spec t \<and> key (ct_Meta t') = (ns, nm) \<and> trust_done k cfg i cp t (ct_Status t'))"
  by (rule moves_mono [OF CT_pass_kept [OF assms]]) blast

section \<open>The entity pass\<close>

text \<open>The ControlPlane of an entity is reachable, its ServiceAccount exists there, and the token it
  gets for the audience carries the identity.\<close>

definition serves_identity ::
    "klib \<Rightarrow> ('w \<Rightarrow> kube) \<Rightarrow> 'w env \<Rightarrow> ControlPlane \<Rightarrow> string \<Rightarrow> string \<Rightarrow> string \<Rightarrow> ServiceAccountIdentity \<Rightarrow> bool" where
  "serves_identity k v env cp ns nm aud ident \<longleftrightarrow>
     env_Getenv env (k_EnvVariablePodNamespace k) \<noteq> [] \<and> env_AddToScheme env = None \<and>
     (\<exists>mcpNs. k_StableMCPNamespace k (cp_Name cp) (cp_Namespace cp) = Inr mcpNs) \<and>
     strings_TrimSpace ns \<noteq> [] \<and> strings_TrimSpace nm \<noteq> [] \<and>
     (\<exists>mcp cs tok. (\<forall>args x. steps v (env_WaitForClusterAccess env args) x (Inr mcp) x) \<and>
        kc_NewForConfig mcp = Inr cs \<and> (\<forall>x. steps v (cs_GetServiceAccount cs ns nm) x (Inr ()) x) \<and>
        (\<forall>x. steps v (cs_CreateToken cs ns nm \<lparr>trs_Audiences = [aud], trs_ExpirationSeconds = 600\<rparr>) x (Inr tok) x) \<and>
        parseServiceAccountJWT (k_JSONError k) tok = Inr ident)"

definition entity_done :: "klib \<Rightarrow> ServiceAccountIdentity \<Rightarrow> ControlPlaneEntityStatus \<Rightarrow> bool" where
  "entity_done k ident st \<longleftrightarrow> isConditionTrue k (cest_Conditions st) ConditionIdentityResolved \<and>
     isConditionTrue k (cest_Conditions st) ConditionReady \<and>
     (\<exists>al. cest_Identity st = Some (ident\<lparr>sai_Alias := al\<rparr>))"

lemma moves_CE_patch:
  assumes "serves_onboarding v (nr_OnboardingCluster R)" "ku_Entity x (key (ce_Meta t)) = Some old"
    and "Q (Inr (requeueResult (Some cfg))) (set_entity (key (ce_Meta t)) (ce_Status t) x)"
  shows "moves v x (CE_patchStatus R t cfg) Q"
  unfolding CE_patchStatus_def
  by (rule moves_call_bind [OF onboarding_steps(7) [OF assms(1,2)]]) (simp add: assms(3) moves_return)

lemma access_moves:
  assumes "serves_identity k v env cp sns snm aud ident"
  obtains mcp where "\<And>p. moves v x (controlPlaneClusterAccess k env p (Some cp) perms) (\<lambda>r y. r = Inr mcp \<and> y = x)"
    "moves v x (resolveServiceAccountIdentity k mcp cns cnm sns snm aud)
       (\<lambda>r y. y = x \<and> (\<exists>al iid. r = Inr (ident\<lparr>sai_Alias := al\<rparr>, iid)))"
proof -
  obtain mcp cs tok mcpNs where laws: "\<And>args x. steps v (env_WaitForClusterAccess env args) x (Inr mcp) x"
      "kc_NewForConfig mcp = Inr cs" "\<And>x. steps v (cs_GetServiceAccount cs sns snm) x (Inr ()) x"
      "\<And>x. steps v (cs_CreateToken cs sns snm \<lparr>trs_Audiences = [aud], trs_ExpirationSeconds = 600\<rparr>) x (Inr tok) x"
      "parseServiceAccountJWT (k_JSONError k) tok = Inr ident"
    and env: "env_Getenv env (k_EnvVariablePodNamespace k) \<noteq> []" "env_AddToScheme env = None"
      "k_StableMCPNamespace k (cp_Name cp) (cp_Namespace cp) = Inr mcpNs"
      "strings_TrimSpace sns \<noteq> []" "strings_TrimSpace snm \<noteq> []"
    using assms unfolding serves_identity_def by blast
  have "moves v x (controlPlaneClusterAccess k env p (Some cp) perms) (\<lambda>r y. r = Inr mcp \<and> y = x)" for p
    unfolding controlPlaneClusterAccess_def
    by (simp add: env Let_def) (rule moves_call_bind [OF laws(1)], simp add: moves_return)
  moreover have "moves v x (resolveServiceAccountIdentity k mcp cns cnm sns snm aud)
      (\<lambda>r y. y = x \<and> (\<exists>al iid. r = Inr (ident\<lparr>sai_Alias := al\<rparr>, iid)))"
    unfolding resolveServiceAccountIdentity_def
    apply (simp add: env laws(2))
    apply (rule moves_call_bind [OF laws(3)])
    apply (simp add: Let_def)
    apply (rule moves_call_bind [OF laws(4)])
    by (simp add: laws(5) Let_def) (rule moves_return, blast)
  ultimately show thesis by (rule that)
qed

lemma CE_pass:
  assumes "serves_platform v (nr_PlatformCluster R)" "serves_onboarding v (nr_OnboardingCluster R)"
    and "lawful_conditions k" "configured k x (nr_ProviderName R) cfg"
    and "ku_Entity x (ns, nm) = Some e" "key (ce_Meta e) = (ns, nm)" "\<not> deleting (ce_Meta e)"
    and "ku_Trust x (ns, lor_Name (ces_ControlPlaneTrustRef (ce_Spec e))) = Some t"
      "isConditionTrue k (ctst_Conditions (ct_Status t)) ConditionTrustConfigured"
    and "ku_ControlPlane x (ns, lor_Name (cts_ControlPlaneRef (ct_Spec t))) = Some cp" "controlPlaneIssuer (Some cp) \<noteq> []"
    and "serves_identity k v env cp (nor_Namespace (ces_ServiceAccountRef (ce_Spec e)))
      (nor_Name (ces_ServiceAccountRef (ce_Spec e))) (resolveControlPlaneAudience (ctst_Audience (ct_Status t))) ident"
  shows "moves v x (CE_Reconcile k env R ns nm) (\<lambda>r y. \<exists>st. y = set_entity (ns, nm) st x \<and> entity_done k ident st)"
proof -
  have ns: "om_Namespace (ce_Meta e) = ns" using assms(6) by (simp add: key_def)
  obtain mcp where
    access: "\<And>p. moves v x (controlPlaneClusterAccess k env p (Some cp)
        (serviceAccountIdentityPermissions (nor_Namespace (ces_ServiceAccountRef (ce_Spec e))))) (\<lambda>r y. r = Inr mcp \<and> y = x)"
    and resolve: "moves v x (resolveServiceAccountIdentity k mcp (cp_Namespace cp) (cp_Name cp)
        (nor_Namespace (ces_ServiceAccountRef (ce_Spec e))) (nor_Name (ces_ServiceAccountRef (ce_Spec e)))
        (resolveControlPlaneAudience (ctst_Audience (ct_Status t))))
       (\<lambda>r y. y = x \<and> (\<exists>al iid. r = Inr (ident\<lparr>sai_Alias := al\<rparr>, iid)))"
    by (rule access_moves [OF assms(12), where x = x and perms = "serviceAccountIdentityPermissions
        (nor_Namespace (ces_ServiceAccountRef (ce_Spec e)))" and cns = "cp_Namespace cp" and cnm = "cp_Name cp"])
       (rule that)
  show ?thesis
    unfolding CE_Reconcile_def
    apply (rule moves_call_bind [OF onboarding_steps(3) [OF assms(2,5)]])
    apply (simp add: time_IsZero_deleting assms(7))
    apply (rule moves_config_bind [OF assms(1,4)])
    apply (simp add: Let_def ns)
    apply (rule moves_call_bind [OF onboarding_steps(2) [OF assms(2,8)]])
    apply (simp add: assms(9) Let_def)
    apply (rule moves_call_bind [OF control_plane_read [OF assms(2,10)]])
    apply (simp add: assms(11) CE_identify_def Let_def)
    apply (rule moves_bind [OF access])
    apply (clarsimp simp: Let_def)
    apply (rule moves_bind [OF resolve])
    apply clarsimp
    apply (rule moves_CE_patch [OF assms(2)])
     apply (simp add: assms(5,6))
    apply (rule exI, rule conjI)
     apply (simp add: assms(6))
    apply (auto simp: entity_done_def condition_rules assms(3))
    done
qed

section \<open>The binding pass\<close>

lemma moves_PB_patch:
  assumes "serves_onboarding v (br_OnboardingCluster R)" "ku_Binding x (key (pb_Meta t)) = Some old"
    and "Q (Inr (requeueResult (Some cfg))) (set_binding (key (pb_Meta t)) (pb_Status t) x)"
  shows "moves v x (PB_patchStatus R t cfg) Q"
  unfolding PB_patchStatus_def
  by (rule moves_call_bind [OF onboarding_steps(8) [OF assms(1,2)]]) (simp add: assms(3) moves_return)

text \<open>What a reference of a binding needs: an entity with its identity, its trust with a mount, a
  reachable instance with that mount, and a policy that exists.\<close>

definition reference_ready ::
    "klib \<Rightarrow> kube \<Rightarrow> PolicyBinding \<Rightarrow> LocalObjectReference \<Rightarrow> ServiceAccountIdentity \<Rightarrow> ControlPlaneTrust \<Rightarrow> bool" where
  "reference_ready k x b ref ident t \<longleftrightarrow>
     (\<exists>e. ku_Entity x (om_Namespace (pb_Meta b), lor_Name ref) = Some e \<and> PB_entityResolved k e \<and>
        cest_Identity (ce_Status e) = Some ident \<and>
        ku_Trust x (om_Namespace (pb_Meta b), lor_Name (ces_ControlPlaneTrustRef (ce_Spec e))) = Some t) \<and>
     PB_trustResolved k t \<and>
     (\<exists>i. ku_Instance x (ctst_ResolvedOpenBaoInstance (ct_Status t)) = Some i \<and> isInstanceReachable k (Some i)) \<and>
     HasMount (ku_Bao x) (ctst_AuthMountPath (ct_Status t)) \<and>
     \<not> fk_PoliciesUnknown (ku_Bao x) \<and> map_read False (fk_Policies (ku_Bao x)) (pbs_PolicyName (pb_Spec b))"

definition reference_role ::
    "PolicyBinding \<Rightarrow> LocalObjectReference \<Rightarrow> ServiceAccountIdentity \<Rightarrow> ControlPlaneTrust \<Rightarrow> JWTRole" where
  "reference_role b ref ident t =
     PB_role b (RoleName (om_Namespace (pb_Meta b)) (om_Name (pb_Meta b) @ ''-'' @ lor_Name ref)) ident t"

lemma in_bao_simps [simp]:
  "in_bao (\<lambda>f. f) x = x" "in_bao g (in_bao f x) = in_bao (\<lambda>y. g (f y)) x"
  by (simp_all add: in_bao_def)

lemma Fake_PolicyExists_state [simp]: "snd (Fake_PolicyExists n f) = f"
  by (simp add: Fake_PolicyExists_def)

lemma PB_round_moves:
  assumes "serves_platform v (br_PlatformCluster R)" "serves_onboarding v (br_OnboardingCluster R)"
    and "serves_factory v (br_ClientFactory R)" "reference_ready k x b ref ident t"
  shows "moves v x (PB_round k R b ref acc) (\<lambda>r y.
     y = in_bao (\<lambda>f. snd (Fake_EnsureJWTRole (ctst_AuthMountPath (ct_Status t)) (reference_role b ref ident t) f)) x \<and>
     r = Inr (acc\<lparr>lp_PolicyChecked := True, lp_Roles := lp_Roles acc @ [
        \<lparr>pbr_ControlPlaneEntityRef = ref, pbr_RoleName = jr_Name (reference_role b ref ident t),
         pbr_AuthMountPath = ctst_AuthMountPath (ct_Status t), pbr_Ready = True, pbr_Message = []\<rparr>]\<rparr>))"
proof -
  obtain e i where e: "ku_Entity x (om_Namespace (pb_Meta b), lor_Name ref) = Some e" "PB_entityResolved k e"
      "cest_Identity (ce_Status e) = Some ident"
      "ku_Trust x (om_Namespace (pb_Meta b), lor_Name (ces_ControlPlaneTrustRef (ce_Spec e))) = Some t"
    and t: "PB_trustResolved k t" "ku_Instance x (ctst_ResolvedOpenBaoInstance (ct_Status t)) = Some i"
      "isInstanceReachable k (Some i)"
    and bao: "map_read False (fk_mounts (ku_Bao x)) (ctst_AuthMountPath (ct_Status t))" "\<not> fk_PoliciesUnknown (ku_Bao x)"
      "map_read False (fk_Policies (ku_Bao x)) (pbs_PolicyName (pb_Spec b))"
    using assms(4) unfolding reference_ready_def HasMount_def by blast
  have ans: "fst (Fake_PolicyExists (pbs_PolicyName (pb_Spec b)) (ku_Bao x)) = Inr \<lparr>px_Exists = True, px_Known = True\<rparr>"
    "fst (Fake_EnsureJWTRole (ctst_AuthMountPath (ct_Status t)) role (ku_Bao x)) = Inr ()" for role
    using bao by (simp_all add: Fake_PolicyExists_def Fake_EnsureJWTRole_def)
  show ?thesis
    unfolding PB_round_def Let_def
    apply (rule moves_call_bind [OF onboarding_steps(3) [OF assms(2) e(1)]])
    apply (simp add: e(2))
    apply (rule moves_call_bind [OF onboarding_steps(2) [OF assms(2) e(4)]])
    apply (simp add: t(1))
    apply (rule moves_call_bind [OF platform_reads(1) [OF assms(1) t(2)]])
    apply (simp add: t(3))
    apply (rule moves_client_bind [OF assms(3)])
    apply (simp add: e(3) PB_writeRole_def Let_def)
    apply (rule moves_bao_bind [OF bao_steps(8)], assumption)
    apply (simp add: ans PB_policy_switch_def Let_def)
    apply (rule moves_bao_bind [OF bao_steps(5)], assumption)
    by (simp add: ans moves_return PB_push_def reference_role_def PB_role_def)
qed

text \<open>Roles written one after the other.\<close>

fun write_roles :: "(string \<times> JWTRole) list \<Rightarrow> FakeClient \<Rightarrow> FakeClient" where
  "write_roles [] f = f"
| "write_roles ((m, role) # rs) f = write_roles rs (snd (Fake_EnsureJWTRole m role f))"

definition binding_roles ::
    "PolicyBinding \<Rightarrow> (LocalObjectReference \<times> ServiceAccountIdentity \<times> ControlPlaneTrust) list \<Rightarrow> (string \<times> JWTRole) list" where
  "binding_roles b rs = map (\<lambda>(ref, ident, t). (ctst_AuthMountPath (ct_Status t), reference_role b ref ident t)) rs"

lemma Fake_EnsureJWTRole_frame:
  "fk_mounts (snd (Fake_EnsureJWTRole m r f)) = fk_mounts f"
  "fk_configs (snd (Fake_EnsureJWTRole m r f)) = fk_configs f"
  "fk_Policies (snd (Fake_EnsureJWTRole m r f)) = fk_Policies f"
  "fk_PoliciesUnknown (snd (Fake_EnsureJWTRole m r f)) = fk_PoliciesUnknown f"
  by (simp_all add: Fake_EnsureJWTRole_def)

lemma reference_ready_frame:
  "reference_ready k (in_bao (\<lambda>f. snd (Fake_EnsureJWTRole m r f)) x) b ref ident t = reference_ready k x b ref ident t"
  by (simp add: reference_ready_def HasMount_def Fake_EnsureJWTRole_frame)

text \<open>What the status then says of the references.\<close>

definition published_roles ::
    "PolicyBinding \<Rightarrow> (LocalObjectReference \<times> ServiceAccountIdentity \<times> ControlPlaneTrust) list \<Rightarrow> PolicyBindingRoleStatus list" where
  "published_roles b rs = map (\<lambda>(ref, ident, t).
     \<lparr>pbr_ControlPlaneEntityRef = ref, pbr_RoleName = jr_Name (reference_role b ref ident t),
      pbr_AuthMountPath = ctst_AuthMountPath (ct_Status t), pbr_Ready = True, pbr_Message = []\<rparr>) rs"

lemma published_roles_simps [simp]:
  "pbst_Roles (pb_Status (PB_publishReady k acc b)) = pbst_Roles (pb_Status b)"
  "pbst_Roles (pb_Status (PB_publishPolicy k acc b)) = pbst_Roles (pb_Status b)"
  by (simp_all add: PB_publishReady_def PB_publishPolicy_def PB_policyCondition_def PB_map_conditions_def Let_def)

text \<open>The loop state keeps its flags when every reference is ready.\<close>

definition loop_clear :: "pb_loop \<Rightarrow> bool" where
  "loop_clear acc \<longleftrightarrow> lp_AllRolesReady acc \<and> lp_PolicyExists acc"

lemma PB_rounds_moves:
  assumes "serves_platform v (br_PlatformCluster R)" "serves_onboarding v (br_OnboardingCluster R)"
    and "serves_factory v (br_ClientFactory R)"
  shows "list_all (\<lambda>(ref, ident, t). reference_ready k x b ref ident t) rs \<Longrightarrow> loop_clear acc \<Longrightarrow>
    moves v x (PB_rounds k R b (map fst rs) acc)
      (\<lambda>r y. y = in_bao (write_roles (binding_roles b rs)) x \<and> (\<exists>acc'. r = Inr acc' \<and> loop_clear acc' \<and>
         lp_Roles acc' = lp_Roles acc @ published_roles b rs))"
proof (induction rs arbitrary: x acc)
  case Nil
  then show ?case by (simp add: moves_return binding_roles_def published_roles_def)
next
  case (Cons z rs)
  obtain ref ident t where z: "z = (ref, ident, t)" by (cases z)
  let ?g = "\<lambda>f. snd (Fake_EnsureJWTRole (ctst_AuthMountPath (ct_Status t)) (reference_role b ref ident t) f)"
  have ready: "reference_ready k x b ref ident t" using Cons.prems z by simp
  have rest: "list_all (\<lambda>(ref, ident, t). reference_ready k (in_bao ?g x) b ref ident t) rs"
    using Cons.prems(1) z by (simp add: reference_ready_frame)
  show ?case
    apply (simp add: z)
    apply (rule moves_bind [OF PB_round_moves [OF assms ready]])
    apply clarsimp
    apply (rule moves_mono [OF Cons.IH [OF rest]])
    using Cons.prems(2) by (auto simp: loop_clear_def binding_roles_def published_roles_def)
qed

lemma PB_sync_moves:
  assumes "serves_platform v (br_PlatformCluster R)" "serves_onboarding v (br_OnboardingCluster R)"
    and "serves_factory v (br_ClientFactory R)" "lawful_conditions k"
    and "ku_Binding x (key (pb_Meta b)) = Some old" "pbs_ControlPlaneEntityRefs (pb_Spec b) = map fst rs"
    and "list_all (\<lambda>(ref, ident, t). reference_ready k x b ref ident t) rs"
  shows "moves v x (PB_sync k R cfg b) (\<lambda>r y. \<exists>st.
     y = set_binding (key (pb_Meta b)) st (in_bao (write_roles (binding_roles b rs)) x) \<and>
     isConditionTrue k (pbst_Conditions st) ConditionReady \<and> pbst_Roles st = published_roles b rs)"
proof -
  have init: "loop_clear PB_loop_init" by (simp add: loop_clear_def PB_loop_init_def)
  show ?thesis
    unfolding PB_sync_def assms(6)
    apply (rule moves_bind [OF PB_rounds_moves [OF assms(1,2,3,7) init]])
    apply (clarsimp simp: Let_def)
    apply (rule moves_PB_patch [OF assms(2)])
     apply (simp add: assms(5))
    apply (rule exI, rule conjI)
     apply simp
    by (simp add: loop_clear_def PB_loop_init_def) (simp add: PB_publishReady_def condition_rules assms(4))
qed

lemma PB_pass_kept:
  assumes "serves_platform v (br_PlatformCluster R)" "serves_onboarding v (br_OnboardingCluster R)"
    and "serves_factory v (br_ClientFactory R)" "lawful_conditions k" "configured k x (br_ProviderName R) cfg"
    and "ku_Binding x (ns, nm) = Some b" "key (pb_Meta b) = (ns, nm)" "\<not> deleting (pb_Meta b)"
    and "pbs_ControlPlaneEntityRefs (pb_Spec b) = map fst rs"
    and "list_all (\<lambda>(ref, ident, t). reference_ready k x b ref ident t) rs"
  shows "moves v x (PB_Reconcile k R ns nm) (\<lambda>r y. \<exists>b'.
     y = x\<lparr>ku_Binding := (ku_Binding x)((ns, nm) \<mapsto> b'), ku_Bao := write_roles (binding_roles b rs) (ku_Bao x)\<rparr> \<and>
     isConditionTrue k (pbst_Conditions (pb_Status b')) ConditionReady \<and> pbst_Roles (pb_Status b') = published_roles b rs)"
proof -
  let ?Q = "\<lambda>y. \<exists>b'. y = x\<lparr>ku_Binding := (ku_Binding x)((ns, nm) \<mapsto> b'), ku_Bao := write_roles (binding_roles b rs) (ku_Bao x)\<rparr> \<and>
     isConditionTrue k (pbst_Conditions (pb_Status b')) ConditionReady \<and> pbst_Roles (pb_Status b') = published_roles b rs"
  obtain fs changed where fin: "k_AddFinalizer k FinalizerPolicyBinding (om_Finalizers (pb_Meta b)) = (fs, changed)"
    by fastforce
  let ?b = "PB_with_finalizers fs (PB_entered b)"
  have sel: "key (pb_Meta (?b\<lparr>pb_Status := st\<rparr>)) = (ns, nm)" "pb_Spec (?b\<lparr>pb_Status := st\<rparr>) = pb_Spec b"
    "binding_roles (?b\<lparr>pb_Status := st\<rparr>) rs = binding_roles b rs"
    "published_roles (?b\<lparr>pb_Status := st\<rparr>) rs = published_roles b rs"
    "reference_ready k z (?b\<lparr>pb_Status := st\<rparr>) = reference_ready k z b" for st z
    using assms(7) by (simp_all add: key_def PB_with_finalizers_def PB_entered_def binding_roles_def reference_role_def
        PB_role_def reference_ready_def published_roles_def fun_eq_iff)
  have same: "?b\<lparr>pb_Status := pb_Status ?b\<rparr> = ?b" by (cases ?b) simp
  have key_b: "key (pb_Meta ?b) = (ns, nm)" using sel(1) [of "pb_Status ?b"] by simp
  have sync: "moves v z (PB_sync k R cfg (?b\<lparr>pb_Status := st\<rparr>)) (\<lambda>r. ?Q)"
    if z: "z = x\<lparr>ku_Binding := (ku_Binding x)((ns, nm) \<mapsto> old)\<rparr>" for z st old
  proof -
    have "ku_Binding z (key (pb_Meta (?b\<lparr>pb_Status := st\<rparr>))) = Some old" unfolding sel by (simp add: z)
    moreover have "pbs_ControlPlaneEntityRefs (pb_Spec (?b\<lparr>pb_Status := st\<rparr>)) = map fst rs" unfolding sel by (rule assms(9))
    moreover have "list_all (\<lambda>(ref, ident, t). reference_ready k z (?b\<lparr>pb_Status := st\<rparr>) ref ident t) rs"
      unfolding sel using assms(10) by (simp add: reference_ready_def z)
    ultimately show ?thesis
    proof (rule moves_mono [OF PB_sync_moves [OF assms(1,2,3,4)]], elim exE conjE)
      fix y st'
      assume "y = set_binding (key (pb_Meta (?b\<lparr>pb_Status := st\<rparr>))) st'
          (in_bao (write_roles (binding_roles (?b\<lparr>pb_Status := st\<rparr>) rs)) z)"
        "isConditionTrue k (pbst_Conditions st') ConditionReady" "pbst_Roles st' = published_roles (?b\<lparr>pb_Status := st\<rparr>) rs"
      then show "?Q y"
        unfolding sel by (intro exI [of _ "old\<lparr>pb_Status := st'\<rparr>"]) (simp add: z set_binding_def in_bao_def)
    qed
  qed
  have stored: "ku_Binding x (key (pb_Meta ?b)) = Some b" using key_b assms(6) by simp
  have update: "moves v x (call (kc_UpdatePolicyBinding (br_OnboardingCluster R) ?b) ev)
      (\<lambda>r y. \<exists>st. r = Inr (?b\<lparr>pb_Status := st\<rparr>) \<and> y = put_binding ?b x)" for ev
    by (rule moves_updates(2) [OF assms(2) stored])
       (use assms(8) in \<open>simp_all add: refinalized_def PB_with_finalizers_def PB_entered_def\<close>)
  have put: "put_binding ?b x = x\<lparr>ku_Binding := (ku_Binding x)((ns, nm) \<mapsto> ?b\<lparr>pb_Status := pb_Status b\<rparr>)\<rparr>"
    using put_live(2) [OF stored assms(8)] key_b by simp
  show ?thesis
    unfolding PB_Reconcile_def
    apply (rule moves_call_bind [OF onboarding_steps(4) [OF assms(2,6)]])
    apply simp
    apply (rule moves_config_bind [OF assms(1,5)])
    apply (simp add: time_IsZero_deleting assms(8) fin Let_def)
    apply (intro conjI impI)
     apply (rule moves_bind [OF update])
     apply (elim exE conjE, hypsubst, simp only: sum.case)
     apply (rule sync [OF put])
    using sync [of x b "pb_Status ?b", unfolded same] assms(6) by (simp add: fun_upd_idem)
qed

lemma PB_pass:
  assumes "serves_platform v (br_PlatformCluster R)" "serves_onboarding v (br_OnboardingCluster R)"
    and "serves_factory v (br_ClientFactory R)" "lawful_conditions k" "configured k x (br_ProviderName R) cfg"
    and "ku_Binding x (ns, nm) = Some b" "key (pb_Meta b) = (ns, nm)" "\<not> deleting (pb_Meta b)"
    and "pbs_ControlPlaneEntityRefs (pb_Spec b) = map fst rs"
    and "list_all (\<lambda>(ref, ident, t). reference_ready k x b ref ident t) rs"
  shows "moves v x (PB_Reconcile k R ns nm) (\<lambda>r y. ku_Bao y = write_roles (binding_roles b rs) (ku_Bao x) \<and>
     (\<exists>b'. ku_Binding y (ns, nm) = Some b' \<and> isConditionTrue k (pbst_Conditions (pb_Status b')) ConditionReady))"
  by (rule moves_mono [OF PB_pass_kept [OF assms]]) auto

end
