(* ===== verification/Tenant.thy ===== *)
theory Tenant
  imports Converge
begin

text \<open>
  The passes composed: the whole way from objects that hold only their spec to a policy binding
  that is Ready and backed by the mount, the trust and the roles in OpenBao.
\<close>

section \<open>The whole chain\<close>

text \<open>A service on servers that answer, with one valid configuration.\<close>

definition service_serves :: "('w \<Rightarrow> kube) \<Rightarrow> 'w service \<Rightarrow> bool" where
  "service_serves v S \<longleftrightarrow>
     serves_platform v (ir_PlatformCluster (sv_Instance S)) \<and> serves_factory v (ir_ClientFactory (sv_Instance S)) \<and>
     serves_platform v (er_PlatformCluster (sv_ProjectEntity S)) \<and> serves_onboarding v (er_OnboardingCluster (sv_ProjectEntity S)) \<and>
     serves_factory v (er_ClientFactory (sv_ProjectEntity S)) \<and>
     serves_platform v (tr_PlatformCluster (sv_Trust S)) \<and> serves_onboarding v (tr_OnboardingCluster (sv_Trust S)) \<and>
     serves_factory v (tr_ClientFactory (sv_Trust S)) \<and>
     serves_platform v (nr_PlatformCluster (sv_Entity S)) \<and> serves_onboarding v (nr_OnboardingCluster (sv_Entity S)) \<and>
     serves_platform v (br_PlatformCluster (sv_Binding S)) \<and> serves_onboarding v (br_OnboardingCluster (sv_Binding S)) \<and>
     serves_factory v (br_ClientFactory (sv_Binding S))"

definition service_configured :: "klib \<Rightarrow> kube \<Rightarrow> 'w service \<Rightarrow> ServiceConfig \<Rightarrow> bool" where
  "service_configured k x S cfg \<longleftrightarrow>
     configured k x (ir_ProviderName (sv_Instance S)) cfg \<and> configured k x (er_ProviderName (sv_ProjectEntity S)) cfg \<and>
     configured k x (tr_ProviderName (sv_Trust S)) cfg \<and> configured k x (nr_ProviderName (sv_Entity S)) cfg \<and>
     configured k x (br_ProviderName (sv_Binding S)) cfg"

text \<open>The objects of a tenant, with nothing yet in their statuses: an instance, a ProjectEntity on
  it, a trust in a ControlPlane with an issuer, and a binding of a policy that exists to
  entities on that trust whose ServiceAccounts have the identities \<open>ident\<close>.\<close>

record tenant =
  tn_Instance :: OpenBaoInstance
  tn_ProjectEntity :: ProjectEntity
  tn_Trust :: ControlPlaneTrust
  tn_ControlPlane :: ControlPlane
  tn_Entities :: "ControlPlaneEntity list"
  tn_Binding :: PolicyBinding

definition declared ::
    "klib \<Rightarrow> ('w \<Rightarrow> kube) \<Rightarrow> 'w env \<Rightarrow> kube \<Rightarrow> tenant \<Rightarrow> (string \<Rightarrow> ServiceAccountIdentity) \<Rightarrow> bool" where
  "declared k v env x T ident \<longleftrightarrow>
     (let i = tn_Instance T; pe = tn_ProjectEntity T; t = tn_Trust T; cp = tn_ControlPlane T; b = tn_Binding T;
          ns = om_Namespace (ct_Meta t)
      in ku_Instance x (om_Name (oi_Meta i)) = Some i \<and> \<not> deleting (oi_Meta i) \<and> om_Name (oi_Meta i) \<noteq> [] \<and>
         ku_ProjectEntity x (key (pe_Meta pe)) = Some pe \<and> \<not> deleting (pe_Meta pe) \<and>
         lor_Name (pes_OpenBaoInstanceRef (pe_Spec pe)) = om_Name (oi_Meta i) \<and>
         ku_Trust x (key (ct_Meta t)) = Some t \<and> \<not> deleting (ct_Meta t) \<and>
         cts_ProjectEntityRef (ct_Spec t) = \<lparr>nor_Name = om_Name (pe_Meta pe), nor_Namespace = om_Namespace (pe_Meta pe)\<rparr> \<and>
         ku_ControlPlane x (ns, lor_Name (cts_ControlPlaneRef (ct_Spec t))) = Some cp \<and>
         controlPlaneIssuer (Some cp) \<noteq> [] \<and>
         ku_Binding x (key (pb_Meta b)) = Some b \<and> \<not> deleting (pb_Meta b) \<and> om_Namespace (pb_Meta b) = ns \<and>
         pbs_ControlPlaneEntityRefs (pb_Spec b) = map (\<lambda>e. \<lparr>lor_Name = om_Name (ce_Meta e)\<rparr>) (tn_Entities T) \<and>
         list_all (\<lambda>e. ku_Entity x (ns, om_Name (ce_Meta e)) = Some e \<and> om_Namespace (ce_Meta e) = ns \<and>
            \<not> deleting (ce_Meta e) \<and> lor_Name (ces_ControlPlaneTrustRef (ce_Spec e)) = om_Name (ct_Meta t) \<and>
            sai_Subject (ident (om_Name (ce_Meta e))) \<noteq> [] \<and>
            serves_identity k v env cp (nor_Namespace (ces_ServiceAccountRef (ce_Spec e)))
              (nor_Name (ces_ServiceAccountRef (ce_Spec e)))
              (resolveControlPlaneAudience (resolveControlPlaneAudience (cts_Audience (ct_Spec t))))
              (ident (om_Name (ce_Meta e)))) (tn_Entities T) \<and>
         healthy (ku_Bao x) \<and> \<not> fk_PoliciesUnknown (ku_Bao x) \<and>
         map_read False (fk_Policies (ku_Bao x)) (pbs_PolicyName (pb_Spec b)))"

text \<open>One pass for every object, dependencies first.\<close>

definition tenant_queue :: "tenant \<Rightarrow> request list" where
  "tenant_queue T =
     [ReqInstance [] (om_Name (oi_Meta (tn_Instance T))),
      ReqProjectEntity (om_Namespace (pe_Meta (tn_ProjectEntity T))) (om_Name (pe_Meta (tn_ProjectEntity T))),
      ReqTrust (om_Namespace (ct_Meta (tn_Trust T))) (om_Name (ct_Meta (tn_Trust T)))] @
     map (\<lambda>e. ReqEntity (om_Namespace (ce_Meta e)) (om_Name (ce_Meta e))) (tn_Entities T) @
     [ReqBinding (om_Namespace (pb_Meta (tn_Binding T))) (om_Name (pb_Meta (tn_Binding T)))]"

section \<open>The entity passes\<close>

definition entity_stored ::
    "ControlPlaneEntity \<Rightarrow> kube \<Rightarrow> (ControlPlaneEntityStatus \<Rightarrow> bool) \<Rightarrow> bool" where
  "entity_stored e x P \<longleftrightarrow> (\<exists>st. ku_Entity x (key (ce_Meta e)) = Some (e\<lparr>ce_Status := st\<rparr>) \<and> P st)"

lemma entity_stored_set:
  assumes "entity_stored e x P" "entity_stored e' x Q"
    and "key (ce_Meta e) = key (ce_Meta e') \<Longrightarrow> P st"
  shows "entity_stored e (set_entity (key (ce_Meta e')) st x) P"
proof (cases "key (ce_Meta e) = key (ce_Meta e')")
  case True
  with assms(1) obtain st' where "ku_Entity x (key (ce_Meta e')) = Some (e\<lparr>ce_Status := st'\<rparr>)"
    by (auto simp: entity_stored_def)
  with True assms(3) show ?thesis by (auto simp: entity_stored_def set_entity_def)
next
  case False
  with assms(1) show ?thesis by (simp add: entity_stored_def set_entity_def)
qed

text \<open>What the pass of an entity needs beside the stored entity: nothing that an entity pass changes.\<close>

definition entity_ready ::
    "klib \<Rightarrow> ('w \<Rightarrow> kube) \<Rightarrow> 'w env \<Rightarrow> kube \<Rightarrow> (string \<Rightarrow> ServiceAccountIdentity) \<Rightarrow> ControlPlaneEntity \<Rightarrow> bool" where
  "entity_ready k v env x ident e \<longleftrightarrow> \<not> deleting (ce_Meta e) \<and>
     (\<exists>t cp. ku_Trust x (om_Namespace (ce_Meta e), lor_Name (ces_ControlPlaneTrustRef (ce_Spec e))) = Some t \<and>
        isConditionTrue k (ctst_Conditions (ct_Status t)) ConditionTrustConfigured \<and>
        ku_ControlPlane x (om_Namespace (ce_Meta e), lor_Name (cts_ControlPlaneRef (ct_Spec t))) = Some cp \<and>
        controlPlaneIssuer (Some cp) \<noteq> [] \<and>
        serves_identity k v env cp (nor_Namespace (ces_ServiceAccountRef (ce_Spec e)))
          (nor_Name (ces_ServiceAccountRef (ce_Spec e)))
          (resolveControlPlaneAudience (ctst_Audience (ct_Status t))) (ident (om_Name (ce_Meta e))))"

lemma entity_ready_set: "entity_ready k v env (set_entity a st x) ident = entity_ready k v env x ident"
  by (simp add: entity_ready_def fun_eq_iff)

definition all_stored ::
    "klib \<Rightarrow> (string \<Rightarrow> ServiceAccountIdentity) \<Rightarrow> ControlPlaneEntity set \<Rightarrow> ControlPlaneEntity set \<Rightarrow> kube \<Rightarrow> bool" where
  "all_stored k ident A D x \<longleftrightarrow> (\<forall>e \<in> A. entity_stored e x (\<lambda>_. True)) \<and>
     (\<forall>e \<in> D. entity_stored e x (entity_done k (ident (om_Name (ce_Meta e)))))"

lemma all_stored_set:
  assumes "all_stored k ident A D x" "e \<in> A" "entity_done k (ident (om_Name (ce_Meta e))) st"
  shows "all_stored k ident A (insert e D) (set_entity (key (ce_Meta e)) st x)"
proof -
  have e: "entity_stored e x (\<lambda>_. True)" using assms(1,2) by (simp add: all_stored_def)
  then have "entity_stored e (set_entity (key (ce_Meta e)) st x) (entity_done k (ident (om_Name (ce_Meta e))))"
    using assms(3) by (auto simp: entity_stored_def set_entity_def)
  moreover have "entity_stored e' (set_entity (key (ce_Meta e)) st x) (entity_done k (ident (om_Name (ce_Meta e'))))"
    if "e' \<in> D" for e'
    using that assms(1,3) by (intro entity_stored_set [OF _ e]) (auto simp: all_stored_def key_def)
  moreover have "entity_stored e' (set_entity (key (ce_Meta e)) st x) (\<lambda>_. True)" if "e' \<in> A" for e'
    using that assms(1) by (intro entity_stored_set [OF _ e]) (auto simp: all_stored_def)
  ultimately show ?thesis by (simp add: all_stored_def)
qed

lemma CE_passes:
  assumes "service_serves v S" "lawful_conditions k"
  shows "service_configured k x S cfg \<Longrightarrow> list_all (entity_ready k v env x ident) es \<Longrightarrow>
    set es \<subseteq> A \<Longrightarrow> all_stored k ident A D x \<Longrightarrow>
    moves v x (run_queue (service_handle k env S)
        (map (\<lambda>e. ReqEntity (om_Namespace (ce_Meta e)) (om_Name (ce_Meta e))) es))
      (\<lambda>r y. all_stored k ident A (D \<union> set es) y \<and> (\<exists>m. y = x\<lparr>ku_Entity := m\<rparr>))"
proof (induction es arbitrary: x D)
  case Nil
  then show ?case by (auto intro!: moves_return exI [of _ "ku_Entity x"])
next
  case (Cons e es)
  obtain st where st: "ku_Entity x (key (ce_Meta e)) = Some (e\<lparr>ce_Status := st\<rparr>)"
    using Cons.prems by (auto simp: all_stored_def entity_stored_def)
  obtain t cp where ready: "\<not> deleting (ce_Meta e)"
      "ku_Trust x (om_Namespace (ce_Meta e), lor_Name (ces_ControlPlaneTrustRef (ce_Spec e))) = Some t"
      "isConditionTrue k (ctst_Conditions (ct_Status t)) ConditionTrustConfigured"
      "ku_ControlPlane x (om_Namespace (ce_Meta e), lor_Name (cts_ControlPlaneRef (ct_Spec t))) = Some cp"
      "controlPlaneIssuer (Some cp) \<noteq> []"
      "serves_identity k v env cp (nor_Namespace (ces_ServiceAccountRef (ce_Spec e)))
          (nor_Name (ces_ServiceAccountRef (ce_Spec e)))
          (resolveControlPlaneAudience (ctst_Audience (ct_Status t))) (ident (om_Name (ce_Meta e)))"
    using Cons.prems(2) unfolding entity_ready_def by auto
  have pass: "moves v x (CE_Reconcile k env (sv_Entity S) (om_Namespace (ce_Meta e)) (om_Name (ce_Meta e)))
      (\<lambda>r y. \<exists>st. y = set_entity (key (ce_Meta e)) st x \<and> entity_done k (ident (om_Name (ce_Meta e))) st)"
    unfolding key_def
    by (rule CE_pass [where e = "e\<lparr>ce_Status := st\<rparr>" and t = t and cp = cp and cfg = cfg])
       (use assms Cons.prems(1) st ready in \<open>simp_all add: service_serves_def service_configured_def key_def\<close>)
  show ?case
    unfolding list.map
  proof (rule moves_queue_Cons, simp add: service_handle_def, rule pass, elim exE conjE)
    fix r y st'
    assume y: "y = set_entity (key (ce_Meta e)) st' x" "entity_done k (ident (om_Name (ce_Meta e))) st'"
    have cfg: "service_configured k y S cfg"
      using Cons.prems(1) y(1) by (simp add: service_configured_def configured_def)
    have rest: "list_all (entity_ready k v env y ident) es" using Cons.prems(2) y(1) by (simp add: entity_ready_set)
    have stored: "all_stored k ident A (insert e D) y"
      unfolding y(1) by (rule all_stored_set) (use Cons.prems y(2) in auto)
    show "moves v y (run_queue (service_handle k env S)
        (map (\<lambda>e. ReqEntity (om_Namespace (ce_Meta e)) (om_Name (ce_Meta e))) es))
      (\<lambda>rs z. all_stored k ident A (D \<union> set (e # es)) z \<and> (\<exists>m. z = x\<lparr>ku_Entity := m\<rparr>))"
      by (rule moves_mono [OF Cons.IH [OF cfg rest _ stored]])
         (use Cons.prems(3) y(1) in \<open>auto simp: set_entity_def\<close>)
  qed
qed

section \<open>Composition\<close>

lemma run_queue_append:
  "run_queue h (as @ bs) = do { r \<leftarrow> run_queue h as; s \<leftarrow> run_queue h bs; State_Monad.return (r @ s) }"
  by (induction as) simp_all

lemma moves_queue_append:
  assumes "moves v x (run_queue h as) R" and "\<And>r y. R r y \<Longrightarrow> moves v y (run_queue h bs) (\<lambda>_. Q)"
  shows "moves v x (run_queue h (as @ bs)) (\<lambda>_. Q)"
  unfolding run_queue_append
  by (rule moves_bind [OF assms(1)], rule moves_bind, erule assms(2)) (rule moves_return)

lemma moves_queue_single: "moves v x (h q) (\<lambda>_. Q) \<Longrightarrow> moves v x (run_queue h [q]) (\<lambda>_. Q)"
  by (erule moves_queue_Cons) (simp add: moves_return)

text \<open>The trust of a tenant in place: what the passes over its entities and its binding start from.\<close>

definition tenant_path :: "ServiceConfig \<Rightarrow> tenant \<Rightarrow> string" where
  "tenant_path cfg T = CT_mountPath cfg (tn_Instance T) (tn_Trust T)"

definition tenant_issuer :: "tenant \<Rightarrow> string" where
  "tenant_issuer T = controlPlaneIssuer (Some (tn_ControlPlane T))"

definition trusted :: "klib \<Rightarrow> 'w service \<Rightarrow> ServiceConfig \<Rightarrow> tenant \<Rightarrow> kube \<Rightarrow> kube \<Rightarrow> bool" where
  "trusted k S cfg T x y \<longleftrightarrow> service_configured k y S cfg \<and>
     (\<exists>i. ku_Instance y (om_Name (oi_Meta (tn_Instance T))) = Some i \<and> isInstanceReachable k (Some i)) \<and>
     (\<exists>t. ku_Trust y (key (ct_Meta (tn_Trust T))) = Some t \<and> ct_Spec t = ct_Spec (tn_Trust T) \<and>
        trust_done k cfg (tn_Instance T) (tn_ControlPlane T) (tn_Trust T) (ct_Status t)) \<and>
     ku_ControlPlane y = ku_ControlPlane x \<and> ku_Entity y = ku_Entity x \<and> ku_Binding y = ku_Binding x \<and>
     HasMount (ku_Bao y) (tenant_path cfg T) \<and>
     Config (ku_Bao y) (tenant_path cfg T) = Some (CT_trustConfig (tenant_issuer T)) \<and>
     fk_Policies (ku_Bao y) = fk_Policies (ku_Bao x) \<and> fk_PoliciesUnknown (ku_Bao y) = fk_PoliciesUnknown (ku_Bao x)"

lemma provisioned_sel [simp]:
  "HasMount (provisioned p c f) p" "Config (provisioned p c f) p = Some c"
  "fk_Policies (provisioned p c f) = fk_Policies f" "fk_PoliciesUnknown (provisioned p c f) = fk_PoliciesUnknown f"
  by (simp_all add: provisioned_def fake_defs)

lemma EnsureEntity_frame [simp]:
  "fk_Policies (snd (Fake_EnsureEntity n md f)) = fk_Policies f"
  "fk_PoliciesUnknown (snd (Fake_EnsureEntity n md f)) = fk_PoliciesUnknown f"
  by (simp_all add: Fake_EnsureEntity_def Let_def)

lemma trust_moves:
  assumes "lawful_conditions k" "service_serves v S" "service_configured k x S cfg" "declared k v env x T ident"
  shows "moves v x (run_queue (service_handle k env S)
      [ReqInstance [] (om_Name (oi_Meta (tn_Instance T))),
       ReqProjectEntity (om_Namespace (pe_Meta (tn_ProjectEntity T))) (om_Name (pe_Meta (tn_ProjectEntity T))),
       ReqTrust (om_Namespace (ct_Meta (tn_Trust T))) (om_Name (ct_Meta (tn_Trust T)))])
     (\<lambda>_. trusted k S cfg T x)"
proof (rule moves_queue_Cons, simp only: service_handle_def request.case)
  let ?i = "tn_Instance T" and ?pe = "tn_ProjectEntity T" and ?t = "tn_Trust T" and ?cp = "tn_ControlPlane T"
  show "moves v x (OI_Reconcile k (sv_Instance S) [] (om_Name (oi_Meta ?i)))
      (\<lambda>r y. \<exists>st. y = set_instance (om_Name (oi_Meta ?i)) st x \<and>
         isConditionTrue k (oist_Conditions st) ConditionOpenBaoReachable)"
    by (rule OI_pass [where cfg = cfg]) (use assms in \<open>auto simp: service_serves_def service_configured_def declared_def Let_def\<close>)
  fix r1 y1
  assume "\<exists>st. y1 = set_instance (om_Name (oi_Meta ?i)) st x \<and>
      isConditionTrue k (oist_Conditions st) ConditionOpenBaoReachable"
  then obtain ist where y1: "y1 = set_instance (om_Name (oi_Meta ?i)) ist x"
      "isInstanceReachable k (Some (?i\<lparr>oi_Status := ist\<rparr>))"
    by (auto simp: isInstanceReachable_def)
  then have i1: "ku_Instance y1 (om_Name (oi_Meta ?i)) = Some (?i\<lparr>oi_Status := ist\<rparr>)"
    using assms(4) by (simp add: declared_def Let_def)
  show "moves v y1 (run_queue (service_handle k env S)
      [ReqProjectEntity (om_Namespace (pe_Meta ?pe)) (om_Name (pe_Meta ?pe)),
       ReqTrust (om_Namespace (ct_Meta ?t)) (om_Name (ct_Meta ?t))]) (\<lambda>rs. trusted k S cfg T x)"
  proof (rule moves_queue_Cons, simp only: service_handle_def request.case)
    let ?g = "\<lambda>f. snd (Fake_EnsureEntity (EntityName (om_Namespace (pe_Meta ?pe)) (om_Name (pe_Meta ?pe)))
        (PE_metadata ?pe) f)"
    show "moves v y1 (PE_Reconcile k (sv_ProjectEntity S) (om_Namespace (pe_Meta ?pe)) (om_Name (pe_Meta ?pe)))
      (\<lambda>r y. \<exists>st. y = set_project_entity (om_Namespace (pe_Meta ?pe), om_Name (pe_Meta ?pe)) st (in_bao ?g y1) \<and>
         isConditionTrue k (pest_Conditions st) ConditionReady)"
      by (rule PE_pass [where cfg = cfg and i = "?i\<lparr>oi_Status := ist\<rparr>"])
        (use assms y1 i1 in \<open>auto simp: service_serves_def service_configured_def configured_def declared_def key_def Let_def\<close>)
    fix r2 y2
    assume "\<exists>st. y2 = set_project_entity (om_Namespace (pe_Meta ?pe), om_Name (pe_Meta ?pe)) st (in_bao ?g y1) \<and>
         isConditionTrue k (pest_Conditions st) ConditionReady"
    then obtain pst where y2: "y2 = set_project_entity (key (pe_Meta ?pe)) pst (in_bao ?g y1)"
      by (auto simp: key_def)
    then have pe2: "ku_ProjectEntity y2 (key (pe_Meta ?pe)) = Some (?pe\<lparr>pe_Status := pst\<rparr>)"
      using assms(4) y1(1) by (simp add: declared_def Let_def)
    have ready: "trust_ready k y2 ?t (?i\<lparr>oi_Status := ist\<rparr>) ?cp"
      using assms(4) y1 y2 i1 pe2 by (auto simp: trust_ready_def declared_def key_def Let_def)
    have path: "CT_mountPath cfg (?i\<lparr>oi_Status := st\<rparr>) ?t = tenant_path cfg T" for st
      by (simp add: tenant_path_def CT_mountPath_def resolveAuthMountPrefix_def)
    note pass = CT_pass [of v "sv_Trust S" k y2 cfg "om_Namespace (ct_Meta ?t)" "om_Name (ct_Meta ?t)" ?t
        "?i\<lparr>oi_Status := ist\<rparr>" ?cp]
    have "moves v y2 (CT_Reconcile k (sv_Trust S) (om_Namespace (ct_Meta ?t)) (om_Name (ct_Meta ?t)))
        (\<lambda>r. trusted k S cfg T x)"
    proof (rule moves_mono, rule pass)
      fix r y3
      assume "\<exists>t'. y3 = y2\<lparr>ku_Trust := (ku_Trust y2)((om_Namespace (ct_Meta ?t), om_Name (ct_Meta ?t)) \<mapsto> t'),
           ku_Bao := provisioned (CT_mountPath cfg (?i\<lparr>oi_Status := ist\<rparr>) ?t)
             (CT_trustConfig (controlPlaneIssuer (Some ?cp))) (ku_Bao y2)\<rparr> \<and>
        ct_Spec t' = ct_Spec ?t \<and> key (ct_Meta t') = (om_Namespace (ct_Meta ?t), om_Name (ct_Meta ?t)) \<and>
        trust_done k cfg (?i\<lparr>oi_Status := ist\<rparr>) ?cp ?t (ct_Status t')"
      then show "trusted k S cfg T x y3"
        using assms(3) y1 y2 i1
        by (auto simp: trusted_def service_configured_def configured_def key_def path tenant_issuer_def trust_done_def
            tenant_path_def [symmetric])
    qed (use assms y1(1) y2 ready in
        \<open>auto simp: service_serves_def service_configured_def configured_def declared_def key_def Let_def\<close>)
    then show "moves v y2 (run_queue (service_handle k env S) [ReqTrust (om_Namespace (ct_Meta ?t)) (om_Name (ct_Meta ?t))])
        (\<lambda>rs. trusted k S cfg T x)"
      by (intro moves_queue_single) (simp add: service_handle_def)
  qed
qed

section \<open>Roles written in order\<close>

lemma write_roles_frame [simp]:
  "fk_mounts (write_roles rs f) = fk_mounts f" "fk_configs (write_roles rs f) = fk_configs f"
  by (induction rs f rule: write_roles.induct) (simp_all add: Fake_EnsureJWTRole_frame)

lemma write_roles_keeps:
  assumes "Role f p (jr_Name r) = Some r" "\<forall>(m, r') \<in> set rs. m = p \<and> (jr_Name r' = jr_Name r \<longrightarrow> r' = r)"
  shows "Role (write_roles rs f) p (jr_Name r) = Some r"
  using assms
  by (induction rs f rule: write_roles.induct) (auto simp: Role_def Fake_EnsureJWTRole_def role_key_def)

lemma write_roles_Role:
  assumes "HasMount f p" "\<forall>(m, r') \<in> set rs. m = p \<and> (jr_Name r' = jr_Name r \<longrightarrow> r' = r)" "(p, r) \<in> set rs"
  shows "Role (write_roles rs f) p (jr_Name r) = Some r"
  using assms
proof (induction rs f rule: write_roles.induct)
  case (2 m role rs f)
  have m: "m = p" using 2(3) by simp
  show ?case
  proof (cases "role = r")
    case True
    have "Role (snd (Fake_EnsureJWTRole p r f)) p (jr_Name r) = Some r"
      using 2(2) by (simp add: fake_defs)
    then show ?thesis using 2(3) m True write_roles_keeps by simp
  next
    case False
    with 2 m show ?thesis by (auto simp: HasMount_def Fake_EnsureJWTRole_frame)
  qed
qed simp

section \<open>The tenant converges\<close>

text \<open>The role an entity gets.\<close>

definition tenant_role :: "tenant \<Rightarrow> (string \<Rightarrow> ServiceAccountIdentity) \<Rightarrow> ControlPlaneEntity \<Rightarrow> JWTRole" where
  "tenant_role T ident e =
     (let b = tn_Binding T
      in \<lparr>jr_Name = RoleName (om_Namespace (pb_Meta b)) (om_Name (pb_Meta b) @ ''-'' @ om_Name (ce_Meta e)),
          jr_RoleType = ''jwt'',
          jr_BoundAudiences = [resolveControlPlaneAudience (cts_Audience (ct_Spec (tn_Trust T)))],
          jr_BoundSubject = sai_Subject (ident (om_Name (ce_Meta e))), jr_BoundClaims = fmempty,
          jr_UserClaim = ''sub'', jr_TokenPolicies = [pbs_PolicyName (pb_Spec b)],
          jr_TokenTTL = pbs_TTL (pb_Spec b), jr_TokenMaxTTL = pbs_MaxTTL (pb_Spec b)\<rparr>)"

definition tenant_granted ::
    "klib \<Rightarrow> ServiceConfig \<Rightarrow> tenant \<Rightarrow> (string \<Rightarrow> ServiceAccountIdentity) \<Rightarrow> kube \<Rightarrow> bool" where
  "tenant_granted k cfg T ident y \<longleftrightarrow>
     (\<exists>b. ku_Binding y (key (pb_Meta (tn_Binding T))) = Some b \<and>
        isConditionTrue k (pbst_Conditions (pb_Status b)) ConditionReady) \<and>
     HasMount (ku_Bao y) (tenant_path cfg T) \<and>
     Config (ku_Bao y) (tenant_path cfg T) = Some (CT_trustConfig (tenant_issuer T)) \<and>
     list_all (\<lambda>e. Role (ku_Bao y) (tenant_path cfg T) (jr_Name (tenant_role T ident e)) = Some (tenant_role T ident e))
       (tn_Entities T)"

lemma tenant_path_nonempty: "tenant_path cfg T \<noteq> []"
  using mountPath_valid [of cfg "tn_Instance T" "tn_Trust T"] by (auto simp: tenant_path_def valid_name_def)

text \<open>What the pass over the binding of a tenant starts from.\<close>

definition same_binding :: "PolicyBinding \<Rightarrow> PolicyBinding \<Rightarrow> bool" where
  "same_binding b b' \<longleftrightarrow> pb_Spec b' = pb_Spec b \<and> key (pb_Meta b') = key (pb_Meta b) \<and>
     deleting (pb_Meta b') = deleting (pb_Meta b)"

definition prepared :: "klib \<Rightarrow> 'w service \<Rightarrow> ServiceConfig \<Rightarrow> tenant \<Rightarrow> kube \<Rightarrow> bool" where
  "prepared k S cfg T z \<longleftrightarrow> service_configured k z S cfg \<and>
     (\<exists>i. ku_Instance z (om_Name (oi_Meta (tn_Instance T))) = Some i \<and> isInstanceReachable k (Some i)) \<and>
     (\<exists>t. ku_Trust z (key (ct_Meta (tn_Trust T))) = Some t \<and> ct_Spec t = ct_Spec (tn_Trust T) \<and>
        trust_done k cfg (tn_Instance T) (tn_ControlPlane T) (tn_Trust T) (ct_Status t)) \<and>
     HasMount (ku_Bao z) (tenant_path cfg T) \<and>
     Config (ku_Bao z) (tenant_path cfg T) = Some (CT_trustConfig (tenant_issuer T)) \<and>
     \<not> fk_PoliciesUnknown (ku_Bao z) \<and> map_read False (fk_Policies (ku_Bao z)) (pbs_PolicyName (pb_Spec (tn_Binding T))) \<and>
     (\<exists>b. ku_Binding z (key (pb_Meta (tn_Binding T))) = Some b \<and> same_binding (tn_Binding T) b)"

lemma binding_moves:
  assumes "lawful_conditions k" "service_serves v S" "declared k v env x T ident" "prepared k S cfg T z"
    and "all_stored k ident (set (tn_Entities T)) (set (tn_Entities T)) z"
    and "inj_on (\<lambda>e. jr_Name (tenant_role T ident e)) (set (tn_Entities T))"
  shows "moves v z (service_handle k env S
      (ReqBinding (om_Namespace (pb_Meta (tn_Binding T))) (om_Name (pb_Meta (tn_Binding T)))))
    (\<lambda>_. tenant_granted k cfg T ident)"
proof -
  let ?b = "tn_Binding T" and ?p = "tenant_path cfg T"
  obtain t where t: "ku_Trust z (key (ct_Meta (tn_Trust T))) = Some t" "ct_Spec t = ct_Spec (tn_Trust T)"
      "trust_done k cfg (tn_Instance T) (tn_ControlPlane T) (tn_Trust T) (ct_Status t)"
    using assms(4) by (auto simp: prepared_def)
  obtain b where b: "ku_Binding z (key (pb_Meta ?b)) = Some b" "pb_Spec b = pb_Spec ?b" "key (pb_Meta b) = key (pb_Meta ?b)"
      "deleting (pb_Meta b) = deleting (pb_Meta ?b)"
    using assms(4) by (auto simp: prepared_def same_binding_def)
  define ref where "ref = (\<lambda>e :: ControlPlaneEntity. \<lparr>lor_Name = om_Name (ce_Meta e)\<rparr>)"
  define found where "found = (\<lambda>e :: ControlPlaneEntity. the (cest_Identity (ce_Status (the (ku_Entity z (key (ce_Meta e)))))))"
  let ?rs = "map (\<lambda>e. (ref e, found e, t)) (tn_Entities T)"
  have stored: "\<exists>st al. ku_Entity z (key (ce_Meta e)) = Some (e\<lparr>ce_Status := st\<rparr>) \<and>
      isConditionTrue k (cest_Conditions st) ConditionIdentityResolved \<and> cest_Identity st = Some (found e) \<and>
      found e = (ident (om_Name (ce_Meta e)))\<lparr>sai_Alias := al\<rparr>" if "e \<in> set (tn_Entities T)" for e
    using that assms(5) by (fastforce simp: all_stored_def entity_stored_def entity_done_def found_def)
  have role: "reference_role b (ref e) (found e) t = tenant_role T ident e" if "e \<in> set (tn_Entities T)" for e
    using stored [OF that] t(3) b
    by (auto simp: reference_role_def tenant_role_def PB_role_def ref_def trust_done_def key_def Let_def)
  have path: "ctst_AuthMountPath (ct_Status t) = ?p" using t(3) by (simp add: trust_done_def tenant_path_def)
  have resolved: "PB_trustResolved k t"
    using t(3) tenant_path_nonempty [of cfg T] assms(3)
    by (simp add: PB_trustResolved_def trust_done_def tenant_path_def declared_def Let_def)
  have ready: "reference_ready k z b (ref e) (found e) t" if e: "e \<in> set (tn_Entities T)" for e
  proof -
    have d: "om_Namespace (ce_Meta e) = om_Namespace (pb_Meta b)"
      "om_Namespace (pb_Meta b) = om_Namespace (ct_Meta (tn_Trust T))"
      "lor_Name (ces_ControlPlaneTrustRef (ce_Spec e)) = om_Name (ct_Meta (tn_Trust T))"
      "sai_Subject (ident (om_Name (ce_Meta e))) \<noteq> []"
      using assms(3) e b(3) by (auto simp: declared_def key_def Let_def list_all_iff)
    show ?thesis
      unfolding reference_ready_def path
      using stored [OF e] d assms(4) t resolved b(2)
      by (auto simp: prepared_def key_def ref_def PB_entityResolved_def trust_done_def)
  qed
  have pass: "moves v z (PB_Reconcile k (sv_Binding S) (om_Namespace (pb_Meta ?b)) (om_Name (pb_Meta ?b)))
      (\<lambda>r u. ku_Bao u = write_roles (binding_roles b ?rs) (ku_Bao z) \<and>
        (\<exists>b'. ku_Binding u (om_Namespace (pb_Meta ?b), om_Name (pb_Meta ?b)) = Some b' \<and>
          isConditionTrue k (pbst_Conditions (pb_Status b')) ConditionReady))"
    by (rule PB_pass [where cfg = cfg and b = b])
       (use assms ready b in \<open>auto simp: service_serves_def prepared_def service_configured_def configured_def
          declared_def key_def Let_def list_all_iff ref_def\<close>)
  have roles: "binding_roles b ?rs = map (\<lambda>e. (?p, tenant_role T ident e)) (tn_Entities T)"
    by (simp add: binding_roles_def path role)
  have bao: "HasMount (ku_Bao z) ?p" "Config (ku_Bao z) ?p = Some (CT_trustConfig (tenant_issuer T))"
    using assms(4) by (simp_all add: prepared_def)
  have grant: "Role (write_roles (binding_roles b ?rs) (ku_Bao z)) ?p (jr_Name (tenant_role T ident e)) =
      Some (tenant_role T ident e)" if "e \<in> set (tn_Entities T)" for e
    unfolding roles by (rule write_roles_Role) (use that bao assms(6) in \<open>auto dest: inj_onD\<close>)
  show ?thesis
    unfolding service_handle_def request.case
    by (rule moves_mono [OF pass])
       (use bao grant in \<open>auto simp: tenant_granted_def key_def list_all_iff HasMount_def Config_def\<close>)
qed

lemma trusted_prepared:
  assumes "declared k v env x T ident" "trusted k S cfg T x y"
  shows "prepared k S cfg T (y\<lparr>ku_Entity := m\<rparr>)"
proof -
  have "ku_Binding y (key (pb_Meta (tn_Binding T))) = Some (tn_Binding T)"
    "\<not> fk_PoliciesUnknown (ku_Bao y)" "map_read False (fk_Policies (ku_Bao y)) (pbs_PolicyName (pb_Spec (tn_Binding T)))"
    using assms by (simp_all add: declared_def trusted_def Let_def)
  moreover have "same_binding (tn_Binding T) (tn_Binding T)" by (simp add: same_binding_def)
  ultimately show ?thesis
    using assms(2) by (simp add: prepared_def trusted_def service_configured_def configured_def)
qed

text \<open>Convergence: on servers that answer, with a valid configuration and a healthy OpenBao that
  has the policy, one pass over every object of a tenant, dependencies first, takes a tenant
  whose objects are only declared to a Ready policy binding, and OpenBao then has the mount,
  the mount trusts exactly the issuer of the ControlPlane, and under it every referenced entity
  has exactly the role of its ServiceAccount (the role names being distinct).\<close>

theorem tenant_converges:
  assumes "lawful_conditions k" and "service_serves v S" and "service_configured k (v w) S cfg"
    and "declared k v env (v w) T ident"
    and "inj_on (\<lambda>e. jr_Name (tenant_role T ident e)) (set (tn_Entities T))"
  shows "tenant_granted k cfg T ident (v (run_world (run_queue (service_handle k env S) (tenant_queue T)) w))"
proof -
  let ?h = "service_handle k env S"
  have ents: "moves v y (run_queue ?h
        (map (\<lambda>e. ReqEntity (om_Namespace (ce_Meta e)) (om_Name (ce_Meta e))) (tn_Entities T)))
      (\<lambda>_ z. all_stored k ident (set (tn_Entities T)) (set (tn_Entities T)) z \<and> (\<exists>m. z = y\<lparr>ku_Entity := m\<rparr>))"
    if y: "trusted k S cfg T (v w) y" for y
  proof -
    have cfg: "service_configured k y S cfg" using y by (simp add: trusted_def)
    have ready: "list_all (entity_ready k v env y ident) (tn_Entities T)"
      using y assms(4) by (fastforce simp: trusted_def trust_done_def declared_def entity_ready_def key_def Let_def list_all_iff)
    have "\<forall>e \<in> set (tn_Entities T). \<exists>st. ku_Entity y (key (ce_Meta e)) = Some (e\<lparr>ce_Status := st\<rparr>)"
    proof
      fix e
      assume "e \<in> set (tn_Entities T)"
      with y assms(4) have "ku_Entity y (key (ce_Meta e)) = Some (e\<lparr>ce_Status := ce_Status e\<rparr>)"
        by (auto simp: trusted_def declared_def key_def Let_def list_all_iff)
      then show "\<exists>st. ku_Entity y (key (ce_Meta e)) = Some (e\<lparr>ce_Status := st\<rparr>)" by blast
    qed
    then have stored: "all_stored k ident (set (tn_Entities T)) {} y"
      by (simp add: all_stored_def entity_stored_def)
    show ?thesis using CE_passes [OF assms(2,1) cfg ready subset_refl stored] by simp
  qed
  have "moves v (v w) (run_queue ?h (tenant_queue T)) (\<lambda>_. tenant_granted k cfg T ident)"
    unfolding tenant_queue_def
    by (rule moves_queue_append [OF trust_moves [OF assms(1,2,3,4)]], rule moves_queue_append [OF ents], assumption,
        elim conjE exE, hypsubst, rule moves_queue_single,
        rule binding_moves [OF assms(1,2,4) _ _ assms(5)], rule trusted_prepared [OF assms(4)])
  then show ?thesis by (rule moves_run) simp
qed

end
