(* ===== verification/Teardown.thy ===== *)
theory Teardown
  imports Tenant
begin

text \<open>
  The other end of the life of a tenant: deletion run forward on servers that answer. A deleted
  binding removes the roles it recorded, a deleted trust its mount with everything under it, and
  both then give up their finalizers.
\<close>

section \<open>Listing\<close>

text \<open>A list of the trusts of a namespace holds what is stored there, as long as the store has no
  other keys than \<open>names\<close>.\<close>

definition serves_lists :: "('w \<Rightarrow> kube) \<Rightarrow> 'w Cluster \<Rightarrow> (string \<times> string) list \<Rightarrow> bool" where
  "serves_lists v c names \<longleftrightarrow> (\<forall>x ns. dom (ku_Trust x) \<subseteq> set names \<longrightarrow>
     (\<exists>ts. steps v (kc_ListControlPlaneTrusts c (Some ns)) x (Inr ts) x \<and>
        set ts = {t. \<exists>nm. ku_Trust x (ns, nm) = Some t}))"

text \<open>A recorded mount can be cleaned: a trust of the namespace has it, and each that has it names a
  reachable instance.\<close>

definition mount_served :: "klib \<Rightarrow> kube \<Rightarrow> string \<Rightarrow> string \<Rightarrow> bool" where
  "mount_served k x ns m \<longleftrightarrow>
     (\<exists>nm t. ku_Trust x (ns, nm) = Some t \<and> ctst_AuthMountPath (ct_Status t) = m) \<and>
     (\<forall>nm t. ku_Trust x (ns, nm) = Some t \<and> ctst_AuthMountPath (ct_Status t) = m \<longrightarrow>
        ctst_ResolvedOpenBaoInstance (ct_Status t) \<noteq> [] \<and>
        (\<exists>i. ku_Instance x (ctst_ResolvedOpenBaoInstance (ct_Status t)) = Some i \<and> isInstanceReachable k (Some i)))"

lemma first_trust_found:
  "\<exists>t \<in> set ts. ctst_AuthMountPath (ct_Status t) = m \<Longrightarrow>
   \<exists>t \<in> set ts. first_trust_with_mount m ts = Some t \<and> ctst_AuthMountPath (ct_Status t) = m"
  by (induction ts) auto

section \<open>Roles\<close>

fun delete_roles :: "PolicyBindingRoleStatus list \<Rightarrow> FakeClient \<Rightarrow> FakeClient" where
  "delete_roles [] f = f"
| "delete_roles (rs # rss) f = delete_roles rss (snd (Fake_DeleteJWTRole (pbr_AuthMountPath rs) (pbr_RoleName rs) f))"

definition recorded_keys :: "PolicyBindingRoleStatus list \<Rightarrow> string set" where
  "recorded_keys rss = (\<lambda>rs. role_key (pbr_AuthMountPath rs) (pbr_RoleName rs)) ` set rss"

lemma delete_roles_sel [simp]:
  "fk_mounts (delete_roles rss f) = fk_mounts f" "fk_configs (delete_roles rss f) = fk_configs f"
  "fmlookup (fk_roles (delete_roles rss f)) x = (if x \<in> recorded_keys rss then None else fmlookup (fk_roles f) x)"
  by (induction rss f rule: delete_roles.induct) (auto simp: Fake_DeleteJWTRole_def recorded_keys_def)

definition recorded :: "klib \<Rightarrow> kube \<Rightarrow> string \<Rightarrow> PolicyBindingRoleStatus \<Rightarrow> bool" where
  "recorded k x ns rs \<longleftrightarrow> pbr_RoleName rs \<noteq> [] \<and> pbr_AuthMountPath rs \<noteq> [] \<and> mount_served k x ns (pbr_AuthMountPath rs)"

lemma recorded_in_bao [simp]: "recorded k (in_bao g x) = recorded k x"
  by (simp add: fun_eq_iff recorded_def mount_served_def)

lemma PB_deleteRole_moves:
  assumes "serves_platform v (br_PlatformCluster R)" "serves_lists v (br_OnboardingCluster R) names"
    and "serves_factory v (br_ClientFactory R)" "dom (ku_Trust x) \<subseteq> set names"
    and "recorded k x (om_Namespace (pb_Meta b)) rs"
  shows "moves v x (PB_deleteRole k R b rs)
    (\<lambda>r y. r = Inr () \<and> y = in_bao (\<lambda>f. snd (Fake_DeleteJWTRole (pbr_AuthMountPath rs) (pbr_RoleName rs) f)) x)"
proof -
  let ?ns = "om_Namespace (pb_Meta b)" and ?m = "pbr_AuthMountPath rs"
  obtain ts where ts: "steps v (kc_ListControlPlaneTrusts (br_OnboardingCluster R) (Some ?ns)) x (Inr ts) x"
      "set ts = {t. \<exists>nm. ku_Trust x (?ns, nm) = Some t}"
    using assms(2,4) unfolding serves_lists_def by blast
  have "\<exists>t \<in> set ts. ctst_AuthMountPath (ct_Status t) = ?m"
    using assms(5) unfolding ts(2) by (auto simp: recorded_def mount_served_def)
  from first_trust_found [OF this] obtain t where t: "first_trust_with_mount ?m ts = Some t"
      "t \<in> set ts" "ctst_AuthMountPath (ct_Status t) = ?m" by blast
  from t(2) obtain nm where "ku_Trust x (?ns, nm) = Some t" unfolding ts(2) by blast
  with t(3) obtain i where i: "ctst_ResolvedOpenBaoInstance (ct_Status t) \<noteq> []"
      "ku_Instance x (ctst_ResolvedOpenBaoInstance (ct_Status t)) = Some i" "isInstanceReachable k (Some i)"
    using assms(5) unfolding recorded_def mount_served_def by blast
  have find: "moves v x (PB_findTrustForAuthMount R ?ns ?m) (\<lambda>r y. r = Inr (Some t) \<and> y = x)"
    unfolding PB_findTrustForAuthMount_def
    by (rule moves_call_bind [OF ts(1)]) (simp add: moves_return t(1))
  show ?thesis
    unfolding PB_deleteRole_def Let_def
    using assms(5)
    apply (simp add: recorded_def)
    apply (rule moves_bind [OF find])
    apply (clarsimp simp: i(1))
    apply (rule moves_call_bind [OF platform_reads(1) [OF assms(1) i(2)]])
    apply (simp add: i(3))
    apply (rule moves_client_bind [OF assms(3)])
    apply simp
    apply (rule moves_bao_bind [OF bao_steps(6)], assumption)
    by (simp add: Fake_DeleteJWTRole_def moves_return)
qed

lemma PB_deleteRoles_moves:
  assumes "serves_platform v (br_PlatformCluster R)" "serves_lists v (br_OnboardingCluster R) names"
    and "serves_factory v (br_ClientFactory R)"
  shows "dom (ku_Trust x) \<subseteq> set names \<Longrightarrow> list_all (recorded k x (om_Namespace (pb_Meta b))) rss \<Longrightarrow>
    moves v x (PB_deleteRoles k R b rss) (\<lambda>r y. r = Inr () \<and> y = in_bao (delete_roles rss) x)"
proof (induction rss arbitrary: x)
  case Nil
  then show ?case by (simp add: moves_return)
next
  case (Cons rs rss)
  have rest: "list_all (recorded k (in_bao g x) (om_Namespace (pb_Meta b))) rss" for g
    using Cons.prems(2) by simp
  show ?case
    unfolding PB_deleteRoles.simps
    by (rule moves_bind [OF PB_deleteRole_moves [OF assms]])
      (use Cons.prems rest in \<open>auto intro!: moves_mono [OF Cons.IH]\<close>)
qed

section \<open>The passes\<close>

text \<open>What is stored of an object that was being deleted with the metadata \<open>m\<close>, once the finalizer
  \<open>fin\<close> is given up: nothing if it was the last one, else the object with the others.\<close>

definition finished :: "string \<Rightarrow> ObjectMeta \<Rightarrow> ObjectMeta option" where
  "finished fin m =
     (let fs = removeAll fin (om_Finalizers m)
      in if om_Finalizers m \<noteq> [] \<and> fs = [] then None else Some (m\<lparr>om_Finalizers := fs\<rparr>))"

lemma finished_without [simp]: "fin \<notin> set (om_Finalizers m) \<Longrightarrow> finished fin m = Some m"
  by (simp add: finished_def)

lemma PB_finish_moves:
  assumes "serves_onboarding v (br_OnboardingCluster R)" "lawful_finalizers k"
    and "ku_Binding x (ns, nm) = Some old" "key (pb_Meta b) = (ns, nm)" "pb_Meta old = pb_Meta b" "pb_Spec old = pb_Spec b"
    and "deleting (pb_Meta b)"
  shows "moves v x (PB_finishDelete k R b) (\<lambda>r y. ku_Bao y = ku_Bao x \<and> ku_Trust y = ku_Trust x \<and>
     ku_Instance y = ku_Instance x \<and> ku_Config y = ku_Config x \<and>
     map_option pb_Meta (ku_Binding y (ns, nm)) = finished FinalizerPolicyBinding (pb_Meta b))"
proof -
  let ?b = "PB_with_finalizers (removeAll FinalizerPolicyBinding (om_Finalizers (pb_Meta b))) b"
  have k': "key (pb_Meta ?b) = (ns, nm)" using assms(4) by (simp add: PB_with_finalizers_def key_def)
  have update: "moves v x (call (kc_UpdatePolicyBinding (br_OnboardingCluster R) ?b) ev)
      (\<lambda>r y. \<exists>st. r = Inr (?b\<lparr>pb_Status := st\<rparr>) \<and> y = put_binding ?b x)" for ev
    by (rule moves_updates(2) [OF assms(1), where b = old])
       (use assms(3,5,6) k' in \<open>auto simp: refinalized_def PB_with_finalizers_def\<close>)
  have put: "map_option pb_Meta (ku_Binding (put_binding ?b x) (ns, nm)) = finished FinalizerPolicyBinding (pb_Meta b)"
    if "FinalizerPolicyBinding \<in> set (om_Finalizers (pb_Meta b))"
    using assms(3,5,7) k' that by (auto simp: put_binding_def finished_def PB_with_finalizers_def Let_def)
  show ?thesis
    unfolding PB_finishDelete_def
    using assms(2,3,5)
    apply (simp add: lawful_finalizers_def Let_def)
    apply (intro conjI impI)
     apply (rule moves_bind [OF update])
     apply (auto simp: put intro!: moves_return)
    done
qed

lemma CT_finish_moves:
  assumes "serves_onboarding v (tr_OnboardingCluster R)" "lawful_finalizers k"
    and "ku_Trust x (ns, nm) = Some old" "key (ct_Meta t) = (ns, nm)" "ct_Meta old = ct_Meta t" "ct_Spec old = ct_Spec t"
    and "deleting (ct_Meta t)"
  shows "moves v x (CT_finishDelete k R t) (\<lambda>r y. ku_Bao y = ku_Bao x \<and> ku_Binding y = ku_Binding x \<and>
     map_option ct_Meta (ku_Trust y (ns, nm)) = finished FinalizerControlPlaneTrust (ct_Meta t))"
proof -
  let ?t = "t\<lparr>ct_Meta := (ct_Meta t)\<lparr>om_Finalizers := removeAll FinalizerControlPlaneTrust (om_Finalizers (ct_Meta t))\<rparr>\<rparr>"
  have k': "key (ct_Meta ?t) = (ns, nm)" using assms(4) by (simp add: key_def)
  have update: "moves v x (call (kc_UpdateControlPlaneTrust (tr_OnboardingCluster R) ?t) ev)
      (\<lambda>r y. \<exists>st. r = Inr (?t\<lparr>ct_Status := st\<rparr>) \<and> y = put_trust ?t x)" for ev
    by (rule moves_updates(1) [OF assms(1), where t = old]) (use assms(3,5,6) k' in \<open>auto simp: refinalized_def\<close>)
  have put: "map_option ct_Meta (ku_Trust (put_trust ?t x) (ns, nm)) = finished FinalizerControlPlaneTrust (ct_Meta t)"
    if "FinalizerControlPlaneTrust \<in> set (om_Finalizers (ct_Meta t))"
    using assms(3,5,7) k' that by (auto simp: put_trust_def finished_def Let_def)
  show ?thesis
    unfolding CT_finishDelete_def
    using assms(2,3,5)
    apply (simp add: lawful_finalizers_def Let_def)
    apply (intro conjI impI)
     apply (rule moves_bind [OF update])
     apply (auto simp: put intro!: moves_return)
    done
qed

lemma PB_delete_pass:
  assumes "serves_platform v (br_PlatformCluster R)" "serves_onboarding v (br_OnboardingCluster R)"
    and "serves_lists v (br_OnboardingCluster R) names" "serves_factory v (br_ClientFactory R)" "lawful_finalizers k"
    and "configured k x (br_ProviderName R) cfg" "dom (ku_Trust x) \<subseteq> set names"
    and "ku_Binding x (ns, nm) = Some b" "key (pb_Meta b) = (ns, nm)" "deleting (pb_Meta b)"
    and "list_all (recorded k x ns) (pbst_Roles (pb_Status b))"
  shows "moves v x (PB_Reconcile k R ns nm) (\<lambda>r y. ku_Bao y = delete_roles (pbst_Roles (pb_Status b)) (ku_Bao x) \<and>
     ku_Trust y = ku_Trust x \<and> ku_Instance y = ku_Instance x \<and> ku_Config y = ku_Config x \<and>
     map_option pb_Meta (ku_Binding y (ns, nm)) = finished FinalizerPolicyBinding (pb_Meta b))"
proof -
  have b: "om_Namespace (pb_Meta (PB_entered b)) = ns" "pb_Meta (PB_entered b) = pb_Meta b" "pb_Spec (PB_entered b) = pb_Spec b"
    "pbst_Roles (pb_Status (PB_entered b)) = pbst_Roles (pb_Status b)"
    using assms(9) by (simp_all add: PB_entered_def key_def)
  have roles: "list_all (recorded k x (om_Namespace (pb_Meta (PB_entered b)))) (pbst_Roles (pb_Status b))"
    using assms(11) b by simp
  show ?thesis
    unfolding PB_Reconcile_def
    apply (rule moves_call_bind [OF onboarding_steps(4) [OF assms(2,8)]])
    apply simp
    apply (rule moves_config_bind [OF assms(1,6)])
    apply (simp add: time_IsZero_deleting assms(10) b PB_reconcileDelete_def Let_def)
    apply (rule moves_bind [OF PB_deleteRoles_moves [OF assms(1,3,4,7) roles]])
    apply clarsimp
    apply (rule moves_mono [OF PB_finish_moves [OF assms(2,5)]])
    using assms(8,9,10) by (auto simp: b)
qed

lemma CT_delete_pass:
  assumes "serves_platform v (tr_PlatformCluster R)" "serves_onboarding v (tr_OnboardingCluster R)"
    and "serves_factory v (tr_ClientFactory R)" "lawful_finalizers k" "configured k x (tr_ProviderName R) cfg"
    and "ku_Trust x (ns, nm) = Some t" "key (ct_Meta t) = (ns, nm)" "deleting (ct_Meta t)"
    and "ctst_AuthMountPath (ct_Status t) \<noteq> []" "ctst_ResolvedOpenBaoInstance (ct_Status t) \<noteq> []"
    and "ku_Instance x (ctst_ResolvedOpenBaoInstance (ct_Status t)) = Some i" "isInstanceReachable k (Some i)"
  shows "moves v x (CT_Reconcile k R ns nm) (\<lambda>r y.
     ku_Bao y = snd (Fake_DeleteAuthMount (ctst_AuthMountPath (ct_Status t)) (ku_Bao x)) \<and> ku_Binding y = ku_Binding x \<and>
     map_option ct_Meta (ku_Trust y (ns, nm)) = finished FinalizerControlPlaneTrust (ct_Meta t))"
  unfolding CT_Reconcile_def
  apply (rule moves_call_bind [OF onboarding_steps(2) [OF assms(2,6)]])
  apply simp
  apply (rule moves_config_bind [OF assms(1,5)])
  apply (simp add: time_IsZero_deleting assms(8,9,10) CT_reconcileDelete_def Let_def)
  apply (rule moves_call_bind [OF platform_reads(1) [OF assms(1,11)]])
  apply (simp add: assms(12))
  apply (rule moves_client_bind [OF assms(3)])
  apply simp
  apply (rule moves_bao_bind [OF bao_steps(7)], assumption)
  apply (simp add: Fake_DeleteAuthMount_def)
  apply (rule moves_mono [OF CT_finish_moves [OF assms(2,4)]])
  using assms(6,7,8) by auto

section \<open>Tearing down\<close>

text \<open>A binding and a trust that are being deleted, with what their statuses record.\<close>

definition ending :: "klib \<Rightarrow> kube \<Rightarrow> PolicyBinding \<Rightarrow> ControlPlaneTrust \<Rightarrow> bool" where
  "ending k x b t \<longleftrightarrow>
     ku_Binding x (key (pb_Meta b)) = Some b \<and> deleting (pb_Meta b) \<and>
     list_all (recorded k x (om_Namespace (pb_Meta b))) (pbst_Roles (pb_Status b)) \<and>
     ku_Trust x (key (ct_Meta t)) = Some t \<and> deleting (ct_Meta t) \<and>
     ctst_AuthMountPath (ct_Status t) \<noteq> [] \<and> ctst_ResolvedOpenBaoInstance (ct_Status t) \<noteq> [] \<and>
     (\<exists>i. ku_Instance x (ctst_ResolvedOpenBaoInstance (ct_Status t)) = Some i \<and> isInstanceReachable k (Some i))"

definition ending_queue :: "PolicyBinding \<Rightarrow> ControlPlaneTrust \<Rightarrow> request list" where
  "ending_queue b t =
     [ReqBinding (om_Namespace (pb_Meta b)) (om_Name (pb_Meta b)), ReqTrust (om_Namespace (ct_Meta t)) (om_Name (ct_Meta t))]"

text \<open>Nothing is left: every recorded role is gone, so are the mount, its configuration and all roles
  below it, and both objects have given up their finalizers, with which they are gone unless another
  finalizer holds them. Nothing else is touched: the other mounts, their configurations and the
  other roles are as they were.\<close>

definition cleared :: "FakeClient \<Rightarrow> FakeClient \<Rightarrow> string \<Rightarrow> PolicyBindingRoleStatus list \<Rightarrow> bool" where
  "cleared f g p rss \<longleftrightarrow> \<not> HasMount g p \<and> Config g p = None \<and>
     (\<forall>x. fmlookup (fk_roles g) x =
        (if x \<in> recorded_keys rss \<or> under_mount p x then None else fmlookup (fk_roles f) x)) \<and>
     (\<forall>q. q \<noteq> p \<longrightarrow> HasMount g q = HasMount f q \<and> Config g q = Config f q)"

definition ended :: "kube \<Rightarrow> kube \<Rightarrow> PolicyBinding \<Rightarrow> ControlPlaneTrust \<Rightarrow> bool" where
  "ended x y b t \<longleftrightarrow>
     cleared (ku_Bao x) (ku_Bao y) (ctst_AuthMountPath (ct_Status t)) (pbst_Roles (pb_Status b)) \<and>
     map_option pb_Meta (ku_Binding y (key (pb_Meta b))) = finished FinalizerPolicyBinding (pb_Meta b) \<and>
     map_option ct_Meta (ku_Trust y (key (ct_Meta t))) = finished FinalizerControlPlaneTrust (ct_Meta t)"

lemma delete_clears: "cleared f (snd (Fake_DeleteAuthMount p (delete_roles rss f))) p rss"
  by (simp add: cleared_def fake_defs)

text \<open>C4. Teardown: on servers that answer, one pass over a deleted binding and one over a deleted
  trust, whose recorded instances are reachable, leave no recorded role, no mount, no
  configuration and no role under the mount in OpenBao, everything else there is as it was, and
  both objects lose the service's finalizer: they are gone from the server, or keep exactly the
  finalizers of others.\<close>

theorem tenant_torn_down:
  assumes "lawful_finalizers k" and "service_serves v S" and "service_configured k (v w) S cfg"
    and "serves_lists v (br_OnboardingCluster (sv_Binding S)) names" and "dom (ku_Trust (v w)) \<subseteq> set names"
    and "ending k (v w) b t"
  shows "ended (v w) (v (run_world (run_queue (service_handle k env S) (ending_queue b t)) w)) b t"
proof -
  let ?h = "service_handle k env S" and ?rss = "pbst_Roles (pb_Status b)"
  have binding: "moves v (v w) (PB_Reconcile k (sv_Binding S) (om_Namespace (pb_Meta b)) (om_Name (pb_Meta b)))
      (\<lambda>r y. ku_Bao y = delete_roles ?rss (ku_Bao (v w)) \<and>
       ku_Trust y = ku_Trust (v w) \<and> ku_Instance y = ku_Instance (v w) \<and> ku_Config y = ku_Config (v w) \<and>
       map_option pb_Meta (ku_Binding y (om_Namespace (pb_Meta b), om_Name (pb_Meta b))) =
         finished FinalizerPolicyBinding (pb_Meta b))"
    by (rule PB_delete_pass [where cfg = cfg and names = names])
       (use assms in \<open>auto simp: service_serves_def service_configured_def ending_def key_def\<close>)
  have trust: "moves v y (CT_Reconcile k (sv_Trust S) (om_Namespace (ct_Meta t)) (om_Name (ct_Meta t)))
      (\<lambda>r z. ku_Bao z = snd (Fake_DeleteAuthMount (ctst_AuthMountPath (ct_Status t)) (ku_Bao y)) \<and>
       ku_Binding z = ku_Binding y \<and>
       map_option ct_Meta (ku_Trust z (om_Namespace (ct_Meta t), om_Name (ct_Meta t))) =
         finished FinalizerControlPlaneTrust (ct_Meta t))"
    if "ku_Trust y = ku_Trust (v w)" "ku_Instance y = ku_Instance (v w)" "ku_Config y = ku_Config (v w)" for y
  proof -
    from assms(6) obtain i where i: "ku_Instance (v w) (ctst_ResolvedOpenBaoInstance (ct_Status t)) = Some i"
        "isInstanceReachable k (Some i)" by (auto simp: ending_def)
    show ?thesis
      by (rule CT_delete_pass [where cfg = cfg and i = i])
         (use assms that i in \<open>auto simp: service_serves_def service_configured_def configured_def ending_def key_def\<close>)
  qed
  have "moves v (v w) (run_queue ?h (ending_queue b t)) (\<lambda>_ y. ended (v w) y b t)"
    unfolding ending_queue_def
  proof (rule moves_queue_Cons, simp only: service_handle_def request.case, rule binding, elim conjE exE,
      rule moves_queue_single, simp only: service_handle_def request.case, rule moves_mono, rule trust)
    fix r and y :: kube and r' and z :: kube
    assume "ku_Bao y = delete_roles ?rss (ku_Bao (v w))"
      "map_option pb_Meta (ku_Binding y (om_Namespace (pb_Meta b), om_Name (pb_Meta b))) =
         finished FinalizerPolicyBinding (pb_Meta b)"
      "ku_Bao z = snd (Fake_DeleteAuthMount (ctst_AuthMountPath (ct_Status t)) (ku_Bao y)) \<and>
       ku_Binding z = ku_Binding y \<and>
       map_option ct_Meta (ku_Trust z (om_Namespace (ct_Meta t), om_Name (ct_Meta t))) =
         finished FinalizerControlPlaneTrust (ct_Meta t)"
    then show "ended (v w) z b t"
      by (auto simp: ended_def key_def delete_clears)
  qed auto
  then show ?thesis by (rule moves_run) simp
qed

section \<open>A trust that moves\<close>

text \<open>The same trust after its deletion was requested, at \<open>d\<close>, which begins a new generation \<open>g\<close>.\<close>

definition marked :: "int \<Rightarrow> int \<Rightarrow> ControlPlaneTrust \<Rightarrow> ControlPlaneTrust" where
  "marked d g t = t\<lparr>ct_Meta := (ct_Meta t)\<lparr>om_DeletionTimestamp := Some d, om_Generation := g\<rparr>\<rparr>"

lemma provisioned_other:
  "q \<noteq> p \<Longrightarrow> HasMount (provisioned p c f) q = HasMount f q"
  "q \<noteq> p \<Longrightarrow> Config (provisioned p c f) q = Config f q"
  "Role (provisioned p c f) m n = Role f m n"
  by (simp_all add: provisioned_def fake_defs)

text \<open>C40. A trust whose mount path changes (another ControlPlane in its spec, another prefix in the
  configuration) leaves its old mount behind: the pass ensures the new mount and records only that,
  the old one keeps its configuration and its roles, and once the trust is deleted, the pass that
  gives up the finalizer, with which the trust is gone unless another one holds it, removes the new
  mount and still leaves the old one in OpenBao.\<close>

theorem trust_move_orphans:
  assumes "lawful_conditions k" and "lawful_finalizers k" and "service_serves v S"
    and "service_configured k (v w) S cfg"
    and "ku_Trust (v w) (ns, nm) = Some t" and "key (ct_Meta t) = (ns, nm)" and "\<not> deleting (ct_Meta t)"
    and "trust_ready k (v w) t i cp" and "ku_Instance (v w) (om_Name (oi_Meta i)) = Some i" and "om_Name (oi_Meta i) \<noteq> []"
    and "q = ctst_AuthMountPath (ct_Status t)" and "q \<noteq> CT_mountPath cfg i t" and "HasMount (ku_Bao (v w)) q"
    and "y = v (run_world (service_handle k env S (ReqTrust ns nm)) w)"
  shows "HasMount (ku_Bao y) q \<and> Config (ku_Bao y) q = Config (ku_Bao (v w)) q \<and>
    (\<forall>r. Role (ku_Bao y) q r = Role (ku_Bao (v w)) q r) \<and>
    (\<exists>t'. ku_Trust y (ns, nm) = Some t' \<and> ctst_AuthMountPath (ct_Status t') = CT_mountPath cfg i t \<and>
       FinalizerControlPlaneTrust \<in> set (om_Finalizers (ct_Meta t')) \<and>
       (\<forall>w' d g z. v w' = y\<lparr>ku_Trust := (ku_Trust y)((ns, nm) \<mapsto> marked d g t')\<rparr> \<and> deleting (ct_Meta (marked d g t')) \<and>
          z = v (run_world (service_handle k env S (ReqTrust ns nm)) w') \<longrightarrow>
          HasMount (ku_Bao z) q \<and> \<not> HasMount (ku_Bao z) (CT_mountPath cfg i t) \<and>
          map_option ct_Meta (ku_Trust z (ns, nm)) = finished FinalizerControlPlaneTrust (ct_Meta (marked d g t'))))"
proof -
  let ?p = "CT_mountPath cfg i t"
  have serves: "serves_platform v (tr_PlatformCluster (sv_Trust S))" "serves_onboarding v (tr_OnboardingCluster (sv_Trust S))"
    "serves_factory v (tr_ClientFactory (sv_Trust S))" and cfg: "configured k (v w) (tr_ProviderName (sv_Trust S)) cfg"
    using assms(3,4) by (simp_all add: service_serves_def service_configured_def)
  obtain t' where y: "y = (v w)\<lparr>ku_Trust := (ku_Trust (v w))((ns, nm) \<mapsto> t'),
        ku_Bao := provisioned ?p (CT_trustConfig (controlPlaneIssuer (Some cp))) (ku_Bao (v w))\<rparr>"
      "key (ct_Meta t') = (ns, nm)" "trust_done k cfg i cp t (ct_Status t')"
      "FinalizerControlPlaneTrust \<in> set (om_Finalizers (ct_Meta t'))"
    using moves_run [OF CT_pass_kept [OF serves assms(1) cfg assms(5-8)] refl] assms(2,14)
    by (auto simp: service_handle_def)
  have status: "ctst_AuthMountPath (ct_Status t') = ?p" "ctst_ResolvedOpenBaoInstance (ct_Status t') = om_Name (oi_Meta i)"
    using y(3) by (simp_all add: trust_done_def)
  have later: "HasMount (ku_Bao z) q \<and> \<not> HasMount (ku_Bao z) ?p \<and>
      map_option ct_Meta (ku_Trust z (ns, nm)) = finished FinalizerControlPlaneTrust (ct_Meta (marked d g t'))"
    if w': "v w' = y\<lparr>ku_Trust := (ku_Trust y)((ns, nm) \<mapsto> marked d g t')\<rparr>" "deleting (ct_Meta (marked d g t'))"
      "z = v (run_world (service_handle k env S (ReqTrust ns nm)) w')" for w' d g z
  proof -
    have "moves v (v w') (CT_Reconcile k (sv_Trust S) ns nm) (\<lambda>r u.
        ku_Bao u = snd (Fake_DeleteAuthMount ?p (ku_Bao (v w'))) \<and> ku_Binding u = ku_Binding (v w') \<and>
        map_option ct_Meta (ku_Trust u (ns, nm)) = finished FinalizerControlPlaneTrust (ct_Meta (marked d g t')))"
      using CT_delete_pass [OF serves assms(2), of "v w'" cfg ns nm "marked d g t'" i] cfg w'(2) assms(8,9,10) y(1,2) status
        mountPath_valid [of cfg i t]
      by (auto simp: w'(1) configured_def marked_def key_def trust_ready_def valid_name_def)
    from moves_run [OF this refl] show ?thesis
      using assms(12,13) w'(1,3) y(1) provisioned_other(1) [OF assms(12)]
      by (simp add: service_handle_def Fake_DeleteAuthMount_def HasMount_def map_read_def)
  qed
  show ?thesis
    using y(1,4) status later assms(12,13) provisioned_other by auto
qed

end
