(* ===== verification/Frames.thy ===== *)
theory Frames
  imports Tenant
begin

text \<open>
  What a pass over an object of a tenant leaves alone, whatever statuses it finds: it changes only
  that object's status and finalizers and, in OpenBao, at most what belongs to it. The reads that
  the laws of \<open>KubeStore\<close> leave open may answer anything here; they only must not change the view.
\<close>

section \<open>Running forward with unknown answers\<close>

text \<open>A call that leaves the view as it is.\<close>

definition unmoved :: "('w \<Rightarrow> 'v) \<Rightarrow> ('w \<Rightarrow> 'r \<times> 'w) \<Rightarrow> bool" where
  "unmoved v oper \<longleftrightarrow> (\<forall>w. v (snd (oper w)) = v w)"

lemma moves_quiet_bind:
  assumes "unmoved v oper" and "\<And>r. answers oper r \<Longrightarrow> moves v x (f r) Q"
  shows "moves v x (State_Monad.bind (call oper ev) f) Q"
proof (rule moves_bind)
  show "moves v x (call oper ev) (\<lambda>r y. answers oper r \<and> y = x)"
    using assms(1) by (intro moves_call_some) (metis answers_intro prod.collapse unmoved_def)
qed (use assms(2) in auto)

lemma moves_conj: "moves v x m Q \<Longrightarrow> moves v x m R \<Longrightarrow> moves v x m (\<lambda>a y. Q a y \<and> R a y)"
  by (simp add: moves_def)

lemma moves_if: "(b \<Longrightarrow> moves v x m Q) \<Longrightarrow> (\<not> b \<Longrightarrow> moves v x n Q) \<Longrightarrow> moves v x (if b then m else n) Q"
  by simp

lemma moves_case_sum:
  "(\<And>a. r = Inl a \<Longrightarrow> moves v x (f a) Q) \<Longrightarrow> (\<And>b. r = Inr b \<Longrightarrow> moves v x (g b) Q) \<Longrightarrow>
   moves v x (case r of Inl a \<Rightarrow> f a | Inr b \<Rightarrow> g b) Q"
  by (cases r) simp_all

lemma moves_case_option:
  "(r = None \<Longrightarrow> moves v x m Q) \<Longrightarrow> (\<And>a. r = Some a \<Longrightarrow> moves v x (g a) Q) \<Longrightarrow>
   moves v x (case r of None \<Rightarrow> m | Some a \<Rightarrow> g a) Q"
  by (cases r) simp_all

lemmas moves_cases = moves_if moves_case_sum moves_case_option

section \<open>Quiet reads\<close>

text \<open>Reads of the API servers, access requests and token requests change no object and nothing in
  OpenBao.\<close>

definition reads_quietly :: "('w \<Rightarrow> kube) \<Rightarrow> 'w Cluster \<Rightarrow> bool" where
  "reads_quietly v c \<longleftrightarrow> (\<forall>nm. unmoved v (kc_GetOpenBaoInstance c [] nm)) \<and>
     (\<forall>ns nm. unmoved v (kc_GetControlPlaneTrust c ns nm)) \<and> (\<forall>ns nm. unmoved v (kc_GetControlPlaneEntity c ns nm))"

definition access_quiet :: "('w \<Rightarrow> kube) \<Rightarrow> 'w env \<Rightarrow> bool" where
  "access_quiet v env \<longleftrightarrow> (\<forall>args. unmoved v (env_WaitForClusterAccess env args) \<and>
     (\<forall>mcp cs. answers (env_WaitForClusterAccess env args) (Inr mcp) \<and> kc_NewForConfig mcp = Inr cs \<longrightarrow>
        (\<forall>ns nm. unmoved v (cs_GetServiceAccount cs ns nm)) \<and> (\<forall>ns nm tr. unmoved v (cs_CreateToken cs ns nm tr))))"

definition service_quiet :: "('w \<Rightarrow> kube) \<Rightarrow> 'w env \<Rightarrow> 'w service \<Rightarrow> bool" where
  "service_quiet v env S \<longleftrightarrow> access_quiet v env \<and> reads_quietly v (br_PlatformCluster (sv_Binding S)) \<and>
     reads_quietly v (br_OnboardingCluster (sv_Binding S))"

lemma quiet_getOpenBaoInstance: "reads_quietly v c \<Longrightarrow> unmoved v (getOpenBaoInstance k c nm)"
  unfolding unmoved_def
proof
  fix w
  assume "reads_quietly v c"
  then have "v (snd (kc_GetOpenBaoInstance c [] nm w)) = v w" by (simp add: reads_quietly_def unmoved_def)
  then show "v (snd (getOpenBaoInstance k c nm w)) = v w"
    by (cases "kc_GetOpenBaoInstance c [] nm w") (simp add: getOpenBaoInstance_def split: sum.split)
qed

lemma quiet_cluster_access:
  assumes "access_quiet v env"
  shows "moves v x (controlPlaneClusterAccess k env p cp perms) (\<lambda>r y. y = x \<and>
    (\<forall>mcp. r = Inr mcp \<longrightarrow> (\<exists>args. answers (env_WaitForClusterAccess env args) (Inr mcp))))"
  unfolding controlPlaneClusterAccess_def Let_def
  by (intro moves_cases moves_return moves_quiet_bind) (use assms in \<open>auto simp: access_quiet_def\<close>)

lemma quiet_resolve_identity:
  assumes "access_quiet v env" "answers (env_WaitForClusterAccess env args) (Inr mcp)"
  shows "moves v x (resolveServiceAccountIdentity k mcp cns cnm sns snm aud) (\<lambda>r y. y = x)"
  unfolding resolveServiceAccountIdentity_def Let_def
  by (intro moves_cases moves_return moves_quiet_bind)
     (use assms in \<open>auto simp: access_quiet_def intro!: moves_return split: sum.split\<close>)

section \<open>What a pass leaves alone\<close>

text \<open>Whatever the entity and its trust show: an entity pass changes only the status of the entity.\<close>

lemma CE_frame:
  assumes "serves_platform v (nr_PlatformCluster R)" "serves_onboarding v (nr_OnboardingCluster R)" "access_quiet v env"
    and "configured k x (nr_ProviderName R) cfg" "ku_Entity x (ns, nm) = Some e" "key (ce_Meta e) = (ns, nm)"
    and "ku_Trust x (ns, lor_Name (ces_ControlPlaneTrustRef (ce_Spec e))) = Some t"
    and "ku_ControlPlane x (ns, lor_Name (cts_ControlPlaneRef (ct_Spec t))) = Some cp" "controlPlaneIssuer (Some cp) \<noteq> []"
  shows "moves v x (CE_Reconcile k env R ns nm) (\<lambda>r y. y = x \<or> (\<exists>st. y = set_entity (ns, nm) st x))"
proof -
  let ?Q = "\<lambda>r y. y = x \<or> (\<exists>st. y = set_entity (ns, nm) st x)"
  have ns: "om_Namespace (ce_Meta e) = ns" using assms(6) by (simp add: key_def)
  have patch: "moves v x (CE_patchStatus R t' cfg) ?Q" if "ce_Meta t' = ce_Meta e" for t'
    by (rule moves_CE_patch [OF assms(2)]) (use assms(5,6) that in auto)
  have identify: "moves v x (CE_identify k env R cfg t cp e') ?Q" if "ce_Meta e' = ce_Meta e" for e'
    unfolding CE_identify_def Let_def
    apply (rule moves_bind [OF quiet_cluster_access [OF assms(3)]])
    apply (elim conjE, hypsubst)
    apply (intro moves_cases)
     apply (rule patch, simp add: CE_unresolved_def CE_map_conditions_def that)
    apply (erule allE, erule (1) impE, erule exE)
    apply (rule moves_bind, erule quiet_resolve_identity [OF assms(3)])
    apply hypsubst
    apply (intro moves_case_sum)
     apply (rule patch, simp add: CE_unresolved_def CE_map_conditions_def that)
    by (clarsimp split: prod.split) (rule patch, simp add: CE_map_conditions_def that)
  show ?thesis
    unfolding CE_Reconcile_def
    apply (rule moves_call_bind [OF onboarding_steps(3) [OF assms(2,5)]])
    apply simp
    apply (intro conjI impI)
     apply (simp add: moves_return)
    apply (rule moves_config_bind [OF assms(1,4)])
    apply (simp add: Let_def ns)
    apply (rule moves_call_bind [OF onboarding_steps(2) [OF assms(2,7)]])
    apply (simp add: Let_def)
    apply (intro conjI impI)
     apply (rule patch, simp add: CE_map_conditions_def)
    apply (rule moves_call_bind [OF control_plane_read [OF assms(2,8)]])
    by (simp add: assms(9)) (rule identify, simp)
qed

lemma PE_frame:
  assumes "serves_platform v (er_PlatformCluster R)" "serves_onboarding v (er_OnboardingCluster R)"
    and "serves_factory v (er_ClientFactory R)" "lawful_conditions k" "configured k x (er_ProviderName R) cfg"
    and "ku_ProjectEntity x (ns, nm) = Some pe" "key (pe_Meta pe) = (ns, nm)" "\<not> deleting (pe_Meta pe)"
    and "ku_Instance x (lor_Name (pes_OpenBaoInstanceRef (pe_Spec pe))) = Some i"
  shows "moves v x (PE_Reconcile k R ns nm) (\<lambda>r y. \<exists>st es.
     y = set_project_entity (ns, nm) st (in_bao (\<lambda>f. f\<lparr>fk_entities := es\<rparr>) x))"
proof (cases "isInstanceReachable k (Some i)")
  case True
  have *: "\<exists>es. in_bao (\<lambda>f. snd (Fake_EnsureEntity n md f)) x = in_bao (\<lambda>f. f\<lparr>fk_entities := es\<rparr>) x" for n md
    by (rule exI [of _ "fk_entities (snd (Fake_EnsureEntity n md (ku_Bao x)))"])
       (simp add: in_bao_def Fake_EnsureEntity_def Let_def)
  show ?thesis
    by (rule moves_mono [OF PE_pass [OF assms True]]) (metis *)
next
  case False
  have same: "set_project_entity a st x =
      set_project_entity a st (in_bao (\<lambda>f. f\<lparr>fk_entities := fk_entities (ku_Bao x)\<rparr>) x)" for a st
    by (simp add: in_bao_def)
  show ?thesis
    unfolding PE_Reconcile_def
    apply (rule moves_call_bind [OF onboarding_steps(1) [OF assms(2,6)]])
    apply (simp add: time_IsZero_deleting assms)
    apply (rule moves_config_bind [OF assms(1,5)])
    apply (simp add: Let_def)
    apply (rule moves_call_bind [OF platform_reads(1) [OF assms(1,9)]])
    apply (simp add: False)
    apply (rule moves_PE_patch [OF assms(2)])
     apply (simp add: PE_map_conditions_def assms(6,7))
    by (simp add: PE_map_conditions_def assms(7)) (intro exI, rule same)
qed

text \<open>A trust pass changes the trust's status and finalizers, and the mount only when its instance is
  reachable.\<close>

definition same_trust :: "ControlPlaneTrust \<Rightarrow> ControlPlaneTrust \<Rightarrow> bool" where
  "same_trust t t' \<longleftrightarrow> ct_Spec t' = ct_Spec t \<and> key (ct_Meta t') = key (ct_Meta t) \<and>
     deleting (ct_Meta t') = deleting (ct_Meta t)"

definition trust_moved ::
    "string \<times> string \<Rightarrow> ControlPlaneTrust \<Rightarrow> (FakeClient \<Rightarrow> FakeClient) \<Rightarrow> kube \<Rightarrow> kube \<Rightarrow> bool" where
  "trust_moved a t g x y \<longleftrightarrow> (\<exists>t' f. y = x\<lparr>ku_Trust := (ku_Trust x)(a \<mapsto> t'), ku_Bao := f\<rparr> \<and> same_trust t t' \<and>
     (f = ku_Bao x \<or> f = g (ku_Bao x)))"

lemma CT_frame:
  assumes "serves_platform v (tr_PlatformCluster R)" "serves_onboarding v (tr_OnboardingCluster R)"
    and "serves_factory v (tr_ClientFactory R)" "lawful_conditions k" "configured k x (tr_ProviderName R) cfg"
    and "ku_Trust x (ns, nm) = Some t" "key (ct_Meta t) = (ns, nm)" "\<not> deleting (ct_Meta t)"
    and "ku_ProjectEntity x (nor_Namespace (cts_ProjectEntityRef (ct_Spec t)),
          nor_Name (cts_ProjectEntityRef (ct_Spec t))) = Some pe"
    and "ku_Instance x (lor_Name (pes_OpenBaoInstanceRef (pe_Spec pe))) = Some i"
    and "ku_ControlPlane x (ns, lor_Name (cts_ControlPlaneRef (ct_Spec t))) = Some cp" "controlPlaneIssuer (Some cp) \<noteq> []"
  shows "moves v x (CT_Reconcile k R ns nm) (\<lambda>_. trust_moved (ns, nm) t
     (provisioned (CT_mountPath cfg i t) (CT_trustConfig (controlPlaneIssuer (Some cp)))) x)"
proof -
  let ?g = "provisioned (CT_mountPath cfg i t) (CT_trustConfig (controlPlaneIssuer (Some cp)))"
  obtain fs changed where fin: "k_AddFinalizer k FinalizerControlPlaneTrust (om_Finalizers (ct_Meta t)) = (fs, changed)"
    by fastforce
  let ?t = "t\<lparr>ct_Status := (ct_Status t)\<lparr>ctst_ObservedGeneration := om_Generation (ct_Meta t)\<rparr>,
      ct_Meta := (ct_Meta t)\<lparr>om_Finalizers := fs\<rparr>\<rparr>"
  have resolve: "moves v z (CT_resolve k R cfg u) (\<lambda>_. trust_moved (ns, nm) t ?g x)"
    if z: "z = x\<lparr>ku_Trust := (ku_Trust x)((ns, nm) \<mapsto> old)\<rparr>" "same_trust t old"
      and u: "ct_Spec u = ct_Spec t" "key (ct_Meta u) = (ns, nm)" for z u old
  proof -
    have nsu: "om_Namespace (ct_Meta u) = ns" using u(2) by (simp add: key_def)
    have path: "CT_mountPath cfg i u = CT_mountPath cfg i t"
      using u assms(7) by (simp add: CT_mountPath_def key_def)
    have status: "same_trust t (old\<lparr>ct_Status := st\<rparr>)" for st using z(2) by (simp add: same_trust_def)
    have stored: "ku_Trust z (key (ct_Meta u)) = Some old" by (simp add: z u)
    show ?thesis
    proof (cases "isInstanceReachable k (Some i)")
      case True
      have "trust_ready k z u i cp"
        using True assms(9-12) by (auto simp: trust_ready_def z u nsu)
      from CT_resolve_moves [OF assms(1,2,3,4) stored this] show ?thesis
      proof (rule moves_mono, elim exE conjE)
        fix y st
        assume "y = set_trust (key (ct_Meta u)) st (in_bao (provisioned (CT_mountPath cfg i u)
            (CT_trustConfig (controlPlaneIssuer (Some cp)))) z)"
        then show "trust_moved (ns, nm) t ?g x y"
          unfolding trust_moved_def
          by (intro exI [of _ "old\<lparr>ct_Status := st\<rparr>"] exI [of _ "?g (ku_Bao x)"])
             (simp add: path z u set_trust_def in_bao_def status)
      qed
    next
      case False
      have pe: "ku_ProjectEntity z (nor_Namespace (cts_ProjectEntityRef (ct_Spec u)),
          nor_Name (cts_ProjectEntityRef (ct_Spec u))) = Some pe"
        "ku_Instance z (lor_Name (pes_OpenBaoInstanceRef (pe_Spec pe))) = Some i"
        using assms(9,10) by (simp_all add: z u)
      have written: "trust_moved (ns, nm) t ?g x (set_trust (ns, nm) st z)" for st
        unfolding trust_moved_def
        by (intro exI [of _ "old\<lparr>ct_Status := st\<rparr>"] exI [of _ "ku_Bao x"]) (simp add: z set_trust_def status)
      show ?thesis
        unfolding CT_resolve_def Let_def
        apply (rule moves_call_bind [OF onboarding_steps(1) [OF assms(2) pe(1)]])
        apply simp
        apply (rule moves_call_bind [OF platform_reads(1) [OF assms(1) pe(2)]])
        apply (simp add: False)
        apply (rule moves_CT_patch [OF assms(2)])
         apply (simp add: CT_map_conditions_def stored)
        using written by (simp add: CT_map_conditions_def u)
    qed
  qed
  have stored: "ku_Trust x (key (ct_Meta ?t)) = Some t" using assms(6,7) by (simp add: key_def)
  have put: "put_trust ?t x = x\<lparr>ku_Trust := (ku_Trust x)((ns, nm) \<mapsto> ?t\<lparr>ct_Status := ct_Status t\<rparr>)\<rparr>"
    using put_live(1) [OF stored assms(8)] assms(7) by (simp add: key_def)
  have update: "moves v x (call (kc_UpdateControlPlaneTrust (tr_OnboardingCluster R) ?t) ev)
      (\<lambda>r y. \<exists>st. r = Inr (?t\<lparr>ct_Status := st\<rparr>) \<and> y = put_trust ?t x)" for ev
    by (rule moves_updates(1) [OF assms(2) stored]) (use assms(8) in \<open>simp_all add: refinalized_def\<close>)
  have same: "same_trust t t" "same_trust t (?t\<lparr>ct_Status := st\<rparr>)" for st
    by (simp_all add: same_trust_def key_def deleting_def)
  show ?thesis
    unfolding CT_Reconcile_def
    apply (rule moves_call_bind [OF onboarding_steps(2) [OF assms(2,6)]])
    apply simp
    apply (rule moves_config_bind [OF assms(1,5)])
    apply (simp add: time_IsZero_deleting assms(8) fin Let_def)
    apply (intro conjI impI)
     apply (rule moves_bind [OF update])
     apply (elim exE conjE, hypsubst, simp)
     apply (rule resolve [OF put same(2)])
      apply simp
     apply (use assms(7) in \<open>simp add: key_def\<close>)
    by (rule resolve [of x t]) (use assms(6,7) same in \<open>simp_all add: fun_upd_idem key_def\<close>)
qed

text \<open>A binding pass changes the binding's status and finalizers, and roles.\<close>

definition roles_only :: "kube \<Rightarrow> kube \<Rightarrow> bool" where
  "roles_only x y \<longleftrightarrow> (\<exists>rs. y = x\<lparr>ku_Bao := (ku_Bao x)\<lparr>fk_roles := rs\<rparr>\<rparr>)"

lemma roles_only_refl [simp]: "roles_only x x"
  unfolding roles_only_def by (rule exI [of _ "fk_roles (ku_Bao x)"]) simp

lemma roles_only_trans: "roles_only x y \<Longrightarrow> roles_only y z \<Longrightarrow> roles_only x z"
  by (auto simp: roles_only_def)

lemma roles_only_bao [simp]:
  "roles_only x (in_bao (\<lambda>f. snd (Fake_EnsureJWTRole m r f)) x)"
  by (auto simp: roles_only_def in_bao_def Fake_EnsureJWTRole_def intro: exI [of _ "fk_roles (ku_Bao x)"])

lemma PB_round_frame:
  assumes "reads_quietly v (br_PlatformCluster R)" "reads_quietly v (br_OnboardingCluster R)"
    and "serves_factory v (br_ClientFactory R)"
  shows "moves v x (PB_round k R b ref acc) (\<lambda>_. roles_only x)"
proof -
  have reads: "unmoved v (kc_GetControlPlaneEntity (br_OnboardingCluster R) ns nm)"
      "unmoved v (kc_GetControlPlaneTrust (br_OnboardingCluster R) ns nm)"
      "unmoved v (getOpenBaoInstance k (br_PlatformCluster R) nm)" for ns nm
    using assms(1,2) quiet_getOpenBaoInstance by (auto simp: reads_quietly_def)
  have role: "moves v x (PB_writeRole k R b i cl ident t q) (\<lambda>_. roles_only x)" if "serves_bao v cl" for i cl ident t q
    unfolding PB_writeRole_def Let_def
    apply (rule moves_bao_bind [OF bao_steps(8) [OF that]])
    apply simp
    apply (rule moves_bao_bind [OF bao_steps(5) [OF that]])
    by (simp add: moves_return split: sum.split)
  show ?thesis
    unfolding PB_round_def Let_def
    by (intro moves_cases moves_return moves_quiet_bind [OF reads(1)] moves_quiet_bind [OF reads(2)]
        moves_quiet_bind [OF reads(3)] moves_client_bind [OF assms(3)]) (auto intro: role)
qed

lemma PB_rounds_frame:
  assumes "reads_quietly v (br_PlatformCluster R)" "reads_quietly v (br_OnboardingCluster R)"
    and "serves_factory v (br_ClientFactory R)"
  shows "moves v x (PB_rounds k R b refs acc) (\<lambda>_. roles_only x)"
proof (induction refs arbitrary: x acc)
  case Nil
  then show ?case by (simp add: moves_return)
next
  case (Cons ref refs)
  have "moves v y (PB_rounds k R b refs acc') (\<lambda>_. roles_only x)" if "roles_only x y" for y acc'
    by (rule moves_mono [OF Cons.IH]) (rule roles_only_trans [OF that])
  then show ?case
    unfolding PB_rounds.simps
    by (intro moves_bind [OF PB_round_frame [OF assms]] moves_case_sum moves_return)
qed

definition binding_moved :: "string \<times> string \<Rightarrow> PolicyBinding \<Rightarrow> kube \<Rightarrow> kube \<Rightarrow> bool" where
  "binding_moved a b x y \<longleftrightarrow> (\<exists>b' rs. y = x\<lparr>ku_Binding := (ku_Binding x)(a \<mapsto> b'),
     ku_Bao := (ku_Bao x)\<lparr>fk_roles := rs\<rparr>\<rparr> \<and> same_binding b b')"

lemma PB_frame:
  assumes "serves_platform v (br_PlatformCluster R)" "serves_onboarding v (br_OnboardingCluster R)"
    and "serves_factory v (br_ClientFactory R)"
    and "reads_quietly v (br_PlatformCluster R)" "reads_quietly v (br_OnboardingCluster R)"
    and "configured k x (br_ProviderName R) cfg"
    and "ku_Binding x (ns, nm) = Some b" "key (pb_Meta b) = (ns, nm)" "\<not> deleting (pb_Meta b)"
  shows "moves v x (PB_Reconcile k R ns nm) (\<lambda>_. binding_moved (ns, nm) b x)"
proof -
  obtain fs changed where fin: "k_AddFinalizer k FinalizerPolicyBinding (om_Finalizers (pb_Meta b)) = (fs, changed)"
    by fastforce
  let ?b = "PB_with_finalizers fs (PB_entered b)"
  have sync: "moves v z (PB_sync k R cfg u) (\<lambda>_. binding_moved (ns, nm) b x)"
    if z: "z = x\<lparr>ku_Binding := (ku_Binding x)((ns, nm) \<mapsto> old)\<rparr>" "same_binding b old"
      and u: "key (pb_Meta u) = (ns, nm)" for z u old
  proof -
    have status: "same_binding b (old\<lparr>pb_Status := st\<rparr>)" for st using z(2) by (simp add: same_binding_def)
    have published: "key (pb_Meta (PB_publishReady k acc (PB_publishPolicy k acc (u\<lparr>pb_Status := st\<rparr>)))) = (ns, nm)" for acc st
      by (simp add: PB_publishReady_def PB_publishPolicy_def PB_policyCondition_def PB_map_conditions_def Let_def u)
    have stop: "binding_moved (ns, nm) b x y" if "roles_only z y" for y
      using that z(2) by (auto simp: roles_only_def binding_moved_def z(1))
    have patch: "moves v y (PB_patchStatus R (PB_publishReady k acc (PB_publishPolicy k acc (u\<lparr>pb_Status := st\<rparr>))) cfg) (\<lambda>_. binding_moved (ns, nm) b x)"
      if y: "roles_only z y" for y acc st
    proof (rule moves_PB_patch [OF assms(2)], unfold published)
      show "ku_Binding y (ns, nm) = Some old" using y by (auto simp: roles_only_def z(1))
      from y obtain rs where rs: "y = z\<lparr>ku_Bao := (ku_Bao z)\<lparr>fk_roles := rs\<rparr>\<rparr>" by (auto simp: roles_only_def)
      let ?st = "pb_Status (PB_publishReady k acc (PB_publishPolicy k acc (u\<lparr>pb_Status := st\<rparr>)))"
      show "binding_moved (ns, nm) b x (set_binding (ns, nm) ?st y)"
        unfolding binding_moved_def
        by (intro exI [of _ "old\<lparr>pb_Status := ?st\<rparr>"] exI [of _ rs]) (simp add: set_binding_def rs z(1) status)
    qed
    show ?thesis
      unfolding PB_sync_def Let_def
      by (rule moves_bind [OF PB_rounds_frame [OF assms(4,5,3)]])
         (intro moves_case_sum moves_return stop patch, assumption+)
  qed
  have stored: "ku_Binding x (key (pb_Meta ?b)) = Some b"
    using assms(7,8) by (simp add: PB_with_finalizers_def PB_entered_def key_def)
  have put: "put_binding ?b x = x\<lparr>ku_Binding := (ku_Binding x)((ns, nm) \<mapsto> ?b\<lparr>pb_Status := pb_Status b\<rparr>)\<rparr>"
    using put_live(2) [OF stored assms(9)] assms(8) by (simp add: PB_with_finalizers_def PB_entered_def key_def)
  have update: "moves v x (call (kc_UpdatePolicyBinding (br_OnboardingCluster R) ?b) ev)
      (\<lambda>r y. \<exists>st. r = Inr (?b\<lparr>pb_Status := st\<rparr>) \<and> y = put_binding ?b x)" for ev
    by (rule moves_updates(2) [OF assms(2) stored])
       (use assms(9) in \<open>simp_all add: refinalized_def PB_with_finalizers_def PB_entered_def\<close>)
  have same: "same_binding b b" "same_binding b (?b\<lparr>pb_Status := st\<rparr>)" "key (pb_Meta (?b\<lparr>pb_Status := st\<rparr>)) = (ns, nm)" for st
    using assms(8) by (simp_all add: same_binding_def key_def deleting_def PB_with_finalizers_def PB_entered_def)
  show ?thesis
    unfolding PB_Reconcile_def
    apply (rule moves_call_bind [OF onboarding_steps(4) [OF assms(2,7)]])
    apply simp
    apply (rule moves_config_bind [OF assms(1,6)])
    apply (simp add: time_IsZero_deleting assms(9) fin Let_def)
    apply (intro conjI impI)
     apply (rule moves_bind [OF update])
     apply (elim exE conjE, hypsubst, simp only: sum.case)
     apply (rule sync [OF put same(2,3)])
    by (rule sync [of x b]) (use assms(7) same(1) same(3) [of "pb_Status ?b"] in \<open>simp_all add: fun_upd_idem\<close>)
qed

end
