(* ===== verification/Schedule.thy ===== *)
theory Schedule
  imports Frames
begin

text \<open>
  Passes in any order. What earlier passes over the objects of a tenant reached, later ones keep
  (\<open>Frames\<close>). So the progress of a tenant is an abstract machine that a queue of passes follows,
  and every queue that goes through it far enough ends with the binding granted.
\<close>

section \<open>Progress\<close>

text \<open>How far a tenant has come: the instance has been found reachable, the trust is configured,
  which entities have their identity, the binding is granted.\<close>

record progress =
  pg_up :: bool
  pg_trusted :: bool
  pg_named :: "string set"
  pg_granted :: bool

definition at_start :: progress where
  "at_start = \<lparr>pg_up = False, pg_trusted = False, pg_named = {}, pg_granted = False\<rparr>"

definition all_named :: "tenant \<Rightarrow> progress \<Rightarrow> bool" where
  "all_named T p \<longleftrightarrow> (\<forall>e \<in> set (tn_Entities T). om_Name (ce_Meta e) \<in> pg_named p)"

text \<open>What one request brings.\<close>

definition advance :: "tenant \<Rightarrow> request \<Rightarrow> progress \<Rightarrow> progress" where
  "advance T q p = (case q of
       ReqInstance _ _ \<Rightarrow> p\<lparr>pg_up := True\<rparr>
     | ReqProjectEntity _ _ \<Rightarrow> p
     | ReqTrust _ _ \<Rightarrow> p\<lparr>pg_trusted := pg_trusted p \<or> pg_up p\<rparr>
     | ReqEntity _ nm \<Rightarrow> if pg_trusted p then p\<lparr>pg_named := insert nm (pg_named p)\<rparr> else p
     | ReqBinding _ _ \<Rightarrow> p\<lparr>pg_granted := pg_granted p \<or> (pg_trusted p \<and> all_named T p)\<rparr>)"

text \<open>The tenant's objects, whatever their statuses and finalizers.\<close>

definition stands :: "klib \<Rightarrow> 'w service \<Rightarrow> ServiceConfig \<Rightarrow> tenant \<Rightarrow> kube \<Rightarrow> bool" where
  "stands k S cfg T y \<longleftrightarrow> service_configured k y S cfg \<and>
     (\<exists>st. ku_Instance y (om_Name (oi_Meta (tn_Instance T))) = Some ((tn_Instance T)\<lparr>oi_Status := st\<rparr>)) \<and>
     (\<exists>st. ku_ProjectEntity y (key (pe_Meta (tn_ProjectEntity T))) = Some ((tn_ProjectEntity T)\<lparr>pe_Status := st\<rparr>)) \<and>
     (\<exists>t. ku_Trust y (key (ct_Meta (tn_Trust T))) = Some t \<and> same_trust (tn_Trust T) t) \<and>
     ku_ControlPlane y (om_Namespace (ct_Meta (tn_Trust T)), lor_Name (cts_ControlPlaneRef (ct_Spec (tn_Trust T)))) =
       Some (tn_ControlPlane T) \<and>
     (\<forall>e \<in> set (tn_Entities T). entity_stored e y (\<lambda>_. True)) \<and>
     (\<exists>b. ku_Binding y (key (pb_Meta (tn_Binding T))) = Some b \<and> same_binding (tn_Binding T) b) \<and>
     healthy (ku_Bao y) \<and> \<not> fk_PoliciesUnknown (ku_Bao y) \<and>
     map_read False (fk_Policies (ku_Bao y)) (pbs_PolicyName (pb_Spec (tn_Binding T)))"

definition instance_up :: "klib \<Rightarrow> tenant \<Rightarrow> kube \<Rightarrow> bool" where
  "instance_up k T y \<longleftrightarrow>
     (\<exists>i. ku_Instance y (om_Name (oi_Meta (tn_Instance T))) = Some i \<and> isInstanceReachable k (Some i))"

definition trust_up :: "klib \<Rightarrow> ServiceConfig \<Rightarrow> tenant \<Rightarrow> kube \<Rightarrow> bool" where
  "trust_up k cfg T y \<longleftrightarrow>
     (\<exists>t. ku_Trust y (key (ct_Meta (tn_Trust T))) = Some t \<and>
        trust_done k cfg (tn_Instance T) (tn_ControlPlane T) (tn_Trust T) (ct_Status t)) \<and>
     HasMount (ku_Bao y) (tenant_path cfg T) \<and>
     Config (ku_Bao y) (tenant_path cfg T) = Some (CT_trustConfig (tenant_issuer T))"

text \<open>The view is at least where the progress says, and the progress was made in order.\<close>

definition in_order :: "tenant \<Rightarrow> progress \<Rightarrow> bool" where
  "in_order T p \<longleftrightarrow> (pg_trusted p \<longrightarrow> pg_up p) \<and> (pg_named p \<noteq> {} \<longrightarrow> pg_trusted p) \<and>
     (pg_granted p \<longrightarrow> pg_trusted p \<and> all_named T p)"

definition progressed ::
    "klib \<Rightarrow> 'w service \<Rightarrow> ServiceConfig \<Rightarrow> tenant \<Rightarrow> (string \<Rightarrow> ServiceAccountIdentity) \<Rightarrow> progress \<Rightarrow> kube \<Rightarrow> bool" where
  "progressed k S cfg T ident p y \<longleftrightarrow> in_order T p \<and> stands k S cfg T y \<and>
     (pg_up p \<longrightarrow> instance_up k T y) \<and> (pg_trusted p \<longrightarrow> trust_up k cfg T y) \<and>
     (\<forall>e \<in> set (tn_Entities T). om_Name (ce_Meta e) \<in> pg_named p \<longrightarrow>
        entity_stored e y (entity_done k (ident (om_Name (ce_Meta e))))) \<and>
     (pg_granted p \<longrightarrow> tenant_granted k cfg T ident y)"

lemma in_order_advance: "in_order T p \<Longrightarrow> in_order T (advance T q p)"
  by (cases q) (auto simp: advance_def in_order_def all_named_def)

lemma declared_stands:
  assumes "declared k v env x T ident" "service_configured k x S cfg"
  shows "stands k S cfg T x"
proof -
  have "same_binding b b" "same_trust t t" for b t by (simp_all add: same_binding_def same_trust_def)
  moreover have "\<exists>st. e = e\<lparr>ce_Status := st\<rparr>" for e :: ControlPlaneEntity by (rule exI [of _ "ce_Status e"]) simp
  moreover have "\<exists>st. i = i\<lparr>oi_Status := st\<rparr>" for i :: OpenBaoInstance by (rule exI [of _ "oi_Status i"]) simp
  moreover have "\<exists>st. o' = o'\<lparr>pe_Status := st\<rparr>" for o' :: ProjectEntity by (rule exI [of _ "pe_Status o'"]) simp
  ultimately show ?thesis
    using assms by (auto simp: stands_def declared_def entity_stored_def key_def Let_def list_all_iff)
qed

section \<open>The frames keep the objects\<close>

lemma servesD:
  assumes "service_serves v S"
  shows "serves_platform v (ir_PlatformCluster (sv_Instance S))" "serves_factory v (ir_ClientFactory (sv_Instance S))"
    "serves_platform v (er_PlatformCluster (sv_ProjectEntity S))" "serves_onboarding v (er_OnboardingCluster (sv_ProjectEntity S))"
    "serves_factory v (er_ClientFactory (sv_ProjectEntity S))"
    "serves_platform v (tr_PlatformCluster (sv_Trust S))" "serves_onboarding v (tr_OnboardingCluster (sv_Trust S))"
    "serves_factory v (tr_ClientFactory (sv_Trust S))"
    "serves_platform v (nr_PlatformCluster (sv_Entity S))" "serves_onboarding v (nr_OnboardingCluster (sv_Entity S))"
    "serves_platform v (br_PlatformCluster (sv_Binding S))" "serves_onboarding v (br_OnboardingCluster (sv_Binding S))"
    "serves_factory v (br_ClientFactory (sv_Binding S))"
  using assms by (simp_all add: service_serves_def)

lemma stands_configured:
  assumes "stands k S cfg T x"
  shows "configured k x (ir_ProviderName (sv_Instance S)) cfg" "configured k x (er_ProviderName (sv_ProjectEntity S)) cfg"
    "configured k x (tr_ProviderName (sv_Trust S)) cfg" "configured k x (nr_ProviderName (sv_Entity S)) cfg"
    "configured k x (br_ProviderName (sv_Binding S)) cfg"
  using assms by (simp_all add: stands_def service_configured_def)

lemma stands_obtain:
  assumes "stands k S cfg T x"
  obtains ist pst t b where
    "ku_Instance x (om_Name (oi_Meta (tn_Instance T))) = Some ((tn_Instance T)\<lparr>oi_Status := ist\<rparr>)"
    "ku_ProjectEntity x (key (pe_Meta (tn_ProjectEntity T))) = Some ((tn_ProjectEntity T)\<lparr>pe_Status := pst\<rparr>)"
    "ku_Trust x (key (ct_Meta (tn_Trust T))) = Some t" "same_trust (tn_Trust T) t"
    "ku_Binding x (key (pb_Meta (tn_Binding T))) = Some b" "same_binding (tn_Binding T) b"
  using assms unfolding stands_def by blast

text \<open>Every field of the view but one is the same, and that one still holds the tenant's object.\<close>

lemma stands_instance:
  "stands k S cfg T x \<Longrightarrow> stands k S cfg T (set_instance (om_Name (oi_Meta (tn_Instance T))) st x)"
  by (auto simp: stands_def service_configured_def configured_def entity_stored_def)

lemma stands_project_entity:
  "stands k S cfg T x \<Longrightarrow> stands k S cfg T
     (set_project_entity (key (pe_Meta (tn_ProjectEntity T))) st (in_bao (\<lambda>f. f\<lparr>fk_entities := es\<rparr>) x))"
  by (auto simp: stands_def service_configured_def configured_def entity_stored_def healthy_def set_project_entity_def
      in_bao_def)

lemma provisioned_frame [simp]:
  "Role (provisioned p c f) m n = Role f m n" "healthy (provisioned p c f) = healthy f"
  by (simp_all add: healthy_def provisioned_def fake_defs)

lemma stands_trust:
  assumes "stands k S cfg T x" "trust_moved (key (ct_Meta (tn_Trust T))) t (provisioned p c) x y" "same_trust (tn_Trust T) t"
  shows "stands k S cfg T y"
proof -
  from assms(2) obtain t' f where y: "y = x\<lparr>ku_Trust := (ku_Trust x)(key (ct_Meta (tn_Trust T)) \<mapsto> t'), ku_Bao := f\<rparr>"
      "same_trust t t'" "f = ku_Bao x \<or> f = provisioned p c (ku_Bao x)"
    by (auto simp: trust_moved_def)
  have "same_trust (tn_Trust T) t'" using assms(3) y(2) by (simp add: same_trust_def)
  then show ?thesis
    using assms(1) y(3) by (auto simp: y(1) stands_def service_configured_def configured_def entity_stored_def)
qed

lemma stands_entity:
  assumes "stands k S cfg T x" "e \<in> set (tn_Entities T)"
  shows "stands k S cfg T (set_entity (key (ce_Meta e)) st x)"
proof -
  have "entity_stored e x (\<lambda>_. True)" using assms by (simp add: stands_def)
  then have "\<forall>e' \<in> set (tn_Entities T). entity_stored e' (set_entity (key (ce_Meta e)) st x) (\<lambda>_. True)"
    using assms(1) entity_stored_set by (fastforce simp: stands_def)
  then show ?thesis using assms(1) by (simp add: stands_def service_configured_def configured_def)
qed

lemma stands_binding:
  assumes "stands k S cfg T x" "binding_moved (key (pb_Meta (tn_Binding T))) b x y" "same_binding (tn_Binding T) b"
  shows "stands k S cfg T y"
proof -
  from assms(2) obtain b' rs where y: "y = x\<lparr>ku_Binding := (ku_Binding x)(key (pb_Meta (tn_Binding T)) \<mapsto> b'),
      ku_Bao := (ku_Bao x)\<lparr>fk_roles := rs\<rparr>\<rparr>" "same_binding b b'"
    by (auto simp: binding_moved_def)
  have "same_binding (tn_Binding T) b'" using assms(3) y(2) by (simp add: same_binding_def)
  then show ?thesis
    using assms(1) by (auto simp: y(1) stands_def service_configured_def configured_def entity_stored_def healthy_def)
qed

section \<open>One request\<close>

lemma progress_instance:
  assumes "lawful_conditions k" "service_serves v S" "declared k v env x0 T ident" "progressed k S cfg T ident p x"
  shows "moves v x (OI_Reconcile k (sv_Instance S) [] (om_Name (oi_Meta (tn_Instance T))))
    (\<lambda>_. progressed k S cfg T ident (p\<lparr>pg_up := True\<rparr>))"
proof -
  have s: "stands k S cfg T x" "healthy (ku_Bao x)" using assms(4) by (simp_all add: progressed_def stands_def)
  from s(1) obtain st where st: "ku_Instance x (om_Name (oi_Meta (tn_Instance T))) = Some ((tn_Instance T)\<lparr>oi_Status := st\<rparr>)"
    by (rule stands_obtain)
  have live: "\<not> deleting (oi_Meta (tn_Instance T))" using assms(3) by (simp add: declared_def Let_def)
  note pass = OI_pass [OF servesD(1,2) [OF assms(2)] assms(1) stands_configured(1) [OF s(1)] s(2) st]
  show ?thesis
  proof (rule moves_mono, rule pass)
    fix r y
    assume "\<exists>st. y = set_instance (om_Name (oi_Meta (tn_Instance T))) st x \<and>
      isConditionTrue k (oist_Conditions st) ConditionOpenBaoReachable"
    then obtain st' where y: "y = set_instance (om_Name (oi_Meta (tn_Instance T))) st' x"
      "isConditionTrue k (oist_Conditions st') ConditionOpenBaoReachable" by blast
    then have "instance_up k T y" by (simp add: instance_up_def isInstanceReachable_def)
    moreover have "stands k S cfg T y" unfolding y(1) by (rule stands_instance) (rule s)
    ultimately show "progressed k S cfg T ident (p\<lparr>pg_up := True\<rparr>) y"
      using assms(4) y(1)
      by (auto simp: progressed_def in_order_def all_named_def trust_up_def entity_stored_def tenant_granted_def)
  qed (use live in simp_all)
qed

text \<open>The ProjectEntity of the tenant is on its instance.\<close>

lemma project_entity_instance:
  assumes "declared k v env x0 T ident" "stands k S cfg T x"
  obtains pe i where "ku_ProjectEntity x (key (pe_Meta (tn_ProjectEntity T))) = Some pe"
    "pe_Meta pe = pe_Meta (tn_ProjectEntity T)" "pe_Spec pe = pe_Spec (tn_ProjectEntity T)"
    "ku_Instance x (lor_Name (pes_OpenBaoInstanceRef (pe_Spec pe))) = Some i"
    "ku_Instance x (om_Name (oi_Meta (tn_Instance T))) = Some i"
    "oi_Meta i = oi_Meta (tn_Instance T)" "oi_Spec i = oi_Spec (tn_Instance T)"
proof -
  have ref: "lor_Name (pes_OpenBaoInstanceRef (pe_Spec (tn_ProjectEntity T))) = om_Name (oi_Meta (tn_Instance T))"
    using assms(1) by (simp add: declared_def Let_def)
  from assms(2) obtain ist pst where
    "ku_Instance x (om_Name (oi_Meta (tn_Instance T))) = Some ((tn_Instance T)\<lparr>oi_Status := ist\<rparr>)"
    "ku_ProjectEntity x (key (pe_Meta (tn_ProjectEntity T))) = Some ((tn_ProjectEntity T)\<lparr>pe_Status := pst\<rparr>)"
    by (rule stands_obtain)
  with ref show thesis
    by (intro that [of "(tn_ProjectEntity T)\<lparr>pe_Status := pst\<rparr>" "(tn_Instance T)\<lparr>oi_Status := ist\<rparr>"]) simp_all
qed

lemma progress_project_entity:
  assumes "lawful_conditions k" "service_serves v S" "declared k v env x0 T ident" "progressed k S cfg T ident p x"
  shows "moves v x (PE_Reconcile k (sv_ProjectEntity S) (om_Namespace (pe_Meta (tn_ProjectEntity T)))
      (om_Name (pe_Meta (tn_ProjectEntity T)))) (\<lambda>_. progressed k S cfg T ident p)"
proof -
  have s: "stands k S cfg T x" using assms(4) by (simp add: progressed_def)
  obtain pe i where pe: "ku_ProjectEntity x (key (pe_Meta (tn_ProjectEntity T))) = Some pe"
    "pe_Meta pe = pe_Meta (tn_ProjectEntity T)" "ku_Instance x (lor_Name (pes_OpenBaoInstanceRef (pe_Spec pe))) = Some i"
    by (rule project_entity_instance [OF assms(3) s])
  have live: "\<not> deleting (pe_Meta pe)" using assms(3) pe(2) by (simp add: declared_def Let_def)
  note pass = PE_frame [OF servesD(3,4,5) [OF assms(2)] assms(1) stands_configured(2) [OF s] pe(1) [unfolded key_def] _ live pe(3)]
  show ?thesis
  proof (rule moves_mono, rule pass)
    fix r y
    assume "\<exists>st es. y = set_project_entity (om_Namespace (pe_Meta (tn_ProjectEntity T)), om_Name (pe_Meta (tn_ProjectEntity T))) st
        (in_bao (\<lambda>f. f\<lparr>fk_entities := es\<rparr>) x)"
    then obtain st es where y: "y = set_project_entity (key (pe_Meta (tn_ProjectEntity T))) st
        (in_bao (\<lambda>f. f\<lparr>fk_entities := es\<rparr>) x)" by (auto simp: key_def)
    have "stands k S cfg T y" unfolding y by (rule stands_project_entity [OF s])
    then show "progressed k S cfg T ident p y"
      using assms(4)
      by (auto simp: y progressed_def instance_up_def trust_up_def entity_stored_def tenant_granted_def HasMount_def
          Config_def Role_def)
  qed (simp add: pe(2) key_def)
qed

lemma progress_trust:
  assumes "lawful_conditions k" "service_serves v S" "declared k v env x0 T ident" "progressed k S cfg T ident p x"
  shows "moves v x (CT_Reconcile k (sv_Trust S) (om_Namespace (ct_Meta (tn_Trust T))) (om_Name (ct_Meta (tn_Trust T))))
    (\<lambda>_. progressed k S cfg T ident (p\<lparr>pg_trusted := pg_trusted p \<or> pg_up p\<rparr>))"
proof -
  let ?t = "tn_Trust T" and ?cp = "tn_ControlPlane T"
  have s: "stands k S cfg T x" and ord: "in_order T p" using assms(4) by (simp_all add: progressed_def)
  obtain t where t: "ku_Trust x (key (ct_Meta ?t)) = Some t" "same_trust ?t t" using s by (rule stands_obtain)
  obtain pe i where pe: "ku_ProjectEntity x (key (pe_Meta (tn_ProjectEntity T))) = Some pe"
    "ku_Instance x (lor_Name (pes_OpenBaoInstanceRef (pe_Spec pe))) = Some i"
    and i: "ku_Instance x (om_Name (oi_Meta (tn_Instance T))) = Some i"
      "oi_Meta i = oi_Meta (tn_Instance T)" "oi_Spec i = oi_Spec (tn_Instance T)"
    by (rule project_entity_instance [OF assms(3) s])
  have d: "cts_ProjectEntityRef (ct_Spec ?t) =
      \<lparr>nor_Name = om_Name (pe_Meta (tn_ProjectEntity T)), nor_Namespace = om_Namespace (pe_Meta (tn_ProjectEntity T))\<rparr>"
    "controlPlaneIssuer (Some ?cp) \<noteq> []" "\<not> deleting (ct_Meta ?t)"
    using assms(3) by (simp_all add: declared_def Let_def)
  have same: "ct_Spec t = ct_Spec ?t" "key (ct_Meta t) = key (ct_Meta ?t)" "\<not> deleting (ct_Meta t)"
    using t(2) d(3) by (simp_all add: same_trust_def)
  have stored: "ku_Trust x (om_Namespace (ct_Meta ?t), om_Name (ct_Meta ?t)) = Some t"
    "key (ct_Meta t) = (om_Namespace (ct_Meta ?t), om_Name (ct_Meta ?t))"
    using t(1) same(2) by (simp_all add: key_def)
  have ns: "om_Namespace (ct_Meta t) = om_Namespace (ct_Meta ?t)" using same(2) by (simp add: key_def)
  have refs: "ku_ProjectEntity x (nor_Namespace (cts_ProjectEntityRef (ct_Spec t)), nor_Name (cts_ProjectEntityRef (ct_Spec t))) = Some pe"
    "ku_ControlPlane x (om_Namespace (ct_Meta ?t), lor_Name (cts_ControlPlaneRef (ct_Spec t))) = Some ?cp"
    using pe(1) s d(1) same(1) by (simp_all add: key_def stands_def)
  have path: "CT_mountPath cfg i t = tenant_path cfg T"
    using i(3) same(1) ns by (simp add: tenant_path_def CT_mountPath_def resolveAuthMountPrefix_def)
  let ?g = "provisioned (tenant_path cfg T) (CT_trustConfig (tenant_issuer T))"
  note frame = CT_frame [OF servesD(6,7,8) [OF assms(2)] assms(1) stands_configured(3) [OF s] stored same(3) refs(1) pe(2)
      refs(2) d(2), unfolded path tenant_issuer_def [symmetric], folded key_def]
  note keep = stands_trust [OF s _ t(2)]
  show ?thesis
  proof (cases "pg_up p")
    case False
    then have no: "\<not> pg_trusted p" "pg_named p = {}" "\<not> pg_granted p" using ord by (auto simp: in_order_def)
    show ?thesis
    proof (rule moves_mono [OF frame], drule keep)
      fix y
      assume "stands k S cfg T y"
      then show "progressed k S cfg T ident (p\<lparr>pg_trusted := pg_trusted p \<or> pg_up p\<rparr>) y"
        using no False ord by (simp add: progressed_def in_order_def)
    qed
  next
    case True
    then have "isInstanceReachable k (Some i)" using assms(4) i(1) by (auto simp: progressed_def instance_up_def)
    then have "trust_ready k x t i ?cp" using refs pe(2) d(2) ns by (auto simp: trust_ready_def)
    note pass = CT_pass [OF servesD(6,7,8) [OF assms(2)] assms(1) stands_configured(3) [OF s] stored same(3) this,
        unfolded path tenant_issuer_def [symmetric]]
    have done_same: "trust_done k cfg i ?cp t st \<Longrightarrow> trust_done k cfg (tn_Instance T) ?cp ?t st" for st
      using path i(2) same(1) by (simp add: trust_done_def tenant_path_def)
    show ?thesis
    proof (rule moves_mono [OF moves_conj [OF frame pass]], elim conjE, drule keep)
      fix y
      assume "\<exists>t'. y = x\<lparr>ku_Trust := (ku_Trust x)((om_Namespace (ct_Meta ?t), om_Name (ct_Meta ?t)) \<mapsto> t'),
            ku_Bao := ?g (ku_Bao x)\<rparr> \<and> ct_Spec t' = ct_Spec t \<and>
          key (ct_Meta t') = (om_Namespace (ct_Meta ?t), om_Name (ct_Meta ?t)) \<and> trust_done k cfg i ?cp t (ct_Status t')"
      then obtain t' where y: "y = x\<lparr>ku_Trust := (ku_Trust x)(key (ct_Meta ?t) \<mapsto> t'), ku_Bao := ?g (ku_Bao x)\<rparr>"
          "trust_done k cfg (tn_Instance T) ?cp ?t (ct_Status t')"
        using done_same unfolding key_def by blast
      assume "stands k S cfg T y"
      then show "progressed k S cfg T ident (p\<lparr>pg_trusted := pg_trusted p \<or> pg_up p\<rparr>) y"
        using y(2) True assms(4)
        by (auto simp: y(1) progressed_def in_order_def all_named_def instance_up_def trust_up_def entity_stored_def
            tenant_granted_def)
    qed
  qed
qed

lemma progress_entity:
  assumes "lawful_conditions k" "service_serves v S" "service_quiet v env S" "declared k v env x0 T ident"
    and "progressed k S cfg T ident p x" "e \<in> set (tn_Entities T)"
  shows "moves v x (CE_Reconcile k env (sv_Entity S) (om_Namespace (ce_Meta e)) (om_Name (ce_Meta e)))
    (\<lambda>_. progressed k S cfg T ident (advance T (ReqEntity (om_Namespace (ce_Meta e)) (om_Name (ce_Meta e))) p))"
proof -
  let ?t = "tn_Trust T" and ?ns = "om_Namespace (ce_Meta e)" and ?nm = "om_Name (ce_Meta e)"
  have s: "stands k S cfg T x" and ord: "in_order T p" using assms(5) by (simp_all add: progressed_def)
  obtain t where t: "ku_Trust x (key (ct_Meta ?t)) = Some t" "same_trust ?t t" using s by (rule stands_obtain)
  have d: "?ns = om_Namespace (ct_Meta ?t)" "lor_Name (ces_ControlPlaneTrustRef (ce_Spec e)) = om_Name (ct_Meta ?t)"
    "controlPlaneIssuer (Some (tn_ControlPlane T)) \<noteq> []" "\<not> deleting (ce_Meta e)"
    and ident: "serves_identity k v env (tn_ControlPlane T) (nor_Namespace (ces_ServiceAccountRef (ce_Spec e)))
      (nor_Name (ces_ServiceAccountRef (ce_Spec e)))
      (resolveControlPlaneAudience (resolveControlPlaneAudience (cts_Audience (ct_Spec ?t)))) (ident ?nm)"
    using assms(4,6) by (auto simp: declared_def Let_def list_all_iff)
  have estored: "entity_stored e x (\<lambda>_. True)" using s assms(6) by (simp add: stands_def)
  then obtain st where e: "ku_Entity x (?ns, ?nm) = Some (e\<lparr>ce_Status := st\<rparr>)"
    by (auto simp: entity_stored_def key_def)
  have kept: "key (ce_Meta (e\<lparr>ce_Status := st\<rparr>)) = (?ns, ?nm)" "\<not> deleting (ce_Meta (e\<lparr>ce_Status := st\<rparr>))"
    using d(4) by (simp_all add: key_def)
  have trust: "ku_Trust x (?ns, lor_Name (ces_ControlPlaneTrustRef (ce_Spec (e\<lparr>ce_Status := st\<rparr>)))) = Some t"
    using t(1) d(1,2) by (simp add: key_def)
  have cp: "ku_ControlPlane x (?ns, lor_Name (cts_ControlPlaneRef (ct_Spec t))) = Some (tn_ControlPlane T)"
    using s t(2) d(1) by (simp add: stands_def same_trust_def)
  have quiet: "access_quiet v env" using assms(3) by (simp add: service_quiet_def)
  show ?thesis
  proof (cases "pg_trusted p")
    case False
    then have no: "pg_named p = {}" "\<not> pg_granted p" using ord by (auto simp: in_order_def)
    show ?thesis
    proof (rule moves_mono [OF CE_frame [OF servesD(9,10) [OF assms(2)] quiet stands_configured(4) [OF s] e kept(1) trust cp d(3)]])
      fix r y
      assume "y = x \<or> (\<exists>st. y = set_entity (?ns, ?nm) st x)"
      then have "stands k S cfg T y" "ku_Instance y = ku_Instance x"
        using s stands_entity [OF s assms(6)] by (auto simp: key_def)
      then show "progressed k S cfg T ident (advance T (ReqEntity ?ns ?nm) p) y"
        using assms(5) no False by (simp add: progressed_def advance_def instance_up_def)
    qed
  next
    case True
    then have "trust_done k cfg (tn_Instance T) (tn_ControlPlane T) ?t (ct_Status t)"
      using assms(5) t(1) by (auto simp: progressed_def trust_up_def)
    then have t_done: "isConditionTrue k (ctst_Conditions (ct_Status t)) ConditionTrustConfigured"
      "ctst_Audience (ct_Status t) = resolveControlPlaneAudience (cts_Audience (ct_Spec ?t))"
      by (simp_all add: trust_done_def)
    have pass: "moves v x (CE_Reconcile k env (sv_Entity S) ?ns ?nm)
        (\<lambda>r y. \<exists>st. y = set_entity (?ns, ?nm) st x \<and> entity_done k (ident ?nm) st)"
      by (rule CE_pass [OF servesD(9,10) [OF assms(2)] assms(1) stands_configured(4) [OF s] e kept trust t_done(1) cp d(3)])
         (use ident in \<open>simp add: t_done(2)\<close>)
    show ?thesis
    proof (rule moves_mono [OF pass], elim exE conjE)
      fix y st'
      assume "y = set_entity (?ns, ?nm) st' x" and st': "entity_done k (ident ?nm) st'"
      then have y: "y = set_entity (key (ce_Meta e)) st' x" by (simp add: key_def)
      have named: "entity_stored e' y (entity_done k (ident (om_Name (ce_Meta e'))))"
        if "e' \<in> set (tn_Entities T)" "om_Name (ce_Meta e') \<in> insert ?nm (pg_named p)" for e'
      proof (cases "om_Name (ce_Meta e') = ?nm")
        case True
        then have key: "key (ce_Meta e') = key (ce_Meta e)"
          using assms(4,6) that(1) by (auto simp: declared_def key_def Let_def list_all_iff)
        moreover have "entity_stored e' x (\<lambda>_. True)" using s that(1) by (simp add: stands_def)
        ultimately show ?thesis using st' True by (auto simp: y entity_stored_def set_entity_def)
      next
        case False
        then have "entity_stored e' x (entity_done k (ident (om_Name (ce_Meta e'))))"
          using that assms(5) by (simp add: progressed_def)
        then show ?thesis
          unfolding y by (rule entity_stored_set [OF _ estored]) (use False in \<open>simp add: key_def\<close>)
      qed
      have "stands k S cfg T y" unfolding y by (rule stands_entity [OF s assms(6)])
      then show "progressed k S cfg T ident (advance T (ReqEntity ?ns ?nm) p) y"
        using assms(5) named True
        by (auto simp: progressed_def advance_def in_order_def all_named_def instance_up_def trust_up_def tenant_granted_def y)
    qed
  qed
qed

lemma progress_binding:
  assumes "lawful_conditions k" "service_serves v S" "service_quiet v env S" "declared k v env x0 T ident"
    and "progressed k S cfg T ident p x" "inj_on (\<lambda>e. jr_Name (tenant_role T ident e)) (set (tn_Entities T))"
  shows "moves v x (PB_Reconcile k (sv_Binding S) (om_Namespace (pb_Meta (tn_Binding T))) (om_Name (pb_Meta (tn_Binding T))))
    (\<lambda>_. progressed k S cfg T ident (p\<lparr>pg_granted := pg_granted p \<or> (pg_trusted p \<and> all_named T p)\<rparr>))"
proof -
  let ?b = "tn_Binding T"
  have s: "stands k S cfg T x" and ord: "in_order T p" using assms(5) by (simp_all add: progressed_def)
  obtain b where b: "ku_Binding x (key (pb_Meta ?b)) = Some b" "same_binding ?b b" using s by (rule stands_obtain)
  have live: "\<not> deleting (pb_Meta b)" and kept: "key (pb_Meta b) = key (pb_Meta ?b)"
    using assms(4) b(2) by (simp_all add: declared_def same_binding_def Let_def)
  have quiet: "reads_quietly v (br_PlatformCluster (sv_Binding S))" "reads_quietly v (br_OnboardingCluster (sv_Binding S))"
    using assms(3) by (simp_all add: service_quiet_def)
  note frame = PB_frame [OF servesD(11,12,13) [OF assms(2)] quiet stands_configured(5) [OF s]
      b(1) [unfolded key_def] kept [unfolded key_def [of "pb_Meta ?b"]] live, folded key_def]
  have keep: "stands k S cfg T y \<and> ku_Instance y = ku_Instance x \<and> ku_Trust y = ku_Trust x \<and> ku_Entity y = ku_Entity x \<and>
      HasMount (ku_Bao y) = HasMount (ku_Bao x) \<and> Config (ku_Bao y) = Config (ku_Bao x)"
    if "binding_moved (key (pb_Meta ?b)) b x y" for y
    using stands_binding [OF s that b(2)] that by (auto simp: binding_moved_def HasMount_def Config_def fun_eq_iff)
  show ?thesis
  proof (cases "pg_trusted p \<and> all_named T p")
    case False
    then have "\<not> pg_granted p" using ord by (auto simp: in_order_def)
    show ?thesis
    proof (rule moves_mono [OF frame], drule keep)
      fix y
      assume "stands k S cfg T y \<and> ku_Instance y = ku_Instance x \<and> ku_Trust y = ku_Trust x \<and> ku_Entity y = ku_Entity x \<and>
        HasMount (ku_Bao y) = HasMount (ku_Bao x) \<and> Config (ku_Bao y) = Config (ku_Bao x)"
      then show "progressed k S cfg T ident (p\<lparr>pg_granted := pg_granted p \<or> (pg_trusted p \<and> all_named T p)\<rparr>) y"
        using assms(5) False \<open>\<not> pg_granted p\<close>
        by (auto simp: progressed_def in_order_def all_named_def instance_up_def trust_up_def entity_stored_def)
    qed
  next
    case True
    have prep: "prepared k S cfg T x"
      using s True ord assms(5)
      by (auto simp: prepared_def stands_def progressed_def in_order_def instance_up_def trust_up_def same_trust_def)
    have stored: "all_stored k ident (set (tn_Entities T)) (set (tn_Entities T)) x"
      using assms(5) True s by (simp add: all_stored_def progressed_def stands_def all_named_def)
    note pass = binding_moves [OF assms(1,2,4) prep stored assms(6), unfolded service_handle_def request.case]
    show ?thesis
    proof (rule moves_mono [OF moves_conj [OF frame pass]], elim conjE, drule keep)
      fix y
      assume "tenant_granted k cfg T ident y" and "stands k S cfg T y \<and> ku_Instance y = ku_Instance x \<and> ku_Trust y = ku_Trust x \<and>
        ku_Entity y = ku_Entity x \<and> HasMount (ku_Bao y) = HasMount (ku_Bao x) \<and> Config (ku_Bao y) = Config (ku_Bao x)"
      then show "progressed k S cfg T ident (p\<lparr>pg_granted := pg_granted p \<or> (pg_trusted p \<and> all_named T p)\<rparr>) y"
        using assms(5) True
        by (auto simp: progressed_def in_order_def all_named_def instance_up_def trust_up_def entity_stored_def)
    qed
  qed
qed

section \<open>A queue follows the progress\<close>

lemma progress_step:
  assumes "lawful_conditions k" "service_serves v S" "service_quiet v env S" "declared k v env x0 T ident"
    and "inj_on (\<lambda>e. jr_Name (tenant_role T ident e)) (set (tn_Entities T))"
    and "progressed k S cfg T ident p x" "q \<in> set (tenant_queue T)"
  shows "moves v x (service_handle k env S q) (\<lambda>_. progressed k S cfg T ident (advance T q p))"
proof -
  from assms(7) consider "q = ReqInstance [] (om_Name (oi_Meta (tn_Instance T)))"
    | "q = ReqProjectEntity (om_Namespace (pe_Meta (tn_ProjectEntity T))) (om_Name (pe_Meta (tn_ProjectEntity T)))"
    | "q = ReqTrust (om_Namespace (ct_Meta (tn_Trust T))) (om_Name (ct_Meta (tn_Trust T)))"
    | e where "e \<in> set (tn_Entities T)" "q = ReqEntity (om_Namespace (ce_Meta e)) (om_Name (ce_Meta e))"
    | "q = ReqBinding (om_Namespace (pb_Meta (tn_Binding T))) (om_Name (pb_Meta (tn_Binding T)))"
    by (auto simp: tenant_queue_def)
  then show ?thesis
  proof cases
    case 1
    with progress_instance [OF assms(1,2,4,6)] show ?thesis by (simp add: service_handle_def advance_def)
  next
    case 2
    with progress_project_entity [OF assms(1,2,4,6)] show ?thesis by (simp add: service_handle_def advance_def)
  next
    case 3
    with progress_trust [OF assms(1,2,4,6)] show ?thesis by (simp add: service_handle_def advance_def)
  next
    case 4
    with progress_entity [OF assms(1,2,3,4,6)] show ?thesis by (simp add: service_handle_def)
  next
    case 5
    with progress_binding [OF assms(1,2,3,4,6,5)] show ?thesis by (simp add: service_handle_def advance_def)
  qed
qed

lemma progress_queue:
  assumes "lawful_conditions k" "service_serves v S" "service_quiet v env S" "declared k v env x0 T ident"
    and "inj_on (\<lambda>e. jr_Name (tenant_role T ident e)) (set (tn_Entities T))"
  shows "progressed k S cfg T ident p x \<Longrightarrow> set qs \<subseteq> set (tenant_queue T) \<Longrightarrow>
    moves v x (run_queue (service_handle k env S) qs) (\<lambda>_. progressed k S cfg T ident (fold (advance T) qs p))"
proof (induction qs arbitrary: p x)
  case Nil
  then show ?case by (simp add: moves_return)
next
  case (Cons q qs)
  have "moves v x (service_handle k env S q) (\<lambda>_. progressed k S cfg T ident (advance T q p))"
    using Cons.prems by (intro progress_step [OF assms]) simp_all
  then show ?case
    by (rule moves_queue_Cons) (use Cons in simp)
qed

lemma progressed_start:
  assumes "declared k v env x T ident" "service_configured k x S cfg"
  shows "progressed k S cfg T ident at_start x"
  using declared_stands [OF assms] by (simp add: progressed_def at_start_def in_order_def)

section \<open>Schedules that suffice\<close>

lemma advance_keeps:
  "pg_up p \<Longrightarrow> pg_up (advance T q p)" "pg_trusted p \<Longrightarrow> pg_trusted (advance T q p)"
  "n \<in> pg_named p \<Longrightarrow> n \<in> pg_named (advance T q p)" "pg_granted p \<Longrightarrow> pg_granted (advance T q p)"
  by (cases q; simp add: advance_def)+

lemma fold_keeps: "(\<And>q p. P p \<Longrightarrow> P (f q p)) \<Longrightarrow> P p \<Longrightarrow> P (fold f qs p)"
  by (induction qs arbitrary: p) simp_all

text \<open>A request that is somewhere in the queue brings what it brings when what it needs is there from
  the start, and nothing takes either away.\<close>

lemma fold_reaches:
  assumes "q \<in> set qs" "\<And>q p. P p \<Longrightarrow> P (f q p)" "\<And>q p. R p \<Longrightarrow> R (f q p)" "\<And>p. R p \<Longrightarrow> P (f q p)" "R p"
  shows "P (fold f qs p)"
proof -
  from assms(1) obtain as bs where qs: "qs = as @ q # bs" by (meson split_list)
  have "R (fold f as p)" by (rule fold_keeps [where P = R, OF assms(3,5)])
  then have "P (f q (fold f as p))" by (rule assms(4))
  from fold_keeps [where P = P and f = f and qs = bs, OF assms(2) this] show ?thesis by (simp add: qs)
qed

definition four_stages :: "tenant \<Rightarrow> request list \<Rightarrow> bool" where
  "four_stages T qs \<longleftrightarrow> (\<exists>q1 q2 q3 q4. qs = q1 @ q2 @ q3 @ q4 \<and>
     ReqInstance [] (om_Name (oi_Meta (tn_Instance T))) \<in> set q1 \<and>
     ReqTrust (om_Namespace (ct_Meta (tn_Trust T))) (om_Name (ct_Meta (tn_Trust T))) \<in> set q2 \<and>
     (\<forall>e \<in> set (tn_Entities T). ReqEntity (om_Namespace (ce_Meta e)) (om_Name (ce_Meta e)) \<in> set q3) \<and>
     ReqBinding (om_Namespace (pb_Meta (tn_Binding T))) (om_Name (pb_Meta (tn_Binding T))) \<in> set q4)"

lemma four_stages_grant:
  assumes "four_stages T qs"
  shows "pg_granted (fold (advance T) qs p)"
proof -
  from assms obtain q1 q2 q3 q4 where qs: "qs = q1 @ q2 @ q3 @ q4"
    and q: "ReqInstance [] (om_Name (oi_Meta (tn_Instance T))) \<in> set q1"
      "ReqTrust (om_Namespace (ct_Meta (tn_Trust T))) (om_Name (ct_Meta (tn_Trust T))) \<in> set q2"
      "\<forall>e \<in> set (tn_Entities T). ReqEntity (om_Namespace (ce_Meta e)) (om_Name (ce_Meta e)) \<in> set q3"
      "ReqBinding (om_Namespace (pb_Meta (tn_Binding T))) (om_Name (pb_Meta (tn_Binding T))) \<in> set q4"
    unfolding four_stages_def by blast
  let ?f = "advance T"
  have 1: "pg_up (fold ?f q1 p)"
    by (rule fold_reaches [OF q(1), where R = "\<lambda>_. True" and P = pg_up]) (simp_all add: advance_keeps, simp add: advance_def)
  have 2: "pg_trusted (fold ?f q2 (fold ?f q1 p))"
    by (rule fold_reaches [OF q(2), where R = pg_up and P = pg_trusted]) (simp_all add: advance_keeps 1, simp add: advance_def)
  have 3: "om_Name (ce_Meta e) \<in> pg_named (fold ?f q3 (fold ?f q2 (fold ?f q1 p)))" if "e \<in> set (tn_Entities T)" for e
    by (rule fold_reaches [OF bspec [OF q(3) that], where R = pg_trusted and P = "\<lambda>p. om_Name (ce_Meta e) \<in> pg_named p"])
      (simp_all add: advance_keeps 2, simp add: advance_def)
  have trusted: "pg_trusted (fold ?f q3 (fold ?f q2 (fold ?f q1 p)))"
    by (rule fold_keeps) (simp_all add: advance_keeps 2)
  have "pg_granted (fold ?f q4 (fold ?f q3 (fold ?f q2 (fold ?f q1 p))))"
    by (rule fold_reaches [OF q(4), where R = "\<lambda>p. pg_trusted p \<and> all_named T p" and P = pg_granted])
      (use 3 trusted in \<open>auto simp: advance_keeps all_named_def\<close>, simp add: advance_def all_named_def)
  then show ?thesis by (simp add: qs)
qed

lemma rounds_four_stages:
  assumes "list_all (\<lambda>r. set r = set (tenant_queue T)) [r1, r2, r3, r4]"
  shows "four_stages T (r1 @ r2 @ r3 @ r4)"
  unfolding four_stages_def
proof (intro exI conjI ballI)
  have sets: "set r1 = set (tenant_queue T)" "set r2 = set (tenant_queue T)" "set r3 = set (tenant_queue T)"
    "set r4 = set (tenant_queue T)"
    using assms by simp_all
  show "ReqInstance [] (om_Name (oi_Meta (tn_Instance T))) \<in> set r1"
    "ReqTrust (om_Namespace (ct_Meta (tn_Trust T))) (om_Name (ct_Meta (tn_Trust T))) \<in> set r2"
    "ReqBinding (om_Namespace (pb_Meta (tn_Binding T))) (om_Name (pb_Meta (tn_Binding T))) \<in> set r4"
    unfolding sets by (simp_all add: tenant_queue_def)
  show "ReqEntity (om_Namespace (ce_Meta e)) (om_Name (ce_Meta e)) \<in> set r3" if "e \<in> set (tn_Entities T)" for e
    unfolding sets using that by (simp add: tenant_queue_def)
qed (rule refl)

section \<open>Properties\<close>

text \<open>C3. Progress in any order: on servers that answer and with quiet reads, any queue of passes over
  the objects of a tenant, whatever their order and however often each runs, leaves the tenant at
  least where the abstract machine \<open>advance\<close> is after the same requests. What a pass reached no
  later pass of the tenant takes back: the instance stays reachable, the trust and its mount stay
  configured, resolved identities stay resolved, a granted binding stays granted.\<close>

theorem tenant_progress:
  assumes "lawful_conditions k" and "service_serves v S" and "service_quiet v env S"
    and "service_configured k (v w) S cfg" and "declared k v env (v w) T ident"
    and "inj_on (\<lambda>e. jr_Name (tenant_role T ident e)) (set (tn_Entities T))"
    and "set qs \<subseteq> set (tenant_queue T)"
  shows "progressed k S cfg T ident (fold (advance T) qs at_start)
    (v (run_world (run_queue (service_handle k env S) qs) w))"
  by (rule moves_run [OF progress_queue [OF assms(1,2,3,5,6) progressed_start [OF assms(5,4)] assms(7)]]) simp

text \<open>C2. Convergence in any order: whatever the statuses are at the start, a queue that has a pass over the instance, later one over the
  trust, later one over every entity and later one over the binding, with any other passes of the
  tenant in between and afterwards, ends with the binding Ready and exactly the right mount, trust
  and roles in OpenBao. So four rounds over the tenant's objects are enough, in whatever order
  each round takes them.\<close>

theorem tenant_converges_any_order:
  assumes "lawful_conditions k" and "service_serves v S" and "service_quiet v env S"
    and "service_configured k (v w) S cfg" and "declared k v env (v w) T ident"
    and "inj_on (\<lambda>e. jr_Name (tenant_role T ident e)) (set (tn_Entities T))"
    and "set qs \<subseteq> set (tenant_queue T)" and "four_stages T qs"
  shows "tenant_granted k cfg T ident (v (run_world (run_queue (service_handle k env S) qs) w))"
proof -
  have "moves v (v w) (run_queue (service_handle k env S) qs) (\<lambda>_. tenant_granted k cfg T ident)"
    by (rule moves_mono [OF progress_queue [OF assms(1,2,3,5,6) progressed_start [OF assms(5,4)] assms(7)]])
       (simp add: progressed_def four_stages_grant [OF assms(8)])
  then show ?thesis by (rule moves_run) simp
qed

end
