(* ===== verification/Collisions.thy ===== *)
theory Collisions
  imports Tenant
begin

text \<open>
  Where generated names meet: both name functions join their arguments with dashes before they
  hash, so different objects can share a name, and what one of them does in OpenBao the other
  one suffers. For bindings the passes over two that share a role name are run forward on servers
  that answer.
\<close>

section \<open>Passes over bindings\<close>

lemma write_roles_policies [simp]:
  "fk_Policies (write_roles rs f) = fk_Policies f"
  "fk_PoliciesUnknown (write_roles rs f) = fk_PoliciesUnknown f"
  by (induction rs f rule: write_roles.induct) (simp_all add: Fake_EnsureJWTRole_frame)

text \<open>A pass over one binding leaves the references of another as ready as they were.\<close>

lemma reference_ready_pass [simp]:
  "reference_ready k (x\<lparr>ku_Binding := bs, ku_Bao := write_roles rs (ku_Bao x)\<rparr>) b ref ident t =
   reference_ready k x b ref ident t"
  by (simp add: reference_ready_def HasMount_def)

lemma written_role:
  "HasMount f m \<Longrightarrow> Role (write_roles [(m, role)] f) m (jr_Name role) = Some role"
  by (simp add: fake_defs)

text \<open>The role a binding asks for: it grants the policy of the binding to the identity of the entity.\<close>

lemma reference_role_sel [simp]:
  "jr_TokenPolicies (reference_role b ref ident t) = [pbs_PolicyName (pb_Spec b)]"
  "jr_BoundSubject (reference_role b ref ident t) = sai_Subject ident"
  by (simp_all add: reference_role_def PB_role_def)

lemma reference_role_shared:
  assumes "om_Namespace (pb_Meta b2) = om_Namespace (pb_Meta b1)"
    and "om_Name (pb_Meta b2) = om_Name (pb_Meta b1) @ ''-'' @ x" "lor_Name ref1 = x @ ''-'' @ lor_Name ref2"
  shows "jr_Name (reference_role b1 ref1 id1 t1) = jr_Name (reference_role b2 ref2 id2 t2)"
  using assms by (simp add: reference_role_def PB_role_def)

text \<open>A pass over a binding with one reference.\<close>

lemma PB_pass_single:
  assumes "serves_platform v (br_PlatformCluster R)" "serves_onboarding v (br_OnboardingCluster R)"
    and "serves_factory v (br_ClientFactory R)" "lawful_conditions k" "configured k x (br_ProviderName R) cfg"
    and "ku_Binding x (ns, nm) = Some b" "key (pb_Meta b) = (ns, nm)" "\<not> deleting (pb_Meta b)"
    and "pbs_ControlPlaneEntityRefs (pb_Spec b) = [ref]" "reference_ready k x b ref ident t"
  shows "moves v x (PB_Reconcile k R ns nm) (\<lambda>r y. \<exists>b'. ku_Binding y = (ku_Binding x)((ns, nm) \<mapsto> b') \<and>
     isConditionTrue k (pbst_Conditions (pb_Status b')) ConditionReady \<and>
     pbst_Roles (pb_Status b') = published_roles b [(ref, ident, t)] \<and>
     Role (ku_Bao y) (ctst_AuthMountPath (ct_Status t)) (jr_Name (reference_role b ref ident t)) =
       Some (reference_role b ref ident t))"
proof -
  have "HasMount (ku_Bao x) (ctst_AuthMountPath (ct_Status t))" using assms(10) by (simp add: reference_ready_def)
  note role = written_role [OF this, of "reference_role b ref ident t"]
  have refs: "pbs_ControlPlaneEntityRefs (pb_Spec b) = map fst [(ref, ident, t)]" using assms(9) by simp
  have ready: "list_all (\<lambda>(ref, ident, t). reference_ready k x b ref ident t) [(ref, ident, t)]" using assms(10) by simp
  show ?thesis
    by (rule moves_mono [OF PB_pass_kept [OF assms(1-8) refs ready]])
       (use role in \<open>auto simp: binding_roles_def\<close>)
qed

section \<open>Properties\<close>

text \<open>A status claims a role for a reference.\<close>

definition claims :: "klib \<Rightarrow> kube \<Rightarrow> string \<times> string \<Rightarrow> LocalObjectReference \<Rightarrow> string \<Rightarrow> string \<Rightarrow> bool" where
  "claims k x a ref m n \<longleftrightarrow> (\<exists>b. ku_Binding x a = Some b \<and>
     isConditionTrue k (pbst_Conditions (pb_Status b)) ConditionReady \<and>
     (\<exists>rs \<in> set (pbst_Roles (pb_Status b)). pbr_ControlPlaneEntityRef rs = ref \<and> pbr_Ready rs \<and>
        pbr_AuthMountPath rs = m \<and> pbr_RoleName rs = n))"

text \<open>C39. Two bindings of one namespace can take one role: a binding \<open>b\<close> that refers to an entity
  \<open>x-e\<close> and a binding \<open>b-x\<close> that refers to an entity \<open>e\<close> of the same mount. After a pass over
  each, on servers that answer, both are published as Ready and both statuses claim the same role
  under the same mount; what OpenBao has there is the role of the second, which grants the second
  binding's policy to the second entity, and the grant of the first is gone.\<close>

theorem binding_role_collision:
  assumes "lawful_conditions k" and "service_serves v S" and "service_configured k (v w) S cfg"
    and "ku_Binding (v w) (ns, nm) = Some b1" and "key (pb_Meta b1) = (ns, nm)" and "\<not> deleting (pb_Meta b1)"
    and "ku_Binding (v w) (ns, nm @ ''-'' @ x) = Some b2" and "key (pb_Meta b2) = (ns, nm @ ''-'' @ x)"
    and "\<not> deleting (pb_Meta b2)"
    and "pbs_ControlPlaneEntityRefs (pb_Spec b1) = map fst rs" and "(ref1, id1, t1) \<in> set rs"
    and "list_all (\<lambda>(ref, ident, t). reference_ready k (v w) b1 ref ident t) rs"
    and "pbs_ControlPlaneEntityRefs (pb_Spec b2) = [ref2]" and "reference_ready k (v w) b2 ref2 id2 t2"
    and "lor_Name ref1 = x @ ''-'' @ lor_Name ref2"
    and "ctst_AuthMountPath (ct_Status t1) = m" and "ctst_AuthMountPath (ct_Status t2) = m"
    and "y = v (run_world (run_queue (service_handle k env S) [ReqBinding ns nm, ReqBinding ns (nm @ ''-'' @ x)]) w)"
  shows "\<exists>n role. claims k y (ns, nm) ref1 m n \<and> claims k y (ns, nm @ ''-'' @ x) ref2 m n \<and>
    Role (ku_Bao y) m n = Some role \<and> jr_Name role = n \<and> jr_TokenPolicies role = [pbs_PolicyName (pb_Spec b2)] \<and>
    jr_BoundSubject role = sai_Subject id2"
proof -
  let ?R = "sv_Binding S" and ?n = "jr_Name (reference_role b2 ref2 id2 t2)" and ?nm2 = "nm @ ''-'' @ x"
  have serves: "serves_platform v (br_PlatformCluster ?R)" "serves_onboarding v (br_OnboardingCluster ?R)"
    "serves_factory v (br_ClientFactory ?R)" and cfg: "configured k (v w) (br_ProviderName ?R) cfg"
    using assms(2,3) by (simp_all add: service_serves_def service_configured_def)
  have names: "jr_Name (reference_role b1 ref1 id1 t1) = ?n"
    by (rule reference_role_shared) (use assms(5,8,15) in \<open>auto simp: key_def\<close>)
  let ?after = "\<lambda>y. \<exists>b1' b2'. ku_Binding y = (ku_Binding (v w))((ns, nm) \<mapsto> b1', (ns, ?nm2) \<mapsto> b2') \<and>
      isConditionTrue k (pbst_Conditions (pb_Status b1')) ConditionReady \<and> pbst_Roles (pb_Status b1') = published_roles b1 rs \<and>
      isConditionTrue k (pbst_Conditions (pb_Status b2')) ConditionReady \<and>
      pbst_Roles (pb_Status b2') = published_roles b2 [(ref2, id2, t2)] \<and>
      Role (ku_Bao y) m ?n = Some (reference_role b2 ref2 id2 t2)"
  have second: "moves v z (PB_Reconcile k ?R ns ?nm2) (\<lambda>r. ?after)"
    if z: "z = (v w)\<lparr>ku_Binding := (ku_Binding (v w))((ns, nm) \<mapsto> b1'), ku_Bao := write_roles (binding_roles b1 rs) (ku_Bao (v w))\<rparr>"
      "isConditionTrue k (pbst_Conditions (pb_Status b1')) ConditionReady" "pbst_Roles (pb_Status b1') = published_roles b1 rs"
    for z b1'
  proof -
    have start: "configured k z (br_ProviderName ?R) cfg" "ku_Binding z (ns, ?nm2) = Some b2"
      "reference_ready k z b2 ref2 id2 t2"
      using cfg assms(7,14) by (simp_all add: z(1) configured_def)
    show ?thesis
      by (rule moves_mono [OF PB_pass_single [OF serves assms(1) start(1,2) assms(8,9,13) start(3)]], elim exE,
          rule exI [of _ b1']) (use z assms(17) in auto)
  qed
  have "moves v (v w) (run_queue (service_handle k env S) [ReqBinding ns nm, ReqBinding ns ?nm2]) (\<lambda>_. ?after)"
    by (rule moves_queue_Cons, simp only: service_handle_def request.case,
        rule PB_pass_kept [OF serves assms(1) cfg assms(4,5,6,10,12)], elim exE conjE, hypsubst,
        rule moves_queue_single, simp only: service_handle_def request.case, rule second, rule refl, assumption+)
  from moves_run [OF this refl] have "?after y" unfolding assms(18) .
  then obtain b1' b2' where after: "ku_Binding y = (ku_Binding (v w))((ns, nm) \<mapsto> b1', (ns, ?nm2) \<mapsto> b2')"
      "isConditionTrue k (pbst_Conditions (pb_Status b1')) ConditionReady" "pbst_Roles (pb_Status b1') = published_roles b1 rs"
      "isConditionTrue k (pbst_Conditions (pb_Status b2')) ConditionReady"
      "pbst_Roles (pb_Status b2') = published_roles b2 [(ref2, id2, t2)]"
      "Role (ku_Bao y) m ?n = Some (reference_role b2 ref2 id2 t2)" by blast
  have "claims k y (ns, nm) ref1 m ?n"
    unfolding claims_def using after(1-3) assms(11,16) names
    by (intro exI [of _ b1']) (auto simp: published_roles_def intro!: bexI [of _ "(ref1, id1, t1)"])
  moreover have "claims k y (ns, ?nm2) ref2 m ?n"
    unfolding claims_def using after(1,4,5) assms(17) by (simp add: published_roles_def)
  ultimately show ?thesis using after(6) by (intro exI conjI) auto
qed

text \<open>Two trusts can share a mount: the trust of ControlPlane \<open>c\<close> in namespace \<open>n-x\<close> and the
  trust of ControlPlane \<open>x-c\<close> in namespace \<open>n\<close> (or two trusts of one ControlPlane) get the
  same mount path, so that deleting either tears down the other's mount and roles.\<close>

theorem trust_mount_collision:
  assumes "om_Namespace (ct_Meta t1) = om_Namespace (ct_Meta t2) @ ''-'' @ x"
    and "lor_Name (cts_ControlPlaneRef (ct_Spec t2)) = x @ ''-'' @ lor_Name (cts_ControlPlaneRef (ct_Spec t1))"
  shows "CT_mountPath cfg inst t1 = CT_mountPath cfg inst t2 \<and>
    \<not> HasMount (snd (Fake_DeleteAuthMount (CT_mountPath cfg inst t1) f)) (CT_mountPath cfg inst t2)"
  using assms AuthMountPath_join [of _ "om_Namespace (ct_Meta t2)" x "lor_Name (cts_ControlPlaneRef (ct_Spec t1))"]
  by (simp add: CT_mountPath_def fake_defs)

end
