(* ===== verification/TenantSample.thy ===== *)
theory TenantSample
  imports Teardown Schedule Collisions Token Witnesses
begin

text \<open>
  A world that is the view itself: the stored objects and the in-memory OpenBao, with a cluster,
  a client and a factory that act on it as the laws ask, and the convergence and the teardown of a tenant there, a trust
  that moves and two bindings that share a role.
\<close>

section \<open>Servers on the view\<close>

definition read_from :: "(kube \<Rightarrow> 'a option) \<Rightarrow> (kube, 'a) oper" where
  "read_from get x = (case get x of Some o' \<Rightarrow> (Inr o', x) | None \<Rightarrow> (Inl not_found, x))"

definition write_to :: "(kube \<Rightarrow> 'a option) \<Rightarrow> 'b \<Rightarrow> (kube \<Rightarrow> kube) \<Rightarrow> (kube, 'b) oper" where
  "write_to get r upd x = (case get x of Some _ \<Rightarrow> (Inr r, upd x) | None \<Rightarrow> (Inl not_found, x))"

text \<open>The store has one name for trusts.\<close>

definition store_names :: "(string \<times> string) list" where
  "store_names = [(''ns'', ''t'')]"

definition listed :: "string option \<Rightarrow> (string \<times> string \<Rightarrow> 'a option) \<Rightarrow> 'a list" where
  "listed sel m = List.map_filter m (filter (\<lambda>a. sel = None \<or> sel = Some (fst a)) store_names)"

definition store_cluster :: "string \<Rightarrow> kube Cluster" where
  "store_cluster token = \<lparr>
     kc_GetOpenBaoInstance = (\<lambda>ns nm. read_from (\<lambda>x. ku_Instance x nm)),
     kc_GetServiceConfig = (\<lambda>ns nm. read_from (\<lambda>x. ku_Config x nm)),
     kc_GetProjectEntity = (\<lambda>ns nm. read_from (\<lambda>x. ku_ProjectEntity x (ns, nm))),
     kc_GetControlPlaneTrust = (\<lambda>ns nm. read_from (\<lambda>x. ku_Trust x (ns, nm))),
     kc_GetControlPlaneEntity = (\<lambda>ns nm. read_from (\<lambda>x. ku_Entity x (ns, nm))),
     kc_GetPolicyBinding = (\<lambda>ns nm. read_from (\<lambda>x. ku_Binding x (ns, nm))),
     kc_GetControlPlane = (\<lambda>ns nm. read_from (\<lambda>x. ku_ControlPlane x (ns, nm))),
     kc_GetSecret = (\<lambda>ns nm w. (Inl not_found, w)),
     kc_ListControlPlaneTrusts = (\<lambda>sel x. (Inr (listed sel (ku_Trust x)), x)),
     kc_ListControlPlaneEntities = (\<lambda>sel w. (Inr [], w)),
     kc_ListPolicyBindings = (\<lambda>sel w. (Inr [], w)),
     kc_UpdateControlPlaneTrust = (\<lambda>t. write_to (\<lambda>x. ku_Trust x (key (ct_Meta t))) t (put_trust t)),
     kc_UpdatePolicyBinding = (\<lambda>b. write_to (\<lambda>x. ku_Binding x (key (pb_Meta b))) b (put_binding b)),
     kc_StatusOpenBaoInstance = (\<lambda>i. write_to (\<lambda>x. ku_Instance x (om_Name (oi_Meta i))) ()
       (set_instance (om_Name (oi_Meta i)) (oi_Status i))),
     kc_StatusProjectEntity = (\<lambda>p. write_to (\<lambda>x. ku_ProjectEntity x (key (pe_Meta p))) ()
       (set_project_entity (key (pe_Meta p)) (pe_Status p))),
     kc_StatusControlPlaneTrust = (\<lambda>t. write_to (\<lambda>x. ku_Trust x (key (ct_Meta t))) ()
       (set_trust (key (ct_Meta t)) (ct_Status t))),
     kc_StatusControlPlaneEntity = (\<lambda>e. write_to (\<lambda>x. ku_Entity x (key (ce_Meta e))) ()
       (set_entity (key (ce_Meta e)) (ce_Status e))),
     kc_StatusPolicyBinding = (\<lambda>b. write_to (\<lambda>x. ku_Binding x (key (pb_Meta b))) ()
       (set_binding (key (pb_Meta b)) (pb_Status b))),
     kc_NewForConfig = Inr \<lparr>cs_GetServiceAccount = (\<lambda>ns nm w. (Inr (), w)),
       cs_CreateToken = (\<lambda>ns nm tr w. (Inr token, w))\<rparr>\<rparr>"

definition lifted :: "(FakeClient, 'a) oper \<Rightarrow> (kube, 'a) oper" where
  "lifted f x = (fst (f (ku_Bao x)), in_bao (\<lambda>f'. snd (f f')) x)"

definition store_client :: "kube Client" where
  "store_client = \<lparr>cl_Health = lifted Fake_Health, cl_EnsureEntity = (\<lambda>n md. lifted (Fake_EnsureEntity n md)),
     cl_EnsureJWTAuthMount = (\<lambda>p. lifted (Fake_EnsureJWTAuthMount p)),
     cl_ConfigureJWTTrust = (\<lambda>p c. lifted (Fake_ConfigureJWTTrust p c)),
     cl_EnsureJWTRole = (\<lambda>m r. lifted (Fake_EnsureJWTRole m r)),
     cl_DeleteJWTRole = (\<lambda>m n. lifted (Fake_DeleteJWTRole m n)),
     cl_DeleteAuthMount = (\<lambda>p. lifted (Fake_DeleteAuthMount p)),
     cl_PolicyExists = (\<lambda>n. lifted (Fake_PolicyExists n))\<rparr>"

definition store_factory :: "kube OpenBaoClientFactory" where
  "store_factory inst x = (Inr store_client, x)"

lemma kept_status: "\<exists>st. (t :: ControlPlaneTrust) = t\<lparr>ct_Status := st\<rparr>" "\<exists>st. (b :: PolicyBinding) = b\<lparr>pb_Status := st\<rparr>"
  by (rule exI [of _ "ct_Status t"], simp) (rule exI [of _ "pb_Status b"], simp)

lemma store_serves:
  "serves_platform (\<lambda>x. x) (store_cluster tok)" "serves_onboarding (\<lambda>x. x) (store_cluster tok)"
  "serves_bao (\<lambda>x. x) store_client" "serves_factory (\<lambda>x. x) store_factory"
proof -
  show "serves_platform (\<lambda>x. x) (store_cluster tok)"
    by (auto simp: serves_platform_def steps_def store_cluster_def read_from_def write_to_def)
  show "serves_onboarding (\<lambda>x. x) (store_cluster tok)"
    by (auto simp: serves_onboarding_def steps_def store_cluster_def read_from_def write_to_def
        intro: kept_status)
  show bao: "serves_bao (\<lambda>x. x) store_client"
    by (simp add: serves_bao_def on_bao_def steps_def store_client_def lifted_def)
  show "serves_factory (\<lambda>x. x) store_factory"
    using bao by (auto simp: serves_factory_def steps_def store_factory_def)
qed

section \<open>A tenant\<close>

text \<open>The token carries the subject \<open>s\<close>.\<close>

abbreviation store_token :: string where
  "store_token \<equiv> issued_token ''h'' ''s'' [] ''s'' []"

definition store_service :: "kube service" where
  "store_service =
     (let c = store_cluster store_token
      in \<lparr>sv_Instance = \<lparr>ir_PlatformCluster = c, ir_ProviderName = ''prov'', ir_ClientFactory = store_factory\<rparr>,
          sv_ProjectEntity = \<lparr>er_PlatformCluster = c, er_OnboardingCluster = c, er_ProviderName = ''prov'',
            er_ClientFactory = store_factory\<rparr>,
          sv_Trust = \<lparr>tr_PlatformCluster = c, tr_OnboardingCluster = c, tr_ProviderName = ''prov'',
            tr_ClientFactory = store_factory\<rparr>,
          sv_Entity = \<lparr>nr_PlatformCluster = c, nr_OnboardingCluster = c, nr_ProviderName = ''prov''\<rparr>,
          sv_Binding = \<lparr>br_PlatformCluster = c, br_OnboardingCluster = c, br_ProviderName = ''prov'',
            br_ClientFactory = store_factory\<rparr>\<rparr>)"

definition store_env :: "kube env" where
  "store_env = \<lparr>env_Getenv = (\<lambda>_. ''pns''), env_AddToScheme = None,
     env_WaitForClusterAccess = (\<lambda>_ w. (Inr (store_cluster store_token), w)), env_bao = undefined\<rparr>"

text \<open>Objects as created: no status.\<close>

definition created_instance :: OpenBaoInstance where
  "created_instance = sample_instance\<lparr>oi_Status := \<lparr>oist_ObservedGeneration = 0, oist_Version = [],
     oist_Initialized = None, oist_Sealed = None, oist_LastProbeTime = None, oist_Conditions = []\<rparr>\<rparr>"

definition created_entity :: ControlPlaneEntity where
  "created_entity = sample_entity\<lparr>ce_Status := \<lparr>cest_ObservedGeneration = 0, cest_Identity = None,
     cest_IdentityID = [], cest_Conditions = []\<rparr>\<rparr>"

definition sample_tenant :: tenant where
  "sample_tenant = \<lparr>tn_Instance = created_instance, tn_ProjectEntity = sample_project_entity,
     tn_Trust = sample_trust, tn_ControlPlane = sample_control_plane, tn_Entities = [created_entity],
     tn_Binding = sample_binding\<rparr>"

definition sample_kube :: kube where
  "sample_kube = \<lparr>ku_Instance = [''bao'' \<mapsto> created_instance], ku_Config = [''prov'' \<mapsto> sample_config],
     ku_ProjectEntity = [(''p'', ''pe'') \<mapsto> sample_project_entity], ku_Trust = [(''ns'', ''t'') \<mapsto> sample_trust],
     ku_Entity = [(''ns'', ''e'') \<mapsto> created_entity], ku_Binding = [(''ns'', ''b'') \<mapsto> sample_binding],
     ku_ControlPlane = [(''ns'', ''cp'') \<mapsto> sample_control_plane], ku_Bao = sample_world\<rparr>"

definition sample_ident :: ServiceAccountIdentity where
  "sample_ident = \<lparr>sai_Alias = [], sai_Subject = ''s'', sai_Issuer = [], sai_Audiences = []\<rparr>"

lemma store_claims: "parseServiceAccountJWT je store_token = Inr sample_ident"
  by (simp add: token_reading Let_def plain_char_def sample_ident_def normalizeAudiences_def)

lemma store_service_serves: "service_serves (\<lambda>x. x) store_service"
  by (simp add: service_serves_def store_service_def store_serves Let_def)

lemma store_configured: "service_configured ref_klib sample_kube store_service sample_config"
  by (simp add: service_configured_def configured_def store_service_def sample_kube_def Let_def)

lemma store_identity: "serves_identity ref_klib (\<lambda>x. x) store_env cp ''sans'' ''sa'' aud sample_ident"
  unfolding serves_identity_def
  by (simp add: store_env_def store_cluster_def steps_def store_claims)

lemma sample_declared: "declared ref_klib (\<lambda>x. x) store_env sample_kube sample_tenant (\<lambda>_. sample_ident)"
  by (simp add: declared_def Let_def sample_tenant_def sample_kube_def created_instance_def created_entity_def
      key_def deleting_def time_IsZero_def store_identity healthy_def)
    (simp add: sample_world_def NewFakeClient_def map_read_def sample_ident_def sample_project_entity_def
      sample_instance_def sample_meta_def)

lemma tenant_converges_witness:
  "tenant_granted ref_klib sample_config sample_tenant (\<lambda>_. sample_ident)
     (run_world (run_queue (service_handle ref_klib store_env store_service) (tenant_queue sample_tenant)) sample_kube)"
  by (rule tenant_converges [OF lawful_conditions_ref store_service_serves store_configured sample_declared])
     (simp add: sample_tenant_def)

section \<open>The wrong order, four times\<close>

lemma store_quiet: "service_quiet (\<lambda>x. x) store_env store_service"
  by (auto simp: service_quiet_def access_quiet_def reads_quietly_def unmoved_def answers_def store_env_def
      store_service_def store_cluster_def read_from_def Let_def split: option.splits)

definition sample_rounds :: "request list" where
  "sample_rounds = (let r = rev (tenant_queue sample_tenant) in r @ r @ r @ r)"

lemma sample_rounds_stages:
  "set sample_rounds \<subseteq> set (tenant_queue sample_tenant)" "four_stages sample_tenant sample_rounds"
proof -
  show "set sample_rounds \<subseteq> set (tenant_queue sample_tenant)" by (simp add: sample_rounds_def Let_def)
  show "four_stages sample_tenant sample_rounds"
    unfolding sample_rounds_def Let_def by (rule rounds_four_stages) simp
qed

lemma sample_names: "inj_on (\<lambda>e. jr_Name (tenant_role sample_tenant f e)) (set (tn_Entities sample_tenant))"
  by (simp add: sample_tenant_def)

lemma tenant_converges_any_order_witness:
  "tenant_granted ref_klib sample_config sample_tenant (\<lambda>_. sample_ident)
     (run_world (run_queue (service_handle ref_klib store_env store_service) sample_rounds) sample_kube)"
  by (rule tenant_converges_any_order [OF lawful_conditions_ref store_service_serves store_quiet store_configured
        sample_declared sample_names sample_rounds_stages])

text \<open>One reversed round brings the tenant as far as a reachable instance, two as far as the trust.\<close>

lemma tenant_progress_witness:
  "instance_up ref_klib sample_tenant (run_world (run_queue (service_handle ref_klib store_env store_service)
     (rev (tenant_queue sample_tenant))) sample_kube) \<and>
   trust_up ref_klib sample_config sample_tenant (run_world (run_queue (service_handle ref_klib store_env store_service)
     (rev (tenant_queue sample_tenant) @ rev (tenant_queue sample_tenant))) sample_kube)"
proof -
  have goes: "progressed ref_klib store_service sample_config sample_tenant (\<lambda>_. sample_ident)
      (fold (advance sample_tenant) qs at_start)
      (run_world (run_queue (service_handle ref_klib store_env store_service) qs) sample_kube)"
    if "set qs \<subseteq> set (tenant_queue sample_tenant)" for qs
    by (rule tenant_progress [OF lawful_conditions_ref store_service_serves store_quiet store_configured
        sample_declared sample_names that])
  have "pg_up (fold (advance sample_tenant) (rev (tenant_queue sample_tenant)) at_start)"
    "pg_trusted (fold (advance sample_tenant) (rev (tenant_queue sample_tenant) @ rev (tenant_queue sample_tenant)) at_start)"
    by (simp_all add: tenant_queue_def sample_tenant_def advance_def at_start_def)
  with goes [of "rev (tenant_queue sample_tenant)"]
    goes [of "rev (tenant_queue sample_tenant) @ rev (tenant_queue sample_tenant)"]
  show ?thesis by (simp add: progressed_def)
qed

section \<open>A tenant that ends\<close>

definition ending_binding :: PolicyBinding where
  "ending_binding = sample_binding\<lparr>
     pb_Meta := (sample_meta ''ns'' ''b'')\<lparr>om_DeletionTimestamp := Some 9, om_Finalizers := [FinalizerPolicyBinding]\<rparr>,
     pb_Status := (pb_Status sample_binding)\<lparr>pbst_Roles := [\<lparr>pbr_ControlPlaneEntityRef = \<lparr>lor_Name = ''e''\<rparr>,
       pbr_RoleName = ''r'', pbr_AuthMountPath = ''m'', pbr_Ready = True, pbr_Message = []\<rparr>]\<rparr>\<rparr>"

definition ending_kube :: kube where
  "ending_kube = sample_kube\<lparr>ku_Instance := [''bao'' \<mapsto> sample_instance],
     ku_Trust := [(''ns'', ''t'') \<mapsto> sample_trust_deleted], ku_Binding := [(''ns'', ''b'') \<mapsto> ending_binding]\<rparr>"

lemma ending_sel [simp]:
  "ku_Instance ending_kube = [''bao'' \<mapsto> sample_instance]"
  "ku_Trust ending_kube = [(''ns'', ''t'') \<mapsto> sample_trust_deleted]"
  "ku_Binding ending_kube = [(''ns'', ''b'') \<mapsto> ending_binding]" "ku_Config ending_kube = [''prov'' \<mapsto> sample_config]"
  by (simp_all add: ending_kube_def sample_kube_def)

lemma store_lists: "serves_lists (\<lambda>x. x) (store_cluster tok) store_names"
  by (auto simp: serves_lists_def steps_def store_cluster_def listed_def store_names_def map_filter_simps
      split: option.splits)

lemma ending_configured: "service_configured ref_klib ending_kube store_service sample_config"
  by (simp add: service_configured_def configured_def store_service_def Let_def)

lemma ending_sample: "ending ref_klib ending_kube ending_binding sample_trust_deleted"
  by (auto simp: ending_def ending_binding_def key_def deleting_def time_IsZero_def recorded_def mount_served_def)

lemma ending_lists: "serves_lists (\<lambda>x. x) (br_OnboardingCluster (sv_Binding store_service)) store_names"
  by (simp add: store_service_def Let_def store_lists)

text \<open>Both objects are gone with their finalizers, and OpenBao has no mount \<open>m\<close> any more.\<close>

lemma tenant_torn_down_witness:
  "let y = run_world (run_queue (service_handle ref_klib store_env store_service)
     (ending_queue ending_binding sample_trust_deleted)) ending_kube
   in ended ending_kube y ending_binding sample_trust_deleted \<and>
     ku_Binding y (''ns'', ''b'') = None \<and> ku_Trust y (''ns'', ''t'') = None \<and> \<not> HasMount (ku_Bao y) ''m''"
proof -
  let ?y = "run_world (run_queue (service_handle ref_klib store_env store_service)
     (ending_queue ending_binding sample_trust_deleted)) ending_kube"
  have "ended ending_kube ?y ending_binding sample_trust_deleted"
    by (rule tenant_torn_down [OF lawful_finalizers_ref store_service_serves ending_configured ending_lists _ ending_sample])
       (simp add: store_names_def)
  moreover from this have "ku_Binding ?y (''ns'', ''b'') = None" "ku_Trust ?y (''ns'', ''t'') = None"
    "\<not> HasMount (ku_Bao ?y) ''m''"
    by (simp_all add: ended_def cleared_def finished_def ending_binding_def key_def)
  ultimately show ?thesis by simp
qed

section \<open>A trust that moves\<close>

text \<open>The trust is configured under \<open>m\<close>, which is not the path its spec asks for now.\<close>

definition moving_kube :: kube where
  "moving_kube = sample_kube\<lparr>ku_Instance := [''bao'' \<mapsto> sample_instance],
     ku_Trust := [(''ns'', ''t'') \<mapsto> sample_trust_ready]\<rparr>"

lemma moving_sel [simp]:
  "ku_Instance moving_kube = [''bao'' \<mapsto> sample_instance]" "ku_Trust moving_kube = [(''ns'', ''t'') \<mapsto> sample_trust_ready]"
  "ku_Config moving_kube = [''prov'' \<mapsto> sample_config]" "ku_ProjectEntity moving_kube = [(''p'', ''pe'') \<mapsto> sample_project_entity]"
  "ku_ControlPlane moving_kube = [(''ns'', ''cp'') \<mapsto> sample_control_plane]" "ku_Bao moving_kube = sample_world"
  by (simp_all add: moving_kube_def sample_kube_def)

lemma truncateWithHash_long: "10 \<le> length (truncateWithHash full n)"
  by (simp add: truncateWithHash_def Let_def hashSuffixLen_def)

lemma moved_path: "''m'' \<noteq> CT_mountPath cfg i t"
proof
  assume "''m'' = CT_mountPath cfg i t"
  then have "length (CT_mountPath cfg i t) = 1" by (metis length_Cons list.size(3) One_nat_def)
  then show False
    using truncateWithHash_long [of "mount_full (resolveAuthMountPrefix (sc_Spec cfg) (Some i)) (om_Namespace (ct_Meta t))
      (lor_Name (cts_ControlPlaneRef (ct_Spec t)))" authMountMax] by (simp add: CT_mountPath_def AuthMountPath_def)
qed

lemma trust_move_orphans_witness:
  "HasMount (ku_Bao (run_world (service_handle ref_klib store_env store_service (ReqTrust ''ns'' ''t'')) moving_kube)) ''m''"
proof -
  have "service_configured ref_klib moving_kube store_service sample_config"
    by (simp add: service_configured_def configured_def store_service_def Let_def)
  moreover have "trust_ready ref_klib moving_kube sample_trust_ready sample_instance sample_control_plane"
    by (simp add: trust_ready_def sample_trust_ready_def sample_trust_def sample_trust_spec_def sample_project_entity_def
        sample_meta_def)
  moreover have "key (ct_Meta sample_trust_ready) = (''ns'', ''t'')" "\<not> deleting (ct_Meta sample_trust_ready)"
    "''m'' = ctst_AuthMountPath (ct_Status sample_trust_ready)"
    by (simp_all add: sample_trust_ready_def sample_trust_def sample_meta_def key_def deleting_def time_IsZero_def)
  moreover have "ku_Instance moving_kube (om_Name (oi_Meta sample_instance)) = Some sample_instance"
    "om_Name (oi_Meta sample_instance) \<noteq> []" by (simp_all add: sample_instance_def sample_meta_def)
  moreover have "HasMount (ku_Bao moving_kube) ''m''"
    by (simp add: sample_world_def HasMount_def map_read_def)
  ultimately show ?thesis
    using trust_move_orphans [OF lawful_conditions_ref lawful_finalizers_ref store_service_serves, of moving_kube sample_config
        "''ns''" "''t''" sample_trust_ready sample_instance sample_control_plane "''m''" _ store_env, OF _ _ _ _ _ _ _ _ moved_path _ refl]
    by simp
qed

section \<open>Two bindings and one role\<close>

definition clash_binding :: "string \<Rightarrow> string \<Rightarrow> string \<Rightarrow> PolicyBinding" where
  "clash_binding nm policy entity = sample_binding\<lparr>pb_Meta := sample_meta ''ns'' nm,
     pb_Spec := (pb_Spec sample_binding)\<lparr>pbs_PolicyName := policy, pbs_ControlPlaneEntityRefs := [\<lparr>lor_Name = entity\<rparr>]\<rparr>\<rparr>"

definition clash_entity :: "string \<Rightarrow> string \<Rightarrow> ControlPlaneEntity" where
  "clash_entity nm subject = sample_entity\<lparr>ce_Meta := sample_meta ''ns'' nm,
     ce_Status := (ce_Status sample_entity)\<lparr>cest_Identity := Some (sample_ident\<lparr>sai_Subject := subject\<rparr>)\<rparr>\<rparr>"

text \<open>The binding \<open>b\<close> gives the policy \<open>pol\<close> to the entity \<open>x-e\<close>, the binding \<open>b-x\<close> the policy
  \<open>adm\<close> to the entity \<open>e\<close>.\<close>

definition clash_kube :: kube where
  "clash_kube = sample_kube\<lparr>ku_Instance := [''bao'' \<mapsto> sample_instance], ku_Trust := [(''ns'', ''t'') \<mapsto> sample_trust_ready],
     ku_Entity := [(''ns'', ''x-e'') \<mapsto> clash_entity ''x-e'' ''reader'', (''ns'', ''e'') \<mapsto> clash_entity ''e'' ''admin''],
     ku_Binding := [(''ns'', ''b'') \<mapsto> clash_binding ''b'' ''pol'' ''x-e'', (''ns'', ''b-x'') \<mapsto> clash_binding ''b-x'' ''adm'' ''e''],
     ku_Bao := sample_world\<lparr>fk_Policies := fmap_of_list [(''pol'', True), (''adm'', True)]\<rparr>\<rparr>"

lemma clash_sel [simp]:
  "pb_Meta (clash_binding nm policy entity) = sample_meta ''ns'' nm"
  "pbs_PolicyName (pb_Spec (clash_binding nm policy entity)) = policy"
  "pbs_ControlPlaneEntityRefs (pb_Spec (clash_binding nm policy entity)) = [\<lparr>lor_Name = entity\<rparr>]"
  "ces_ControlPlaneTrustRef (ce_Spec (clash_entity nm subject)) = \<lparr>lor_Name = ''t''\<rparr>"
  "cest_Identity (ce_Status (clash_entity nm subject)) = Some (sample_ident\<lparr>sai_Subject := subject\<rparr>)"
  "ku_Config clash_kube = [''prov'' \<mapsto> sample_config]" "ku_Instance clash_kube = [''bao'' \<mapsto> sample_instance]"
  "ku_Trust clash_kube = [(''ns'', ''t'') \<mapsto> sample_trust_ready]"
  by (simp_all add: clash_binding_def clash_entity_def clash_kube_def sample_kube_def)

lemma clash_stored [simp]:
  "ku_Binding clash_kube (''ns'', ''b'') = Some (clash_binding ''b'' ''pol'' ''x-e'')"
  "ku_Binding clash_kube (''ns'', ''b-x'') = Some (clash_binding ''b-x'' ''adm'' ''e'')"
  "ku_Entity clash_kube (''ns'', ''x-e'') = Some (clash_entity ''x-e'' ''reader'')"
  "ku_Entity clash_kube (''ns'', ''e'') = Some (clash_entity ''e'' ''admin'')"
  by (simp_all add: clash_kube_def)

lemma clash_resolved: "subject \<noteq> [] \<Longrightarrow> PB_entityResolved ref_klib (clash_entity nm subject)"
  by (simp add: PB_entityResolved_def isConditionTrue_def ref_find_def clash_entity_def sample_entity_def)

lemma clash_ready:
  "reference_ready ref_klib clash_kube (clash_binding ''b'' ''pol'' ''x-e'') \<lparr>lor_Name = ''x-e''\<rparr>
     (sample_ident\<lparr>sai_Subject := ''reader''\<rparr>) sample_trust_ready"
  "reference_ready ref_klib clash_kube (clash_binding ''b-x'' ''adm'' ''e'') \<lparr>lor_Name = ''e''\<rparr>
     (sample_ident\<lparr>sai_Subject := ''admin''\<rparr>) sample_trust_ready"
  by (simp_all add: reference_ready_def clash_resolved)
     (simp_all add: clash_kube_def sample_world_def NewFakeClient_def HasMount_def map_read_def)

lemma binding_role_collision_witness:
  "let y = run_world (run_queue (service_handle ref_klib store_env store_service)
     [ReqBinding ''ns'' ''b'', ReqBinding ''ns'' ''b-x'']) clash_kube
   in \<exists>n role. claims ref_klib y (''ns'', ''b'') \<lparr>lor_Name = ''x-e''\<rparr> ''m'' n \<and> Role (ku_Bao y) ''m'' n = Some role \<and>
     jr_TokenPolicies role = [''adm''] \<and> jr_BoundSubject role = ''admin''"
proof -
  have cfg: "service_configured ref_klib clash_kube store_service sample_config"
    by (simp add: service_configured_def configured_def store_service_def Let_def)
  have "\<exists>n role. claims ref_klib y (''ns'', ''b'') \<lparr>lor_Name = ''x-e''\<rparr> ''m'' n \<and>
      claims ref_klib y (''ns'', ''b'' @ ''-'' @ ''x'') \<lparr>lor_Name = ''e''\<rparr> ''m'' n \<and>
      Role (ku_Bao y) ''m'' n = Some role \<and> jr_Name role = n \<and>
      jr_TokenPolicies role = [pbs_PolicyName (pb_Spec (clash_binding ''b-x'' ''adm'' ''e''))] \<and>
      jr_BoundSubject role = sai_Subject (sample_ident\<lparr>sai_Subject := ''admin''\<rparr>)"
    if "y = run_world (run_queue (service_handle ref_klib store_env store_service)
      [ReqBinding ''ns'' ''b'', ReqBinding ''ns'' (''b'' @ ''-'' @ ''x'')]) clash_kube" for y
    by (rule binding_role_collision [OF lawful_conditions_ref store_service_serves cfg, where ?b1.0 = "clash_binding ''b'' ''pol'' ''x-e''"
          and rs = "[(\<lparr>lor_Name = ''x-e''\<rparr>, sample_ident\<lparr>sai_Subject := ''reader''\<rparr>, sample_trust_ready)]"
          and ?t1.0 = sample_trust_ready and ?t2.0 = sample_trust_ready and ?id1.0 = "sample_ident\<lparr>sai_Subject := ''reader''\<rparr>"])
       (use that clash_ready in \<open>simp_all add: key_def deleting_def time_IsZero_def\<close>)
  from this [OF refl] show ?thesis by (auto simp: Let_def)
qed

definition collide_trust :: "string \<Rightarrow> string \<Rightarrow> ControlPlaneTrust" where
  "collide_trust ns cp = sample_trust
     \<lparr>ct_Meta := (ct_Meta sample_trust)\<lparr>om_Namespace := ns\<rparr>,
      ct_Spec := (ct_Spec sample_trust)\<lparr>cts_ControlPlaneRef := LocalObjectReference.make cp\<rparr>\<rparr>"

lemma trust_mount_collision_witness:
  "\<not> HasMount (snd (Fake_DeleteAuthMount (CT_mountPath sample_config sample_instance (collide_trust ''p-dev'' ''cp'')) sample_world))
     (CT_mountPath sample_config sample_instance (collide_trust ''p'' ''dev-cp''))"
proof -
  have "om_Namespace (ct_Meta (collide_trust ''p-dev'' ''cp'')) =
      om_Namespace (ct_Meta (collide_trust ''p'' ''dev-cp'')) @ ''-'' @ ''dev''"
    "lor_Name (cts_ControlPlaneRef (ct_Spec (collide_trust ''p'' ''dev-cp''))) =
      ''dev'' @ ''-'' @ lor_Name (cts_ControlPlaneRef (ct_Spec (collide_trust ''p-dev'' ''cp'')))"
    by (simp_all add: collide_trust_def LocalObjectReference.defs)
  from trust_mount_collision [OF this] show ?thesis by (rule conjunct2)
qed

end
