(* ===== verification/Intervals.thy ===== *)
theory Intervals
  imports Shared Jwt
begin

text \<open>
  The requeue interval of a service configuration written as a whole number of a unit: Go's
  parser with its 64-bit accumulators agrees with exact arithmetic up to the largest duration,
  and rejects everything above.
\<close>

section \<open>Digits\<close>

definition digit :: "nat \<Rightarrow> char" where
  "digit d = ''0123456789'' ! d"

lemma digit_table: "list_all (\<lambda>d. digit_value (digit d) = Some (of_nat d) \<and> is_digit (digit d) \<and>
    digit d \<noteq> CHR ''-'' \<and> digit d \<noteq> CHR ''+'' \<and> digit d \<noteq> CHR ''.'') [0..<10]"
  by code_simp

lemma digitD:
  assumes "d < 10"
  shows "digit_value (digit d) = Some (of_nat d)" "is_digit (digit d)" "digit d \<noteq> CHR ''-''"
    "digit d \<noteq> CHR ''+''" "digit d \<noteq> CHR ''.''"
  using digit_table assms by (simp_all add: list_all_iff)

text \<open>The digits of a number, and the number a run of digits adds up to.\<close>

fun digits :: "nat \<Rightarrow> nat list" where
  "digits n = (if n < 10 then [n] else digits (n div 10) @ [n mod 10])"

declare digits.simps [simp del]

definition digits_value :: "nat list \<Rightarrow> nat \<Rightarrow> nat" where
  "digits_value = fold (\<lambda>d n. n * 10 + d)"

lemma decimal_digits: "decimal n = map digit (digits n)"
proof (induction n rule: digits.induct)
  case (1 n)
  then show ?case by (simp add: decimal.simps [of n] digits.simps [of n] digit_def)
qed

lemma digits_bound: "list_all (\<lambda>d. d < 10) (digits n)"
proof (induction n rule: digits.induct)
  case (1 n)
  then show ?case by (simp add: digits.simps [of n])
qed

lemma digits_value_digits: "digits_value (digits n) 0 = n"
proof (induction n rule: digits.induct)
  case (1 n)
  show ?case
  proof (cases "n < 10")
    case True
    then show ?thesis by (simp add: digits.simps [of n] digits_value_def)
  next
    case False
    then show ?thesis using 1 by (simp add: digits.simps [of n] digits_value_def)
  qed
qed

lemma digits_nonempty: "digits n \<noteq> []"
  by (subst digits.simps) simp

lemma digits_value_mono: "x \<le> digits_value ds x"
proof (induction ds arbitrary: x)
  case (Cons d ds)
  have "x \<le> x * 10 + d" by simp
  also have "\<dots> \<le> digits_value ds (x * 10 + d)" by (rule Cons.IH)
  finally show ?case by (simp add: digits_value_def)
qed (simp add: digits_value_def)

section \<open>The accumulator\<close>

definition starts_digit :: "string \<Rightarrow> bool" where
  "starts_digit s \<longleftrightarrow> s \<noteq> [] \<and> digit_value (hd s) \<noteq> None"

text \<open>\<open>leadingInt\<close> is exact: it gives the value of the digits when that is at most \<open>2 ^ 63\<close>, and
  fails otherwise.\<close>

lemma leadingInt_exact:
  assumes "\<not> starts_digit rest"
  shows "list_all (\<lambda>d. d < 10) ds \<Longrightarrow> x \<le> 2 ^ 63 \<Longrightarrow>
    leadingInt (of_nat x) (map digit ds @ rest) =
      (if digits_value ds x \<le> 2 ^ 63 then Some (of_nat (digits_value ds x), rest) else None)"
proof (induction ds arbitrary: x)
  case Nil
  then show ?case using assms by (cases rest) (auto simp: starts_digit_def digits_value_def)
next
  case (Cons d ds)
  have d: "d < 10" using Cons.prems(1) by simp
  have small: "unat (of_nat y :: 64 word) = y" if "y < 2 ^ 64" for y
    using that by (simp add: unat_of_nat take_bit_nat_eq_self)
  have first: "922337203685477580 < (of_nat x :: 64 word) \<longleftrightarrow> 922337203685477580 < x"
    using Cons.prems(2) by (simp add: word_less_nat_alt small)
  have step: "(of_nat x * 10 + of_nat d :: 64 word) = of_nat (x * 10 + d)" by simp
  have second: "9223372036854775808 < (of_nat (x * 10 + d) :: 64 word) \<longleftrightarrow> 9223372036854775808 < x * 10 + d"
    if "x \<le> 922337203685477580"
    using that d by (simp only: word_less_nat_alt) (simp add: small del: of_nat_add of_nat_mult)
  have total: "digits_value (d # ds) x = digits_value ds (x * 10 + d)" by (simp add: digits_value_def)
  show ?case
  proof (cases "x * 10 + d \<le> 2 ^ 63")
    case True
    then have "x \<le> 922337203685477580" by simp
    with True Cons show ?thesis
      by (simp add: digitD [OF d] first total step second del: of_nat_add of_nat_mult)
  next
    case False
    then have "\<not> digits_value (d # ds) x \<le> 2 ^ 63"
      using digits_value_mono [of "x * 10 + d" ds] unfolding total by linarith
    then show ?thesis
      using False by (simp add: digitD [OF d] first step second del: of_nat_add of_nat_mult)
  qed
qed

section \<open>Whole numbers of a unit\<close>

lemma unit_table: "list_all (\<lambda>(u, w). u \<noteq> [] \<and> list_all (\<lambda>c. \<not> unit_boundary c \<and> digit_value c = None) u \<and> w \<noteq> 0)
    unitMap"
  by code_simp

lemma unitD:
  assumes "map_of unitMap u = Some w"
  shows "u \<noteq> []" "list_all (\<lambda>c. \<not> unit_boundary c) u" "\<not> starts_digit u" "hd u \<noteq> CHR ''.''" "w \<noteq> 0"
proof -
  from map_of_SomeD [OF assms] unit_table
  have u: "u \<noteq> []" "list_all (\<lambda>c. \<not> unit_boundary c \<and> digit_value c = None) u" "w \<noteq> 0"
    by (auto simp: list_all_iff)
  then have "\<not> unit_boundary (hd u)" "digit_value (hd u) = None" by (simp_all add: list_all_iff)
  then show "\<not> starts_digit u" "hd u \<noteq> CHR ''.''" by (simp_all add: starts_digit_def unit_boundary_def)
  show "u \<noteq> []" "w \<noteq> 0" by (rule u)+
  show "list_all (\<lambda>c. \<not> unit_boundary c) u" using u(2) by (simp add: list_all_iff)
qed

lemma unat_small: "n < 2 ^ 64 \<Longrightarrow> unat (of_nat n :: 64 word) = n"
  by (simp add: unat_of_nat take_bit_nat_eq_self)

lemma scaled:
  assumes "n \<le> 2 ^ 63" "w \<noteq> (0 :: 64 word)"
  shows "(of_nat n :: 64 word) > 2 ^ 63 div w \<longleftrightarrow> n * unat w > 2 ^ 63"
    and "n * unat w \<le> 2 ^ 63 \<Longrightarrow> unat (of_nat n * w) = n * unat w"
proof -
  have w: "0 < unat w" using assms(2) by (simp add: unat_gt_0)
  have big: "unat (2 ^ 63 :: 64 word) = 2 ^ 63" by simp
  have "(of_nat n :: 64 word) > 2 ^ 63 div w \<longleftrightarrow> 2 ^ 63 div unat w < n"
    using assms(1) by (simp only: word_less_nat_alt unat_div big) (simp add: unat_small)
  also have "\<dots> \<longleftrightarrow> 2 ^ 63 < n * unat w" using w by (rule div_less_iff_less_mult)
  finally show "(of_nat n :: 64 word) > 2 ^ 63 div w \<longleftrightarrow> n * unat w > 2 ^ 63" .
  show "unat (of_nat n * w) = n * unat w" if "n * unat w \<le> 2 ^ 63"
    using that unat_small [of "n * unat w"] by simp
qed

lemma sint_small:
  assumes "unat (d :: 64 word) < 2 ^ 63"
  shows "sint d = int (unat d)"
proof -
  have "int (unat d) < int (2 ^ 63)" using assms by (simp only: of_nat_less_iff)
  then have "uint d < 2 ^ 63" by simp
  moreover have "- (2 ^ 63) \<le> uint d" by (rule order_trans [of _ 0]) simp_all
  ultimately show ?thesis by (simp add: sint_uint signed_take_bit_int_eq_self)
qed

lemma duration_item_exact:
  assumes "map_of unitMap u = Some w"
  shows "duration_item orig (decimal n @ u) =
    (if n * unat w \<le> 2 ^ 63 then Inr (of_nat n * w, []) else Inl (invalid_duration orig))"
proof -
  have head: "decimal n \<noteq> []" "is_digit (hd (decimal n))"
    using digits_nonempty [of n] digits_bound [of n] by (auto simp: decimal_digits hd_map digitD list_all_iff)
  have read: "leadingInt 0 (decimal n @ u) = (if n \<le> 2 ^ 63 then Some (of_nat n, u) else None)"
    using leadingInt_exact [OF unitD(3) [OF assms] digits_bound [of n], of 0]
    by (simp add: decimal_digits digits_value_digits)
  have unit: "takeWhile (\<lambda>c. \<not> unit_boundary c) u = u" "dropWhile (\<lambda>c. \<not> unit_boundary c) u = []"
    using unitD(2) [OF assms] by (simp_all add: takeWhile_eq_all_conv dropWhile_eq_Nil_conv list_all_iff)
  have "1 \<le> unat w" using unitD(5) [OF assms] by (simp add: unat_gt_0 Suc_le_eq)
  then have big: "\<not> n * unat w \<le> 2 ^ 63" if "\<not> n \<le> 2 ^ 63"
    using that mult_le_mono2 [of 1 "unat w" n] by linarith
  have start: "unit_boundary (hd (decimal n @ u))" using head by (simp add: unit_boundary_def)
  show ?thesis
  proof (cases "n \<le> 2 ^ 63")
    case False
    with big show ?thesis using start head(1) by (simp add: duration_item_def read)
  next
    case True
    show ?thesis
      using start head(1) True scaled(1) [OF True unitD(5) [OF assms]] unitD(1,4) [OF assms] assms
      by (simp add: duration_item_def read unit Let_def)
  qed
qed

lemma parse_whole:
  assumes "map_of unitMap u = Some w"
  shows "time_ParseDuration (decimal n @ u) =
    (if n * unat w < 2 ^ 63 then Inr (int (n * unat w)) else Inl (invalid_duration (decimal n @ u)))"
proof -
  let ?s = "decimal n @ u"
  have head: "decimal n \<noteq> []" "hd (decimal n) \<noteq> CHR ''-''" "hd (decimal n) \<noteq> CHR ''+''"
    using digits_nonempty [of n] digits_bound [of n] by (auto simp: decimal_digits hd_map digitD list_all_iff)
  then have s: "?s \<noteq> []" "hd ?s \<noteq> CHR ''-''" "hd ?s \<noteq> CHR ''+''" by simp_all
  have "length ?s \<noteq> length ''0''" using head(1) unitD(1) [OF assms] by (cases "decimal n"; cases u) auto
  then have zero: "?s \<noteq> ''0''" by metis
  have loop: "duration_loop ?s 0 ?s =
      (if n * unat w \<le> 2 ^ 63 then Inr (of_nat n * w) else Inl (invalid_duration ?s))"
  proof (cases "n * unat w \<le> 2 ^ 63")
    case True
    have "1 \<le> unat w" using unitD(5) [OF assms] by (simp add: unat_gt_0 Suc_le_eq)
    with True have "n \<le> 2 ^ 63" using mult_le_mono2 [of 1 "unat w" n] by linarith
    from scaled(2) [OF this unitD(5) [OF assms] True]
    have "\<not> of_nat n * w > 2 ^ 63" using True by (simp add: word_less_nat_alt)
    with True show ?thesis
      by (simp add: duration_loop.simps [of ?s 0 ?s] duration_loop.simps [of ?s _ "[]"] s(1) head(1) duration_item_exact [OF assms])
  next
    case False
    then show ?thesis by (simp add: duration_loop.simps [of ?s 0 ?s] s(1) head(1) duration_item_exact [OF assms])
  qed
  have parse: "time_ParseDuration ?s = (case duration_loop ?s 0 ?s of
      Inl e \<Rightarrow> Inl e | Inr d \<Rightarrow> if d > 2 ^ 63 - 1 then Inl (invalid_duration ?s) else Inr (sint d))"
    unfolding time_ParseDuration_def Let_def using s zero by (simp split: sum.split del: append_is_Nil_conv)
  show ?thesis
  proof (cases "n * unat w \<le> 2 ^ 63")
    case True
    have "1 \<le> unat w" using unitD(5) [OF assms] by (simp add: unat_gt_0 Suc_le_eq)
    with True have "n \<le> 2 ^ 63" using mult_le_mono2 [of 1 "unat w" n] by linarith
    from scaled(2) [OF this unitD(5) [OF assms] True]
    have d: "unat (of_nat n * w) = n * unat w" .
    have "of_nat n * w > 2 ^ 63 - 1 \<longleftrightarrow> \<not> n * unat w < 2 ^ 63" by (simp add: word_less_nat_alt d) linarith
    with True show ?thesis using sint_small [of "of_nat n * w"] by (simp add: parse loop d)
  next
    case False
    then show ?thesis by (simp add: parse loop)
  qed
qed

section \<open>Properties\<close>

text \<open>C37. Bounds of the requeue interval: a configuration whose \<open>requeueAfter\<close> is a whole number \<open>n\<close>
  in decimal with one of Go's units is accepted exactly when the interval fits a signed 64-bit
  count of nanoseconds (given no credential reference, which is checked next), and then requeues after
  exactly \<open>n\<close> of that unit; the machine arithmetic of the parser never wraps around.\<close>

theorem interval_exact:
  assumes "scs_RequeueAfter (sc_Spec cfg) = decimal n @ u" and "map_of unitMap u = Some w"
    and "scs_PlatformCredentialRef (sc_Spec cfg) = None"
  shows "(Validate k (sc_Spec cfg) = None \<longleftrightarrow> n * unat w < 2 ^ 63) \<and>
    (n * unat w < 2 ^ 63 \<longrightarrow> RequeueAfter (requeueResult (Some cfg)) = int (n * unat w))"
  using unitD(1) [OF assms(2)]
  by (simp add: Validate_def requeueResult_def resolveRequeue_def assms(1,3) parse_whole [OF assms(2)])

text \<open>Ten seconds requeue as written; 2562048 hours, the first number of hours that does not fit, are
  rejected.\<close>

definition interval_config :: "string \<Rightarrow> ServiceConfig" where
  "interval_config s = \<lparr>sc_Meta = \<lparr>om_Name = ''prov'', om_Namespace = [], om_Generation = 1,
       om_DeletionTimestamp = None, om_Finalizers = []\<rparr>,
     sc_Spec = \<lparr>scs_AuthMountPrefix = [], scs_RequeueAfter = s, scs_PlatformCredentialRef = None\<rparr>,
     sc_Status = \<lparr>scst_ObservedGeneration = 0, scst_Conditions = []\<rparr>\<rparr>"

lemma interval_exact_witness:
  "RequeueAfter (requeueResult (Some (interval_config (decimal 10 @ ''s'')))) = 10000000000 \<and>
   (\<exists>e. Validate \<lparr>k_SetStatusCondition = (\<lambda>cs c. c # cs), k_FindStatusCondition = (\<lambda>cs t. None),
       k_AddFinalizer = (\<lambda>f fs. (fs, False)), k_RemoveFinalizer = (\<lambda>f fs. (fs, False)), k_Now = 1,
       k_Print = (\<lambda>_. False), k_KeyString = (\<lambda>ns nm. nm), k_JSONError = errors_New,
       k_StableMCPNamespace = (\<lambda>nm ns. Inr nm), k_EnvVariablePodNamespace = [],
       k_EnvVariablePodServiceAccountName = []\<rparr> (sc_Spec (interval_config (decimal 2562048 @ ''h''))) = Some e)"
proof -
  have units: "map_of unitMap ''s'' = Some 1000000000" "map_of unitMap ''h'' = Some 3600000000000"
    by (simp_all add: unitMap_def)
  show ?thesis
    using interval_exact [of "interval_config (decimal 10 @ ''s'')" 10 "''s''" 1000000000]
      interval_exact [of "interval_config (decimal 2562048 @ ''h'')" 2562048 "''h''" 3600000000000]
    by (simp add: units interval_config_def flip: not_None_eq)
qed

end
