(* ===== verification/DeepHeap.thy ===== *)
theory DeepHeap
  imports Prelude
begin

text \<open>
  A store of cells behind Go pointers and slices, and what it means that a function deep-copies:
  the copy loads to the same value, everything it refers to is newly allocated, and no cell that
  was there changes. The locale \<open>deep_copy\<close> is that contract; pointers, slices and structs keep it
  when the functions for their parts do.
\<close>

named_theorems deep_defs

section \<open>The store\<close>

type_synonym addr = nat

record 'c heap =
  hp_cell :: "addr \<Rightarrow> 'c"
  hp_next :: addr

definition new :: "'c \<Rightarrow> 'c heap \<Rightarrow> 'c heap \<times> addr" where
  "new c h = (h\<lparr>hp_cell := (hp_cell h)(hp_next h := c), hp_next := Suc (hp_next h)\<rparr>, hp_next h)"

definition write_cell :: "addr \<Rightarrow> 'c \<Rightarrow> 'c heap \<Rightarrow> 'c heap" where
  "write_cell a c h = h\<lparr>hp_cell := (hp_cell h)(a := c)\<rparr>"

lemma write_cell_sel [simp]:
  "hp_cell (write_cell a c h) b = (if b = a then c else hp_cell h b)" "hp_next (write_cell a c h) = hp_next h"
  by (simp_all add: write_cell_def)

text \<open>The cells of \<open>h\<close> are still there.\<close>

definition extends :: "'c heap \<Rightarrow> 'c heap \<Rightarrow> bool" where
  "extends h h' \<longleftrightarrow> hp_next h \<le> hp_next h' \<and> (\<forall>a < hp_next h. hp_cell h' a = hp_cell h a)"

lemma extends_refl [simp]: "extends h h"
  by (simp add: extends_def)

lemma extends_trans: "extends h h' \<Longrightarrow> extends h' h'' \<Longrightarrow> extends h h''"
  by (simp add: extends_def)

lemma newD:
  assumes "new c h = (h', a)"
  shows "extends h h'" "a = hp_next h" "hp_next h' = Suc a" "hp_cell h' a = c"
  using assms by (auto simp: new_def extends_def)

section \<open>The contract of a deep copy\<close>

type_synonym ('c, 'a) copier = "'c heap \<Rightarrow> 'a \<Rightarrow> 'c heap \<times> 'a"

text \<open>\<open>load\<close> is the value a piece of memory stands for, \<open>reach\<close> the cells it refers to.\<close>

definition copied ::
    "('c heap \<Rightarrow> 'a \<Rightarrow> 'v) \<Rightarrow> ('c heap \<Rightarrow> 'a \<Rightarrow> addr set) \<Rightarrow> 'c heap \<Rightarrow> 'a \<Rightarrow> 'c heap \<times> 'a \<Rightarrow> bool" where
  "copied load reach h x r \<longleftrightarrow>
     (case r of (h', y) \<Rightarrow> extends h h' \<and> load h' y = load h x \<and> reach h' y \<subseteq> {hp_next h..<hp_next h'})"

locale deep_copy =
  fixes load :: "'c heap \<Rightarrow> 'a \<Rightarrow> 'v" and reach :: "'c heap \<Rightarrow> 'a \<Rightarrow> addr set" and copy :: "('c, 'a) copier"
  assumes load_frame: "(\<And>a. a \<in> reach h x \<Longrightarrow> hp_cell h' a = hp_cell h a) \<Longrightarrow> load h' x = load h x"
    and reach_frame: "(\<And>a. a \<in> reach h x \<Longrightarrow> hp_cell h' a = hp_cell h a) \<Longrightarrow> reach h' x = reach h x"
    and copy_copied: "reach h x \<subseteq> {..<hp_next h} \<Longrightarrow> copied load reach h x (copy h x)"
begin

lemma copyD:
  assumes "reach h x \<subseteq> {..<hp_next h}" "copy h x = (h', y)"
  shows "extends h h'" "load h' y = load h x" "reach h' y \<subseteq> {hp_next h..<hp_next h'}"
  using copy_copied [OF assms(1)] assms(2) by (simp_all add: copied_def)

lemma kept:
  assumes "reach h x \<subseteq> {..<hp_next h}" "extends h h'"
  shows "load h' x = load h x" "reach h' x = reach h x" "reach h' x \<subseteq> {..<hp_next h'}"
proof -
  have same: "hp_cell h' a = hp_cell h a" if "a \<in> reach h x" for a
    using assms that by (auto simp: extends_def)
  show "load h' x = load h x" by (rule load_frame, rule same)
  show "reach h' x = reach h x" by (rule reach_frame, rule same)
  then show "reach h' x \<subseteq> {..<hp_next h'}" using assms by (auto simp: extends_def)
qed

text \<open>A fresh piece stays as it is when more is allocated.\<close>

lemma kept_fresh:
  assumes "reach h x \<subseteq> {n..<hp_next h}" "extends h h'"
  shows "load h' x = load h x" "reach h' x = reach h x" "reach h' x \<subseteq> {n..<hp_next h'}"
proof -
  have bound: "reach h x \<subseteq> {..<hp_next h}" using assms(1) by auto
  show "load h' x = load h x" "reach h' x = reach h x" by (rule kept [OF bound assms(2)])+
  then show "reach h' x \<subseteq> {n..<hp_next h'}" using assms by (auto simp: extends_def)
qed

text \<open>Original and copy share nothing: a write through one is not seen through the other.\<close>

lemma independent:
  assumes "reach h x \<subseteq> {..<hp_next h}" "copy h x = (h', y)"
  shows "reach h' x \<inter> reach h' y = {}"
    and "a \<in> reach h' y \<Longrightarrow> load (write_cell a c h') x = load h x"
    and "a \<in> reach h' x \<Longrightarrow> load (write_cell a c h') y = load h x"
proof -
  note y = copyD [OF assms] and x = kept [OF assms(1) copyD(1) [OF assms]]
  show apart: "reach h' x \<inter> reach h' y = {}" using assms(1) x(2) y(3) by fastforce
  show "load (write_cell a c h') x = load h x" if "a \<in> reach h' y"
    unfolding x(1) [symmetric] by (rule load_frame) (use that apart in auto)
  show "load (write_cell a c h') y = load h x" if "a \<in> reach h' x"
    unfolding y(2) [symmetric] by (rule load_frame) (use that apart in auto)
qed

end

section \<open>Plain values\<close>

definition plain_load :: "'c heap \<Rightarrow> 'a \<Rightarrow> 'a" where "plain_load h x = x"
definition plain_reach :: "'c heap \<Rightarrow> 'a \<Rightarrow> addr set" where "plain_reach h x = {}"
definition plain_copy :: "('c, 'a) copier" where "plain_copy h x = (h, x)"

lemma deep_plain: "deep_copy plain_load plain_reach plain_copy"
  by unfold_locales (simp_all add: plain_load_def plain_reach_def plain_copy_def copied_def)

interpretation plain: deep_copy plain_load plain_reach plain_copy
  by (rule deep_plain)

section \<open>Pointers\<close>

text \<open>\<open>put\<close> and \<open>get\<close> store a pointee in a cell and read it back. A copy allocates a cell for
  the copied pointee; when in relation to its parts is not observable.\<close>

definition load_ptr ::
    "('c \<Rightarrow> 'a) \<Rightarrow> ('c heap \<Rightarrow> 'a \<Rightarrow> 'v) \<Rightarrow> 'c heap \<Rightarrow> addr option \<Rightarrow> 'v option" where
  "load_ptr get load h p = map_option (\<lambda>a. load h (get (hp_cell h a))) p"

definition reach_ptr ::
    "('c \<Rightarrow> 'a) \<Rightarrow> ('c heap \<Rightarrow> 'a \<Rightarrow> addr set) \<Rightarrow> 'c heap \<Rightarrow> addr option \<Rightarrow> addr set" where
  "reach_ptr get reach h p = (case p of None \<Rightarrow> {} | Some a \<Rightarrow> insert a (reach h (get (hp_cell h a))))"

definition copy_ptr :: "('a \<Rightarrow> 'c) \<Rightarrow> ('c \<Rightarrow> 'a) \<Rightarrow> ('c, 'a) copier \<Rightarrow> ('c, addr option) copier" where
  "copy_ptr put get copy h p = (case p of
       None \<Rightarrow> (h, None)
     | Some a \<Rightarrow>
       (case copy h (get (hp_cell h a)) of (h, y) \<Rightarrow> (case new (put y) h of (h, b) \<Rightarrow> (h, Some b))))"

lemma deep_ptr:
  assumes "deep_copy load reach copy" and "\<And>y. get (put y) = y"
  shows "deep_copy (load_ptr get load) (reach_ptr get reach) (copy_ptr put get copy)"
proof (unfold_locales, goal_cases)
  case (1 h p h')
  have "load h' (get (hp_cell h' a)) = load h (get (hp_cell h a))" if p: "p = Some a" for a
  proof -
    have "hp_cell h' a = hp_cell h a" by (rule 1) (simp add: reach_ptr_def p)
    then show ?thesis by (simp, intro deep_copy.load_frame [OF assms(1)] 1) (simp add: reach_ptr_def p)
  qed
  then show ?case by (cases p) (simp_all add: load_ptr_def)
next
  case (2 h p h')
  have "insert a (reach h' (get (hp_cell h' a))) = insert a (reach h (get (hp_cell h a)))" if p: "p = Some a" for a
  proof -
    have "hp_cell h' a = hp_cell h a" by (rule 2) (simp add: reach_ptr_def p)
    then show ?thesis
      using deep_copy.reach_frame [OF assms(1), of h "get (hp_cell h a)" h'] 2 by (simp add: reach_ptr_def p)
  qed
  then show ?case by (cases p) (simp_all add: reach_ptr_def)
next
  case (3 h p)
  show ?case
  proof (cases p)
    case None
    then show ?thesis by (simp add: copied_def copy_ptr_def load_ptr_def reach_ptr_def)
  next
    case (Some a)
    obtain h1 y where y: "copy h (get (hp_cell h a)) = (h1, y)" by fastforce
    obtain h2 b where b: "new (put y) h1 = (h2, b)" by fastforce
    have bound: "reach h (get (hp_cell h a)) \<subseteq> {..<hp_next h}" using 3 by (simp add: Some reach_ptr_def)
    note one = deep_copy.copyD [OF assms(1) bound y] and two = newD(1) [OF b]
    note fresh = deep_copy.kept_fresh [OF assms(1) one(3) two]
    have "extends h h2" by (rule extends_trans [OF one(1) two])
    moreover note newD(2,3,4) [OF b]
    moreover have "hp_next h \<le> hp_next h1" using one(1) by (simp add: extends_def)
    ultimately show ?thesis
      using one(2) fresh
      by (auto simp: copied_def copy_ptr_def load_ptr_def reach_ptr_def Some y b assms(2))
  qed
qed

section \<open>Slices\<close>

text \<open>A slice is nil or a window (offset and length) on the array in a cell. A copy gets an array of
  its own, of the slice's length.\<close>

type_synonym slice_header = "(addr \<times> nat \<times> nat) option"

definition elements :: "('c \<Rightarrow> 'a list) \<Rightarrow> 'c heap \<Rightarrow> addr \<times> nat \<times> nat \<Rightarrow> 'a list" where
  "elements get h s = (case s of (a, off, n) \<Rightarrow> take n (drop off (get (hp_cell h a))))"

definition load_slice ::
    "('c \<Rightarrow> 'a list) \<Rightarrow> ('c heap \<Rightarrow> 'a \<Rightarrow> 'v) \<Rightarrow> 'c heap \<Rightarrow> slice_header \<Rightarrow> 'v list option" where
  "load_slice get load h s = map_option (\<lambda>w. map (load h) (elements get h w)) s"

definition reach_slice ::
    "('c \<Rightarrow> 'a list) \<Rightarrow> ('c heap \<Rightarrow> 'a \<Rightarrow> addr set) \<Rightarrow> 'c heap \<Rightarrow> slice_header \<Rightarrow> addr set" where
  "reach_slice get reach h s = (case s of
       None \<Rightarrow> {} | Some w \<Rightarrow> insert (fst w) (\<Union>x \<in> set (elements get h w). reach h x))"

fun copy_list :: "('c, 'a) copier \<Rightarrow> ('c, 'a list) copier" where
  "copy_list copy h [] = (h, [])"
| "copy_list copy h (x # xs) =
     (case copy h x of (h, y) \<Rightarrow> (case copy_list copy h xs of (h, ys) \<Rightarrow> (h, y # ys)))"

definition copy_slice :: "('a list \<Rightarrow> 'c) \<Rightarrow> ('c \<Rightarrow> 'a list) \<Rightarrow> ('c, 'a) copier \<Rightarrow> ('c, slice_header) copier" where
  "copy_slice put get copy h s = (case s of
       None \<Rightarrow> (h, None)
     | Some w \<Rightarrow>
       (case copy_list copy h (elements get h w) of (h, ys) \<Rightarrow>
          (case new (put ys) h of (h, b) \<Rightarrow> (h, Some (b, 0, length ys)))))"

lemma copy_list_copied:
  assumes "deep_copy load reach copy"
  shows "(\<Union>x \<in> set xs. reach h x) \<subseteq> {..<hp_next h} \<Longrightarrow> copy_list copy h xs = (h', ys) \<Longrightarrow>
    extends h h' \<and> map (load h') ys = map (load h) xs \<and> (\<Union>y \<in> set ys. reach h' y) \<subseteq> {hp_next h..<hp_next h'}"
proof (induction xs arbitrary: h ys)
  case (Cons x xs)
  obtain h1 y ys1 where y: "copy h x = (h1, y)" "copy_list copy h1 xs = (h', ys1)" "ys = y # ys1"
    using Cons.prems(2) by (auto split: prod.splits)
  have bound: "reach h x \<subseteq> {..<hp_next h}" using Cons.prems(1) by auto
  note one = deep_copy.copyD [OF assms bound y(1)]
  have old: "load h1 z = load h z \<and> reach h1 z = reach h z \<and> reach h1 z \<subseteq> {..<hp_next h1}" if "z \<in> set xs" for z
  proof -
    have "reach h z \<subseteq> {..<hp_next h}" using Cons.prems(1) that by auto
    from deep_copy.kept [OF assms this one(1)] show ?thesis by blast
  qed
  then have "(\<Union>z \<in> set xs. reach h1 z) \<subseteq> {..<hp_next h1}" by auto
  from Cons.IH [OF this y(2)] have two: "extends h1 h'" "map (load h') ys1 = map (load h1) xs"
    "(\<Union>z \<in> set ys1. reach h' z) \<subseteq> {hp_next h1..<hp_next h'}" by blast+
  have same: "map (load h1) xs = map (load h) xs" using old by simp
  have grows: "hp_next h \<le> hp_next h1" using one(1) by (simp add: extends_def)
  then have fresh: "(\<Union>z \<in> set ys1. reach h' z) \<subseteq> {hp_next h..<hp_next h'}" using two(3) by fastforce
  note first = deep_copy.kept_fresh [OF assms one(3) two(1)]
  have "(\<Union>z \<in> set ys. reach h' z) \<subseteq> {hp_next h..<hp_next h'}"
    unfolding y(3) list.set UN_insert using first(3) fresh by (rule Un_least)
  then show ?case
    using extends_trans [OF one(1) two(1)] two(2) same first(1) one(2) by (simp add: y(3))
qed simp

lemma elements_cong: "hp_cell h' (fst w) = hp_cell h (fst w) \<Longrightarrow> elements get h' w = elements get h w"
  by (cases w) (simp add: elements_def)

lemma deep_slice:
  assumes "deep_copy load reach copy" and "\<And>ys. get (put ys) = ys"
  shows "deep_copy (load_slice get load) (reach_slice get reach) (copy_slice put get copy)"
proof (unfold_locales, goal_cases)
  case (1 h s h')
  have "map (load h') (elements get h' w) = map (load h) (elements get h w)" if s: "s = Some w" for w
  proof -
    have "elements get h' w = elements get h w" by (rule elements_cong, rule 1) (simp add: reach_slice_def s)
    moreover have "load h' x = load h x" if "x \<in> set (elements get h w)" for x
      by (rule deep_copy.load_frame [OF assms(1)], rule 1) (use that in \<open>auto simp: reach_slice_def s\<close>)
    ultimately show ?thesis by simp
  qed
  then show ?case by (cases s) (simp_all add: load_slice_def)
next
  case (2 h s h')
  have "insert (fst w) (\<Union>x \<in> set (elements get h' w). reach h' x) =
      insert (fst w) (\<Union>x \<in> set (elements get h w). reach h x)" if s: "s = Some w" for w
  proof -
    have "elements get h' w = elements get h w" by (rule elements_cong, rule 2) (simp add: reach_slice_def s)
    moreover have "reach h' x = reach h x" if "x \<in> set (elements get h w)" for x
      by (rule deep_copy.reach_frame [OF assms(1)], rule 2) (use that in \<open>auto simp: reach_slice_def s\<close>)
    ultimately show ?thesis by simp
  qed
  then show ?case by (cases s) (simp_all add: reach_slice_def)
next
  case (3 h s)
  show ?case
  proof (cases s)
    case None
    then show ?thesis by (simp add: copied_def copy_slice_def load_slice_def reach_slice_def)
  next
    case (Some w)
    obtain h1 ys where ys: "copy_list copy h (elements get h w) = (h1, ys)" by fastforce
    obtain h2 b where b: "new (put ys) h1 = (h2, b)" by fastforce
    have "(\<Union>x \<in> set (elements get h w). reach h x) \<subseteq> {..<hp_next h}" using 3 by (simp add: Some reach_slice_def)
    from copy_list_copied [OF assms(1) this ys] have one: "extends h h1" "map (load h1) ys = map (load h) (elements get h w)"
      "(\<Union>y \<in> set ys. reach h1 y) \<subseteq> {hp_next h..<hp_next h1}" by blast+
    have fresh: "load h2 y = load h1 y" "reach h2 y = reach h1 y" "reach h2 y \<subseteq> {hp_next h..<hp_next h2}"
      if "y \<in> set ys" for y
    proof -
      have "reach h1 y \<subseteq> {hp_next h..<hp_next h1}" using one(3) that by blast
      from deep_copy.kept_fresh [OF assms(1) this newD(1) [OF b]]
      show "load h2 y = load h1 y" "reach h2 y = reach h1 y" "reach h2 y \<subseteq> {hp_next h..<hp_next h2}" .
    qed
    have new: "elements get h2 (b, 0, length ys) = ys" by (simp add: elements_def newD(4) [OF b] assms(2))
    have ext: "extends h h2" by (rule extends_trans [OF one(1) newD(1) [OF b]])
    have b_new: "b \<in> {hp_next h..<hp_next h2}" using one(1) newD(2,3) [OF b] by (simp add: extends_def)
    have vals: "map (load h2) ys = map (load h) (elements get h w)" using one(2) fresh(1) by (metis map_eq_conv)
    have below: "(\<Union>y \<in> set ys. reach h2 y) \<subseteq> {hp_next h..<hp_next h2}" using fresh(3) by (rule UN_least)
    have copy: "copy_slice put get copy h s = (h2, Some (b, 0, length ys))"
      by (simp add: copy_slice_def Some ys b)
    show ?thesis
      unfolding copy copied_def prod.case
      using ext b_new vals below by (simp add: load_slice_def reach_slice_def Some new)
  qed
qed

section \<open>Structs\<close>

text \<open>Two parts of a struct, copied one after the other.\<close>

definition copy_both :: "('c, 'a) copier \<Rightarrow> ('c, 'b) copier \<Rightarrow> ('c, 'a \<times> 'b) copier" where
  "copy_both f g h z = (case f h (fst z) of (h, a) \<Rightarrow> (case g h (snd z) of (h, b) \<Rightarrow> (h, (a, b))))"

definition load_both ::
    "('c heap \<Rightarrow> 'a \<Rightarrow> 'v) \<Rightarrow> ('c heap \<Rightarrow> 'b \<Rightarrow> 'u) \<Rightarrow> 'c heap \<Rightarrow> 'a \<times> 'b \<Rightarrow> 'v \<times> 'u" where
  "load_both l1 l2 h z = (l1 h (fst z), l2 h (snd z))"

definition reach_both ::
    "('c heap \<Rightarrow> 'a \<Rightarrow> addr set) \<Rightarrow> ('c heap \<Rightarrow> 'b \<Rightarrow> addr set) \<Rightarrow> 'c heap \<Rightarrow> 'a \<times> 'b \<Rightarrow> addr set" where
  "reach_both r1 r2 h z = r1 h (fst z) \<union> r2 h (snd z)"

lemma deep_both:
  assumes "deep_copy l1 r1 f" "deep_copy l2 r2 g"
  shows "deep_copy (load_both l1 l2) (reach_both r1 r2) (copy_both f g)"
proof (unfold_locales, unfold load_both_def reach_both_def, goal_cases)
  case (1 h z h')
  then show ?case
    using deep_copy.load_frame [OF assms(1), of h "fst z" h'] deep_copy.load_frame [OF assms(2), of h "snd z" h'] by simp
next
  case (2 h z h')
  then show ?case
    using deep_copy.reach_frame [OF assms(1), of h "fst z" h'] deep_copy.reach_frame [OF assms(2), of h "snd z" h'] by simp
next
  case (3 h z)
  obtain h1 a where a: "f h (fst z) = (h1, a)" by fastforce
  obtain h2 b where b: "g h1 (snd z) = (h2, b)" by fastforce
  have bounds: "r1 h (fst z) \<subseteq> {..<hp_next h}" "r2 h (snd z) \<subseteq> {..<hp_next h}" using 3 by auto
  note one = deep_copy.copyD [OF assms(1) bounds(1) a]
  note old = deep_copy.kept [OF assms(2) bounds(2) one(1)]
  note two = deep_copy.copyD [OF assms(2) old(3) b]
  note first = deep_copy.kept_fresh [OF assms(1) one(3) two(1)]
  have "r2 h2 b \<subseteq> {hp_next h..<hp_next h2}" using two(3) one(1) by (auto simp: extends_def)
  then show ?case
    using extends_trans [OF one(1) two(1)] first(1,3) one(2) two(2) old(1)
    by (simp add: copied_def copy_both_def a b load_both_def reach_both_def)
qed

text \<open>A struct is its parts and plain fields.\<close>

lemma deep_struct:
  assumes "deep_copy l r f"
    and "\<And>h x. load h x = view x (l h (parts x))" and "\<And>h x. reach h x = r h (parts x)"
    and "\<And>h x. copy h x = (case f h (parts x) of (h', p) \<Rightarrow> (h', set_parts p x))"
    and "\<And>p x. parts (set_parts p x) = p" and "\<And>p q x. view (set_parts p x) q = view x q"
  shows "deep_copy load reach copy"
proof (unfold_locales, goal_cases)
  case (1 h x h')
  then show ?case using deep_copy.load_frame [OF assms(1), of h "parts x" h'] by (simp add: assms(2,3))
next
  case (2 h x h')
  then show ?case using deep_copy.reach_frame [OF assms(1), of h "parts x" h'] by (simp add: assms(3))
next
  case (3 h x)
  obtain h' p where p: "f h (parts x) = (h', p)" by fastforce
  have "r h (parts x) \<subseteq> {..<hp_next h}" using 3 by (simp add: assms(3))
  from deep_copy.copyD [OF assms(1) this p] show ?case
    by (simp add: copied_def assms(2,3,4,5,6) p)
qed

end
