(* ===== verification/DeepCopy.thy ===== *)
theory DeepCopy
  imports DeepHeap ApiTypes
begin

text \<open>
  The deep copies of \<open>api/v1alpha1/zz_generated.deepcopy.go\<close>, over a store of cells: the
  in-memory form of each struct with its pointers and slices, the value of \<open>ApiTypes\<close> it
  stands for, and the functions \<open>DeepCopyInto\<close> and \<open>DeepCopy\<close>, each shown to meet
  the contract \<open>deep_copy\<close>. The result of \<open>DeepCopyInto(out)\<close> is what it leaves in
  \<open>out\<close>. The copies of the apimachinery types are the parameter \<open>meta_lib\<close>. The controllers work on such copies, so that
  they can be modelled on values.
\<close>

section \<open>Structs in memory\<close>

record TypeMeta =
  tm_Kind :: string
  tm_APIVersion :: string

record mem_ObjectMeta =
  mo_Name :: string
  mo_Namespace :: string
  mo_Generation :: int
  mo_DeletionTimestamp :: "addr option"
  mo_Finalizers :: slice_header

record ListMeta =
  lm_ResourceVersion :: string
  lm_Continue :: string
  lm_RemainingItemCount :: "int option"

record mem_ListMeta =
  mlm_ResourceVersion :: string
  mlm_Continue :: string
  mlm_RemainingItemCount :: "addr option"

record mem_ServiceAccountIdentity =
  mi_Alias :: string
  mi_Subject :: string
  mi_Issuer :: string
  mi_Audiences :: slice_header

record mem_ControlPlaneEntityStatus =
  mes_ObservedGeneration :: int
  mes_IdentityID :: string
  mes_Identity :: "addr option"
  mes_Conditions :: slice_header

record mem_ControlPlaneTrustStatus =
  mts_ObservedGeneration :: int
  mts_AuthMountPath :: string
  mts_Issuer :: string
  mts_Audience :: string
  mts_ResolvedOpenBaoInstance :: string
  mts_Conditions :: slice_header

record mem_OpenBaoAuthSpec =
  mas_JWT :: "addr option"

record mem_OpenBaoInstanceSpec =
  mis_Address :: string
  mis_InsecureSkipVerify :: bool
  mis_Namespace :: string
  mis_CABundleRef :: "addr option"
  mis_Auth :: mem_OpenBaoAuthSpec

record mem_OpenBaoInstanceStatus =
  mit_ObservedGeneration :: int
  mit_Version :: string
  mit_Initialized :: "addr option"
  mit_Sealed :: "addr option"
  mit_LastProbeTime :: "addr option"
  mit_Conditions :: slice_header

record mem_PolicyBindingSpec =
  mbs_PolicyName :: string
  mbs_TTL :: string
  mbs_MaxTTL :: string
  mbs_ControlPlaneEntityRefs :: slice_header

record mem_PolicyBindingStatus =
  mbt_ObservedGeneration :: int
  mbt_PolicyName :: string
  mbt_PolicyExists :: string
  mbt_Roles :: slice_header
  mbt_Conditions :: slice_header

record mem_ProjectEntityStatus =
  mps_ObservedGeneration :: int
  mps_EntityID :: string
  mps_GroupID :: string
  mps_ResolvedOpenBaoRef :: string
  mps_Conditions :: slice_header

record mem_ServiceConfigSpec =
  mcs_AuthMountPrefix :: string
  mcs_RequeueAfter :: string
  mcs_PlatformCredentialRef :: "addr option"

record mem_ServiceConfigStatus =
  mct_ObservedGeneration :: int
  mct_Conditions :: slice_header

text \<open>The six kinds have the same outer shape, and so have their lists.\<close>

record ('s, 't) mem_object =
  mm_TypeMeta :: TypeMeta
  mm_ObjectMeta :: mem_ObjectMeta
  mm_Spec :: 's
  mm_Status :: 't

record mem_list =
  mm_ListTypeMeta :: TypeMeta
  mm_ListMeta :: mem_ListMeta
  mm_Items :: slice_header

type_synonym mem_ControlPlaneEntity = "(ControlPlaneEntitySpec, mem_ControlPlaneEntityStatus) mem_object"
type_synonym mem_ControlPlaneTrust = "(ControlPlaneTrustSpec, mem_ControlPlaneTrustStatus) mem_object"
type_synonym mem_OpenBaoInstance = "(mem_OpenBaoInstanceSpec, mem_OpenBaoInstanceStatus) mem_object"
type_synonym mem_PolicyBinding = "(mem_PolicyBindingSpec, mem_PolicyBindingStatus) mem_object"
type_synonym mem_ProjectEntity = "(ProjectEntitySpec, mem_ProjectEntityStatus) mem_object"
type_synonym mem_ServiceConfig = "(mem_ServiceConfigSpec, mem_ServiceConfigStatus) mem_object"

section \<open>Cells\<close>

text \<open>What a pointer or a slice can refer to.\<close>

datatype part_cell =
    PReference (the_PReference: LocalObjectReference)
  | PNamespaced (the_PNamespaced: NamespacedObjectReference)
  | PRole (the_PRole: PolicyBindingRoleStatus)
  | PEntitySpec (the_PEntitySpec: ControlPlaneEntitySpec)
  | PTrustSpec (the_PTrustSpec: ControlPlaneTrustSpec)
  | PProjectSpec (the_PProjectSpec: ProjectEntitySpec)
  | PEntityStatus (the_PEntityStatus: mem_ControlPlaneEntityStatus)
  | PTrustStatus (the_PTrustStatus: mem_ControlPlaneTrustStatus)
  | PAuth (the_PAuth: mem_OpenBaoAuthSpec)
  | PInstanceSpec (the_PInstanceSpec: mem_OpenBaoInstanceSpec)
  | PInstanceStatus (the_PInstanceStatus: mem_OpenBaoInstanceStatus)
  | PBindingSpec (the_PBindingSpec: mem_PolicyBindingSpec)
  | PBindingStatus (the_PBindingStatus: mem_PolicyBindingStatus)
  | PProjectStatus (the_PProjectStatus: mem_ProjectEntityStatus)
  | PConfigSpec (the_PConfigSpec: mem_ServiceConfigSpec)
  | PConfigStatus (the_PConfigStatus: mem_ServiceConfigStatus)

datatype object_cell =
    OEntity (the_OEntity: mem_ControlPlaneEntity)
  | OEntitys (the_OEntitys: "mem_ControlPlaneEntity list")
  | OEntityList (the_OEntityList: mem_list)
  | OTrust (the_OTrust: mem_ControlPlaneTrust)
  | OTrusts (the_OTrusts: "mem_ControlPlaneTrust list")
  | OTrustList (the_OTrustList: mem_list)
  | OInstance (the_OInstance: mem_OpenBaoInstance)
  | OInstances (the_OInstances: "mem_OpenBaoInstance list")
  | OInstanceList (the_OInstanceList: mem_list)
  | OBinding (the_OBinding: mem_PolicyBinding)
  | OBindings (the_OBindings: "mem_PolicyBinding list")
  | OBindingList (the_OBindingList: mem_list)
  | OProjectEntity (the_OProjectEntity: mem_ProjectEntity)
  | OProjectEntitys (the_OProjectEntitys: "mem_ProjectEntity list")
  | OProjectEntityList (the_OProjectEntityList: mem_list)
  | OConfig (the_OConfig: mem_ServiceConfig)
  | OConfigs (the_OConfigs: "mem_ServiceConfig list")
  | OConfigList (the_OConfigList: mem_list)

datatype cell =
    FBool (the_FBool: bool)
  | FTime (the_FTime: time)
  | FInt (the_FInt: int)
  | FStrings (the_FStrings: "string list")
  | FConditions (the_FConditions: "Condition list")
  | FReferences (the_FReferences: "LocalObjectReference list")
  | FRoles (the_FRoles: "PolicyBindingRoleStatus list")
  | FIdentity (the_FIdentity: mem_ServiceAccountIdentity)
  | FJWTAuth (the_FJWTAuth: OpenBaoJWTAuthSpec)
  | FSecretKey (the_FSecretKey: LocalSecretKeyRef)
  | Part (the_Part: part_cell)
  | Object (the_Object: object_cell)

section \<open>The library\<close>

definition listed :: "'a list option \<Rightarrow> 'a list" where
  "listed xs = (case xs of None \<Rightarrow> [] | Some ys \<Rightarrow> ys)"

definition load_ObjectMeta :: "cell heap \<Rightarrow> mem_ObjectMeta \<Rightarrow> ObjectMeta" where
  "load_ObjectMeta h x = \<lparr>om_Name = mo_Name x, om_Namespace = mo_Namespace x, om_Generation =
    mo_Generation x,
     om_DeletionTimestamp = load_ptr the_FTime plain_load h (mo_DeletionTimestamp x),
     om_Finalizers = listed (load_slice the_FStrings plain_load h (mo_Finalizers x))\<rparr>"

definition reach_ObjectMeta :: "cell heap \<Rightarrow> mem_ObjectMeta \<Rightarrow> addr set" where
  "reach_ObjectMeta h x = reach_ptr the_FTime plain_reach h (mo_DeletionTimestamp x) \<union>
     reach_slice the_FStrings plain_reach h (mo_Finalizers x)"

definition load_ListMeta :: "cell heap \<Rightarrow> mem_ListMeta \<Rightarrow> ListMeta" where
  "load_ListMeta h x = \<lparr>lm_ResourceVersion = mlm_ResourceVersion x, lm_Continue = mlm_Continue x,
     lm_RemainingItemCount = load_ptr the_FInt plain_load h (mlm_RemainingItemCount x)\<rparr>"

definition reach_ListMeta :: "cell heap \<Rightarrow> mem_ListMeta \<Rightarrow> addr set" where
  "reach_ListMeta h x = reach_ptr the_FInt plain_reach h (mlm_RemainingItemCount x)"

text \<open>The copies of \<open>k8s.io/apimachinery\<close>; its documentation calls them deep copies.\<close>

record meta_lib =
  mt_ObjectMeta :: "(cell, mem_ObjectMeta) copier"
  mt_ListMeta :: "(cell, mem_ListMeta) copier"
  mt_Condition :: "(cell, Condition) copier"
  mt_Time :: "(cell, addr option) copier"

definition lawful_meta :: "meta_lib \<Rightarrow> bool" where
  "lawful_meta ml \<longleftrightarrow>
     deep_copy load_ObjectMeta reach_ObjectMeta (mt_ObjectMeta ml) \<and>
     deep_copy load_ListMeta reach_ListMeta (mt_ListMeta ml) \<and>
     deep_copy plain_load plain_reach (mt_Condition ml) \<and>
     deep_copy (load_ptr the_FTime plain_load) (reach_ptr the_FTime plain_reach) (mt_Time ml)"

lemma lawful_metaD:
  assumes "lawful_meta ml"
  shows "deep_copy load_ObjectMeta reach_ObjectMeta (mt_ObjectMeta ml)"
    and "deep_copy load_ListMeta reach_ListMeta (mt_ListMeta ml)"
    and "deep_copy plain_load plain_reach (mt_Condition ml)"
    and "deep_copy (load_ptr the_FTime plain_load) (reach_ptr the_FTime plain_reach) (mt_Time ml)"
  using assms by (simp_all add: lawful_meta_def)

section \<open>Cells of pointers and slices\<close>

lemma deep_Identity_cell:
  "deep_copy load reach copy \<Longrightarrow>
   deep_copy (load_ptr the_FIdentity load) (reach_ptr the_FIdentity reach) (copy_ptr FIdentity the_FIdentity
     copy)"
  by (rule deep_ptr) simp_all

lemma deep_JWTAuth_cell:
  "deep_copy load reach copy \<Longrightarrow>
   deep_copy (load_ptr the_FJWTAuth load) (reach_ptr the_FJWTAuth reach) (copy_ptr FJWTAuth the_FJWTAuth copy)"
  by (rule deep_ptr) simp_all

lemma deep_SecretKey_cell:
  "deep_copy load reach copy \<Longrightarrow>
   deep_copy (load_ptr the_FSecretKey load) (reach_ptr the_FSecretKey reach) (copy_ptr FSecretKey
     the_FSecretKey copy)"
  by (rule deep_ptr) simp_all

lemma deep_Bool_cell:
  "deep_copy load reach copy \<Longrightarrow>
   deep_copy (load_ptr the_FBool load) (reach_ptr the_FBool reach) (copy_ptr FBool the_FBool copy)"
  by (rule deep_ptr) simp_all

lemma deep_Strings_cell:
  "deep_copy load reach copy \<Longrightarrow>
   deep_copy (load_slice the_FStrings load) (reach_slice the_FStrings reach) (copy_slice FStrings
     the_FStrings copy)"
  by (rule deep_slice) simp_all

lemma deep_Conditions_cell:
  "deep_copy load reach copy \<Longrightarrow>
   deep_copy (load_slice the_FConditions load) (reach_slice the_FConditions reach) (copy_slice FConditions
     the_FConditions copy)"
  by (rule deep_slice) simp_all

lemma deep_References_cell:
  "deep_copy load reach copy \<Longrightarrow>
   deep_copy (load_slice the_FReferences load) (reach_slice the_FReferences reach) (copy_slice FReferences
     the_FReferences copy)"
  by (rule deep_slice) simp_all

lemma deep_Roles_cell:
  "deep_copy load reach copy \<Longrightarrow>
   deep_copy (load_slice the_FRoles load) (reach_slice the_FRoles reach) (copy_slice FRoles the_FRoles copy)"
  by (rule deep_slice) simp_all

section \<open>Structs without pointers\<close>

definition LocalObjectReference_DeepCopyInto :: "(cell, LocalObjectReference) copier" where [deep_defs]:
  "LocalObjectReference_DeepCopyInto h x = (h, x)"

definition LocalObjectReference_DeepCopy :: "(cell, addr option) copier" where
  "LocalObjectReference_DeepCopy =
     copy_ptr (\<lambda>v. Part (PReference v)) (\<lambda>c. the_PReference (the_Part c))
       LocalObjectReference_DeepCopyInto"

definition LocalSecretKeyRef_DeepCopyInto :: "(cell, LocalSecretKeyRef) copier" where [deep_defs]:
  "LocalSecretKeyRef_DeepCopyInto h x = (h, x)"

definition LocalSecretKeyRef_DeepCopy :: "(cell, addr option) copier" where
  "LocalSecretKeyRef_DeepCopy =
     copy_ptr FSecretKey the_FSecretKey LocalSecretKeyRef_DeepCopyInto"

definition NamespacedObjectReference_DeepCopyInto :: "(cell, NamespacedObjectReference) copier" where
  [deep_defs]:
  "NamespacedObjectReference_DeepCopyInto h x = (h, x)"

definition NamespacedObjectReference_DeepCopy :: "(cell, addr option) copier" where
  "NamespacedObjectReference_DeepCopy =
     copy_ptr (\<lambda>v. Part (PNamespaced v)) (\<lambda>c. the_PNamespaced (the_Part c))
       NamespacedObjectReference_DeepCopyInto"

definition OpenBaoJWTAuthSpec_DeepCopyInto :: "(cell, OpenBaoJWTAuthSpec) copier" where [deep_defs]:
  "OpenBaoJWTAuthSpec_DeepCopyInto h x = (h, x)"

definition OpenBaoJWTAuthSpec_DeepCopy :: "(cell, addr option) copier" where
  "OpenBaoJWTAuthSpec_DeepCopy =
     copy_ptr FJWTAuth the_FJWTAuth OpenBaoJWTAuthSpec_DeepCopyInto"

definition PolicyBindingRoleStatus_DeepCopyInto :: "(cell, PolicyBindingRoleStatus) copier" where [deep_defs]:
  "PolicyBindingRoleStatus_DeepCopyInto h x = (h, x)"

definition PolicyBindingRoleStatus_DeepCopy :: "(cell, addr option) copier" where
  "PolicyBindingRoleStatus_DeepCopy =
     copy_ptr (\<lambda>v. Part (PRole v)) (\<lambda>c. the_PRole (the_Part c))
       PolicyBindingRoleStatus_DeepCopyInto"

definition ControlPlaneEntitySpec_DeepCopyInto :: "(cell, ControlPlaneEntitySpec) copier" where [deep_defs]:
  "ControlPlaneEntitySpec_DeepCopyInto h x = (h, x)"

definition ControlPlaneEntitySpec_DeepCopy :: "(cell, addr option) copier" where
  "ControlPlaneEntitySpec_DeepCopy =
     copy_ptr (\<lambda>v. Part (PEntitySpec v)) (\<lambda>c. the_PEntitySpec (the_Part c))
       ControlPlaneEntitySpec_DeepCopyInto"

definition ControlPlaneTrustSpec_DeepCopyInto :: "(cell, ControlPlaneTrustSpec) copier" where [deep_defs]:
  "ControlPlaneTrustSpec_DeepCopyInto h x = (h, x)"

definition ControlPlaneTrustSpec_DeepCopy :: "(cell, addr option) copier" where
  "ControlPlaneTrustSpec_DeepCopy =
     copy_ptr (\<lambda>v. Part (PTrustSpec v)) (\<lambda>c. the_PTrustSpec (the_Part c))
       ControlPlaneTrustSpec_DeepCopyInto"

definition ProjectEntitySpec_DeepCopyInto :: "(cell, ProjectEntitySpec) copier" where [deep_defs]:
  "ProjectEntitySpec_DeepCopyInto h x = (h, x)"

definition ProjectEntitySpec_DeepCopy :: "(cell, addr option) copier" where
  "ProjectEntitySpec_DeepCopy =
     copy_ptr (\<lambda>v. Part (PProjectSpec v)) (\<lambda>c. the_PProjectSpec (the_Part c))
       ProjectEntitySpec_DeepCopyInto"

lemma deep_plain_structs:
  "deep_copy plain_load plain_reach LocalObjectReference_DeepCopyInto"
  "deep_copy plain_load plain_reach LocalSecretKeyRef_DeepCopyInto"
  "deep_copy plain_load plain_reach NamespacedObjectReference_DeepCopyInto"
  "deep_copy plain_load plain_reach OpenBaoJWTAuthSpec_DeepCopyInto"
  "deep_copy plain_load plain_reach PolicyBindingRoleStatus_DeepCopyInto"
  "deep_copy plain_load plain_reach ControlPlaneEntitySpec_DeepCopyInto"
  "deep_copy plain_load plain_reach ControlPlaneTrustSpec_DeepCopyInto"
  "deep_copy plain_load plain_reach ProjectEntitySpec_DeepCopyInto"
  using deep_plain unfolding plain_copy_def deep_defs by simp_all

section \<open>Structs with pointers and slices\<close>

subsection \<open>ServiceAccountIdentity\<close>

definition view_ServiceAccountIdentity where [deep_defs]:
  "view_ServiceAccountIdentity x p1 = \<lparr>sai_Alias = mi_Alias x,
     sai_Subject = mi_Subject x,
     sai_Issuer = mi_Issuer x,
     sai_Audiences = listed p1\<rparr>"

definition load_ServiceAccountIdentity :: "cell heap \<Rightarrow> mem_ServiceAccountIdentity \<Rightarrow>
  ServiceAccountIdentity" where [deep_defs]:
  "load_ServiceAccountIdentity h x =
     view_ServiceAccountIdentity x (load_slice the_FStrings plain_load h (mi_Audiences x))"

definition reach_ServiceAccountIdentity :: "cell heap \<Rightarrow> mem_ServiceAccountIdentity \<Rightarrow>
  addr set" where [deep_defs]:
  "reach_ServiceAccountIdentity h x = reach_slice the_FStrings plain_reach h (mi_Audiences x)"

definition ServiceAccountIdentity_DeepCopyInto :: "(cell, mem_ServiceAccountIdentity) copier" where [deep_defs]:
  "ServiceAccountIdentity_DeepCopyInto h x =
     (case copy_slice FStrings the_FStrings plain_copy h (mi_Audiences x) of (h, p1) \<Rightarrow>
      (h, x\<lparr>mi_Audiences := p1\<rparr>))"

lemma deep_ServiceAccountIdentity:
  shows "deep_copy load_ServiceAccountIdentity reach_ServiceAccountIdentity ServiceAccountIdentity_DeepCopyInto"
  by (rule deep_struct [OF deep_Strings_cell [OF deep_plain],
      where view = view_ServiceAccountIdentity and parts = "\<lambda>x. mi_Audiences x"
      and set_parts = "\<lambda>p1 x. x\<lparr>mi_Audiences := p1\<rparr>"])
    (simp_all add: deep_defs copy_both_def split: prod.split)

definition ServiceAccountIdentity_DeepCopy :: "(cell, addr option) copier" where
  "ServiceAccountIdentity_DeepCopy =
     copy_ptr FIdentity the_FIdentity ServiceAccountIdentity_DeepCopyInto"

subsection \<open>ControlPlaneEntityStatus\<close>

definition view_ControlPlaneEntityStatus where [deep_defs]:
  "view_ControlPlaneEntityStatus x p = (case p of (p1, p2) \<Rightarrow> \<lparr>cest_ObservedGeneration =
    mes_ObservedGeneration x,
     cest_Identity = p1,
     cest_IdentityID = mes_IdentityID x,
     cest_Conditions = listed p2\<rparr>)"

definition load_ControlPlaneEntityStatus :: "cell heap \<Rightarrow> mem_ControlPlaneEntityStatus
  \<Rightarrow> ControlPlaneEntityStatus" where [deep_defs]:
  "load_ControlPlaneEntityStatus h x =
     view_ControlPlaneEntityStatus x (load_both (load_ptr the_FIdentity load_ServiceAccountIdentity)
       (load_slice the_FConditions plain_load) h (mes_Identity x, mes_Conditions x))"

definition reach_ControlPlaneEntityStatus :: "cell heap \<Rightarrow> mem_ControlPlaneEntityStatus
  \<Rightarrow> addr set" where [deep_defs]:
  "reach_ControlPlaneEntityStatus h x = reach_both (reach_ptr the_FIdentity reach_ServiceAccountIdentity)
    (reach_slice the_FConditions plain_reach) h (mes_Identity x, mes_Conditions x)"

definition ControlPlaneEntityStatus_DeepCopyInto :: "meta_lib \<Rightarrow> (cell,
  mem_ControlPlaneEntityStatus) copier" where [deep_defs]:
  "ControlPlaneEntityStatus_DeepCopyInto ml h x =
     (case copy_ptr FIdentity the_FIdentity ServiceAccountIdentity_DeepCopyInto h (mes_Identity x) of (h,
       p1) \<Rightarrow>
      (case copy_slice FConditions the_FConditions (mt_Condition ml) h (mes_Conditions x) of (h, p2)
        \<Rightarrow>
      (h, x\<lparr>mes_Identity := p1, mes_Conditions := p2\<rparr>)))"

lemma deep_ControlPlaneEntityStatus:
  assumes "lawful_meta ml"
  shows "deep_copy load_ControlPlaneEntityStatus reach_ControlPlaneEntityStatus
    (ControlPlaneEntityStatus_DeepCopyInto ml)"
  by (rule deep_struct [OF deep_both [OF deep_Identity_cell [OF deep_ServiceAccountIdentity]
    deep_Conditions_cell [OF lawful_metaD(3) [OF assms]]],
      where view = view_ControlPlaneEntityStatus and parts = "\<lambda>x. (mes_Identity x, mes_Conditions x)"
      and set_parts = "\<lambda>(p1, p2) x. x\<lparr>mes_Identity := p1, mes_Conditions := p2\<rparr>"])
    (simp_all add: deep_defs copy_both_def split: prod.split)

definition ControlPlaneEntityStatus_DeepCopy :: "meta_lib \<Rightarrow> (cell, addr option) copier" where
  "ControlPlaneEntityStatus_DeepCopy ml =
     copy_ptr (\<lambda>v. Part (PEntityStatus v)) (\<lambda>c. the_PEntityStatus (the_Part c))
       (ControlPlaneEntityStatus_DeepCopyInto ml)"

subsection \<open>ControlPlaneTrustStatus\<close>

definition view_ControlPlaneTrustStatus where [deep_defs]:
  "view_ControlPlaneTrustStatus x p1 = \<lparr>ctst_ObservedGeneration = mts_ObservedGeneration x,
     ctst_AuthMountPath = mts_AuthMountPath x,
     ctst_Issuer = mts_Issuer x,
     ctst_Audience = mts_Audience x,
     ctst_ResolvedOpenBaoInstance = mts_ResolvedOpenBaoInstance x,
     ctst_Conditions = listed p1\<rparr>"

definition load_ControlPlaneTrustStatus :: "cell heap \<Rightarrow> mem_ControlPlaneTrustStatus
  \<Rightarrow> ControlPlaneTrustStatus" where [deep_defs]:
  "load_ControlPlaneTrustStatus h x =
     view_ControlPlaneTrustStatus x (load_slice the_FConditions plain_load h (mts_Conditions x))"

definition reach_ControlPlaneTrustStatus :: "cell heap \<Rightarrow> mem_ControlPlaneTrustStatus
  \<Rightarrow> addr set" where [deep_defs]:
  "reach_ControlPlaneTrustStatus h x = reach_slice the_FConditions plain_reach h (mts_Conditions x)"

definition ControlPlaneTrustStatus_DeepCopyInto :: "meta_lib \<Rightarrow> (cell,
  mem_ControlPlaneTrustStatus) copier" where [deep_defs]:
  "ControlPlaneTrustStatus_DeepCopyInto ml h x =
     (case copy_slice FConditions the_FConditions (mt_Condition ml) h (mts_Conditions x) of (h, p1)
       \<Rightarrow>
      (h, x\<lparr>mts_Conditions := p1\<rparr>))"

lemma deep_ControlPlaneTrustStatus:
  assumes "lawful_meta ml"
  shows "deep_copy load_ControlPlaneTrustStatus reach_ControlPlaneTrustStatus
    (ControlPlaneTrustStatus_DeepCopyInto ml)"
  by (rule deep_struct [OF deep_Conditions_cell [OF lawful_metaD(3) [OF assms]],
      where view = view_ControlPlaneTrustStatus and parts = "\<lambda>x. mts_Conditions x"
      and set_parts = "\<lambda>p1 x. x\<lparr>mts_Conditions := p1\<rparr>"])
    (simp_all add: deep_defs copy_both_def split: prod.split)

definition ControlPlaneTrustStatus_DeepCopy :: "meta_lib \<Rightarrow> (cell, addr option) copier" where
  "ControlPlaneTrustStatus_DeepCopy ml =
     copy_ptr (\<lambda>v. Part (PTrustStatus v)) (\<lambda>c. the_PTrustStatus (the_Part c))
       (ControlPlaneTrustStatus_DeepCopyInto ml)"

subsection \<open>OpenBaoAuthSpec\<close>

definition view_OpenBaoAuthSpec where [deep_defs]:
  "view_OpenBaoAuthSpec x p1 = \<lparr>as_JWT = p1\<rparr>"

definition load_OpenBaoAuthSpec :: "cell heap \<Rightarrow> mem_OpenBaoAuthSpec \<Rightarrow>
  OpenBaoAuthSpec" where [deep_defs]:
  "load_OpenBaoAuthSpec h x =
     view_OpenBaoAuthSpec x (load_ptr the_FJWTAuth plain_load h (mas_JWT x))"

definition reach_OpenBaoAuthSpec :: "cell heap \<Rightarrow> mem_OpenBaoAuthSpec \<Rightarrow> addr set"
  where [deep_defs]:
  "reach_OpenBaoAuthSpec h x = reach_ptr the_FJWTAuth plain_reach h (mas_JWT x)"

definition OpenBaoAuthSpec_DeepCopyInto :: "(cell, mem_OpenBaoAuthSpec) copier" where [deep_defs]:
  "OpenBaoAuthSpec_DeepCopyInto h x =
     (case copy_ptr FJWTAuth the_FJWTAuth plain_copy h (mas_JWT x) of (h, p1) \<Rightarrow>
      (h, x\<lparr>mas_JWT := p1\<rparr>))"

lemma deep_OpenBaoAuthSpec:
  shows "deep_copy load_OpenBaoAuthSpec reach_OpenBaoAuthSpec OpenBaoAuthSpec_DeepCopyInto"
  by (rule deep_struct [OF deep_JWTAuth_cell [OF deep_plain],
      where view = view_OpenBaoAuthSpec and parts = "\<lambda>x. mas_JWT x"
      and set_parts = "\<lambda>p1 x. x\<lparr>mas_JWT := p1\<rparr>"])
    (simp_all add: deep_defs copy_both_def split: prod.split)

definition OpenBaoAuthSpec_DeepCopy :: "(cell, addr option) copier" where
  "OpenBaoAuthSpec_DeepCopy =
     copy_ptr (\<lambda>v. Part (PAuth v)) (\<lambda>c. the_PAuth (the_Part c)) OpenBaoAuthSpec_DeepCopyInto"

subsection \<open>OpenBaoInstanceSpec\<close>

definition view_OpenBaoInstanceSpec where [deep_defs]:
  "view_OpenBaoInstanceSpec x p = (case p of (p1, p2) \<Rightarrow> \<lparr>ois_Address = mis_Address x,
     ois_CABundleRef = p1,
     ois_InsecureSkipVerify = mis_InsecureSkipVerify x,
     ois_Namespace = mis_Namespace x,
     ois_Auth = p2\<rparr>)"

definition load_OpenBaoInstanceSpec :: "cell heap \<Rightarrow> mem_OpenBaoInstanceSpec \<Rightarrow>
  OpenBaoInstanceSpec" where [deep_defs]:
  "load_OpenBaoInstanceSpec h x =
     view_OpenBaoInstanceSpec x (load_both (load_ptr the_FSecretKey plain_load) (load_OpenBaoAuthSpec) h
       (mis_CABundleRef x, mis_Auth x))"

definition reach_OpenBaoInstanceSpec :: "cell heap \<Rightarrow> mem_OpenBaoInstanceSpec \<Rightarrow> addr
  set" where [deep_defs]:
  "reach_OpenBaoInstanceSpec h x = reach_both (reach_ptr the_FSecretKey plain_reach) (reach_OpenBaoAuthSpec)
    h (mis_CABundleRef x, mis_Auth x)"

definition OpenBaoInstanceSpec_DeepCopyInto :: "(cell, mem_OpenBaoInstanceSpec) copier" where [deep_defs]:
  "OpenBaoInstanceSpec_DeepCopyInto h x =
     (case copy_ptr FSecretKey the_FSecretKey plain_copy h (mis_CABundleRef x) of (h, p1) \<Rightarrow>
      (case OpenBaoAuthSpec_DeepCopyInto h (mis_Auth x) of (h, p2) \<Rightarrow>
      (h, x\<lparr>mis_CABundleRef := p1, mis_Auth := p2\<rparr>)))"

lemma deep_OpenBaoInstanceSpec:
  shows "deep_copy load_OpenBaoInstanceSpec reach_OpenBaoInstanceSpec OpenBaoInstanceSpec_DeepCopyInto"
  by (rule deep_struct [OF deep_both [OF deep_SecretKey_cell [OF deep_plain] deep_OpenBaoAuthSpec],
      where view = view_OpenBaoInstanceSpec and parts = "\<lambda>x. (mis_CABundleRef x, mis_Auth x)"
      and set_parts = "\<lambda>(p1, p2) x. x\<lparr>mis_CABundleRef := p1, mis_Auth := p2\<rparr>"])
    (simp_all add: deep_defs copy_both_def split: prod.split)

definition OpenBaoInstanceSpec_DeepCopy :: "(cell, addr option) copier" where
  "OpenBaoInstanceSpec_DeepCopy =
     copy_ptr (\<lambda>v. Part (PInstanceSpec v)) (\<lambda>c. the_PInstanceSpec (the_Part c))
       OpenBaoInstanceSpec_DeepCopyInto"

subsection \<open>OpenBaoInstanceStatus\<close>

definition view_OpenBaoInstanceStatus where [deep_defs]:
  "view_OpenBaoInstanceStatus x p = (case p of (p1, (p2, (p3, p4))) \<Rightarrow>
    \<lparr>oist_ObservedGeneration = mit_ObservedGeneration x,
     oist_Version = mit_Version x,
     oist_Initialized = p1,
     oist_Sealed = p2,
     oist_LastProbeTime = p3,
     oist_Conditions = listed p4\<rparr>)"

definition load_OpenBaoInstanceStatus :: "cell heap \<Rightarrow> mem_OpenBaoInstanceStatus \<Rightarrow>
  OpenBaoInstanceStatus" where [deep_defs]:
  "load_OpenBaoInstanceStatus h x =
     view_OpenBaoInstanceStatus x (load_both (load_ptr the_FBool plain_load) (load_both (load_ptr the_FBool
       plain_load) (load_both (load_ptr the_FTime plain_load) (load_slice the_FConditions plain_load))) h
       (mit_Initialized x, (mit_Sealed x, (mit_LastProbeTime x, mit_Conditions x))))"

definition reach_OpenBaoInstanceStatus :: "cell heap \<Rightarrow> mem_OpenBaoInstanceStatus \<Rightarrow>
  addr set" where [deep_defs]:
  "reach_OpenBaoInstanceStatus h x = reach_both (reach_ptr the_FBool plain_reach) (reach_both (reach_ptr
    the_FBool plain_reach) (reach_both (reach_ptr the_FTime plain_reach) (reach_slice the_FConditions
    plain_reach))) h (mit_Initialized x, (mit_Sealed x, (mit_LastProbeTime x, mit_Conditions x)))"

definition OpenBaoInstanceStatus_DeepCopyInto :: "meta_lib \<Rightarrow> (cell, mem_OpenBaoInstanceStatus)
  copier" where [deep_defs]:
  "OpenBaoInstanceStatus_DeepCopyInto ml h x =
     (case copy_ptr FBool the_FBool plain_copy h (mit_Initialized x) of (h, p1) \<Rightarrow>
      (case copy_ptr FBool the_FBool plain_copy h (mit_Sealed x) of (h, p2) \<Rightarrow>
      (case mt_Time ml h (mit_LastProbeTime x) of (h, p3) \<Rightarrow>
      (case copy_slice FConditions the_FConditions (mt_Condition ml) h (mit_Conditions x) of (h, p4)
        \<Rightarrow>
      (h, x\<lparr>mit_Initialized := p1, mit_Sealed := p2, mit_LastProbeTime := p3, mit_Conditions :=
        p4\<rparr>)))))"

lemma deep_OpenBaoInstanceStatus:
  assumes "lawful_meta ml"
  shows "deep_copy load_OpenBaoInstanceStatus reach_OpenBaoInstanceStatus
    (OpenBaoInstanceStatus_DeepCopyInto ml)"
  by (rule deep_struct [OF deep_both [OF deep_Bool_cell [OF deep_plain] deep_both [OF deep_Bool_cell [OF
    deep_plain] deep_both [OF lawful_metaD(4) [OF assms] deep_Conditions_cell [OF lawful_metaD(3) [OF
    assms]]]]],
      where view = view_OpenBaoInstanceStatus and parts = "\<lambda>x. (mit_Initialized x, (mit_Sealed x,
        (mit_LastProbeTime x, mit_Conditions x)))"
      and set_parts = "\<lambda>(p1, p2, p3, p4) x. x\<lparr>mit_Initialized := p1, mit_Sealed := p2,
        mit_LastProbeTime := p3, mit_Conditions := p4\<rparr>"])
    (simp_all add: deep_defs copy_both_def split: prod.split)

definition OpenBaoInstanceStatus_DeepCopy :: "meta_lib \<Rightarrow> (cell, addr option) copier" where
  "OpenBaoInstanceStatus_DeepCopy ml =
     copy_ptr (\<lambda>v. Part (PInstanceStatus v)) (\<lambda>c. the_PInstanceStatus (the_Part c))
       (OpenBaoInstanceStatus_DeepCopyInto ml)"

subsection \<open>PolicyBindingSpec\<close>

definition view_PolicyBindingSpec where [deep_defs]:
  "view_PolicyBindingSpec x p1 = \<lparr>pbs_PolicyName = mbs_PolicyName x,
     pbs_ControlPlaneEntityRefs = listed p1,
     pbs_TTL = mbs_TTL x,
     pbs_MaxTTL = mbs_MaxTTL x\<rparr>"

definition load_PolicyBindingSpec :: "cell heap \<Rightarrow> mem_PolicyBindingSpec \<Rightarrow>
  PolicyBindingSpec" where [deep_defs]:
  "load_PolicyBindingSpec h x =
     view_PolicyBindingSpec x (load_slice the_FReferences plain_load h (mbs_ControlPlaneEntityRefs x))"

definition reach_PolicyBindingSpec :: "cell heap \<Rightarrow> mem_PolicyBindingSpec \<Rightarrow> addr set"
  where [deep_defs]:
  "reach_PolicyBindingSpec h x = reach_slice the_FReferences plain_reach h (mbs_ControlPlaneEntityRefs x)"

definition PolicyBindingSpec_DeepCopyInto :: "(cell, mem_PolicyBindingSpec) copier" where [deep_defs]:
  "PolicyBindingSpec_DeepCopyInto h x =
     (case copy_slice FReferences the_FReferences plain_copy h (mbs_ControlPlaneEntityRefs x) of (h, p1)
       \<Rightarrow>
      (h, x\<lparr>mbs_ControlPlaneEntityRefs := p1\<rparr>))"

lemma deep_PolicyBindingSpec:
  shows "deep_copy load_PolicyBindingSpec reach_PolicyBindingSpec PolicyBindingSpec_DeepCopyInto"
  by (rule deep_struct [OF deep_References_cell [OF deep_plain],
      where view = view_PolicyBindingSpec and parts = "\<lambda>x. mbs_ControlPlaneEntityRefs x"
      and set_parts = "\<lambda>p1 x. x\<lparr>mbs_ControlPlaneEntityRefs := p1\<rparr>"])
    (simp_all add: deep_defs copy_both_def split: prod.split)

definition PolicyBindingSpec_DeepCopy :: "(cell, addr option) copier" where
  "PolicyBindingSpec_DeepCopy =
     copy_ptr (\<lambda>v. Part (PBindingSpec v)) (\<lambda>c. the_PBindingSpec (the_Part c))
       PolicyBindingSpec_DeepCopyInto"

subsection \<open>PolicyBindingStatus\<close>

definition view_PolicyBindingStatus where [deep_defs]:
  "view_PolicyBindingStatus x p = (case p of (p1, p2) \<Rightarrow> \<lparr>pbst_ObservedGeneration =
    mbt_ObservedGeneration x,
     pbst_Roles = listed p1,
     pbst_PolicyName = mbt_PolicyName x,
     pbst_PolicyExists = mbt_PolicyExists x,
     pbst_Conditions = listed p2\<rparr>)"

definition load_PolicyBindingStatus :: "cell heap \<Rightarrow> mem_PolicyBindingStatus \<Rightarrow>
  PolicyBindingStatus" where [deep_defs]:
  "load_PolicyBindingStatus h x =
     view_PolicyBindingStatus x (load_both (load_slice the_FRoles plain_load) (load_slice the_FConditions
       plain_load) h (mbt_Roles x, mbt_Conditions x))"

definition reach_PolicyBindingStatus :: "cell heap \<Rightarrow> mem_PolicyBindingStatus \<Rightarrow> addr
  set" where [deep_defs]:
  "reach_PolicyBindingStatus h x = reach_both (reach_slice the_FRoles plain_reach) (reach_slice
    the_FConditions plain_reach) h (mbt_Roles x, mbt_Conditions x)"

definition PolicyBindingStatus_DeepCopyInto :: "meta_lib \<Rightarrow> (cell, mem_PolicyBindingStatus)
  copier" where [deep_defs]:
  "PolicyBindingStatus_DeepCopyInto ml h x =
     (case copy_slice FRoles the_FRoles plain_copy h (mbt_Roles x) of (h, p1) \<Rightarrow>
      (case copy_slice FConditions the_FConditions (mt_Condition ml) h (mbt_Conditions x) of (h, p2)
        \<Rightarrow>
      (h, x\<lparr>mbt_Roles := p1, mbt_Conditions := p2\<rparr>)))"

lemma deep_PolicyBindingStatus:
  assumes "lawful_meta ml"
  shows "deep_copy load_PolicyBindingStatus reach_PolicyBindingStatus (PolicyBindingStatus_DeepCopyInto ml)"
  by (rule deep_struct [OF deep_both [OF deep_Roles_cell [OF deep_plain] deep_Conditions_cell [OF
    lawful_metaD(3) [OF assms]]],
      where view = view_PolicyBindingStatus and parts = "\<lambda>x. (mbt_Roles x, mbt_Conditions x)"
      and set_parts = "\<lambda>(p1, p2) x. x\<lparr>mbt_Roles := p1, mbt_Conditions := p2\<rparr>"])
    (simp_all add: deep_defs copy_both_def split: prod.split)

definition PolicyBindingStatus_DeepCopy :: "meta_lib \<Rightarrow> (cell, addr option) copier" where
  "PolicyBindingStatus_DeepCopy ml =
     copy_ptr (\<lambda>v. Part (PBindingStatus v)) (\<lambda>c. the_PBindingStatus (the_Part c))
       (PolicyBindingStatus_DeepCopyInto ml)"

subsection \<open>ProjectEntityStatus\<close>

definition view_ProjectEntityStatus where [deep_defs]:
  "view_ProjectEntityStatus x p1 = \<lparr>pest_ObservedGeneration = mps_ObservedGeneration x,
     pest_EntityID = mps_EntityID x,
     pest_GroupID = mps_GroupID x,
     pest_ResolvedOpenBaoRef = mps_ResolvedOpenBaoRef x,
     pest_Conditions = listed p1\<rparr>"

definition load_ProjectEntityStatus :: "cell heap \<Rightarrow> mem_ProjectEntityStatus \<Rightarrow>
  ProjectEntityStatus" where [deep_defs]:
  "load_ProjectEntityStatus h x =
     view_ProjectEntityStatus x (load_slice the_FConditions plain_load h (mps_Conditions x))"

definition reach_ProjectEntityStatus :: "cell heap \<Rightarrow> mem_ProjectEntityStatus \<Rightarrow> addr
  set" where [deep_defs]:
  "reach_ProjectEntityStatus h x = reach_slice the_FConditions plain_reach h (mps_Conditions x)"

definition ProjectEntityStatus_DeepCopyInto :: "meta_lib \<Rightarrow> (cell, mem_ProjectEntityStatus)
  copier" where [deep_defs]:
  "ProjectEntityStatus_DeepCopyInto ml h x =
     (case copy_slice FConditions the_FConditions (mt_Condition ml) h (mps_Conditions x) of (h, p1)
       \<Rightarrow>
      (h, x\<lparr>mps_Conditions := p1\<rparr>))"

lemma deep_ProjectEntityStatus:
  assumes "lawful_meta ml"
  shows "deep_copy load_ProjectEntityStatus reach_ProjectEntityStatus (ProjectEntityStatus_DeepCopyInto ml)"
  by (rule deep_struct [OF deep_Conditions_cell [OF lawful_metaD(3) [OF assms]],
      where view = view_ProjectEntityStatus and parts = "\<lambda>x. mps_Conditions x"
      and set_parts = "\<lambda>p1 x. x\<lparr>mps_Conditions := p1\<rparr>"])
    (simp_all add: deep_defs copy_both_def split: prod.split)

definition ProjectEntityStatus_DeepCopy :: "meta_lib \<Rightarrow> (cell, addr option) copier" where
  "ProjectEntityStatus_DeepCopy ml =
     copy_ptr (\<lambda>v. Part (PProjectStatus v)) (\<lambda>c. the_PProjectStatus (the_Part c))
       (ProjectEntityStatus_DeepCopyInto ml)"

subsection \<open>ServiceConfigSpec\<close>

definition view_ServiceConfigSpec where [deep_defs]:
  "view_ServiceConfigSpec x p1 = \<lparr>scs_AuthMountPrefix = mcs_AuthMountPrefix x,
     scs_RequeueAfter = mcs_RequeueAfter x,
     scs_PlatformCredentialRef = p1\<rparr>"

definition load_ServiceConfigSpec :: "cell heap \<Rightarrow> mem_ServiceConfigSpec \<Rightarrow>
  ServiceConfigSpec" where [deep_defs]:
  "load_ServiceConfigSpec h x =
     view_ServiceConfigSpec x (load_ptr the_FSecretKey plain_load h (mcs_PlatformCredentialRef x))"

definition reach_ServiceConfigSpec :: "cell heap \<Rightarrow> mem_ServiceConfigSpec \<Rightarrow> addr set"
  where [deep_defs]:
  "reach_ServiceConfigSpec h x = reach_ptr the_FSecretKey plain_reach h (mcs_PlatformCredentialRef x)"

definition ServiceConfigSpec_DeepCopyInto :: "(cell, mem_ServiceConfigSpec) copier" where [deep_defs]:
  "ServiceConfigSpec_DeepCopyInto h x =
     (case copy_ptr FSecretKey the_FSecretKey plain_copy h (mcs_PlatformCredentialRef x) of (h, p1)
       \<Rightarrow>
      (h, x\<lparr>mcs_PlatformCredentialRef := p1\<rparr>))"

lemma deep_ServiceConfigSpec:
  shows "deep_copy load_ServiceConfigSpec reach_ServiceConfigSpec ServiceConfigSpec_DeepCopyInto"
  by (rule deep_struct [OF deep_SecretKey_cell [OF deep_plain],
      where view = view_ServiceConfigSpec and parts = "\<lambda>x. mcs_PlatformCredentialRef x"
      and set_parts = "\<lambda>p1 x. x\<lparr>mcs_PlatformCredentialRef := p1\<rparr>"])
    (simp_all add: deep_defs copy_both_def split: prod.split)

definition ServiceConfigSpec_DeepCopy :: "(cell, addr option) copier" where
  "ServiceConfigSpec_DeepCopy =
     copy_ptr (\<lambda>v. Part (PConfigSpec v)) (\<lambda>c. the_PConfigSpec (the_Part c))
       ServiceConfigSpec_DeepCopyInto"

subsection \<open>ServiceConfigStatus\<close>

definition view_ServiceConfigStatus where [deep_defs]:
  "view_ServiceConfigStatus x p1 = \<lparr>scst_ObservedGeneration = mct_ObservedGeneration x,
     scst_Conditions = listed p1\<rparr>"

definition load_ServiceConfigStatus :: "cell heap \<Rightarrow> mem_ServiceConfigStatus \<Rightarrow>
  ServiceConfigStatus" where [deep_defs]:
  "load_ServiceConfigStatus h x =
     view_ServiceConfigStatus x (load_slice the_FConditions plain_load h (mct_Conditions x))"

definition reach_ServiceConfigStatus :: "cell heap \<Rightarrow> mem_ServiceConfigStatus \<Rightarrow> addr
  set" where [deep_defs]:
  "reach_ServiceConfigStatus h x = reach_slice the_FConditions plain_reach h (mct_Conditions x)"

definition ServiceConfigStatus_DeepCopyInto :: "meta_lib \<Rightarrow> (cell, mem_ServiceConfigStatus)
  copier" where [deep_defs]:
  "ServiceConfigStatus_DeepCopyInto ml h x =
     (case copy_slice FConditions the_FConditions (mt_Condition ml) h (mct_Conditions x) of (h, p1)
       \<Rightarrow>
      (h, x\<lparr>mct_Conditions := p1\<rparr>))"

lemma deep_ServiceConfigStatus:
  assumes "lawful_meta ml"
  shows "deep_copy load_ServiceConfigStatus reach_ServiceConfigStatus (ServiceConfigStatus_DeepCopyInto ml)"
  by (rule deep_struct [OF deep_Conditions_cell [OF lawful_metaD(3) [OF assms]],
      where view = view_ServiceConfigStatus and parts = "\<lambda>x. mct_Conditions x"
      and set_parts = "\<lambda>p1 x. x\<lparr>mct_Conditions := p1\<rparr>"])
    (simp_all add: deep_defs copy_both_def split: prod.split)

definition ServiceConfigStatus_DeepCopy :: "meta_lib \<Rightarrow> (cell, addr option) copier" where
  "ServiceConfigStatus_DeepCopy ml =
     copy_ptr (\<lambda>v. Part (PConfigStatus v)) (\<lambda>c. the_PConfigStatus (the_Part c))
       (ServiceConfigStatus_DeepCopyInto ml)"

end
