(* ===== verification/DeepObjects.thy ===== *)
theory DeepObjects
  imports DeepCopy
begin

text \<open>
  The deep copies of the six kinds and their lists, from \<open>zz_generated.deepcopy.go\<close>: an object
  read from a cache and copied shares nothing with the cache.
\<close>

section \<open>Objects and lists\<close>

definition load_object ::
    "(cell heap \<Rightarrow> 's \<Rightarrow> 'u) \<Rightarrow> (cell heap \<Rightarrow> 't \<Rightarrow>
      'v) \<Rightarrow> (ObjectMeta \<Rightarrow> 'u \<Rightarrow> 'v \<Rightarrow> 'o) \<Rightarrow>
     cell heap \<Rightarrow> ('s, 't) mem_object \<Rightarrow> TypeMeta \<times> 'o" where
  "load_object ls lt mk h x =
     (mm_TypeMeta x, mk (load_ObjectMeta h (mm_ObjectMeta x)) (ls h (mm_Spec x)) (lt h (mm_Status x)))"

definition reach_object ::
    "(cell heap \<Rightarrow> 's \<Rightarrow> addr set) \<Rightarrow> (cell heap \<Rightarrow> 't
      \<Rightarrow> addr set) \<Rightarrow>
     cell heap \<Rightarrow> ('s, 't) mem_object \<Rightarrow> addr set" where
  "reach_object rs rt h x =
     reach_ObjectMeta h (mm_ObjectMeta x) \<union> (rs h (mm_Spec x) \<union> rt h (mm_Status x))"

lemma deep_object:
  assumes "lawful_meta ml" "deep_copy ls rs cs" "deep_copy lt rt ct"
    and "\<And>h x. copy h x = (case mt_ObjectMeta ml h (mm_ObjectMeta x) of (h, m) \<Rightarrow>
        (case cs h (mm_Spec x) of (h, s) \<Rightarrow> (case ct h (mm_Status x) of (h, t) \<Rightarrow>
           (h, x\<lparr>mm_ObjectMeta := m, mm_Spec := s, mm_Status := t\<rparr>))))"
  shows "deep_copy (load_object ls lt mk) (reach_object rs rt) copy"
  by (rule deep_struct [OF deep_both [OF lawful_metaD(1) [OF assms(1)] deep_both [OF assms(2,3)]],
        where view = "\<lambda>x (m, s, t). (mm_TypeMeta x, mk m s t)"
          and parts = "\<lambda>x. (mm_ObjectMeta x, mm_Spec x, mm_Status x)"
          and set_parts = "\<lambda>(m, s, t) x. x\<lparr>mm_ObjectMeta := m, mm_Spec := s, mm_Status :=
            t\<rparr>"])
    (simp_all add: load_object_def reach_object_def load_both_def reach_both_def copy_both_def assms(4)
      split: prod.split)

definition load_list ::
    "(cell \<Rightarrow> 'a list) \<Rightarrow> (cell heap \<Rightarrow> 'a \<Rightarrow> 'o) \<Rightarrow>
      cell heap \<Rightarrow> mem_list \<Rightarrow> TypeMeta \<times> ListMeta \<times> 'o list" where
  "load_list get load h x =
     (mm_ListTypeMeta x, load_ListMeta h (mm_ListMeta x), listed (load_slice get load h (mm_Items x)))"

definition reach_list ::
    "(cell \<Rightarrow> 'a list) \<Rightarrow> (cell heap \<Rightarrow> 'a \<Rightarrow> addr set)
      \<Rightarrow> cell heap \<Rightarrow> mem_list \<Rightarrow> addr set" where
  "reach_list get reach h x = reach_ListMeta h (mm_ListMeta x) \<union> reach_slice get reach h (mm_Items x)"

lemma deep_list:
  assumes "lawful_meta ml" "deep_copy load reach item" "\<And>ys. get (put ys) = ys"
    and "\<And>h x. copy h x = (case mt_ListMeta ml h (mm_ListMeta x) of (h, m) \<Rightarrow>
        (case copy_slice put get item h (mm_Items x) of (h, s) \<Rightarrow>
           (h, x\<lparr>mm_ListMeta := m, mm_Items := s\<rparr>)))"
  shows "deep_copy (load_list get load) (reach_list get reach) copy"
  by (rule deep_struct [OF deep_both [OF lawful_metaD(2) [OF assms(1)] deep_slice [OF assms(2), OF assms(3)]],
        where view = "\<lambda>x (m, s). (mm_ListTypeMeta x, m, listed s)"
          and parts = "\<lambda>x. (mm_ListMeta x, mm_Items x)"
          and set_parts = "\<lambda>(m, s) x. x\<lparr>mm_ListMeta := m, mm_Items := s\<rparr>"])
    (simp_all add: load_list_def reach_list_def load_both_def reach_both_def copy_both_def assms(4) split:
      prod.split)

text \<open>A value of the interface \<open>runtime.Object\<close>: nil, or the kind and the pointer.\<close>

type_synonym runtime_object = "(string \<times> addr) option"

text \<open>The text of every \<open>DeepCopyObject\<close>: a nil copy becomes a nil interface.\<close>

definition as_object :: "string \<Rightarrow> cell heap \<times> addr option \<Rightarrow> cell heap
  \<times> runtime_object" where
  "as_object kind r = (case r of (h, c) \<Rightarrow> (h, case c of Some a \<Rightarrow> Some (kind, a) |
    None \<Rightarrow> None))"

section \<open>ControlPlaneEntity\<close>

definition load_ControlPlaneEntity :: "cell heap \<Rightarrow> mem_ControlPlaneEntity \<Rightarrow> TypeMeta
  \<times> ControlPlaneEntity" where
  "load_ControlPlaneEntity =
     load_object plain_load load_ControlPlaneEntityStatus (\<lambda>m s t. \<lparr>ce_Meta = m, ce_Spec = s,
       ce_Status = t\<rparr>)"

definition reach_ControlPlaneEntity :: "cell heap \<Rightarrow> mem_ControlPlaneEntity \<Rightarrow> addr
  set" where
  "reach_ControlPlaneEntity = reach_object plain_reach reach_ControlPlaneEntityStatus"

definition ControlPlaneEntity_DeepCopyInto :: "meta_lib \<Rightarrow> (cell, mem_ControlPlaneEntity) copier"
  where
  "ControlPlaneEntity_DeepCopyInto ml h x =
     (case mt_ObjectMeta ml h (mm_ObjectMeta x) of (h, m) \<Rightarrow>
      (case ControlPlaneEntityStatus_DeepCopyInto ml h (mm_Status x) of (h, t) \<Rightarrow>
      (h, x\<lparr>mm_ObjectMeta := m, mm_Status := t\<rparr>)))"

lemma deep_ControlPlaneEntity:
  assumes "lawful_meta ml"
  shows "deep_copy load_ControlPlaneEntity reach_ControlPlaneEntity (ControlPlaneEntity_DeepCopyInto ml)"
  unfolding load_ControlPlaneEntity_def reach_ControlPlaneEntity_def
  by (rule deep_object [OF assms deep_plain deep_ControlPlaneEntityStatus [OF assms]])
    (simp add: ControlPlaneEntity_DeepCopyInto_def plain_copy_def split: prod.split)

abbreviation put_ControlPlaneEntity where "put_ControlPlaneEntity \<equiv> \<lambda>v. Object (OEntity v)"
abbreviation get_ControlPlaneEntity where "get_ControlPlaneEntity \<equiv> \<lambda>c. the_OEntity
  (the_Object c)"

abbreviation put_ControlPlaneEntitys where "put_ControlPlaneEntitys \<equiv> \<lambda>v. Object (OEntitys v)"
abbreviation get_ControlPlaneEntitys where "get_ControlPlaneEntitys \<equiv> \<lambda>c. the_OEntitys
  (the_Object c)"

abbreviation put_ControlPlaneEntityList where "put_ControlPlaneEntityList \<equiv> \<lambda>v. Object
  (OEntityList v)"
abbreviation get_ControlPlaneEntityList where "get_ControlPlaneEntityList \<equiv> \<lambda>c.
  the_OEntityList (the_Object c)"

definition ControlPlaneEntity_DeepCopy :: "meta_lib \<Rightarrow> (cell, addr option) copier" where
  "ControlPlaneEntity_DeepCopy ml = copy_ptr put_ControlPlaneEntity get_ControlPlaneEntity
    (ControlPlaneEntity_DeepCopyInto ml)"

definition ControlPlaneEntity_DeepCopyObject :: "meta_lib \<Rightarrow> cell heap \<Rightarrow> addr option
  \<Rightarrow> cell heap \<times> runtime_object" where
  "ControlPlaneEntity_DeepCopyObject ml h p = as_object ''ControlPlaneEntity'' (ControlPlaneEntity_DeepCopy
    ml h p)"

definition ControlPlaneEntityList_DeepCopyInto :: "meta_lib \<Rightarrow> (cell, mem_list) copier" where
  "ControlPlaneEntityList_DeepCopyInto ml h x =
     (case mt_ListMeta ml h (mm_ListMeta x) of (h, m) \<Rightarrow>
      (case copy_slice put_ControlPlaneEntitys get_ControlPlaneEntitys (ControlPlaneEntity_DeepCopyInto ml)
        h (mm_Items x) of (h, s) \<Rightarrow>
      (h, x\<lparr>mm_ListMeta := m, mm_Items := s\<rparr>)))"

lemma deep_ControlPlaneEntityList:
  assumes "lawful_meta ml"
  shows "deep_copy (load_list get_ControlPlaneEntitys load_ControlPlaneEntity) (reach_list
    get_ControlPlaneEntitys reach_ControlPlaneEntity) (ControlPlaneEntityList_DeepCopyInto ml)"
  by (rule deep_list [OF assms deep_ControlPlaneEntity [OF assms], where put = put_ControlPlaneEntitys])
    (simp_all add: ControlPlaneEntityList_DeepCopyInto_def)

definition ControlPlaneEntityList_DeepCopy :: "meta_lib \<Rightarrow> (cell, addr option) copier" where
  "ControlPlaneEntityList_DeepCopy ml = copy_ptr put_ControlPlaneEntityList get_ControlPlaneEntityList
    (ControlPlaneEntityList_DeepCopyInto ml)"

definition ControlPlaneEntityList_DeepCopyObject :: "meta_lib \<Rightarrow> cell heap \<Rightarrow> addr
  option \<Rightarrow> cell heap \<times> runtime_object" where
  "ControlPlaneEntityList_DeepCopyObject ml h p = as_object ''ControlPlaneEntityList''
    (ControlPlaneEntityList_DeepCopy ml h p)"

section \<open>ControlPlaneTrust\<close>

definition load_ControlPlaneTrust :: "cell heap \<Rightarrow> mem_ControlPlaneTrust \<Rightarrow> TypeMeta
  \<times> ControlPlaneTrust" where
  "load_ControlPlaneTrust =
     load_object plain_load load_ControlPlaneTrustStatus (\<lambda>m s t. \<lparr>ct_Meta = m, ct_Spec = s,
       ct_Status = t\<rparr>)"

definition reach_ControlPlaneTrust :: "cell heap \<Rightarrow> mem_ControlPlaneTrust \<Rightarrow> addr set"
  where
  "reach_ControlPlaneTrust = reach_object plain_reach reach_ControlPlaneTrustStatus"

definition ControlPlaneTrust_DeepCopyInto :: "meta_lib \<Rightarrow> (cell, mem_ControlPlaneTrust) copier" where
  "ControlPlaneTrust_DeepCopyInto ml h x =
     (case mt_ObjectMeta ml h (mm_ObjectMeta x) of (h, m) \<Rightarrow>
      (case ControlPlaneTrustStatus_DeepCopyInto ml h (mm_Status x) of (h, t) \<Rightarrow>
      (h, x\<lparr>mm_ObjectMeta := m, mm_Status := t\<rparr>)))"

lemma deep_ControlPlaneTrust:
  assumes "lawful_meta ml"
  shows "deep_copy load_ControlPlaneTrust reach_ControlPlaneTrust (ControlPlaneTrust_DeepCopyInto ml)"
  unfolding load_ControlPlaneTrust_def reach_ControlPlaneTrust_def
  by (rule deep_object [OF assms deep_plain deep_ControlPlaneTrustStatus [OF assms]])
    (simp add: ControlPlaneTrust_DeepCopyInto_def plain_copy_def split: prod.split)

abbreviation put_ControlPlaneTrust where "put_ControlPlaneTrust \<equiv> \<lambda>v. Object (OTrust v)"
abbreviation get_ControlPlaneTrust where "get_ControlPlaneTrust \<equiv> \<lambda>c. the_OTrust (the_Object c)"

abbreviation put_ControlPlaneTrusts where "put_ControlPlaneTrusts \<equiv> \<lambda>v. Object (OTrusts v)"
abbreviation get_ControlPlaneTrusts where "get_ControlPlaneTrusts \<equiv> \<lambda>c. the_OTrusts
  (the_Object c)"

abbreviation put_ControlPlaneTrustList where "put_ControlPlaneTrustList \<equiv> \<lambda>v. Object
  (OTrustList v)"
abbreviation get_ControlPlaneTrustList where "get_ControlPlaneTrustList \<equiv> \<lambda>c. the_OTrustList
  (the_Object c)"

definition ControlPlaneTrust_DeepCopy :: "meta_lib \<Rightarrow> (cell, addr option) copier" where
  "ControlPlaneTrust_DeepCopy ml = copy_ptr put_ControlPlaneTrust get_ControlPlaneTrust
    (ControlPlaneTrust_DeepCopyInto ml)"

definition ControlPlaneTrust_DeepCopyObject :: "meta_lib \<Rightarrow> cell heap \<Rightarrow> addr option
  \<Rightarrow> cell heap \<times> runtime_object" where
  "ControlPlaneTrust_DeepCopyObject ml h p = as_object ''ControlPlaneTrust'' (ControlPlaneTrust_DeepCopy ml
    h p)"

definition ControlPlaneTrustList_DeepCopyInto :: "meta_lib \<Rightarrow> (cell, mem_list) copier" where
  "ControlPlaneTrustList_DeepCopyInto ml h x =
     (case mt_ListMeta ml h (mm_ListMeta x) of (h, m) \<Rightarrow>
      (case copy_slice put_ControlPlaneTrusts get_ControlPlaneTrusts (ControlPlaneTrust_DeepCopyInto ml) h
        (mm_Items x) of (h, s) \<Rightarrow>
      (h, x\<lparr>mm_ListMeta := m, mm_Items := s\<rparr>)))"

lemma deep_ControlPlaneTrustList:
  assumes "lawful_meta ml"
  shows "deep_copy (load_list get_ControlPlaneTrusts load_ControlPlaneTrust) (reach_list
    get_ControlPlaneTrusts reach_ControlPlaneTrust) (ControlPlaneTrustList_DeepCopyInto ml)"
  by (rule deep_list [OF assms deep_ControlPlaneTrust [OF assms], where put = put_ControlPlaneTrusts])
    (simp_all add: ControlPlaneTrustList_DeepCopyInto_def)

definition ControlPlaneTrustList_DeepCopy :: "meta_lib \<Rightarrow> (cell, addr option) copier" where
  "ControlPlaneTrustList_DeepCopy ml = copy_ptr put_ControlPlaneTrustList get_ControlPlaneTrustList
    (ControlPlaneTrustList_DeepCopyInto ml)"

definition ControlPlaneTrustList_DeepCopyObject :: "meta_lib \<Rightarrow> cell heap \<Rightarrow> addr
  option \<Rightarrow> cell heap \<times> runtime_object" where
  "ControlPlaneTrustList_DeepCopyObject ml h p = as_object ''ControlPlaneTrustList''
    (ControlPlaneTrustList_DeepCopy ml h p)"

section \<open>OpenBaoInstance\<close>

definition load_OpenBaoInstance :: "cell heap \<Rightarrow> mem_OpenBaoInstance \<Rightarrow> TypeMeta
  \<times> OpenBaoInstance" where
  "load_OpenBaoInstance =
     load_object load_OpenBaoInstanceSpec load_OpenBaoInstanceStatus (\<lambda>m s t. \<lparr>oi_Meta = m,
       oi_Spec = s, oi_Status = t\<rparr>)"

definition reach_OpenBaoInstance :: "cell heap \<Rightarrow> mem_OpenBaoInstance \<Rightarrow> addr set" where
  "reach_OpenBaoInstance = reach_object reach_OpenBaoInstanceSpec reach_OpenBaoInstanceStatus"

definition OpenBaoInstance_DeepCopyInto :: "meta_lib \<Rightarrow> (cell, mem_OpenBaoInstance) copier" where
  "OpenBaoInstance_DeepCopyInto ml h x =
     (case mt_ObjectMeta ml h (mm_ObjectMeta x) of (h, m) \<Rightarrow>
      (case OpenBaoInstanceSpec_DeepCopyInto h (mm_Spec x) of (h, s) \<Rightarrow>
      (case OpenBaoInstanceStatus_DeepCopyInto ml h (mm_Status x) of (h, t) \<Rightarrow>
      (h, x\<lparr>mm_ObjectMeta := m, mm_Spec := s, mm_Status := t\<rparr>))))"

lemma deep_OpenBaoInstance:
  assumes "lawful_meta ml"
  shows "deep_copy load_OpenBaoInstance reach_OpenBaoInstance (OpenBaoInstance_DeepCopyInto ml)"
  unfolding load_OpenBaoInstance_def reach_OpenBaoInstance_def
  by (rule deep_object [OF assms deep_OpenBaoInstanceSpec deep_OpenBaoInstanceStatus [OF assms]])
    (simp add: OpenBaoInstance_DeepCopyInto_def split: prod.split)

abbreviation put_OpenBaoInstance where "put_OpenBaoInstance \<equiv> \<lambda>v. Object (OInstance v)"
abbreviation get_OpenBaoInstance where "get_OpenBaoInstance \<equiv> \<lambda>c. the_OInstance (the_Object c)"

abbreviation put_OpenBaoInstances where "put_OpenBaoInstances \<equiv> \<lambda>v. Object (OInstances v)"
abbreviation get_OpenBaoInstances where "get_OpenBaoInstances \<equiv> \<lambda>c. the_OInstances
  (the_Object c)"

abbreviation put_OpenBaoInstanceList where "put_OpenBaoInstanceList \<equiv> \<lambda>v. Object
  (OInstanceList v)"
abbreviation get_OpenBaoInstanceList where "get_OpenBaoInstanceList \<equiv> \<lambda>c. the_OInstanceList
  (the_Object c)"

definition OpenBaoInstance_DeepCopy :: "meta_lib \<Rightarrow> (cell, addr option) copier" where
  "OpenBaoInstance_DeepCopy ml = copy_ptr put_OpenBaoInstance get_OpenBaoInstance
    (OpenBaoInstance_DeepCopyInto ml)"

definition OpenBaoInstance_DeepCopyObject :: "meta_lib \<Rightarrow> cell heap \<Rightarrow> addr option
  \<Rightarrow> cell heap \<times> runtime_object" where
  "OpenBaoInstance_DeepCopyObject ml h p = as_object ''OpenBaoInstance'' (OpenBaoInstance_DeepCopy ml h p)"

definition OpenBaoInstanceList_DeepCopyInto :: "meta_lib \<Rightarrow> (cell, mem_list) copier" where
  "OpenBaoInstanceList_DeepCopyInto ml h x =
     (case mt_ListMeta ml h (mm_ListMeta x) of (h, m) \<Rightarrow>
      (case copy_slice put_OpenBaoInstances get_OpenBaoInstances (OpenBaoInstance_DeepCopyInto ml) h
        (mm_Items x) of (h, s) \<Rightarrow>
      (h, x\<lparr>mm_ListMeta := m, mm_Items := s\<rparr>)))"

lemma deep_OpenBaoInstanceList:
  assumes "lawful_meta ml"
  shows "deep_copy (load_list get_OpenBaoInstances load_OpenBaoInstance) (reach_list get_OpenBaoInstances
    reach_OpenBaoInstance) (OpenBaoInstanceList_DeepCopyInto ml)"
  by (rule deep_list [OF assms deep_OpenBaoInstance [OF assms], where put = put_OpenBaoInstances]) (simp_all
    add: OpenBaoInstanceList_DeepCopyInto_def)

definition OpenBaoInstanceList_DeepCopy :: "meta_lib \<Rightarrow> (cell, addr option) copier" where
  "OpenBaoInstanceList_DeepCopy ml = copy_ptr put_OpenBaoInstanceList get_OpenBaoInstanceList
    (OpenBaoInstanceList_DeepCopyInto ml)"

definition OpenBaoInstanceList_DeepCopyObject :: "meta_lib \<Rightarrow> cell heap \<Rightarrow> addr option
  \<Rightarrow> cell heap \<times> runtime_object" where
  "OpenBaoInstanceList_DeepCopyObject ml h p = as_object ''OpenBaoInstanceList''
    (OpenBaoInstanceList_DeepCopy ml h p)"

section \<open>PolicyBinding\<close>

definition load_PolicyBinding :: "cell heap \<Rightarrow> mem_PolicyBinding \<Rightarrow> TypeMeta \<times>
  PolicyBinding" where
  "load_PolicyBinding =
     load_object load_PolicyBindingSpec load_PolicyBindingStatus (\<lambda>m s t. \<lparr>pb_Meta = m,
       pb_Spec = s, pb_Status = t\<rparr>)"

definition reach_PolicyBinding :: "cell heap \<Rightarrow> mem_PolicyBinding \<Rightarrow> addr set" where
  "reach_PolicyBinding = reach_object reach_PolicyBindingSpec reach_PolicyBindingStatus"

definition PolicyBinding_DeepCopyInto :: "meta_lib \<Rightarrow> (cell, mem_PolicyBinding) copier" where
  "PolicyBinding_DeepCopyInto ml h x =
     (case mt_ObjectMeta ml h (mm_ObjectMeta x) of (h, m) \<Rightarrow>
      (case PolicyBindingSpec_DeepCopyInto h (mm_Spec x) of (h, s) \<Rightarrow>
      (case PolicyBindingStatus_DeepCopyInto ml h (mm_Status x) of (h, t) \<Rightarrow>
      (h, x\<lparr>mm_ObjectMeta := m, mm_Spec := s, mm_Status := t\<rparr>))))"

lemma deep_PolicyBinding:
  assumes "lawful_meta ml"
  shows "deep_copy load_PolicyBinding reach_PolicyBinding (PolicyBinding_DeepCopyInto ml)"
  unfolding load_PolicyBinding_def reach_PolicyBinding_def
  by (rule deep_object [OF assms deep_PolicyBindingSpec deep_PolicyBindingStatus [OF assms]])
    (simp add: PolicyBinding_DeepCopyInto_def split: prod.split)

abbreviation put_PolicyBinding where "put_PolicyBinding \<equiv> \<lambda>v. Object (OBinding v)"
abbreviation get_PolicyBinding where "get_PolicyBinding \<equiv> \<lambda>c. the_OBinding (the_Object c)"

abbreviation put_PolicyBindings where "put_PolicyBindings \<equiv> \<lambda>v. Object (OBindings v)"
abbreviation get_PolicyBindings where "get_PolicyBindings \<equiv> \<lambda>c. the_OBindings (the_Object c)"

abbreviation put_PolicyBindingList where "put_PolicyBindingList \<equiv> \<lambda>v. Object (OBindingList v)"
abbreviation get_PolicyBindingList where "get_PolicyBindingList \<equiv> \<lambda>c. the_OBindingList
  (the_Object c)"

definition PolicyBinding_DeepCopy :: "meta_lib \<Rightarrow> (cell, addr option) copier" where
  "PolicyBinding_DeepCopy ml = copy_ptr put_PolicyBinding get_PolicyBinding (PolicyBinding_DeepCopyInto ml)"

definition PolicyBinding_DeepCopyObject :: "meta_lib \<Rightarrow> cell heap \<Rightarrow> addr option
  \<Rightarrow> cell heap \<times> runtime_object" where
  "PolicyBinding_DeepCopyObject ml h p = as_object ''PolicyBinding'' (PolicyBinding_DeepCopy ml h p)"

definition PolicyBindingList_DeepCopyInto :: "meta_lib \<Rightarrow> (cell, mem_list) copier" where
  "PolicyBindingList_DeepCopyInto ml h x =
     (case mt_ListMeta ml h (mm_ListMeta x) of (h, m) \<Rightarrow>
      (case copy_slice put_PolicyBindings get_PolicyBindings (PolicyBinding_DeepCopyInto ml) h (mm_Items x)
        of (h, s) \<Rightarrow>
      (h, x\<lparr>mm_ListMeta := m, mm_Items := s\<rparr>)))"

lemma deep_PolicyBindingList:
  assumes "lawful_meta ml"
  shows "deep_copy (load_list get_PolicyBindings load_PolicyBinding) (reach_list get_PolicyBindings
    reach_PolicyBinding) (PolicyBindingList_DeepCopyInto ml)"
  by (rule deep_list [OF assms deep_PolicyBinding [OF assms], where put = put_PolicyBindings]) (simp_all
    add: PolicyBindingList_DeepCopyInto_def)

definition PolicyBindingList_DeepCopy :: "meta_lib \<Rightarrow> (cell, addr option) copier" where
  "PolicyBindingList_DeepCopy ml = copy_ptr put_PolicyBindingList get_PolicyBindingList
    (PolicyBindingList_DeepCopyInto ml)"

definition PolicyBindingList_DeepCopyObject :: "meta_lib \<Rightarrow> cell heap \<Rightarrow> addr option
  \<Rightarrow> cell heap \<times> runtime_object" where
  "PolicyBindingList_DeepCopyObject ml h p = as_object ''PolicyBindingList'' (PolicyBindingList_DeepCopy ml
    h p)"

section \<open>ProjectEntity\<close>

definition load_ProjectEntity :: "cell heap \<Rightarrow> mem_ProjectEntity \<Rightarrow> TypeMeta \<times>
  ProjectEntity" where
  "load_ProjectEntity =
     load_object plain_load load_ProjectEntityStatus (\<lambda>m s t. \<lparr>pe_Meta = m, pe_Spec = s,
       pe_Status = t\<rparr>)"

definition reach_ProjectEntity :: "cell heap \<Rightarrow> mem_ProjectEntity \<Rightarrow> addr set" where
  "reach_ProjectEntity = reach_object plain_reach reach_ProjectEntityStatus"

definition ProjectEntity_DeepCopyInto :: "meta_lib \<Rightarrow> (cell, mem_ProjectEntity) copier" where
  "ProjectEntity_DeepCopyInto ml h x =
     (case mt_ObjectMeta ml h (mm_ObjectMeta x) of (h, m) \<Rightarrow>
      (case ProjectEntityStatus_DeepCopyInto ml h (mm_Status x) of (h, t) \<Rightarrow>
      (h, x\<lparr>mm_ObjectMeta := m, mm_Status := t\<rparr>)))"

lemma deep_ProjectEntity:
  assumes "lawful_meta ml"
  shows "deep_copy load_ProjectEntity reach_ProjectEntity (ProjectEntity_DeepCopyInto ml)"
  unfolding load_ProjectEntity_def reach_ProjectEntity_def
  by (rule deep_object [OF assms deep_plain deep_ProjectEntityStatus [OF assms]])
    (simp add: ProjectEntity_DeepCopyInto_def plain_copy_def split: prod.split)

abbreviation put_ProjectEntity where "put_ProjectEntity \<equiv> \<lambda>v. Object (OProjectEntity v)"
abbreviation get_ProjectEntity where "get_ProjectEntity \<equiv> \<lambda>c. the_OProjectEntity (the_Object c)"

abbreviation put_ProjectEntitys where "put_ProjectEntitys \<equiv> \<lambda>v. Object (OProjectEntitys v)"
abbreviation get_ProjectEntitys where "get_ProjectEntitys \<equiv> \<lambda>c. the_OProjectEntitys
  (the_Object c)"

abbreviation put_ProjectEntityList where "put_ProjectEntityList \<equiv> \<lambda>v. Object
  (OProjectEntityList v)"
abbreviation get_ProjectEntityList where "get_ProjectEntityList \<equiv> \<lambda>c. the_OProjectEntityList
  (the_Object c)"

definition ProjectEntity_DeepCopy :: "meta_lib \<Rightarrow> (cell, addr option) copier" where
  "ProjectEntity_DeepCopy ml = copy_ptr put_ProjectEntity get_ProjectEntity (ProjectEntity_DeepCopyInto ml)"

definition ProjectEntity_DeepCopyObject :: "meta_lib \<Rightarrow> cell heap \<Rightarrow> addr option
  \<Rightarrow> cell heap \<times> runtime_object" where
  "ProjectEntity_DeepCopyObject ml h p = as_object ''ProjectEntity'' (ProjectEntity_DeepCopy ml h p)"

definition ProjectEntityList_DeepCopyInto :: "meta_lib \<Rightarrow> (cell, mem_list) copier" where
  "ProjectEntityList_DeepCopyInto ml h x =
     (case mt_ListMeta ml h (mm_ListMeta x) of (h, m) \<Rightarrow>
      (case copy_slice put_ProjectEntitys get_ProjectEntitys (ProjectEntity_DeepCopyInto ml) h (mm_Items x)
        of (h, s) \<Rightarrow>
      (h, x\<lparr>mm_ListMeta := m, mm_Items := s\<rparr>)))"

lemma deep_ProjectEntityList:
  assumes "lawful_meta ml"
  shows "deep_copy (load_list get_ProjectEntitys load_ProjectEntity) (reach_list get_ProjectEntitys
    reach_ProjectEntity) (ProjectEntityList_DeepCopyInto ml)"
  by (rule deep_list [OF assms deep_ProjectEntity [OF assms], where put = put_ProjectEntitys]) (simp_all
    add: ProjectEntityList_DeepCopyInto_def)

definition ProjectEntityList_DeepCopy :: "meta_lib \<Rightarrow> (cell, addr option) copier" where
  "ProjectEntityList_DeepCopy ml = copy_ptr put_ProjectEntityList get_ProjectEntityList
    (ProjectEntityList_DeepCopyInto ml)"

definition ProjectEntityList_DeepCopyObject :: "meta_lib \<Rightarrow> cell heap \<Rightarrow> addr option
  \<Rightarrow> cell heap \<times> runtime_object" where
  "ProjectEntityList_DeepCopyObject ml h p = as_object ''ProjectEntityList'' (ProjectEntityList_DeepCopy ml
    h p)"

section \<open>ServiceConfig\<close>

definition load_ServiceConfig :: "cell heap \<Rightarrow> mem_ServiceConfig \<Rightarrow> TypeMeta \<times>
  ServiceConfig" where
  "load_ServiceConfig =
     load_object load_ServiceConfigSpec load_ServiceConfigStatus (\<lambda>m s t. \<lparr>sc_Meta = m,
       sc_Spec = s, sc_Status = t\<rparr>)"

definition reach_ServiceConfig :: "cell heap \<Rightarrow> mem_ServiceConfig \<Rightarrow> addr set" where
  "reach_ServiceConfig = reach_object reach_ServiceConfigSpec reach_ServiceConfigStatus"

definition ServiceConfig_DeepCopyInto :: "meta_lib \<Rightarrow> (cell, mem_ServiceConfig) copier" where
  "ServiceConfig_DeepCopyInto ml h x =
     (case mt_ObjectMeta ml h (mm_ObjectMeta x) of (h, m) \<Rightarrow>
      (case ServiceConfigSpec_DeepCopyInto h (mm_Spec x) of (h, s) \<Rightarrow>
      (case ServiceConfigStatus_DeepCopyInto ml h (mm_Status x) of (h, t) \<Rightarrow>
      (h, x\<lparr>mm_ObjectMeta := m, mm_Spec := s, mm_Status := t\<rparr>))))"

lemma deep_ServiceConfig:
  assumes "lawful_meta ml"
  shows "deep_copy load_ServiceConfig reach_ServiceConfig (ServiceConfig_DeepCopyInto ml)"
  unfolding load_ServiceConfig_def reach_ServiceConfig_def
  by (rule deep_object [OF assms deep_ServiceConfigSpec deep_ServiceConfigStatus [OF assms]])
    (simp add: ServiceConfig_DeepCopyInto_def split: prod.split)

abbreviation put_ServiceConfig where "put_ServiceConfig \<equiv> \<lambda>v. Object (OConfig v)"
abbreviation get_ServiceConfig where "get_ServiceConfig \<equiv> \<lambda>c. the_OConfig (the_Object c)"

abbreviation put_ServiceConfigs where "put_ServiceConfigs \<equiv> \<lambda>v. Object (OConfigs v)"
abbreviation get_ServiceConfigs where "get_ServiceConfigs \<equiv> \<lambda>c. the_OConfigs (the_Object c)"

abbreviation put_ServiceConfigList where "put_ServiceConfigList \<equiv> \<lambda>v. Object (OConfigList v)"
abbreviation get_ServiceConfigList where "get_ServiceConfigList \<equiv> \<lambda>c. the_OConfigList
  (the_Object c)"

definition ServiceConfig_DeepCopy :: "meta_lib \<Rightarrow> (cell, addr option) copier" where
  "ServiceConfig_DeepCopy ml = copy_ptr put_ServiceConfig get_ServiceConfig (ServiceConfig_DeepCopyInto ml)"

definition ServiceConfig_DeepCopyObject :: "meta_lib \<Rightarrow> cell heap \<Rightarrow> addr option
  \<Rightarrow> cell heap \<times> runtime_object" where
  "ServiceConfig_DeepCopyObject ml h p = as_object ''ServiceConfig'' (ServiceConfig_DeepCopy ml h p)"

definition ServiceConfigList_DeepCopyInto :: "meta_lib \<Rightarrow> (cell, mem_list) copier" where
  "ServiceConfigList_DeepCopyInto ml h x =
     (case mt_ListMeta ml h (mm_ListMeta x) of (h, m) \<Rightarrow>
      (case copy_slice put_ServiceConfigs get_ServiceConfigs (ServiceConfig_DeepCopyInto ml) h (mm_Items x)
        of (h, s) \<Rightarrow>
      (h, x\<lparr>mm_ListMeta := m, mm_Items := s\<rparr>)))"

lemma deep_ServiceConfigList:
  assumes "lawful_meta ml"
  shows "deep_copy (load_list get_ServiceConfigs load_ServiceConfig) (reach_list get_ServiceConfigs
    reach_ServiceConfig) (ServiceConfigList_DeepCopyInto ml)"
  by (rule deep_list [OF assms deep_ServiceConfig [OF assms], where put = put_ServiceConfigs]) (simp_all
    add: ServiceConfigList_DeepCopyInto_def)

definition ServiceConfigList_DeepCopy :: "meta_lib \<Rightarrow> (cell, addr option) copier" where
  "ServiceConfigList_DeepCopy ml = copy_ptr put_ServiceConfigList get_ServiceConfigList
    (ServiceConfigList_DeepCopyInto ml)"

definition ServiceConfigList_DeepCopyObject :: "meta_lib \<Rightarrow> cell heap \<Rightarrow> addr option
  \<Rightarrow> cell heap \<times> runtime_object" where
  "ServiceConfigList_DeepCopyObject ml h p = as_object ''ServiceConfigList'' (ServiceConfigList_DeepCopy ml
    h p)"

section \<open>Copies share nothing\<close>

text \<open>The copy stands for the same value, a write to any cell of the copy leaves the original as it
  is, and a write to any cell of the original leaves the copy as it is.\<close>

definition shares_nothing ::
    "('c heap \<Rightarrow> 'a \<Rightarrow> 'v) \<Rightarrow> ('c heap \<Rightarrow> 'a \<Rightarrow> addr
      set) \<Rightarrow> ('c, 'a) copier \<Rightarrow> bool" where
  "shares_nothing load reach copy \<longleftrightarrow> (\<forall>h x h' y. reach h x \<subseteq>
    {..<hp_next h} \<and> copy h x = (h', y) \<longrightarrow>
     load h' y = load h x \<and>
     (\<forall>a c. a \<in> reach h' y \<longrightarrow> load (write_cell a c h') x = load h x) \<and>
     (\<forall>a c. a \<in> reach h' x \<longrightarrow> load (write_cell a c h') y = load h x))"

lemma deep_shares_nothing:
  assumes "deep_copy load reach copy"
  shows "shares_nothing load reach copy"
  using deep_copy.copyD(2) [OF assms] deep_copy.independent(2,3) [OF assms]
  unfolding shares_nothing_def by blast

lemma pointer_shares_nothing:
  "deep_copy load reach copy \<Longrightarrow> (\<And>y. get (put y) = y) \<Longrightarrow>
   shares_nothing (load_ptr get load) (reach_ptr get reach) (copy_ptr put get copy)"
  by (rule deep_shares_nothing, rule deep_ptr)

text \<open>C38. Deep copies: what \<open>DeepCopy\<close> of each of the six kinds returns stands for the
  same object, and original and copy share no pointer or slice, so that neither sees a write through the other.\<close>

theorem objects_share_nothing:
  assumes "lawful_meta ml"
  shows "shares_nothing (load_ptr get_ControlPlaneEntity load_ControlPlaneEntity) (reach_ptr
    get_ControlPlaneEntity reach_ControlPlaneEntity) (ControlPlaneEntity_DeepCopy ml) \<and>
    shares_nothing (load_ptr get_ControlPlaneTrust load_ControlPlaneTrust) (reach_ptr get_ControlPlaneTrust
      reach_ControlPlaneTrust) (ControlPlaneTrust_DeepCopy ml) \<and>
    shares_nothing (load_ptr get_OpenBaoInstance load_OpenBaoInstance) (reach_ptr get_OpenBaoInstance
      reach_OpenBaoInstance) (OpenBaoInstance_DeepCopy ml) \<and>
    shares_nothing (load_ptr get_PolicyBinding load_PolicyBinding) (reach_ptr get_PolicyBinding
      reach_PolicyBinding) (PolicyBinding_DeepCopy ml) \<and>
    shares_nothing (load_ptr get_ProjectEntity load_ProjectEntity) (reach_ptr get_ProjectEntity
      reach_ProjectEntity) (ProjectEntity_DeepCopy ml) \<and>
    shares_nothing (load_ptr get_ServiceConfig load_ServiceConfig) (reach_ptr get_ServiceConfig
      reach_ServiceConfig) (ServiceConfig_DeepCopy ml)"
  unfolding ControlPlaneEntity_DeepCopy_def ControlPlaneTrust_DeepCopy_def OpenBaoInstance_DeepCopy_def
    PolicyBinding_DeepCopy_def ProjectEntity_DeepCopy_def ServiceConfig_DeepCopy_def
  by (intro conjI pointer_shares_nothing deep_ControlPlaneEntity [OF assms] deep_ControlPlaneTrust [OF
    assms] deep_OpenBaoInstance [OF assms] deep_PolicyBinding [OF assms] deep_ProjectEntity [OF assms]
    deep_ServiceConfig [OF assms]) simp_all

text \<open>Deep copies of lists: the same for the six list kinds, items included.\<close>

theorem lists_share_nothing:
  assumes "lawful_meta ml"
  shows "shares_nothing (load_ptr get_ControlPlaneEntityList (load_list get_ControlPlaneEntitys
    load_ControlPlaneEntity))
      (reach_ptr get_ControlPlaneEntityList (reach_list get_ControlPlaneEntitys reach_ControlPlaneEntity))
        (ControlPlaneEntityList_DeepCopy ml) \<and>
    shares_nothing (load_ptr get_ControlPlaneTrustList (load_list get_ControlPlaneTrusts
      load_ControlPlaneTrust))
      (reach_ptr get_ControlPlaneTrustList (reach_list get_ControlPlaneTrusts reach_ControlPlaneTrust))
        (ControlPlaneTrustList_DeepCopy ml) \<and>
    shares_nothing (load_ptr get_OpenBaoInstanceList (load_list get_OpenBaoInstances load_OpenBaoInstance))
      (reach_ptr get_OpenBaoInstanceList (reach_list get_OpenBaoInstances reach_OpenBaoInstance))
        (OpenBaoInstanceList_DeepCopy ml) \<and>
    shares_nothing (load_ptr get_PolicyBindingList (load_list get_PolicyBindings load_PolicyBinding))
      (reach_ptr get_PolicyBindingList (reach_list get_PolicyBindings reach_PolicyBinding))
        (PolicyBindingList_DeepCopy ml) \<and>
    shares_nothing (load_ptr get_ProjectEntityList (load_list get_ProjectEntitys load_ProjectEntity))
      (reach_ptr get_ProjectEntityList (reach_list get_ProjectEntitys reach_ProjectEntity))
        (ProjectEntityList_DeepCopy ml) \<and>
    shares_nothing (load_ptr get_ServiceConfigList (load_list get_ServiceConfigs load_ServiceConfig))
      (reach_ptr get_ServiceConfigList (reach_list get_ServiceConfigs reach_ServiceConfig))
        (ServiceConfigList_DeepCopy ml)"
  unfolding ControlPlaneEntityList_DeepCopy_def ControlPlaneTrustList_DeepCopy_def
    OpenBaoInstanceList_DeepCopy_def PolicyBindingList_DeepCopy_def ProjectEntityList_DeepCopy_def
    ServiceConfigList_DeepCopy_def
  by (intro conjI pointer_shares_nothing deep_ControlPlaneEntityList [OF assms] deep_ControlPlaneTrustList
    [OF assms] deep_OpenBaoInstanceList [OF assms] deep_PolicyBindingList [OF assms] deep_ProjectEntityList
    [OF assms] deep_ServiceConfigList [OF assms]) simp_all

section \<open>A library\<close>

text \<open>Copies of the apimachinery types that allocate, field by field.\<close>

definition ref_meta :: meta_lib where
  "ref_meta = \<lparr>
     mt_ObjectMeta = (\<lambda>h x.
       (case copy_ptr FTime the_FTime plain_copy h (mo_DeletionTimestamp x) of (h, p) \<Rightarrow>
        (case copy_slice FStrings the_FStrings plain_copy h (mo_Finalizers x) of (h, s) \<Rightarrow>
        (h, x\<lparr>mo_DeletionTimestamp := p, mo_Finalizers := s\<rparr>)))),
     mt_ListMeta = (\<lambda>h x.
       (case copy_ptr FInt the_FInt plain_copy h (mlm_RemainingItemCount x) of (h, p) \<Rightarrow>
        (h, x\<lparr>mlm_RemainingItemCount := p\<rparr>))),
     mt_Condition = plain_copy,
     mt_Time = copy_ptr FTime the_FTime plain_copy\<rparr>"

lemma deep_ref_ObjectMeta: "deep_copy load_ObjectMeta reach_ObjectMeta (mt_ObjectMeta ref_meta)"
  by (rule deep_struct [OF deep_both [OF deep_ptr [OF deep_plain, of the_FTime FTime] deep_Strings_cell [OF
    deep_plain]],
        where view = "\<lambda>x (p, s). \<lparr>om_Name = mo_Name x, om_Namespace = mo_Namespace x,
            om_Generation = mo_Generation x, om_DeletionTimestamp = p, om_Finalizers = listed s\<rparr>"
          and parts = "\<lambda>x. (mo_DeletionTimestamp x, mo_Finalizers x)"
          and set_parts = "\<lambda>(p, s) x. x\<lparr>mo_DeletionTimestamp := p, mo_Finalizers := s\<rparr>"])
    (simp_all add: ref_meta_def load_ObjectMeta_def reach_ObjectMeta_def load_both_def reach_both_def
      copy_both_def
      split: prod.split)

lemma deep_ref_ListMeta: "deep_copy load_ListMeta reach_ListMeta (mt_ListMeta ref_meta)"
  by (rule deep_struct [OF deep_ptr [OF deep_plain, of the_FInt FInt],
        where view = "\<lambda>x p. \<lparr>lm_ResourceVersion = mlm_ResourceVersion x, lm_Continue =
          mlm_Continue x,
            lm_RemainingItemCount = p\<rparr>"
          and parts = mlm_RemainingItemCount
          and set_parts = "\<lambda>p x. x\<lparr>mlm_RemainingItemCount := p\<rparr>"])
    (simp_all add: ref_meta_def load_ListMeta_def reach_ListMeta_def split: prod.split)

lemma lawful_ref_meta: "lawful_meta ref_meta"
  using deep_ref_ObjectMeta deep_ref_ListMeta deep_plain deep_ptr [OF deep_plain, of the_FTime FTime]
  by (simp add: lawful_meta_def ref_meta_def)


interpretation controlplaneentity_copy: deep_copy load_ControlPlaneEntity reach_ControlPlaneEntity
  "ControlPlaneEntity_DeepCopyInto ref_meta"
  by (rule deep_ControlPlaneEntity [OF lawful_ref_meta])

interpretation controlplanetrust_copy: deep_copy load_ControlPlaneTrust reach_ControlPlaneTrust
  "ControlPlaneTrust_DeepCopyInto ref_meta"
  by (rule deep_ControlPlaneTrust [OF lawful_ref_meta])

interpretation openbaoinstance_copy: deep_copy load_OpenBaoInstance reach_OpenBaoInstance
  "OpenBaoInstance_DeepCopyInto ref_meta"
  by (rule deep_OpenBaoInstance [OF lawful_ref_meta])

interpretation policybinding_copy: deep_copy load_PolicyBinding reach_PolicyBinding
  "PolicyBinding_DeepCopyInto ref_meta"
  by (rule deep_PolicyBinding [OF lawful_ref_meta])

interpretation projectentity_copy: deep_copy load_ProjectEntity reach_ProjectEntity
  "ProjectEntity_DeepCopyInto ref_meta"
  by (rule deep_ProjectEntity [OF lawful_ref_meta])

interpretation serviceconfig_copy: deep_copy load_ServiceConfig reach_ServiceConfig
  "ServiceConfig_DeepCopyInto ref_meta"
  by (rule deep_ServiceConfig [OF lawful_ref_meta])

lemma objects_share_nothing_witness:
  "shares_nothing (load_ptr get_ControlPlaneEntity load_ControlPlaneEntity) (reach_ptr
    get_ControlPlaneEntity reach_ControlPlaneEntity) (ControlPlaneEntity_DeepCopy ref_meta) \<and>
    shares_nothing (load_ptr get_ControlPlaneTrust load_ControlPlaneTrust) (reach_ptr get_ControlPlaneTrust
      reach_ControlPlaneTrust) (ControlPlaneTrust_DeepCopy ref_meta) \<and>
    shares_nothing (load_ptr get_OpenBaoInstance load_OpenBaoInstance) (reach_ptr get_OpenBaoInstance
      reach_OpenBaoInstance) (OpenBaoInstance_DeepCopy ref_meta) \<and>
    shares_nothing (load_ptr get_PolicyBinding load_PolicyBinding) (reach_ptr get_PolicyBinding
      reach_PolicyBinding) (PolicyBinding_DeepCopy ref_meta) \<and>
    shares_nothing (load_ptr get_ProjectEntity load_ProjectEntity) (reach_ptr get_ProjectEntity
      reach_ProjectEntity) (ProjectEntity_DeepCopy ref_meta) \<and>
    shares_nothing (load_ptr get_ServiceConfig load_ServiceConfig) (reach_ptr get_ServiceConfig
      reach_ServiceConfig) (ServiceConfig_DeepCopy ref_meta)"
  by (rule objects_share_nothing [OF lawful_ref_meta])

lemma lists_share_nothing_witness:
  "shares_nothing (load_ptr get_ControlPlaneEntityList (load_list get_ControlPlaneEntitys
    load_ControlPlaneEntity))
      (reach_ptr get_ControlPlaneEntityList (reach_list get_ControlPlaneEntitys reach_ControlPlaneEntity))
        (ControlPlaneEntityList_DeepCopy ref_meta) \<and>
    shares_nothing (load_ptr get_ControlPlaneTrustList (load_list get_ControlPlaneTrusts
      load_ControlPlaneTrust))
      (reach_ptr get_ControlPlaneTrustList (reach_list get_ControlPlaneTrusts reach_ControlPlaneTrust))
        (ControlPlaneTrustList_DeepCopy ref_meta) \<and>
    shares_nothing (load_ptr get_OpenBaoInstanceList (load_list get_OpenBaoInstances load_OpenBaoInstance))
      (reach_ptr get_OpenBaoInstanceList (reach_list get_OpenBaoInstances reach_OpenBaoInstance))
        (OpenBaoInstanceList_DeepCopy ref_meta) \<and>
    shares_nothing (load_ptr get_PolicyBindingList (load_list get_PolicyBindings load_PolicyBinding))
      (reach_ptr get_PolicyBindingList (reach_list get_PolicyBindings reach_PolicyBinding))
        (PolicyBindingList_DeepCopy ref_meta) \<and>
    shares_nothing (load_ptr get_ProjectEntityList (load_list get_ProjectEntitys load_ProjectEntity))
      (reach_ptr get_ProjectEntityList (reach_list get_ProjectEntitys reach_ProjectEntity))
        (ProjectEntityList_DeepCopy ref_meta) \<and>
    shares_nothing (load_ptr get_ServiceConfigList (load_list get_ServiceConfigs load_ServiceConfig))
      (reach_ptr get_ServiceConfigList (reach_list get_ServiceConfigs reach_ServiceConfig))
        (ServiceConfigList_DeepCopy ref_meta)"
  by (rule lists_share_nothing [OF lawful_ref_meta])

end
