(* ===== verification/Typing.thy ===== *)
theory Typing
  imports System
begin

text \<open>
  What the controllers publish is well formed: the statuses they write keep to the schema of
  the CRDs (\<open>api/crds/manifests\<close>, generated from the markers of \<open>api/v1alpha1\<close>) and to
  the condition types documented there. It is a typing relation on objects that every pass
  preserves: an object it sends is well typed when those it received in the pass were.
\<close>

section \<open>From what is received to what is sent\<close>

text \<open>\<open>relays G P Q m\<close>: if all calls of \<open>m\<close> answered as \<open>G\<close> says, then all were made
  as \<open>P\<close> says and the result satisfies \<open>Q\<close>.\<close>

definition relays :: "('e \<Rightarrow> bool) \<Rightarrow> ('e \<Rightarrow> bool) \<Rightarrow> ('a \<Rightarrow> bool) \<Rightarrow> ('w, 'e, 'a) prog \<Rightarrow> bool" where
  "relays G P Q m \<longleftrightarrow> spec m (\<lambda>a es. list_all G es \<longrightarrow> list_all P es \<and> Q a)"

abbreviation appends :: "('w, 'e, 'a) prog \<Rightarrow> bool" where
  "appends \<equiv> emits (\<lambda>_. True)"

named_theorems relays_intros

lemma relays_return [relays_intros]: "Q a \<Longrightarrow> relays G P Q (State_Monad.return a)"
  unfolding relays_def by (rule spec_return) simp

lemma relays_call [relays_intros]:
  "(\<And>r. list_all G (ev r) \<Longrightarrow> list_all P (ev r) \<and> Q r) \<Longrightarrow> relays G P Q (call oper ev)"
  unfolding relays_def by (rule spec_call) simp

lemma relays_bind:
  assumes "relays G P R m" "\<And>a. R a \<Longrightarrow> relays G P Q (f a)" "\<And>a. appends (f a)"
  shows "relays G P Q (State_Monad.bind m f)"
  unfolding relays_def
proof (rule spec_bind [OF assms(1) [unfolded relays_def]])
  fix a es
  assume S: "list_all G es \<longrightarrow> list_all P es \<and> R a"
  show "spec (f a) (\<lambda>b es'. list_all G (es @ es') \<longrightarrow> list_all P (es @ es') \<and> Q b)"
  proof (cases "list_all G es")
    case True
    with S assms(2) [of a] have "relays G P Q (f a)" "list_all P es" by simp_all
    then show ?thesis unfolding relays_def by (auto elim: spec_mono)
  next
    case False
    then show ?thesis using assms(3) [of a] by (auto simp: spec_emits elim: spec_mono)
  qed
qed

lemma relays_call_bind [relays_intros]:
  assumes "\<And>r. list_all G (ev r) \<Longrightarrow> list_all P (ev r)"
    and "\<And>r. list_all G (ev r) \<Longrightarrow> relays G P Q (f r)" "\<And>r. appends (f r)"
  shows "relays G P Q (State_Monad.bind (call oper ev) f)"
  by (rule relays_bind [where R = "\<lambda>r. list_all G (ev r)"])
     (use assms in \<open>auto intro: relays_call\<close>)

lemma relays_if [relays_intros]:
  "(b \<Longrightarrow> relays G P Q m) \<Longrightarrow> (\<not> b \<Longrightarrow> relays G P Q n) \<Longrightarrow> relays G P Q (if b then m else n)"
  by simp

lemma relays_case_sum [relays_intros]:
  "(\<And>e. x = Inl e \<Longrightarrow> relays G P Q (f e)) \<Longrightarrow> (\<And>a. x = Inr a \<Longrightarrow> relays G P Q (g a)) \<Longrightarrow>
   relays G P Q (case x of Inl e \<Rightarrow> f e | Inr a \<Rightarrow> g a)"
  by (cases x) auto

lemma relays_case_option [relays_intros]:
  "(x = None \<Longrightarrow> relays G P Q m) \<Longrightarrow> (\<And>a. x = Some a \<Longrightarrow> relays G P Q (g a)) \<Longrightarrow>
   relays G P Q (case x of None \<Rightarrow> m | Some a \<Rightarrow> g a)"
  by (cases x) auto

lemma relays_case_prod [relays_intros]:
  "(\<And>a b. x = (a, b) \<Longrightarrow> relays G P Q (f a b)) \<Longrightarrow> relays G P Q (case x of (a, b) \<Rightarrow> f a b)"
  by (cases x) auto

lemma relays_Let [relays_intros]: "(\<And>x. x = t \<Longrightarrow> relays G P Q (f x)) \<Longrightarrow> relays G P Q (Let t f)"
  by simp

lemma relays_queue:
  assumes "\<And>q. relays G P (\<lambda>_. True) (h q)"
  shows "relays G P (\<lambda>_. True) (run_queue h qs)"
proof -
  have "appends (h q)" for q
    using assms [of q] unfolding relays_def spec_emits by (rule spec_mono) (simp add: list_all_iff)
  then show ?thesis
    by (induction qs)
       (auto intro!: relays_return relays_bind [where R = "\<lambda>_. True"] assms emits_intros
          controller.queue_emits controller.intro)
qed

section \<open>Well-formed conditions\<close>

text \<open>The pattern of a reason: a letter, then letters, digits and \<open>_ , :\<close>, not ending in the
  last two; at most 1024 bytes.\<close>

definition is_letter :: "char \<Rightarrow> bool" where
  "is_letter c \<longleftrightarrow> (CHR ''A'' \<le> c \<and> c \<le> CHR ''Z'') \<or> (CHR ''a'' \<le> c \<and> c \<le> CHR ''z'')"

definition reason_ok :: "string \<Rightarrow> bool" where
  "reason_ok r \<longleftrightarrow> r \<noteq> [] \<and> length r \<le> 1024 \<and> is_letter (hd r) \<and> last r \<notin> {CHR '','', CHR '':''} \<and>
     list_all (\<lambda>c. is_letter c \<or> is_digit c \<or> c \<in> {CHR ''_'', CHR '','', CHR '':''}) r"

text \<open>A condition found under a type: of that type, one of the documented ones, with a reason of
  the pattern, set for a generation up to the current one, and unknown only for the policy.\<close>

definition typed_condition :: "string list \<Rightarrow> int \<Rightarrow> string \<Rightarrow> Condition \<Rightarrow> bool" where
  "typed_condition types gen t c \<longleftrightarrow> t \<in> set types \<and> c_Type c = t \<and> reason_ok (c_Reason c) \<and>
     (c_Status c = ConditionUnknown \<longrightarrow> t = ConditionPolicyResolved) \<and>
     0 \<le> c_ObservedGeneration c \<and> c_ObservedGeneration c \<le> gen"

definition typed_conditions :: "klib \<Rightarrow> string list \<Rightarrow> int \<Rightarrow> Condition list \<Rightarrow> bool" where
  "typed_conditions k types gen cs \<longleftrightarrow>
     0 \<le> gen \<and> (\<forall>t c. k_FindStatusCondition k cs t = Some c \<longrightarrow> typed_condition types gen t c)"

lemma typed_setCondition:
  assumes "lawful_conditions k" "typed_conditions k types gen cs" "t \<in> set types" "reason_ok r"
    "st = ConditionUnknown \<longrightarrow> t = ConditionPolicyResolved"
  shows "typed_conditions k types gen (setCondition k gen (mk_condition t st r m) cs)"
  unfolding typed_conditions_def
proof (intro conjI allI impI)
  show "0 \<le> gen" using assms(2) by (simp add: typed_conditions_def)
  fix u c
  assume c: "k_FindStatusCondition k (setCondition k gen (mk_condition t st r m) cs) u = Some c"
  show "typed_condition types gen u c"
  proof (cases "u = t")
    case True
    with find_setCondition_same [OF assms(1), of gen "mk_condition t st r m" cs] c
    show ?thesis using assms(3-5) \<open>0 \<le> gen\<close> by (auto simp: typed_condition_def same_condition_def)
  next
    case False
    with c assms(1,2) show ?thesis
      by (simp add: typed_conditions_def find_setCondition_other)
  qed
qed

lemma reasons_ok [simp]:
  "reason_ok ReasonReconciled" "reason_ok ReasonReconcileError" "reason_ok ReasonDependencyNotFound"
  "reason_ok ReasonDependencyNotReady" "reason_ok ReasonOpenBaoUnreachable" "reason_ok ReasonIssuerDiscoveryFailed"
  "reason_ok ReasonControlPlaneUnavailable" "reason_ok ReasonPolicyNotFound" "reason_ok ReasonPolicyExists"
  "reason_ok ReasonPolicyCheckSkipped" "reason_ok ReasonWaitingForPolicy"
  by code_simp+

lemma typed_markReady:
  "lawful_conditions k \<Longrightarrow> typed_conditions k types gen cs \<Longrightarrow> ConditionReady \<in> set types \<Longrightarrow>
   ConditionDependencyReady \<in> set types \<Longrightarrow> typed_conditions k types gen (markReady k gen cs)"
  by (simp add: markReady_def Let_def typed_setCondition)

lemma typed_dependencyNotReady:
  "lawful_conditions k \<Longrightarrow> typed_conditions k types gen cs \<Longrightarrow> ConditionReady \<in> set types \<Longrightarrow>
   ConditionDependencyReady \<in> set types \<Longrightarrow> reason_ok r \<Longrightarrow>
   typed_conditions k types gen (dependencyNotReady k gen r m cs)"
  by (simp add: dependencyNotReady_def Let_def typed_setCondition)

lemmas typed_publishing = typed_setCondition typed_markReady typed_dependencyNotReady

section \<open>Well-typed objects\<close>

text \<open>The condition types of each kind: the documented ones, with two differences. An OpenBaoInstance
  also gets \<open>DependencyReady\<close>, and a ControlPlaneTrust never gets \<open>OpenBaoReachable\<close>.\<close>

definition instance_types :: "string list" where
  "instance_types = [ConditionReady, ConditionOpenBaoReachable, ConditionDependencyReady]"

definition project_entity_types :: "string list" where
  "project_entity_types = [ConditionReady, ConditionDependencyReady]"

definition trust_types :: "string list" where
  "trust_types = [ConditionReady, ConditionDependencyReady, ConditionTrustConfigured]"

definition entity_types :: "string list" where
  "entity_types = [ConditionReady, ConditionIdentityResolved, ConditionDependencyReady]"

definition binding_types :: "string list" where
  "binding_types = [ConditionReady, ConditionDependencyReady, ConditionPolicyResolved]"

lemmas type_lists = instance_types_def project_entity_types_def trust_types_def entity_types_def binding_types_def

definition typed_instance :: "klib \<Rightarrow> OpenBaoInstance \<Rightarrow> bool" where
  "typed_instance k o' \<longleftrightarrow> oist_ObservedGeneration (oi_Status o') \<le> om_Generation (oi_Meta o') \<and>
     typed_conditions k instance_types (om_Generation (oi_Meta o')) (oist_Conditions (oi_Status o'))"

definition typed_project_entity :: "klib \<Rightarrow> ProjectEntity \<Rightarrow> bool" where
  "typed_project_entity k o' \<longleftrightarrow> pest_ObservedGeneration (pe_Status o') \<le> om_Generation (pe_Meta o') \<and>
     typed_conditions k project_entity_types (om_Generation (pe_Meta o')) (pest_Conditions (pe_Status o'))"

definition typed_trust :: "klib \<Rightarrow> ControlPlaneTrust \<Rightarrow> bool" where
  "typed_trust k o' \<longleftrightarrow> ctst_ObservedGeneration (ct_Status o') \<le> om_Generation (ct_Meta o') \<and>
     typed_conditions k trust_types (om_Generation (ct_Meta o')) (ctst_Conditions (ct_Status o'))"

definition typed_entity :: "klib \<Rightarrow> ControlPlaneEntity \<Rightarrow> bool" where
  "typed_entity k o' \<longleftrightarrow> cest_ObservedGeneration (ce_Status o') \<le> om_Generation (ce_Meta o') \<and>
     typed_conditions k entity_types (om_Generation (ce_Meta o')) (cest_Conditions (ce_Status o'))"

text \<open>A reference names an object by 1 to 253 bytes. A reported role has a generated name and is
  ready only with a mount and without a message.\<close>

definition ref_ok :: "LocalObjectReference \<Rightarrow> bool" where
  "ref_ok r \<longleftrightarrow> 1 \<le> length (lor_Name r) \<and> length (lor_Name r) \<le> 253"

definition typed_role :: "PolicyBindingRoleStatus \<Rightarrow> bool" where
  "typed_role r \<longleftrightarrow> ref_ok (pbr_ControlPlaneEntityRef r) \<and> valid_name 60 (pbr_RoleName r) \<and>
     (pbr_Ready r \<longrightarrow> pbr_AuthMountPath r \<noteq> [] \<and> pbr_Message r = [])"

definition typed_binding :: "klib \<Rightarrow> PolicyBinding \<Rightarrow> bool" where
  "typed_binding k o' \<longleftrightarrow> pbst_ObservedGeneration (pb_Status o') \<le> om_Generation (pb_Meta o') \<and>
     typed_conditions k binding_types (om_Generation (pb_Meta o')) (pbst_Conditions (pb_Status o')) \<and>
     pbst_PolicyExists (pb_Status o') \<in> {[], PolicyExistenceTrue, PolicyExistenceFalse, PolicyExistenceUnknown} \<and>
     list_all ref_ok (pbs_ControlPlaneEntityRefs (pb_Spec o')) \<and> list_all typed_role (pbst_Roles (pb_Status o'))"

lemmas typed_defs = typed_instance_def typed_project_entity_def typed_trust_def typed_entity_def typed_binding_def

text \<open>The objects of the program's kinds in an answer, and in a write.\<close>

definition received_typed :: "klib \<Rightarrow> event \<Rightarrow> bool" where
  "received_typed k e = (case e of
     GotOpenBaoInstance _ (Inr (Some o')) \<Rightarrow> typed_instance k o'
   | GotProjectEntity _ _ (Inr o') \<Rightarrow> typed_project_entity k o'
   | GotControlPlaneTrust _ _ (Inr o') \<Rightarrow> typed_trust k o'
   | GotControlPlaneEntity _ _ (Inr o') \<Rightarrow> typed_entity k o'
   | GotPolicyBinding _ _ (Inr o') \<Rightarrow> typed_binding k o'
   | UpdatedControlPlaneTrust _ (Inr o') \<Rightarrow> typed_trust k o'
   | UpdatedPolicyBinding _ (Inr o') \<Rightarrow> typed_binding k o'
   | _ \<Rightarrow> True)"

definition sent_typed :: "klib \<Rightarrow> event \<Rightarrow> bool" where
  "sent_typed k e = (case e of
     StatusOpenBaoInstance o' _ \<Rightarrow> typed_instance k o'
   | StatusProjectEntity o' _ \<Rightarrow> typed_project_entity k o'
   | StatusControlPlaneTrust o' _ \<Rightarrow> typed_trust k o'
   | StatusControlPlaneEntity o' _ \<Rightarrow> typed_entity k o'
   | StatusPolicyBinding o' _ \<Rightarrow> typed_binding k o'
   | UpdatedControlPlaneTrust o' _ \<Rightarrow> typed_trust k o'
   | UpdatedPolicyBinding o' _ \<Rightarrow> typed_binding k o'
   | _ \<Rightarrow> True)"

lemmas typed_events = received_typed_def sent_typed_def

abbreviation publishes_typed :: "klib \<Rightarrow> ('w, 'a) action \<Rightarrow> bool" where
  "publishes_typed k \<equiv> relays (received_typed k) (sent_typed k) (\<lambda>_. True)"

section \<open>The reconcilers\<close>

lemma typed_OI:
  assumes "lawful_conditions k"
  shows "publishes_typed k (OI_Reconcile k R ns nm)"
  unfolding OI_Reconcile_def OI_patchStatus_def
  by (intro relays_intros emits_intros)
     (auto simp: typed_events typed_instance_def type_lists OI_unreachable_def OI_map_conditions_def Let_def intro!: typed_publishing assms
        split: sum.splits)

lemma typed_PE:
  assumes "lawful_conditions k"
  shows "publishes_typed k (PE_Reconcile k R ns nm)"
  unfolding PE_Reconcile_def PE_patchStatus_def
  by (intro relays_intros emits_intros)
     (auto simp: typed_events typed_project_entity_def type_lists PE_map_conditions_def Let_def intro!: typed_publishing assms
        split: sum.splits)

lemma typed_CT_patchStatus:
  "typed_trust k t \<Longrightarrow> publishes_typed k (CT_patchStatus R t cfg)"
  unfolding CT_patchStatus_def by (intro relays_intros emits_intros) (auto simp: typed_events)

lemma typed_CT_configure:
  assumes "lawful_conditions k" "typed_trust k t"
  shows "publishes_typed k (CT_configure k R cfg inst cp t)"
  using assms(2)
  unfolding CT_configure_def Let_def
  by (intro relays_intros emits_intros typed_CT_patchStatus)
     (auto simp: typed_events typed_trust_def type_lists CT_map_conditions_def CT_patchStatus_def
        intro!: typed_publishing assms emits_intros)

lemma typed_CT_resolve:
  assumes "lawful_conditions k" "typed_trust k t"
  shows "publishes_typed k (CT_resolve k R cfg t)"
  using assms(2)
  unfolding CT_resolve_def Let_def
  by (intro relays_intros emits_intros typed_CT_patchStatus typed_CT_configure)
     (auto simp: typed_events typed_trust_def type_lists CT_map_conditions_def CT_patchStatus_def CT_configure_def
        Let_def intro!: typed_publishing assms emits_intros)

lemma appends_CT:
  "appends (CT_resolve k R cfg t)" "appends (CT_reconcileDelete k R t)" "appends (CT_finishDelete k R t)"
  unfolding CT_defs CT_patchStatus_def by (intro emits_intros; simp)+

lemma typed_CT_finishDelete: "typed_trust k t \<Longrightarrow> publishes_typed k (CT_finishDelete k R t)"
  unfolding CT_finishDelete_def Let_def
  by (intro relays_intros emits_intros) (auto simp: typed_events typed_trust_def)

lemma typed_CT_reconcileDelete: "typed_trust k t \<Longrightarrow> publishes_typed k (CT_reconcileDelete k R t)"
  unfolding CT_reconcileDelete_def Let_def
  by (intro relays_intros emits_intros typed_CT_finishDelete appends_CT) (auto simp: typed_events)

lemma typed_CT:
  assumes "lawful_conditions k"
  shows "publishes_typed k (CT_Reconcile k R ns nm)"
  unfolding CT_Reconcile_def Let_def
  by (intro relays_intros emits_intros typed_CT_resolve typed_CT_reconcileDelete appends_CT)
     (auto simp: typed_events typed_trust_def assms split: sum.splits)

lemma typed_CE_patchStatus:
  "typed_entity k t \<Longrightarrow> publishes_typed k (CE_patchStatus R t cfg)" "appends (CE_patchStatus R t cfg)"
  unfolding CE_patchStatus_def by (intro relays_intros emits_intros; auto simp: typed_events)+

lemma typed_CE_identify:
  assumes "lawful_conditions k" "typed_entity k t"
  shows "publishes_typed k (CE_identify k env R cfg trust cp t)"
proof -
  note access = controlPlaneClusterAccess_def resolveServiceAccountIdentity_def
  have "relays (received_typed k) (sent_typed k) (\<lambda>_. True) (controlPlaneClusterAccess k env p c rs)" for p c rs
    unfolding access Let_def by (intro relays_intros emits_intros) (auto simp: typed_events)
  moreover have "relays (received_typed k) (sent_typed k) (\<lambda>_. True)
      (resolveServiceAccountIdentity k c a b ns nm aud)" for c a b ns nm aud
    unfolding access Let_def by (intro relays_intros emits_intros) (auto simp: typed_events)
  moreover have "appends (resolveServiceAccountIdentity k c a b ns nm aud)" for c a b ns nm aud
    unfolding access Let_def by (intro emits_intros) auto
  ultimately show "publishes_typed k (CE_identify k env R cfg trust cp t)"
    using assms(2) unfolding CE_identify_def Let_def
    by (intro relays_bind [where R = "\<lambda>_. True"] relays_intros emits_intros typed_CE_patchStatus)
       (auto simp: typed_entity_def type_lists CE_map_conditions_def CE_unresolved_def Let_def
          intro!: typed_publishing assms)
qed

lemma appends_CE_identify: "appends (CE_identify k env R cfg trust cp t)"
  unfolding CE_identify_def controlPlaneClusterAccess_def resolveServiceAccountIdentity_def Let_def
  by (intro emits_intros typed_CE_patchStatus) auto

lemma typed_CE:
  assumes "lawful_conditions k"
  shows "publishes_typed k (CE_Reconcile k env R ns nm)"
  unfolding CE_Reconcile_def Let_def
  by (intro relays_intros emits_intros typed_CE_patchStatus typed_CE_identify appends_CE_identify)
     (auto simp: typed_events typed_entity_def type_lists CE_map_conditions_def CE_unresolved_def Let_def
        intro!: typed_publishing assms split: sum.splits)

text \<open>One round of the loop over the references appends one well-typed role.\<close>

fun roles_typed :: "goerr + pb_loop \<Rightarrow> bool" where
  "roles_typed (Inl err) = True"
| "roles_typed (Inr acc) = list_all typed_role (lp_Roles acc)"

text \<open>A role being put together, with the loop state it will join.\<close>

definition role_pending :: "PolicyBindingRoleStatus \<times> pb_loop \<Rightarrow> bool" where
  "role_pending q \<longleftrightarrow> typed_role (fst q) \<and> \<not> pbr_Ready (fst q) \<and> pbr_AuthMountPath (fst q) \<noteq> [] \<and>
     list_all typed_role (lp_Roles (snd q))"

lemma role_pending_steps:
  assumes "role_pending q"
  shows "role_pending (PB_policy_switch k n r q)" "list_all typed_role (lp_Roles (PB_push (PB_block m q)))"
    "list_all typed_role (lp_Roles (PB_push ((fst q)\<lparr>pbr_Ready := (pbr_Message (fst q) = [])\<rparr>, snd q)))"
  using assms
  by (auto simp: role_pending_def PB_policy_switch_def PB_block_def PB_push_def Let_def typed_role_def
      split: prod.splits sum.splits)

lemma typed_PB_writeRole:
  "role_pending q \<Longrightarrow> relays (received_typed k) (sent_typed k) roles_typed (PB_writeRole k R pb inst c identity trust q)"
  unfolding PB_writeRole_def Let_def
  by (intro relays_intros emits_intros) (simp_all add: typed_events role_pending_steps)

lemma appends_PB:
  "appends (PB_round k R pb ref acc)" "appends (PB_writeRole k R pb inst c identity trust q)"
  "appends (PB_rounds k R pb refs acc)" "appends (PB_patchStatus R pb cfg)" "appends (PB_sync k R cfg pb)"
  "appends (PB_reconcileDelete k R pb)" "appends (PB_finishDelete k R pb)" "appends (PB_deleteRoles k R pb rss)"
proof -
  show round: "appends (PB_round k R pb ref acc)" for ref acc
    by (rule emits_mono [OF emits_PB_round]) simp
  show rounds: "appends (PB_rounds k R pb refs acc)" for refs acc
    by (rule emits_mono [OF emits_PB_rounds]) simp
  show patch: "appends (PB_patchStatus R pb cfg)" for pb cfg
    unfolding PB_patchStatus_def by (intro emits_intros) simp
  show "appends (PB_writeRole k R pb inst c identity trust q)"
    unfolding PB_writeRole_def Let_def by (intro emits_intros) simp_all
  show "appends (PB_sync k R cfg pb)"
    unfolding PB_sync_def Let_def by (intro emits_intros rounds patch)
  show finish: "appends (PB_finishDelete k R pb)"
    unfolding PB_finishDelete_def Let_def by (intro emits_intros) simp
  show roles: "appends (PB_deleteRoles k R pb rss)" for rss
    by (rule emits_mono [OF emits_PB_deleteRoles]) simp
  show "appends (PB_reconcileDelete k R pb)"
    unfolding PB_reconcileDelete_def by (intro emits_intros roles finish)
qed

lemma typed_PB_round:
  assumes "ref_ok ref" "list_all typed_role (lp_Roles acc)"
  shows "relays (received_typed k) (sent_typed k) roles_typed (PB_round k R pb ref acc)"
  unfolding PB_round_def Let_def
  by (intro relays_intros emits_intros typed_PB_writeRole appends_PB)
     (use assms in \<open>auto simp: typed_events PB_push_def PB_block_def typed_role_def PB_trustResolved_def
        role_pending_def\<close>)

lemma typed_PB_rounds:
  "list_all ref_ok refs \<Longrightarrow> list_all typed_role (lp_Roles acc) \<Longrightarrow>
   relays (received_typed k) (sent_typed k) roles_typed (PB_rounds k R pb refs acc)"
proof (induction refs arbitrary: acc)
  case (Cons ref refs)
  then show ?case
    by (auto intro!: relays_bind [OF typed_PB_round] relays_intros emits_intros appends_PB)
qed (simp add: relays_return)

lemma typed_PB_published:
  assumes "lawful_conditions k" "typed_binding k pb" "list_all typed_role (lp_Roles acc)"
  shows "typed_binding k (PB_publishReady k acc (PB_publishPolicy k acc
    (pb\<lparr>pb_Status := (pb_Status pb)\<lparr>pbst_Roles := lp_Roles acc\<rparr>\<rparr>)))"
  using assms(2,3)
  by (auto simp: typed_binding_def type_lists PB_publishReady_def PB_publishPolicy_def PB_policyCondition_def
      PB_map_conditions_def Let_def intro!: typed_publishing assms(1))

lemma typed_PB_patchStatus: "typed_binding k pb \<Longrightarrow> publishes_typed k (PB_patchStatus R pb cfg)"
  unfolding PB_patchStatus_def by (intro relays_intros emits_intros) (auto simp: typed_events)

lemma typed_PB_sync:
  assumes "lawful_conditions k" "typed_binding k pb"
  shows "publishes_typed k (PB_sync k R cfg pb)"
proof -
  have "relays (received_typed k) (sent_typed k) roles_typed
      (PB_rounds k R pb (pbs_ControlPlaneEntityRefs (pb_Spec pb)) PB_loop_init)"
    by (rule typed_PB_rounds) (use assms(2) in \<open>simp_all add: typed_binding_def PB_loop_init_def\<close>)
  then show ?thesis
    unfolding PB_sync_def Let_def
    by (rule relays_bind)
       (auto intro!: relays_intros emits_intros typed_PB_patchStatus typed_PB_published appends_PB assms)
qed

lemma typed_PB_deleteRoles: "publishes_typed k (PB_deleteRoles k R pb rss)"
proof (induction rss)
  case (Cons rs rss)
  have "publishes_typed k (PB_deleteRole k R pb rs)"
    unfolding PB_deleteRole_def PB_findTrustForAuthMount_def Let_def
    by (intro relays_bind [where R = "\<lambda>_. True"] relays_intros emits_intros) (auto simp: typed_events)
  then show ?case
    by (auto intro!: relays_bind relays_intros emits_intros appends_PB Cons.IH split: sum.splits)
qed (simp add: relays_return)

lemma typed_PB_reconcileDelete: "typed_binding k pb \<Longrightarrow> publishes_typed k (PB_reconcileDelete k R pb)"
proof -
  assume pb: "typed_binding k pb"
  have "publishes_typed k (PB_finishDelete k R pb)"
    unfolding PB_finishDelete_def Let_def
    by (intro relays_intros emits_intros)
       (use pb in \<open>auto simp: typed_events typed_binding_def PB_with_finalizers_def\<close>)
  then show ?thesis
    unfolding PB_reconcileDelete_def
    by (intro relays_bind [OF typed_PB_deleteRoles] relays_intros emits_intros appends_PB) auto
qed

lemma typed_PB:
  assumes "lawful_conditions k"
  shows "publishes_typed k (PB_Reconcile k R ns nm)"
  unfolding PB_Reconcile_def Let_def
  by (intro relays_intros emits_intros typed_PB_sync typed_PB_reconcileDelete appends_PB)
     (auto simp: typed_events typed_binding_def PB_with_finalizers_def PB_entered_def assms split: sum.splits)

section \<open>Properties\<close>

lemma typed_handle: "lawful_conditions k \<Longrightarrow> publishes_typed k (service_handle k env S q)"
  by (cases q) (simp_all add: service_handle_def typed_OI typed_PE typed_CT typed_CE typed_PB)

text \<open>C11. Type preservation: over any queue of passes of the five controllers, if every object the
  servers answered with is well typed, then so is every object the controllers sent: its
  conditions have the types in use for its kind and reasons of the pattern the schema prescribes, are set for
  generations up to its own and unknown only for the policy; a binding reports policy existence
  within its enumeration and its roles under generated names, ready only with a mount and
  without a message.\<close>

theorem service_publishes_typed:
  assumes "lawful_conditions k"
    and "list_all (received_typed k) (run_log (run_queue (service_handle k env S) qs) w)"
  shows "list_all (sent_typed k) (run_log (run_queue (service_handle k env S) qs) w)"
  using spec_run [OF relays_queue [of "received_typed k" "sent_typed k" "service_handle k env S" qs,
      OF typed_handle [OF assms(1)], unfolded relays_def], of w] assms(2)
  by blast

end
