(* ===== verification/PassCost.thy ===== *)
theory PassCost
  imports Typing
begin

text \<open>
  How much work a pass is: every pass of a controller ends after a bounded number of calls to the
  servers, whatever they answer. Only the two loops of the PolicyBinding controller depend on the
  data, and they are linear in the references of the binding and in its recorded roles.
\<close>

section \<open>Counting calls\<close>

text \<open>\<open>costs G n m\<close>: as long as the answers satisfy \<open>G\<close>, \<open>m\<close> makes at most \<open>n\<close> calls.\<close>

definition costs :: "('e \<Rightarrow> bool) \<Rightarrow> nat \<Rightarrow> ('w, 'e, 'a) prog \<Rightarrow> bool" where
  "costs G n m \<longleftrightarrow> spec m (\<lambda>_ es. list_all G es \<longrightarrow> length es \<le> n)"

named_theorems costs_intros

lemma costs_return [costs_intros]: "costs G n (State_Monad.return a)"
  unfolding costs_def by (rule spec_return) simp

lemma costs_mono: "costs G a m \<Longrightarrow> a \<le> n \<Longrightarrow> costs G n m"
  unfolding costs_def by (erule spec_mono) auto

text \<open>The answers seen so far are known to satisfy \<open>G\<close> in the rest of the program.\<close>

lemma costs_bind_answers:
  assumes "spec m (\<lambda>x es. (list_all G es \<longrightarrow> length es \<le> a) \<and> (list_all G es \<longrightarrow> R x))"
    and "\<And>x. R x \<Longrightarrow> costs G b (f x)" "\<And>x. appends (f x)" "a + b \<le> n"
  shows "costs G n (State_Monad.bind m f)"
  unfolding costs_def
proof (rule spec_bind [OF assms(1)])
  fix x es
  assume S: "(list_all G es \<longrightarrow> length es \<le> a) \<and> (list_all G es \<longrightarrow> R x)"
  show "spec (f x) (\<lambda>_ es'. list_all G (es @ es') \<longrightarrow> length (es @ es') \<le> n)"
  proof (cases "list_all G es")
    case True
    with S assms(2) [of x] have "costs G b (f x)" "length es \<le> a" by simp_all
    then show ?thesis using assms(4) unfolding costs_def by (auto elim!: spec_mono)
  next
    case False
    then show ?thesis using assms(3) [of x] by (auto simp: spec_emits elim: spec_mono)
  qed
qed

lemma costs_bind:
  "costs G a m \<Longrightarrow> (\<And>x. costs G b (f x)) \<Longrightarrow> (\<And>x. appends (f x)) \<Longrightarrow> a + b \<le> n \<Longrightarrow>
   costs G n (State_Monad.bind m f)"
  by (rule costs_bind_answers [where R = "\<lambda>_. True"]) (simp_all add: costs_def)

lemma costs_call_bind [costs_intros]:
  assumes "0 < n" "\<And>r. length (ev r) \<le> 1" "\<And>r. list_all G (ev r) \<Longrightarrow> costs G (n - 1) (f r)"
    "\<And>r. appends (f r)"
  shows "costs G n (State_Monad.bind (call oper ev) f)"
  by (rule costs_bind_answers [where R = "\<lambda>r. list_all G (ev r)" and a = 1 and b = "n - 1"])
     (use assms in \<open>auto intro!: spec_call\<close>)

lemma costs_if [costs_intros]:
  "(b \<Longrightarrow> costs G n m) \<Longrightarrow> (\<not> b \<Longrightarrow> costs G n m') \<Longrightarrow> costs G n (if b then m else m')"
  by simp

lemma costs_case_sum [costs_intros]:
  "(\<And>e. x = Inl e \<Longrightarrow> costs G n (f e)) \<Longrightarrow> (\<And>a. x = Inr a \<Longrightarrow> costs G n (g a)) \<Longrightarrow>
   costs G n (case x of Inl e \<Rightarrow> f e | Inr a \<Rightarrow> g a)"
  by (cases x) auto

lemma costs_case_option [costs_intros]:
  "(x = None \<Longrightarrow> costs G n m) \<Longrightarrow> (\<And>a. x = Some a \<Longrightarrow> costs G n (g a)) \<Longrightarrow>
   costs G n (case x of None \<Rightarrow> m | Some a \<Rightarrow> g a)"
  by (cases x) auto

lemma costs_case_prod [costs_intros]:
  "(\<And>a b. x = (a, b) \<Longrightarrow> costs G n (f a b)) \<Longrightarrow> costs G n (case x of (a, b) \<Rightarrow> f a b)"
  by (cases x) auto

lemma costs_Let [costs_intros]: "(\<And>x. x = t \<Longrightarrow> costs G n (f x)) \<Longrightarrow> costs G n (Let t f)"
  by simp

section \<open>The controllers\<close>

lemma costs_OI: "costs G 5 (OI_Reconcile k R ns nm)"
  unfolding OI_Reconcile_def OI_patchStatus_def
  by (intro costs_intros emits_intros) simp_all

lemma costs_PE: "costs G 6 (PE_Reconcile k R ns nm)"
  unfolding PE_Reconcile_def PE_patchStatus_def
  by (intro costs_intros emits_intros) simp_all

lemma appends_CT_parts: "appends (CT_configure k R cfg inst cp t)" "appends (CT_patchStatus R t cfg)"
  unfolding CT_defs CT_configure_def CT_patchStatus_def Let_def by (intro emits_intros; simp)+

lemma costs_CT_patchStatus: "0 < n \<Longrightarrow> costs G n (CT_patchStatus R t cfg)"
  unfolding CT_patchStatus_def by (intro costs_intros emits_intros) simp_all

lemma costs_CT_configure: "4 \<le> n \<Longrightarrow> costs G n (CT_configure k R cfg inst cp t)"
  unfolding CT_configure_def Let_def
  by (intro costs_intros emits_intros costs_CT_patchStatus appends_CT_parts) simp_all

lemma costs_CT_resolve: "7 \<le> n \<Longrightarrow> costs G n (CT_resolve k R cfg t)"
  unfolding CT_resolve_def Let_def
  by (intro costs_intros emits_intros costs_CT_patchStatus costs_CT_configure appends_CT_parts) simp_all

lemma costs_CT_finishDelete: "0 < n \<Longrightarrow> costs G n (CT_finishDelete k R t)"
  unfolding CT_finishDelete_def Let_def by (intro costs_intros emits_intros) simp_all

lemma costs_CT_reconcileDelete: "4 \<le> n \<Longrightarrow> costs G n (CT_reconcileDelete k R t)"
  unfolding CT_reconcileDelete_def Let_def
  by (intro costs_intros emits_intros costs_CT_finishDelete appends_CT) simp_all

lemma costs_CT: "costs G 10 (CT_Reconcile k R ns nm)"
  unfolding CT_Reconcile_def Let_def
  by (intro costs_intros emits_intros costs_CT_resolve costs_CT_reconcileDelete appends_CT) simp_all

lemma costs_CE_patchStatus: "0 < n \<Longrightarrow> costs G n (CE_patchStatus R t cfg)"
  unfolding CE_patchStatus_def by (intro costs_intros emits_intros) simp_all

lemma appends_identify:
  "appends (resolveServiceAccountIdentity k c a b ns nm aud)" "appends (CE_patchStatus R t cfg)"
  unfolding resolveServiceAccountIdentity_def CE_patchStatus_def Let_def by (intro emits_intros; simp)+

lemma costs_access: "costs G 1 (controlPlaneClusterAccess k env p c rs)"
  unfolding controlPlaneClusterAccess_def Let_def costs_def by (intro spec_intros) simp_all

lemma costs_identity: "costs G 2 (resolveServiceAccountIdentity k c a b ns nm aud)"
  unfolding resolveServiceAccountIdentity_def Let_def costs_def by (intro spec_intros) simp_all

lemma costs_CE_identify: "4 \<le> n \<Longrightarrow> costs G n (CE_identify k env R cfg trust cp t)"
proof -
  have published: "costs G 1 (CE_patchStatus R x cfg)" for x by (simp add: costs_CE_patchStatus)
  have "costs G 3 (do {
      r \<leftarrow> resolveServiceAccountIdentity k c a b ns nm aud;
      case r of Inl err \<Rightarrow> CE_patchStatus R (f err) cfg | Inr (i, d) \<Rightarrow> CE_patchStatus R (g i d) cfg
    })" for c a b ns nm aud f g
    by (rule costs_bind [OF costs_identity])
       (auto intro!: costs_intros emits_intros appends_identify published)
  from costs_mono [OF this] show "4 \<le> n \<Longrightarrow> costs G n (CE_identify k env R cfg trust cp t)"
    unfolding CE_identify_def Let_def
    by (intro costs_bind [OF costs_access, where b = 3] costs_intros emits_intros appends_identify)
       (auto intro: costs_mono [OF published])
qed

lemma costs_CE: "costs G 8 (CE_Reconcile k env R ns nm)"
  unfolding CE_Reconcile_def Let_def
  by (intro costs_intros emits_intros costs_CE_patchStatus costs_CE_identify appends_CE_identify
        appends_identify) simp_all

lemma costs_PB_round: "costs G 6 (PB_round k R pb ref acc)"
  unfolding PB_round_def PB_writeRole_def Let_def
  by (intro costs_intros emits_intros) simp_all

lemma costs_PB_rounds: "costs G (6 * length refs) (PB_rounds k R pb refs acc)"
proof (induction refs arbitrary: acc)
  case (Cons ref refs)
  show ?case
    unfolding PB_rounds.simps
    by (rule costs_bind [OF costs_PB_round, where b = "6 * length refs"])
       (auto intro!: costs_intros emits_intros appends_PB Cons.IH)
qed (simp add: costs_return)

lemma costs_PB_patchStatus: "0 < n \<Longrightarrow> costs G n (PB_patchStatus R pb cfg)"
  unfolding PB_patchStatus_def by (intro costs_intros emits_intros) simp_all

lemma costs_PB_sync:
  assumes "6 * length (pbs_ControlPlaneEntityRefs (pb_Spec pb)) + 1 \<le> n"
  shows "costs G n (PB_sync k R cfg pb)"
  unfolding PB_sync_def Let_def
  by (rule costs_bind [OF costs_PB_rounds, where b = 1])
     (use assms in \<open>auto intro!: costs_intros emits_intros appends_PB costs_PB_patchStatus\<close>)

lemma costs_PB_findTrust: "costs G 1 (PB_findTrustForAuthMount R ns m)"
  unfolding PB_findTrustForAuthMount_def by (intro costs_intros emits_intros) simp_all

lemma costs_PB_deleteRole: "costs G 4 (PB_deleteRole k R pb rs)"
  unfolding PB_deleteRole_def Let_def
  by (intro costs_bind [OF costs_PB_findTrust, where b = 3] costs_intros emits_intros) simp_all

lemma costs_PB_deleteRoles: "costs G (4 * length rss) (PB_deleteRoles k R pb rss)"
proof (induction rss)
  case (Cons rs rss)
  show ?case
    unfolding PB_deleteRoles.simps
    by (rule costs_bind [OF costs_PB_deleteRole, where b = "4 * length rss"])
       (auto intro!: costs_intros emits_intros appends_PB Cons.IH)
qed (simp add: costs_return)

lemma costs_PB_reconcileDelete:
  assumes "4 * length (pbst_Roles (pb_Status pb)) + 1 \<le> n"
  shows "costs G n (PB_reconcileDelete k R pb)"
proof -
  have "costs G 1 (PB_finishDelete k R pb)"
    unfolding PB_finishDelete_def Let_def by (intro costs_intros emits_intros) simp_all
  then show ?thesis
    unfolding PB_reconcileDelete_def
    by (intro costs_bind [OF costs_PB_deleteRoles, where b = 1])
       (use assms in \<open>auto intro!: costs_intros emits_intros appends_PB\<close>)
qed

text \<open>The bindings a pass works on have at most \<open>N\<close> references and \<open>N\<close> recorded roles.\<close>

definition binding_within :: "nat \<Rightarrow> event \<Rightarrow> bool" where
  "binding_within N e = (case e of
     GotPolicyBinding _ _ (Inr pb) \<Rightarrow>
       length (pbs_ControlPlaneEntityRefs (pb_Spec pb)) \<le> N \<and> length (pbst_Roles (pb_Status pb)) \<le> N
   | UpdatedPolicyBinding _ (Inr pb) \<Rightarrow> length (pbs_ControlPlaneEntityRefs (pb_Spec pb)) \<le> N
   | _ \<Rightarrow> True)"

lemma costs_PB: "costs (binding_within N) (4 + 6 * N) (PB_Reconcile k R ns nm)"
  unfolding PB_Reconcile_def Let_def
  by (intro costs_intros emits_intros costs_PB_sync costs_PB_reconcileDelete appends_PB)
     (auto simp: binding_within_def PB_entered_def PB_with_finalizers_def)

section \<open>Queues\<close>

definition pass_bound :: "nat \<Rightarrow> request \<Rightarrow> nat" where
  "pass_bound N q = (case q of
     ReqInstance _ _ \<Rightarrow> 5 | ReqProjectEntity _ _ \<Rightarrow> 6 | ReqTrust _ _ \<Rightarrow> 10 | ReqEntity _ _ \<Rightarrow> 8
   | ReqBinding _ _ \<Rightarrow> 4 + 6 * N)"

lemma costs_handle: "costs (binding_within N) (pass_bound N q) (service_handle k env S q)"
  by (cases q) (simp_all add: service_handle_def pass_bound_def costs_OI costs_PE costs_CT costs_CE costs_PB)

lemma appends_handle: "appends (service_handle k env S q)"
  by (rule emits_mono [OF service_controller.handle_emits]) simp

lemma appends_queue: "appends (run_queue (service_handle k env S) qs)"
  by (rule emits_mono [OF service_controller.queue_emits]) simp

lemma costs_queue:
  "costs (binding_within N) (sum_list (map (pass_bound N) qs)) (run_queue (service_handle k env S) qs)"
proof (induction qs)
  case (Cons q qs)
  have "costs (binding_within N) (sum_list (map (pass_bound N) qs))
      (do { rs \<leftarrow> run_queue (service_handle k env S) qs; State_Monad.return (f rs) })" for f
    by (rule costs_bind [OF Cons.IH, where b = 0]) (auto intro!: costs_intros emits_intros)
  then show ?case
    by (auto intro!: costs_bind [OF costs_handle] emits_intros appends_queue)
qed (simp add: costs_return)

section \<open>Properties\<close>

text \<open>C12. Every queue ends after a bounded number of calls: whatever the servers answer, a pass makes
  at most 5 calls for an instance, 6 for a ProjectEntity, 10 for a trust, 8 for an entity and
  \<open>4 + 6 N\<close> for a binding, when the bindings read have at most \<open>N\<close> references and \<open>N\<close> recorded
  roles.\<close>

theorem queue_work_bounded:
  assumes "list_all (binding_within N) (run_log (run_queue (service_handle k env S) qs) w)"
  shows "length (run_log (run_queue (service_handle k env S) qs) w) \<le> sum_list (map (pass_bound N) qs)"
  using spec_run [OF costs_queue [unfolded costs_def], of N k env S qs w] assms by blast

end
