(* ===== verification/PassSample.thy ===== *)
theory PassSample
  imports Witnesses PassCost
begin

text \<open>
  The properties on the size and the types of passes, applied to a pass of each of two
  controllers over the sample cluster.
\<close>

abbreviation typed_log :: "event list" where
  "typed_log \<equiv> run_log (run_queue (service_handle ref_klib sample_env sample_service) [ReqInstance [] ''bao''])
     sample_world"

lemma sample_instance_typed: "typed_instance ref_klib sample_instance"
  by (auto simp: typed_instance_def typed_conditions_def typed_condition_def sample_defs ref_find_def
      type_lists mk_condition_def)

lemma typed_log_received: "list_all (received_typed ref_klib) typed_log"
  using sample_instance_typed
  by (simp add: run_defs service_handle_def sample_service_def OI_Reconcile_def OI_patchStatus_def received_typed_def)

lemma service_publishes_typed_witness:
  "list_all (sent_typed ref_klib) typed_log \<and> list_ex (\<lambda>e. case e of StatusOpenBaoInstance _ _ \<Rightarrow> True | _ \<Rightarrow> False) typed_log"
  using service_publishes_typed [OF lawful_conditions_ref typed_log_received]
  by (simp add: run_defs service_handle_def sample_service_def OI_Reconcile_def OI_patchStatus_def)

abbreviation bounded_log :: "event list" where
  "bounded_log \<equiv> run_log (run_queue (service_handle ref_klib sample_env sample_service) [ReqBinding ''ns'' ''b'']) sample_world"

lemma bounded_log_within: "list_all (binding_within 1) bounded_log"
  by (simp add: run_defs service_handle_def sample_service_def PB_run_defs PB_entered_def PB_with_finalizers_def
      binding_within_def)

lemma queue_work_bounded_witness: "length bounded_log \<le> 10"
  using queue_work_bounded [OF bounded_log_within] by (simp add: pass_bound_def)

end
