(* ===== verification/Spec2Isabelle.thy ===== *)
theory Spec2Isabelle
  imports System AppCommand TenantSample Intervals DeepObjects PassSample
begin

text \<open>
  \<^bold>\<open>platform-service-openbao\<close>: a Kubernetes operator that configures OpenBao (a secrets
  server) so that workloads in tenant ControlPlanes can log in with their ServiceAccount tokens.
  Five controllers reconcile five kinds of object. An \<open>OpenBaoInstance\<close> is probed for
  health; a \<open>ProjectEntity\<close> gets an identity entity; a \<open>ControlPlaneTrust\<close> gets a JWT
  auth mount that trusts the issuer of one ControlPlane; a \<open>ControlPlaneEntity\<close> resolves
  the identity of an existing ServiceAccount; a \<open>PolicyBinding\<close> writes, for each entity it
  references, one role that grants one named policy to that identity. They interact only
  through the status of these objects: the instance controller publishes OpenBaoReachable,
  the trust controller the mount, audience and TrustConfigured, the entity controller the
  identity and IdentityResolved, and the binding controller acts on all of them. Delete
  webhooks keep an object that is still referenced.

  \<^bold>\<open>Programs, worlds and logs.\<close> A handler is a state-monad program over a world and a log
  (\<open>Prelude\<close>). The world is whatever the environment is: outside the liveness theorems of
  \<open>Tenant\<close>, \<open>Schedule\<close> and \<open>Teardown\<close> no law is assumed of it. The
  Kubernetes clients, the OpenBao API library, the environment variables and the helpers of
  apimachinery and controller-runtime are records of functions that a definition takes as
  arguments (\<open>Env\<close>: \<open>Cluster\<close>, \<open>clientset\<close>, \<open>klib\<close>, \<open>env\<close>; \<open>ApiClient\<close>: \<open>bao_api\<close>), and each
  call to them appends an event with its answer to the log. The properties of the controllers
  are stated over every log that a pass can produce, so they hold for every behaviour of the
  servers, failures at any call included. Two laws are named where they are needed:
  \<open>lawful_conditions\<close> (SetStatusCondition and FindStatusCondition) and
  \<open>lawful_finalizers\<close> (AddFinalizer and RemoveFinalizer).

  \<^bold>\<open>Theories, in the order of the code they model.\<close>
  \<^item> \<open>Prelude\<close>: programs, their logs, the rule collections for \<open>wp\<close>, \<open>emits\<close> and
    \<open>spec\<close>, and the locale \<open>controller\<close> (any sequence of passes).
  \<^item> \<open>GoText\<close>, \<open>Sha256\<close>, \<open>Duration\<close>, \<open>GoError\<close>: what the source uses of Go's
    strings, strconv, crypto/sha256, encoding/hex, time and errors, on bytes and fixed-width words.
  \<^item> \<open>Naming\<close>: \<open>internal/openbao/naming.go\<close>.
  \<^item> \<open>ApiTypes\<close>: the specs, statuses and constants of \<open>api/v1alpha1\<close>.
  \<^item> \<open>BaoClient\<close>, \<open>FakeClient\<close>, \<open>ApiClient\<close>: \<open>internal/openbao\<close>, the client
    interface with its contract (locale \<open>openbao_backend\<close>), the in-memory OpenBao that
    meets it, and the client over the openbao API library.
  \<^item> \<open>Env\<close>: the environment and the events of a log.
  \<^item> \<open>Shared\<close>, \<open>Jwt\<close>, \<open>Identity\<close>: \<open>internal/controller/shared.go\<close> and
    \<open>controlplane_access.go\<close>, with base64url and JSON decoding of a token's claims.
  \<^item> \<open>CtlInstance\<close>, \<open>CtlProjectEntity\<close>, \<open>CtlTrust\<close>, \<open>CtlEntity\<close>, \<open>CtlBinding\<close>: one
    controller each; \<open>BindingRuns\<close> describes the logs of a binding pass inductively and
    proves its properties from that description.
  \<^item> \<open>DeleteValidation\<close>: \<open>internal/webhook/delete_validation.go\<close> (locale \<open>delete_guard\<close>).
  \<^item> \<open>System\<close>: the five controllers together. \<open>Replay\<close>: the state of the in-memory OpenBao
    as the replay of the log; \<open>Effects\<close>: what a pass makes of OpenBao; \<open>Accounts\<close>: which object
    accounts for a change there (locale \<open>accountable\<close>); \<open>Watches\<close>: which objects a change wakes.
  \<^item> \<open>Typing\<close>, \<open>PassCost\<close>: two analyses of every pass, each a relation between the answers of a
    log and the rest of it: what is sent keeps to the schema of the CRDs if what was received did,
    and how many calls a pass makes at most.
  \<^item> \<open>GoSlice\<close>, \<open>AppOptions\<close>, \<open>AppTls\<close>, \<open>AppRun\<close>, \<open>AppBoot\<close>, \<open>AppCommand\<close>: the commands of
    \<open>cmd/platform-service-openbao\<close>: flag tables, options and \<open>Complete\<close> (with the arrays behind
    its TLS option slices), \<open>Run\<close> and \<open>Init\<close> as sequences of library calls, the schemes of
    \<open>api/install\<close>, \<open>CRDs\<close> of \<open>api/crds\<close>, the \<open>SetupWithManager\<close> registrations, the command tree and
    \<open>main\<close>. \<open>JsonText\<close> is the writer of \<open>encoding/json\<close> they print their options with.
  \<^item> \<open>KubeStore\<close>, \<open>Converge\<close>, \<open>Tenant\<close>, \<open>Teardown\<close>, \<open>Collisions\<close>: servers that answer. The laws
    of an API server and of an OpenBao as a view of the world, a triple \<open>moves\<close> that runs a program
    forward over the view, each pass run forward, and the passes composed from declared objects
    to granted roles and from deletion to a clean OpenBao; a trust whose mount path changes, which
    leaves its old mount behind, and bindings that share a role. The API server keeps an object that
    is being deleted while it has finalizers and removes it with the update that drops the last one.
  \<^item> \<open>Frames\<close>, \<open>Schedule\<close>: what each pass leaves alone, whatever it finds, and the progress of a
    tenant under any queue of passes as an abstract machine that the controllers follow.
  \<^item> \<open>Intervals\<close>: the requeue interval of a configuration against exact arithmetic.
  \<^item> \<open>DeepHeap\<close>, \<open>DeepCopy\<close>, \<open>DeepObjects\<close>: \<open>api/v1alpha1/zz_generated.deepcopy.go\<close> over
    a store of cells, with the contract of a deep copy (locale \<open>deep_copy\<close>) and the rules by which
    pointers, slices and structs keep it. The copies of the apimachinery types are the parameter
    \<open>meta_lib\<close> with the law \<open>lawful_meta\<close>. These copies are why the controllers can be modelled on
    values: what a client hands out shares nothing with its cache.
  \<^item> \<open>Token\<close>: how a ServiceAccount token is written, and that reading inverts it.
  \<^item> \<open>Sample\<close>, \<open>Witnesses\<close>, \<open>PassSample\<close>, \<open>AppSample\<close>, \<open>TenantSample\<close>: concrete environments, and the
    properties applied to passes and commands on them.

  \<^bold>\<open>What the lemmas show.\<close> For each controller: the scope of a pass (which calls it can make,
  with which arguments), what it publishes and when, the order of finalizer and external work,
  and when a finalizer is dropped. Several of these theorems state exactly what the code does
  where that is less than its comments promise (stale conditions, roles and mounts left behind).
  For the service: the log determines the state of OpenBao, that state stays well formed, and a
  published Ready is backed by roles that are there. On servers that answer, a tenant converges
  to a Ready binding with exactly the right mount, trust and roles, in whatever order the passes
  run once each has run after what it depends on, and its deletion leaves nothing behind. Every
  pass sends well-typed objects only and ends after a bounded number of calls. For the commands:
  each flag reaches its own option, what is printed of the options reads back as them, the manager
  starts only at the end of one sequence of steps on the clusters the libraries answered, an error
  stops the program with exit code 1 and is printed, and each server gets its certificate.

  \<^bold>\<open>Recursion and bounds.\<close> Every definition is total: the parsers recurse on the text that is
  left, the loops over references and recorded roles on the list. The bounds of \<open>PassCost\<close> count
  logged calls; they are those of the longest path of each handler, and linear in the number \<open>N\<close> of
  references and recorded roles for a binding. \<open>Duration\<close> keeps Go's 64-bit
  arithmetic, overflow checks included; \<open>Sha256\<close> works on 32-bit words.

  \<^bold>\<open>Not modelled.\<close> Logging; how cobra cuts a command line into a subcommand and flag occurrences
  (a parameter of \<open>main\<close>) and the flags that libraries register for themselves; the text of the
  embedded manifests, which are data; the mutex of the in-memory client, whose operations are atomic
  here; the end-to-end tests.
\<close>

end
